(* ===== verification/Sync_Prelude.thy ===== *)
theory Sync_Prelude
  imports Main
begin

text \<open>
  The prelude of the library: the session monad in which every repository method and every
  request handler of the program is written, its rules for proving invariants, and the generic
  facts on row lists that all tables share.

  A Python handler runs against one SQLAlchemy session.  The session state is a record with the
  last committed database, the working copy the open transaction sees, and the messages handed
  to the Celery broker.  An action may raise, so it returns a sum (\<open>Inl\<close> the exception) together
  with the session it leaves behind; an exception does not undo the session by itself, only the
  unit of work does.
\<close>

named_theorems run_simps \<open>how an action runs to a value or to an exception\<close>
named_theorems keeps_intros \<open>introduction rules for invariants of actions\<close>
named_theorems db_simps \<open>effect of the table operations\<close>

section \<open>The session monad\<close>

record 'd session =
  committed :: 'd
  working :: 'd
  broker :: "(string \<times> int) list"

type_synonym ('d, 'e, 'a) action = "'d session \<Rightarrow> ('e + 'a) \<times> 'd session"

definition return :: "'a \<Rightarrow> ('d, 'e, 'a) action" where
  "return x s = (Inr x, s)"

definition raise :: "'e \<Rightarrow> ('d, 'e, 'a) action" where
  "raise e s = (Inl e, s)"

definition bindE :: "('d, 'e, 'a) action \<Rightarrow> ('a \<Rightarrow> ('d, 'e, 'b) action) \<Rightarrow> ('d, 'e, 'b) action" where
  "bindE m f s = (case m s of (Inl e, s') \<Rightarrow> (Inl e, s') | (Inr x, s') \<Rightarrow> f x s')"

definition thenE :: "('d, 'e, 'a) action \<Rightarrow> ('d, 'e, 'b) action \<Rightarrow> ('d, 'e, 'b) action" where
  "thenE m n = bindE m (\<lambda>_. n)"

text \<open>A \<open>SELECT\<close>: it reads the working copy, may raise, and changes nothing.\<close>

definition query :: "('d \<Rightarrow> 'e + 'a) \<Rightarrow> ('d, 'e, 'a) action" where
  "query f s = (f (working s), s)"

text \<open>A statement that writes: it replaces the working copy, or raises and leaves it as it was.\<close>

definition exec :: "('d \<Rightarrow> 'e + 'a \<times> 'd) \<Rightarrow> ('d, 'e, 'a) action" where
  "exec f s = (case f (working s) of
      Inl e \<Rightarrow> (Inl e, s)
    | Inr (x, d) \<Rightarrow> (Inr x, s\<lparr>working := d\<rparr>))"

text \<open>\<open>try m except h\<close>: the handler decides by the exception what to do.\<close>

definition catchE :: "('d, 'e, 'a) action \<Rightarrow> ('e \<Rightarrow> ('d, 'e, 'a) action) \<Rightarrow> ('d, 'e, 'a) action" where
  "catchE m h s = (case m s of (Inl e, s') \<Rightarrow> h e s' | (Inr x, s') \<Rightarrow> (Inr x, s'))"

text \<open>The same for a pure query, before it is lifted to an action.\<close>

definition rethrow :: "('e \<Rightarrow> 'e) \<Rightarrow> 'e + 'a \<Rightarrow> 'e + 'a" where
  "rethrow h r = (case r of Inl e \<Rightarrow> Inl (h e) | Inr x \<Rightarrow> Inr x)"

section \<open>How actions run\<close>

lemma return_run [run_simps]: "return x s = (r, s') \<longleftrightarrow> r = Inr x \<and> s' = s"
  by (auto simp: return_def)

lemma raise_run [run_simps]: "raise e s = (r, s') \<longleftrightarrow> r = Inl e \<and> s' = s"
  by (auto simp: raise_def)

lemma query_run [run_simps]: "query f s = (r, s') \<longleftrightarrow> r = f (working s) \<and> s' = s"
  by (auto simp: query_def)

lemma bindE_Inr [run_simps]:
  "bindE m f s = (Inr y, s') \<longleftrightarrow> (\<exists>x t. m s = (Inr x, t) \<and> f x t = (Inr y, s'))"
  by (auto simp: bindE_def split: prod.splits sum.splits)

lemma bindE_Inl [run_simps]:
  "bindE m f s = (Inl e, s') \<longleftrightarrow>
     m s = (Inl e, s') \<or> (\<exists>x t. m s = (Inr x, t) \<and> f x t = (Inl e, s'))"
  by (auto simp: bindE_def split: prod.splits sum.splits)

lemma thenE_Inr [run_simps]:
  "thenE m n s = (Inr y, s') \<longleftrightarrow> (\<exists>x t. m s = (Inr x, t) \<and> n t = (Inr y, s'))"
  by (simp add: thenE_def bindE_Inr)

lemma thenE_Inl [run_simps]:
  "thenE m n s = (Inl e, s') \<longleftrightarrow> m s = (Inl e, s') \<or> (\<exists>x t. m s = (Inr x, t) \<and> n t = (Inl e, s'))"
  by (simp add: thenE_def bindE_Inl)

lemma exec_Inr [run_simps]:
  "exec f s = (Inr x, s') \<longleftrightarrow> (\<exists>d. f (working s) = Inr (x, d) \<and> s' = s\<lparr>working := d\<rparr>)"
  by (auto simp: exec_def split: sum.splits prod.splits)

lemma exec_Inl [run_simps]: "exec f s = (Inl e, s') \<longleftrightarrow> f (working s) = Inl e \<and> s' = s"
  by (auto simp: exec_def split: sum.splits prod.splits)

lemma catchE_Inr [run_simps]:
  "catchE m h s = (Inr x, s') \<longleftrightarrow>
     m s = (Inr x, s') \<or> (\<exists>e t. m s = (Inl e, t) \<and> h e t = (Inr x, s'))"
  by (auto simp: catchE_def split: prod.splits sum.splits)

lemma catchE_Inl [run_simps]:
  "catchE m h s = (Inl e, s') \<longleftrightarrow> (\<exists>e' t. m s = (Inl e', t) \<and> h e' t = (Inl e, s'))"
  by (auto simp: catchE_def split: prod.splits sum.splits)

lemma rethrow_Inr [run_simps]: "rethrow h r = Inr x \<longleftrightarrow> r = Inr x"
  by (auto simp: rethrow_def split: sum.splits)

lemma rethrow_Inl [run_simps]: "rethrow h r = Inl e \<longleftrightarrow> (\<exists>e'. r = Inl e' \<and> e = h e')"
  by (auto simp: rethrow_def split: sum.splits)

lemma if_run [run_simps]: "(if b then m else n) s = (r, s') \<longleftrightarrow> (if b then m s = (r, s') else n s = (r, s'))"
  by simp

section \<open>The unit of work\<close>

text \<open>
  \<open>UnitOfWork.__aexit__\<close>: commit when the block ended normally, roll back when it raised.
\<close>

definition uow :: "('d, 'e, 'a) action \<Rightarrow> ('d, 'e, 'a) action" where
  "uow m s = (case m s of
      (Inl e, s') \<Rightarrow> (Inl e, s'\<lparr>working := committed s'\<rparr>)
    | (Inr x, s') \<Rightarrow> (Inr x, s'\<lparr>committed := working s'\<rparr>))"

lemma uow_Inr [run_simps]:
  "uow m s = (Inr x, s') \<longleftrightarrow> (\<exists>t. m s = (Inr x, t) \<and> s' = t\<lparr>committed := working t\<rparr>)"
  by (auto simp: uow_def split: prod.splits sum.splits)

lemma uow_Inl [run_simps]:
  "uow m s = (Inl e, s') \<longleftrightarrow> (\<exists>t. m s = (Inl e, t) \<and> s' = t\<lparr>working := committed t\<rparr>)"
  by (auto simp: uow_def split: prod.splits sum.splits)

text \<open>
  One request: \<open>get_session\<close> opens a session on the committed database and closes it when the
  handler is done, which discards whatever was not committed.
\<close>

definition serve :: "('d, 'e, 'a) action \<Rightarrow> 'd session \<Rightarrow> ('e + 'a) \<times> 'd session" where
  "serve m s = (case m (s\<lparr>working := committed s\<rparr>) of (r, s') \<Rightarrow> (r, s'\<lparr>working := committed s'\<rparr>))"

lemma serve_run [run_simps]:
  "serve m s = (r, s') \<longleftrightarrow>
     (\<exists>t. m (s\<lparr>working := committed s\<rparr>) = (r, t) \<and> s' = t\<lparr>working := committed t\<rparr>)"
  by (auto simp: serve_def split: prod.splits)

section \<open>Invariants of actions\<close>

text \<open>
  An action keeps an invariant when, started with both copies of the database satisfying it, it
  leaves both satisfying it, however it ends.
\<close>

definition keeps :: "('d \<Rightarrow> bool) \<Rightarrow> ('d, 'e, 'a) action \<Rightarrow> bool" where
  "keeps I m \<longleftrightarrow> (\<forall>s r s'. m s = (r, s') \<longrightarrow> I (committed s) \<longrightarrow> I (working s) \<longrightarrow>
     I (committed s') \<and> I (working s'))"

lemma keepsI:
  assumes "\<And>s e s'. m s = (Inl e, s') \<Longrightarrow> I (committed s) \<Longrightarrow> I (working s) \<Longrightarrow>
      I (committed s') \<and> I (working s')"
    and "\<And>s x s'. m s = (Inr x, s') \<Longrightarrow> I (committed s) \<Longrightarrow> I (working s) \<Longrightarrow>
      I (committed s') \<and> I (working s')"
  shows "keeps I m"
  unfolding keeps_def using assms by (metis sum.exhaust)

lemma keepsD:
  "keeps I m \<Longrightarrow> m s = (r, s') \<Longrightarrow> I (committed s) \<Longrightarrow> I (working s) \<Longrightarrow>
     I (committed s') \<and> I (working s')"
  unfolding keeps_def by blast

lemma keeps_return [keeps_intros]: "keeps I (return x)"
  by (rule keepsI) (auto simp: run_simps)

lemma keeps_raise [keeps_intros]: "keeps I (raise e)"
  by (rule keepsI) (auto simp: run_simps)

lemma keeps_query [keeps_intros]: "keeps I (query f)"
  by (rule keepsI) (auto simp: run_simps)

lemma keeps_bindE [keeps_intros]:
  "keeps I m \<Longrightarrow> (\<And>x. keeps I (f x)) \<Longrightarrow> keeps I (bindE m f)"
  by (rule keepsI) (simp only: run_simps, blast dest: keepsD)+

lemma keeps_thenE [keeps_intros]: "keeps I m \<Longrightarrow> keeps I n \<Longrightarrow> keeps I (thenE m n)"
  unfolding thenE_def by (rule keeps_bindE)

lemma keeps_exec: "(\<And>d x d'. I d \<Longrightarrow> f d = Inr (x, d') \<Longrightarrow> I d') \<Longrightarrow> keeps I (exec f)"
  by (rule keepsI) (auto simp: run_simps)

lemma keeps_exec_rethrow:
  "(\<And>d x d'. I d \<Longrightarrow> f d = Inr (x, d') \<Longrightarrow> I d') \<Longrightarrow> keeps I (exec (\<lambda>d. rethrow h (f d)))"
  by (rule keeps_exec) (auto simp: run_simps)

lemma keeps_catchE [keeps_intros]:
  "keeps I m \<Longrightarrow> (\<And>e. keeps I (h e)) \<Longrightarrow> keeps I (catchE m h)"
  by (rule keepsI) (simp only: run_simps, blast dest: keepsD)+

lemma keeps_uow [keeps_intros]: "keeps I m \<Longrightarrow> keeps I (uow m)"
  by (rule keepsI) (auto simp: run_simps dest!: keepsD)

lemma keeps_if [keeps_intros]:
  "(b \<Longrightarrow> keeps I m) \<Longrightarrow> (\<not> b \<Longrightarrow> keeps I n) \<Longrightarrow> keeps I (if b then m else n)"
  by simp

lemma keeps_case_option [keeps_intros]:
  "keeps I m \<Longrightarrow> (\<And>x. keeps I (f x)) \<Longrightarrow> keeps I (case v of None \<Rightarrow> m | Some x \<Rightarrow> f x)"
  by (cases v) auto

lemma keeps_case_list [keeps_intros]:
  "keeps I m \<Longrightarrow> (\<And>x xs. keeps I (f x xs)) \<Longrightarrow> keeps I (case v of [] \<Rightarrow> m | x # xs \<Rightarrow> f x xs)"
  by (cases v) auto

lemma keeps_let [keeps_intros]: "(\<And>x. keeps I (f x)) \<Longrightarrow> keeps I (let x = v in f x)"
  by (simp add: Let_def)

lemma keeps_case_prod [keeps_intros]:
  "(\<And>a b. keeps I (f a b)) \<Longrightarrow> keeps I (case p of (a, b) \<Rightarrow> f a b)"
  by (cases p) auto

lemma keeps_serve:
  assumes "keeps I m" and "serve m s = (r, s')" and "I (committed s)"
  shows "I (committed s') \<and> I (working s')"
proof -
  from assms(2) obtain t where t: "m (s\<lparr>working := committed s\<rparr>) = (r, t)"
    and s': "s' = t\<lparr>working := committed t\<rparr>"
    by (auto simp: run_simps)
  from keepsD [OF assms(1) t] assms(3) have "I (committed t)" by simp
  then show ?thesis by (simp add: s')
qed

text \<open>
  An action is read-only when it leaves the whole session as it found it, and it is atomic when
  an exception leaves the committed database as it found it.
\<close>

definition pure :: "('d, 'e, 'a) action \<Rightarrow> bool" where
  "pure m \<longleftrightarrow> (\<forall>s r s'. m s = (r, s') \<longrightarrow> s' = s)"

lemma pureI:
  "(\<And>s e s'. m s = (Inl e, s') \<Longrightarrow> s' = s) \<Longrightarrow> (\<And>s x s'. m s = (Inr x, s') \<Longrightarrow> s' = s) \<Longrightarrow> pure m"
  unfolding pure_def by (metis sum.exhaust)

lemma pureD: "pure m \<Longrightarrow> m s = (r, s') \<Longrightarrow> s' = s"
  unfolding pure_def by blast

named_theorems pure_intros \<open>read-only actions\<close>

lemma pure_return [pure_intros]: "pure (return x)"
  by (rule pureI) (auto simp: run_simps)

lemma pure_raise [pure_intros]: "pure (raise e)"
  by (rule pureI) (auto simp: run_simps)

lemma pure_query [pure_intros]: "pure (query f)"
  by (rule pureI) (auto simp: run_simps)

lemma pure_bindE [pure_intros]: "pure m \<Longrightarrow> (\<And>x. pure (f x)) \<Longrightarrow> pure (bindE m f)"
  by (rule pureI) (simp only: run_simps, blast dest: pureD)+

lemma pure_catchE [pure_intros]: "pure m \<Longrightarrow> (\<And>e. pure (h e)) \<Longrightarrow> pure (catchE m h)"
  by (rule pureI) (simp only: run_simps, blast dest: pureD)+

lemma pure_if [pure_intros]: "pure m \<Longrightarrow> pure n \<Longrightarrow> pure (if b then m else n)"
  by simp

lemma pure_let [pure_intros]: "(\<And>x. pure (f x)) \<Longrightarrow> pure (let x = v in f x)"
  by (simp add: Let_def)

lemma pure_case_option [pure_intros]:
  "pure m \<Longrightarrow> (\<And>x. pure (f x)) \<Longrightarrow> pure (case v of None \<Rightarrow> m | Some x \<Rightarrow> f x)"
  by (cases v) auto

lemma pure_serve: "pure m \<Longrightarrow> serve m s = (r, s') \<Longrightarrow> s' = s\<lparr>working := committed s\<rparr>"
  by (auto simp: run_simps dest: pureD)

definition atomic :: "('d, 'e, 'a) action \<Rightarrow> bool" where
  "atomic m \<longleftrightarrow> (\<forall>s e s'. m s = (Inl e, s') \<longrightarrow> committed s' = committed s \<and> broker s' = broker s)"

text \<open>
  The working copy only: a body that never commits.
\<close>

definition uncommitted :: "('d, 'e, 'a) action \<Rightarrow> bool" where
  "uncommitted m \<longleftrightarrow> (\<forall>s r s'. m s = (r, s') \<longrightarrow> committed s' = committed s \<and> broker s' = broker s)"

lemma uncommittedI:
  assumes "\<And>s e s'. m s = (Inl e, s') \<Longrightarrow> committed s' = committed s \<and> broker s' = broker s"
    and "\<And>s x s'. m s = (Inr x, s') \<Longrightarrow> committed s' = committed s \<and> broker s' = broker s"
  shows "uncommitted m"
  unfolding uncommitted_def using assms by (metis sum.exhaust)

lemma uncommittedD:
  "uncommitted m \<Longrightarrow> m s = (r, s') \<Longrightarrow> committed s' = committed s \<and> broker s' = broker s"
  unfolding uncommitted_def by blast

lemma atomicI:
  "(\<And>s e s'. m s = (Inl e, s') \<Longrightarrow> committed s' = committed s \<and> broker s' = broker s) \<Longrightarrow> atomic m"
  unfolding atomic_def by blast

lemma atomicD: "atomic m \<Longrightarrow> m s = (Inl e, s') \<Longrightarrow> committed s' = committed s \<and> broker s' = broker s"
  unfolding atomic_def by blast

named_theorems uncommitted_intros \<open>actions that never commit\<close>
named_theorems atomic_intros \<open>actions whose failure commits nothing\<close>

lemma uncommitted_return [uncommitted_intros]: "uncommitted (return x)"
  by (rule uncommittedI) (auto simp: run_simps)

lemma uncommitted_raise [uncommitted_intros]: "uncommitted (raise e)"
  by (rule uncommittedI) (auto simp: run_simps)

lemma uncommitted_query [uncommitted_intros]: "uncommitted (query f)"
  by (rule uncommittedI) (auto simp: run_simps)

lemma uncommitted_exec [uncommitted_intros]: "uncommitted (exec f)"
  by (rule uncommittedI) (auto simp: run_simps)

lemma uncommitted_bindE [uncommitted_intros]:
  "uncommitted m \<Longrightarrow> (\<And>x. uncommitted (f x)) \<Longrightarrow> uncommitted (bindE m f)"
  by (rule uncommittedI) (simp only: run_simps, metis uncommittedD)+

lemma uncommitted_thenE [uncommitted_intros]:
  "uncommitted m \<Longrightarrow> uncommitted n \<Longrightarrow> uncommitted (thenE m n)"
  unfolding thenE_def by (rule uncommitted_bindE)

lemma uncommitted_catchE [uncommitted_intros]:
  "uncommitted m \<Longrightarrow> (\<And>e. uncommitted (h e)) \<Longrightarrow> uncommitted (catchE m h)"
  by (rule uncommittedI) (simp only: run_simps, metis uncommittedD)+

lemma uncommitted_if [uncommitted_intros]:
  "uncommitted m \<Longrightarrow> uncommitted n \<Longrightarrow> uncommitted (if b then m else n)"
  by simp

lemma uncommitted_let [uncommitted_intros]: "(\<And>x. uncommitted (f x)) \<Longrightarrow> uncommitted (let x = v in f x)"
  by (simp add: Let_def)

lemma uncommitted_case_option [uncommitted_intros]:
  "uncommitted m \<Longrightarrow> (\<And>x. uncommitted (f x)) \<Longrightarrow> uncommitted (case v of None \<Rightarrow> m | Some x \<Rightarrow> f x)"
  by (cases v) auto

lemma atomic_uow [atomic_intros]: "uncommitted m \<Longrightarrow> atomic (uow m)"
  by (rule atomicI) (auto simp: run_simps dest: uncommittedD)

text \<open>
  A block may break the invariant on its way, as long as it holds of what is committed at the end.
\<close>

lemma keeps_uow_block:
  assumes "uncommitted m"
    and "\<And>s x s'. m s = (Inr x, s') \<Longrightarrow> I (committed s) \<Longrightarrow> I (working s) \<Longrightarrow> I (working s')"
  shows "keeps I (uow m)"
proof (rule keepsI)
  fix s e s'
  assume "uow m s = (Inl e, s')" and I: "I (committed s)" "I (working s)"
  then obtain t where "m s = (Inl e, t)" and "s' = t\<lparr>working := committed t\<rparr>" by (auto simp: run_simps)
  with I uncommittedD [OF assms(1)] show "I (committed s') \<and> I (working s')" by fastforce
next
  fix s x s'
  assume "uow m s = (Inr x, s')" and I: "I (committed s)" "I (working s)"
  then obtain t where "m s = (Inr x, t)" and "s' = t\<lparr>committed := working t\<rparr>" by (auto simp: run_simps)
  with I assms(2) show "I (committed s') \<and> I (working s')" by fastforce
qed

lemma keeps_mono_conj: "keeps I m \<Longrightarrow> keeps J m \<Longrightarrow> keeps (\<lambda>d. I d \<and> J d) m"
  unfolding keeps_def by blast

lemma atomic_uncommitted: "uncommitted m \<Longrightarrow> atomic m"
  by (rule atomicI) (rule uncommittedD)

lemma atomic_bindE [atomic_intros]:
  "uncommitted m \<Longrightarrow> (\<And>x. atomic (f x)) \<Longrightarrow> atomic (bindE m f)"
  by (rule atomicI) (simp only: run_simps, metis atomicD uncommittedD)

text \<open>A block that commits may be followed by reads that cannot fail, or by nothing.\<close>

lemma atomic_bindE_total [atomic_intros]:
  "atomic m \<Longrightarrow> atomic (bindE m (\<lambda>x. return (f x)))"
  by (rule atomicI) (auto simp: run_simps dest: atomicD)

lemma atomic_if [atomic_intros]: "atomic m \<Longrightarrow> atomic n \<Longrightarrow> atomic (if b then m else n)"
  by simp

lemma atomic_raise [atomic_intros]: "atomic (raise e)"
  by (rule atomicI) (auto simp: run_simps)

lemma atomic_let [atomic_intros]: "(\<And>x. atomic (f x)) \<Longrightarrow> atomic (let x = v in f x)"
  by (simp add: Let_def)

lemma atomic_serve: "atomic m \<Longrightarrow> serve m s = (Inl e, s') \<Longrightarrow> committed s' = committed s \<and> broker s' = broker s"
  by (auto simp: run_simps dest: atomicD)

section \<open>Row lists\<close>

lemma find_None_iff_set: "List.find P xs = None \<longleftrightarrow> (\<forall>x \<in> set xs. \<not> P x)"
  by (auto simp: find_None_iff)

lemma find_SomeD: "List.find P xs = Some x \<Longrightarrow> x \<in> set xs \<and> P x"
  by (auto simp: find_Some_iff in_set_conv_nth)

lemma find_append: "List.find P (xs @ ys) = (case List.find P xs of None \<Rightarrow> List.find P ys | Some x \<Rightarrow> Some x)"
  by (induction xs) auto

lemma find_unique:
  "distinct (map f xs) \<Longrightarrow> x \<in> set xs \<Longrightarrow> List.find (\<lambda>y. f y = f x) xs = Some x"
  by (induction xs) (auto simp: image_iff)

lemma map_if_same: "(\<And>x. g (h x) = g x) \<Longrightarrow> map g (map (\<lambda>x. if P x then h x else x) xs) = map g xs"
  by (induction xs) auto

end
