(* ===== verification/Sync_Text.thy ===== *)
theory Sync_Text
  imports Sync_Prelude
begin

text \<open>
  The Python string operations the program uses: \<open>str\<close> and \<open>int\<close> on integers (job ids, slugs,
  error messages), \<open>join\<close>, \<open>split\<close>, \<open>strip\<close>, \<open>lower\<close> and \<open>translate\<close> (search queries and queue
  slugs).  Strings are lists of 8-bit characters, so the model covers the ASCII part of Python's
  strings, which is what queue names and search punctuation are restricted to.
\<close>

section \<open>Integers as text\<close>

definition digit_char :: "nat \<Rightarrow> char" where
  "digit_char d = char_of (48 + d)"

definition char_digit :: "char \<Rightarrow> nat option" where
  "char_digit c = (let k = of_char c :: nat in if 48 \<le> k \<and> k \<le> 57 then Some (k - 48) else None)"

lemma char_digit_digit_char [simp]: "d < 10 \<Longrightarrow> char_digit (digit_char d) = Some d"
  by (simp add: char_digit_def digit_char_def Let_def)

fun str_nat :: "nat \<Rightarrow> string" where
  "str_nat n = (if n < 10 then [digit_char n] else str_nat (n div 10) @ [digit_char (n mod 10)])"

declare str_nat.simps [simp del]

definition str_int :: "int \<Rightarrow> string" where
  "str_int i = (if i < 0 then CHR ''-'' # str_nat (nat (- i)) else str_nat (nat i))"

fun parse_digits :: "nat \<Rightarrow> string \<Rightarrow> nat option" where
  "parse_digits acc [] = Some acc"
| "parse_digits acc (c # cs) =
     (case char_digit c of None \<Rightarrow> None | Some d \<Rightarrow> parse_digits (10 * acc + d) cs)"

text \<open>
  \<open>int(s)\<close> on the decimal texts the program produces; every other text is a \<open>ValueError\<close>.
\<close>

definition parse_int :: "string \<Rightarrow> int option" where
  "parse_int s = (case s of
      [] \<Rightarrow> None
    | c # cs \<Rightarrow>
        if c = CHR ''-'' then
          (if cs = [] then None else map_option (\<lambda>n. - int n) (parse_digits 0 cs))
        else map_option int (parse_digits 0 (c # cs)))"

lemma parse_digits_append:
  "parse_digits acc (xs @ ys) =
     (case parse_digits acc xs of None \<Rightarrow> None | Some n \<Rightarrow> parse_digits n ys)"
  by (induction xs arbitrary: acc) (auto split: option.splits)

lemma str_nat_nonempty [simp]: "str_nat n \<noteq> []"
  by (subst str_nat.simps) simp

lemma parse_digits_str_nat [simp]: "parse_digits 0 (str_nat n) = Some n"
proof (induction n rule: str_nat.induct)
  case (1 n)
  show ?case
  proof (cases "n < 10")
    case True
    then show ?thesis by (simp add: str_nat.simps [of n])
  next
    case False
    with "1.IH" have "parse_digits 0 (str_nat (n div 10)) = Some (n div 10)" by simp
    with False show ?thesis
      by (simp add: str_nat.simps [of n] parse_digits_append)
  qed
qed

lemma str_nat_hd: "hd (str_nat n) \<noteq> CHR ''-''"
proof (induction n rule: str_nat.induct)
  case (1 n)
  show ?case
  proof (cases "n < 10")
    case True
    have "digit_char d \<noteq> CHR ''-''" if "d < 10" for d
      using char_digit_digit_char [OF that] by (auto simp: char_digit_def)
    with True show ?thesis by (simp add: str_nat.simps [of n])
  next
    case False
    with "1.IH" show ?thesis by (simp add: str_nat.simps [of n])
  qed
qed

lemma parse_int_str_int [simp]: "parse_int (str_int i) = Some i"
proof (cases "i < 0")
  case True
  then show ?thesis by (simp add: parse_int_def str_int_def)
next
  case False
  obtain c cs where s: "str_nat (nat i) = c # cs"
    by (cases "str_nat (nat i)") auto
  with str_nat_hd [of "nat i"] have "c \<noteq> CHR ''-''" by simp
  with False s parse_digits_str_nat [of "nat i"] show ?thesis
    by (simp add: parse_int_def str_int_def)
qed

lemma str_int_inject [simp]: "str_int i = str_int j \<longleftrightarrow> i = j"
  by (metis option.inject parse_int_str_int)

section \<open>Joining, splitting, stripping\<close>

fun join :: "string \<Rightarrow> string list \<Rightarrow> string" where
  "join sep [] = []"
| "join sep [x] = x"
| "join sep (x # y # xs) = x @ sep @ join sep (y # xs)"

definition is_space :: "char \<Rightarrow> bool" where
  "is_space c \<longleftrightarrow> c \<in> set [CHR '' '', CHR 0x09, CHR 0x0A, CHR 0x0B, CHR 0x0C, CHR 0x0D,
     CHR 0x1C, CHR 0x1D, CHR 0x1E, CHR 0x1F, CHR 0x85, CHR 0xA0]"

text \<open>\<open>s.split()\<close>: the maximal runs of non-space characters.\<close>

fun split_acc :: "string \<Rightarrow> string \<Rightarrow> string list" where
  "split_acc acc [] = (if acc = [] then [] else [rev acc])"
| "split_acc acc (c # cs) =
     (if is_space c then (if acc = [] then split_acc [] cs else rev acc # split_acc [] cs)
      else split_acc (c # acc) cs)"

definition py_split :: "string \<Rightarrow> string list" where
  "py_split s = split_acc [] s"

lemma split_acc_words:
  "list_all (\<lambda>c. \<not> is_space c) acc \<Longrightarrow> w \<in> set (split_acc acc s) \<Longrightarrow>
     w \<noteq> [] \<and> list_all (\<lambda>c. \<not> is_space c) w"
proof (induction s arbitrary: acc)
  case Nil
  then show ?case by (simp split: if_splits)
next
  case (Cons c cs)
  have rec: "w \<noteq> [] \<and> list_all (\<lambda>c. \<not> is_space c) w" if "w \<in> set (split_acc [] cs)"
    using Cons.IH [of "[]"] that by simp
  show ?case
  proof (cases "is_space c")
    case True
    with Cons.prems have "(acc \<noteq> [] \<and> w = rev acc) \<or> w \<in> set (split_acc [] cs)"
      by (simp split: if_splits)
    then show ?thesis
    proof
      assume "acc \<noteq> [] \<and> w = rev acc"
      with Cons.prems(1) show ?thesis by simp
    qed (rule rec)
  next
    case False
    with Cons.prems Cons.IH [of "c # acc"] show ?thesis by simp
  qed
qed

lemma py_split_words: "w \<in> set (py_split s) \<Longrightarrow> w \<noteq> [] \<and> (\<forall>c \<in> set w. \<not> is_space c)"
  unfolding py_split_def using split_acc_words [of "[]" w s] by (simp add: list_all_iff)

lemma split_acc_chars: "w \<in> set (split_acc acc s) \<Longrightarrow> c \<in> set w \<Longrightarrow> c \<in> set acc \<or> c \<in> set s"
  by (induction acc s rule: split_acc.induct) (auto split: if_splits)

lemma py_split_chars: "w \<in> set (py_split s) \<Longrightarrow> c \<in> set w \<Longrightarrow> c \<in> set s"
  unfolding py_split_def using split_acc_chars [of w "[]" s c] by auto

definition strip_char :: "char \<Rightarrow> string \<Rightarrow> string" where
  "strip_char x s = rev (dropWhile (\<lambda>c. c = x) (rev (dropWhile (\<lambda>c. c = x) s)))"

definition lower_char :: "char \<Rightarrow> char" where
  "lower_char c = (let k = of_char c :: nat in if 65 \<le> k \<and> k \<le> 90 then char_of (k + 32) else c)"

definition lower :: "string \<Rightarrow> string" where
  "lower s = map lower_char s"

definition translate_to_space :: "string \<Rightarrow> string \<Rightarrow> string" where
  "translate_to_space chars s = map (\<lambda>c. if c \<in> set chars then CHR '' '' else c) s"

lemma strip_char_subset: "set (strip_char x s) \<subseteq> set s"
proof -
  have "set (strip_char x s) \<subseteq> set (dropWhile (\<lambda>c. c = x) s)"
    unfolding strip_char_def by (metis set_dropWhileD set_rev subsetI)
  also have "\<dots> \<subseteq> set s" by (meson set_dropWhileD subsetI)
  finally show ?thesis .
qed

lemma strip_char_ends:
  assumes "strip_char x s = t" and "t \<noteq> []"
  shows "hd t \<noteq> x" and "last t \<noteq> x"
proof -
  let ?u = "dropWhile (\<lambda>c. c = x) s"
  have t: "t = rev (dropWhile (\<lambda>c. c = x) (rev ?u))"
    using assms(1) by (simp add: strip_char_def)
  have ne: "dropWhile (\<lambda>c. c = x) (rev ?u) \<noteq> []" using assms(2) t by simp
  from hd_dropWhile [OF ne] show "last t \<noteq> x" by (simp add: t last_rev)
  have u: "?u \<noteq> []" using ne by (metis dropWhile.simps(1) rev.simps(1))
  obtain ys where ys: "?u = t @ ys"
    using takeWhile_dropWhile_id [of "\<lambda>c. c = x" "rev ?u"] t by (metis rev_append rev_rev_ident)
  from hd_dropWhile [OF u] ys assms(2) show "hd t \<noteq> x" by simp
qed

end
