(* ===== verification/Sync_Errors.thy ===== *)
theory Sync_Errors
  imports Sync_Text
begin

text \<open>
  The exceptions of \<open>syncmaster/exceptions\<close> and of the libraries the code catches, and the
  translation of an exception to the HTTP error response of \<open>syncmaster/server/handler.py\<close>.
\<close>

section \<open>Run status, named by an exception\<close>

datatype status = CREATED | STARTED | FAILED | SEND_STOP_SIGNAL | STOPPED | FINISHED

fun status_value :: "status \<Rightarrow> string" where
  "status_value CREATED = ''CREATED''"
| "status_value STARTED = ''STARTED''"
| "status_value FAILED = ''FAILED''"
| "status_value SEND_STOP_SIGNAL = ''SEND_STOP_SIGNAL''"
| "status_value STOPPED = ''STOPPED''"
| "status_value FINISHED = ''FINISHED''"

section \<open>Exceptions\<close>

text \<open>
  One constructor per exception class.  \<open>IntegrityError\<close> and \<open>NoResultFound\<close> are SQLAlchemy's, the
  first carrying the name of the violated constraint; \<open>KombuError\<close> is the broker client's;
  \<open>KeyError\<close>, \<open>ValueError\<close>, \<open>InvalidToken\<close>, \<open>NotImplementedError\<close>, \<open>TypeError\<close>, \<open>AttributeError\<close> and
  \<open>IndexError\<close> are the other exceptions that leave a handler, a validator or the worker.
\<close>

datatype exn =
    SyncmasterError
  | EntityNotFoundError
  | ActionNotAllowedError
  | AuthorizationError string
  | LogoutError string
  | RedirectError string
  | ConnectionNotFoundError
  | ConnectionOwnerError
  | ConnectionTypeNotRecognizedError
  | ConnectionTypeUpdateError
  | ConnectionAuthDataUpdateError
  | DuplicatedConnectionNameError
  | ConnectionDeleteError string
  | AuthDataNotFoundError string
  | GroupAlreadyExistsError
  | AlreadyIsGroupMemberError
  | AlreadyIsNotGroupMemberError
  | AlreadyIsGroupOwnerError
  | GroupNotFoundError
  | QueueNotFoundError
  | QueueDeleteError string
  | DifferentTransferAndQueueGroupError
  | DuplicatedQueueNameError
  | RunNotFoundError
  | CannotStopRunError int status
  | CannotConnectToTaskQueueError int
  | TransferOwnerError
  | TransferNotFoundError
  | DuplicatedTransferNameError
  | DifferentTransferAndConnectionsGroupsError
  | DifferentTypeConnectionsAndParamsError string string string
  | UsernameAlreadyExistsError
  | UserNotFoundError
  | IntegrityError string
  | NoResultFound
  | KombuError
  | KeyError string
  | ValueError string
  | InvalidToken
  | NotImplementedError string
  | TypeError string
  | AttributeError string
  | IndexError string

text \<open>\<open>isinstance(e, EntityNotFoundError)\<close>: the class and its subclasses.\<close>

definition is_EntityNotFoundError :: "exn \<Rightarrow> bool" where
  "is_EntityNotFoundError e = (case e of
      EntityNotFoundError \<Rightarrow> True
    | ConnectionNotFoundError \<Rightarrow> True
    | QueueNotFoundError \<Rightarrow> True
    | RunNotFoundError \<Rightarrow> True
    | _ \<Rightarrow> False)"

text \<open>\<open>isinstance(e, SyncmasterError)\<close>: everything declared under \<open>syncmaster/exceptions\<close>.\<close>

definition is_SyncmasterError :: "exn \<Rightarrow> bool" where
  "is_SyncmasterError e = (case e of
      IntegrityError _ \<Rightarrow> False
    | NoResultFound \<Rightarrow> False
    | KombuError \<Rightarrow> False
    | KeyError _ \<Rightarrow> False
    | ValueError _ \<Rightarrow> False
    | InvalidToken \<Rightarrow> False
    | NotImplementedError _ \<Rightarrow> False
    | TypeError _ \<Rightarrow> False
    | AttributeError _ \<Rightarrow> False
    | IndexError _ \<Rightarrow> False
    | _ \<Rightarrow> True)"

text \<open>\<open>getattr(exc, "message", "")\<close>.\<close>

definition exn_message :: "exn \<Rightarrow> string" where
  "exn_message e = (case e of
      AuthorizationError m \<Rightarrow> m
    | LogoutError d \<Rightarrow> ''Logout error''
    | ConnectionDeleteError m \<Rightarrow> m
    | AuthDataNotFoundError m \<Rightarrow> m
    | QueueDeleteError m \<Rightarrow> m
    | DifferentTypeConnectionsAndParamsError conn ctype ptype \<Rightarrow> conn @ '' connection has type `'' @ ctype @ ''` but its params has `'' @ ptype @ ''` type''
    | _ \<Rightarrow> '''')"

section \<open>HTTP error responses\<close>

record api_error =
  http_status :: int
  code :: string
  message :: string
  details :: "string option"

definition api_error :: "int \<Rightarrow> string \<Rightarrow> string \<Rightarrow> api_error" where
  "api_error st c m = \<lparr>http_status = st, code = c, message = m, details = None\<rparr>"

text \<open>\<open>unknown_exception_handler\<close> outside debug mode.\<close>

definition unknown_exception_handler :: "exn \<Rightarrow> api_error" where
  "unknown_exception_handler e =
     api_error 500 ''unknown'' ''Got unhandled exception. Please contact support''"

definition syncmsater_exception_handler :: "exn \<Rightarrow> api_error" where
  "syncmsater_exception_handler e = (case e of
      AuthDataNotFoundError m \<Rightarrow> api_error 404 ''not_found'' (''Credentials not found. '' @ m)
    | RedirectError url \<Rightarrow> (api_error 401 ''unauthorized'' ''Please authorize using provided URL'')\<lparr>details := Some url\<rparr>
    | AuthorizationError m \<Rightarrow> api_error 401 ''unauthorized'' ''Not authenticated''
    | ConnectionDeleteError m \<Rightarrow> api_error 409 ''conflict'' (exn_message (ConnectionDeleteError m))
    | ActionNotAllowedError \<Rightarrow> api_error 403 ''forbidden'' ''You have no power here''
    | GroupNotFoundError \<Rightarrow> api_error 404 ''not_found'' ''Group not found''
    | RunNotFoundError \<Rightarrow> api_error 404 ''not_found'' ''Run not found''
    | QueueNotFoundError \<Rightarrow> api_error 404 ''not_found'' ''Queue not found''
    | GroupAlreadyExistsError \<Rightarrow> api_error 409 ''conflict'' ''Group name already taken''
    | AlreadyIsNotGroupMemberError \<Rightarrow> api_error 409 ''conflict'' ''User already is not group member''
    | AlreadyIsGroupMemberError \<Rightarrow> api_error 409 ''conflict'' ''User already is group member''
    | AlreadyIsGroupOwnerError \<Rightarrow> api_error 409 ''conflict'' ''User already is group owner''
    | UserNotFoundError \<Rightarrow> api_error 404 ''not_found'' ''User not found''
    | UsernameAlreadyExistsError \<Rightarrow> api_error 409 ''conflict'' ''Username is already taken''
    | ConnectionNotFoundError \<Rightarrow> api_error 404 ''not_found'' ''Connection not found''
    | ConnectionOwnerError \<Rightarrow> api_error 400 ''bad_request'' ''Cannot create connection with that user_id and group_id values''
    | TransferNotFoundError \<Rightarrow> api_error 404 ''not_found'' ''Transfer not found''
    | TransferOwnerError \<Rightarrow> api_error 400 ''bad_request'' ''Cannot create transfer with that group_id value''
    | ConnectionTypeUpdateError \<Rightarrow> api_error 409 ''conflict''
       ''You cannot update the connection type of a connection already associated with a transfer.''
    | ConnectionAuthDataUpdateError \<Rightarrow> api_error 409 ''conflict''
       ''You cannot update the connection auth type without providing a new secret value.''
    | DifferentTransferAndConnectionsGroupsError \<Rightarrow> api_error 400 ''bad_request'' ''Connections should belong to the transfer group''
    | DifferentTransferAndQueueGroupError \<Rightarrow> api_error 400 ''bad_request'' ''Queue should belong to the transfer group''
    | DifferentTypeConnectionsAndParamsError c t p \<Rightarrow> api_error 400 ''bad_request'' (exn_message (DifferentTypeConnectionsAndParamsError c t p))
    | QueueDeleteError m \<Rightarrow> api_error 409 ''conflict'' (exn_message (QueueDeleteError m))
    | DuplicatedConnectionNameError \<Rightarrow> api_error 409 ''conflict''
       ''The connection name already exists in the target group, please specify a new one''
    | DuplicatedTransferNameError \<Rightarrow> api_error 409 ''conflict''
       ''The transfer name already exists in the target group, please specify a new one''
    | DuplicatedQueueNameError \<Rightarrow> api_error 409 ''conflict''
       ''The queue name already exists in the target group, please specify a new one''
    | CannotConnectToTaskQueueError run_id \<Rightarrow> api_error 503 ''service_unavaliable''
       (''Syncmaster not connected to task queue. Run '' @ str_int run_id @ '' was failed'')
    | CannotStopRunError run_id st \<Rightarrow> api_error 400 ''bad_request''
       (''Cannot stop run '' @ str_int run_id @ ''. Current status is '' @ status_value st)
    | _ \<Rightarrow> api_error 500 ''unknown'' ''Got unhandled exception. See logs'')"

text \<open>FastAPI picks the handler registered for the class of the exception.\<close>

definition error_response :: "exn \<Rightarrow> api_error" where
  "error_response e =
     (if is_SyncmasterError e then syncmsater_exception_handler e else unknown_exception_handler e)"

lemma http_status_api_error [simp]: "http_status (api_error st c m) = st"
  by (simp add: api_error_def)

lemma code_api_error [simp]: "code (api_error st c m) = c"
  by (simp add: api_error_def)

text \<open>
  Every error response is one of the statuses the API documents, and the code of the body agrees
  with the status.
\<close>

definition expected_code :: "int \<Rightarrow> string" where
  "expected_code st =
     (if st = 404 then ''not_found'' else if st = 401 then ''unauthorized''
      else if st = 403 then ''forbidden'' else if st = 409 then ''conflict''
      else if st = 400 then ''bad_request'' else if st = 503 then ''service_unavaliable''
      else ''unknown'')"

lemma syncmsater_exception_handler_code:
  "code (syncmsater_exception_handler e) = expected_code (http_status (syncmsater_exception_handler e))"
  by (cases e) (simp_all add: syncmsater_exception_handler_def expected_code_def)

text \<open>Which exceptions the chain of the handler does not know: they end as status 500.\<close>

definition unhandled :: "exn \<Rightarrow> bool" where
  "unhandled e = (case e of
      SyncmasterError \<Rightarrow> True
    | EntityNotFoundError \<Rightarrow> True
    | ConnectionTypeNotRecognizedError \<Rightarrow> True
    | LogoutError _ \<Rightarrow> True
    | _ \<Rightarrow> \<not> is_SyncmasterError e)"

lemma error_response_500: "http_status (error_response e) = 500 \<longleftrightarrow> unhandled e"
  by (cases e)
    (simp_all add: error_response_def unknown_exception_handler_def syncmsater_exception_handler_def
       unhandled_def is_SyncmasterError_def)

end
