(* ===== verification/Sync_Model.thy ===== *)
theory Sync_Model
  imports Sync_Errors
begin

text \<open>
  The data model of \<open>syncmaster/db/models\<close>: the rows of each table as records, built from the mixins
  by record extension as the classes are, and the database as a record of tables with the sequences
  that number their rows.  The statements the repositories send (insert, update, delete with
  \<open>ON DELETE CASCADE\<close>) are functions of the database that enforce the primary keys, unique constraints
  and foreign keys the models and migrations declare, reporting a violation by the constraint's name
  as PostgreSQL does: unique indexes are checked when a row is written, foreign keys at the end of
  the statement.  A rejected statement leaves the database as it was; in PostgreSQL it also burns a
  sequence number, which the model does not show, as no property depends on gaps between ids.
\<close>

section \<open>Enumerations\<close>

datatype group_member_role = Maintainer | Developer | Owner | Guest | Superuser

datatype connection_type =
    POSTGRES | HIVE | ICEBERG | ORACLE | CLICKHOUSE | MSSQL | MYSQL
  | S3 | HDFS | SFTP | FTP | FTPS | WEBDAV | SAMBA

datatype run_type = MANUAL | SCHEDULED

fun connection_type_value :: "connection_type \<Rightarrow> string" where
  "connection_type_value POSTGRES = ''postgres''"
| "connection_type_value HIVE = ''hive''"
| "connection_type_value ICEBERG = ''iceberg''"
| "connection_type_value ORACLE = ''oracle''"
| "connection_type_value CLICKHOUSE = ''clickhouse''"
| "connection_type_value MSSQL = ''mssql''"
| "connection_type_value MYSQL = ''mysql''"
| "connection_type_value S3 = ''s3''"
| "connection_type_value HDFS = ''hdfs''"
| "connection_type_value SFTP = ''sftp''"
| "connection_type_value FTP = ''ftp''"
| "connection_type_value FTPS = ''ftps''"
| "connection_type_value WEBDAV = ''webdav''"
| "connection_type_value SAMBA = ''samba''"

section \<open>JSON values\<close>

datatype json =
    JNull
  | JBool bool
  | JInt int
  | JStr string
  | JList "json list"
  | JObj "(string \<times> json) list"

text \<open>The fields of a JSON object as a Python dict: a read of a missing key is a \<open>KeyError\<close>.\<close>

type_synonym jdict = "(string \<times> json) list"

definition dict_get :: "jdict \<Rightarrow> string \<Rightarrow> exn + json" where
  "dict_get d k = (case map_of d k of None \<Rightarrow> Inl (KeyError k) | Some v \<Rightarrow> Inr v)"

fun dict_set :: "jdict \<Rightarrow> string \<Rightarrow> json \<Rightarrow> jdict" where
  "dict_set [] k v = [(k, v)]"
| "dict_set ((k', v') # d) k v = (if k' = k then (k, v) # d else (k', v') # dict_set d k v)"

lemma map_of_dict_set [simp]: "map_of (dict_set d k v) = (map_of d)(k \<mapsto> v)"
  by (induction d) (auto simp: fun_eq_iff)

lemma fst_dict_set [simp]: "fst ` set (dict_set d k v) = insert k (fst ` set d)"
  by (simp add: dom_map_of_conv_image_fst [symmetric])

text \<open>
  Source and target parameters of a transfer: the connection type they are for and the other fields
  of the validated schema.  The JSON column holds both in one object.
\<close>

record params =
  ptype :: connection_type
  pfields :: jdict

definition params_dump :: "params \<Rightarrow> json" where
  "params_dump p = JObj ((''type'', JStr (connection_type_value (ptype p))) # pfields p)"

section \<open>Rows\<close>

record row =
  pk :: int

record timestamped = row +
  created_at :: int
  updated_at :: int

record resource = timestamped +
  rname :: string
  group_id :: int
  rdescription :: string

record user = timestamped +
  username :: string
  email :: "string option"
  first_name :: "string option"
  last_name :: "string option"
  middle_name :: "string option"
  is_superuser :: bool
  is_active :: bool

record group = timestamped +
  gname :: string
  gdescription :: string
  owner_id :: int

record user_group =
  ug_user_id :: int
  ug_group_id :: int
  ug_role :: group_member_role

record connection = resource +
  conn_type :: connection_type
  conn_data :: jdict

record auth_data =
  ad_connection_id :: int
  ad_value :: string

record queue = resource +
  slug :: string

record transfer = resource +
  source_connection_id :: int
  target_connection_id :: int
  strategy_params :: json
  source_params :: params
  target_params :: params
  transformations :: "json list"
  resources :: json
  is_scheduled :: bool
  schedule :: string
  queue_id :: int

record run = timestamped +
  transfer_id :: int
  started_at :: "int option"
  ended_at :: "int option"
  run_status :: status
  run_type :: run_type
  log_url :: "string option"
  transfer_dump :: json

section \<open>The database\<close>

record db =
  users :: "user list"
  groups :: "group list"
  user_groups :: "user_group list"
  connections :: "connection list"
  auth_datas :: "auth_data list"
  queues :: "queue list"
  transfers :: "transfer list"
  runs :: "run list"
  seq_user :: int
  seq_group :: int
  seq_connection :: int
  seq_queue :: int
  seq_transfer :: int
  seq_run :: int

definition empty_db :: db where
  "empty_db = \<lparr>users = [], groups = [], user_groups = [], connections = [], auth_datas = [], queues = [],
     transfers = [], runs = [], seq_user = 1, seq_group = 1, seq_connection = 1, seq_queue = 1,
     seq_transfer = 1, seq_run = 1\<rparr>"

type_synonym 'a act = "(db, exn, 'a) action"
type_synonym 'a res = "exn + 'a"

section \<open>Reading rows\<close>

text \<open>\<open>session.get(Model, id)\<close> and \<open>select(Model).where(Model.id == id)\<close>.\<close>

definition get_row :: "int \<Rightarrow> 'a row_scheme list \<Rightarrow> 'a row_scheme option" where
  "get_row i rows = List.find (\<lambda>r. pk r = i) rows"

definition has_row :: "int \<Rightarrow> 'a row_scheme list \<Rightarrow> bool" where
  "has_row i rows \<longleftrightarrow> list_ex (\<lambda>r. pk r = i) rows"

text \<open>\<open>session.get(UserGroup, {"group_id": g, "user_id": u})\<close>.\<close>

definition get_user_group_row :: "int \<Rightarrow> int \<Rightarrow> db \<Rightarrow> user_group option" where
  "get_user_group_row g u d =
     List.find (\<lambda>x. ug_group_id x = g \<and> ug_user_id x = u) (user_groups d)"

definition get_auth_row :: "int \<Rightarrow> db \<Rightarrow> auth_data option" where
  "get_auth_row c d = List.find (\<lambda>a. ad_connection_id a = c) (auth_datas d)"

lemma has_row_iff: "has_row i rows \<longleftrightarrow> i \<in> pk ` set rows"
  by (auto simp: has_row_def list_ex_iff)

lemma get_row_None: "get_row i rows = None \<longleftrightarrow> i \<notin> pk ` set rows"
  by (auto simp: get_row_def find_None_iff_set)

lemma get_row_Some: "get_row i rows = Some r \<Longrightarrow> r \<in> set rows \<and> pk r = i"
  unfolding get_row_def by (rule find_SomeD)

lemma get_row_has_row: "get_row i rows = Some r \<Longrightarrow> has_row i rows"
  by (auto dest: get_row_Some simp: has_row_iff)

lemma get_row_eq: "distinct (map pk rows) \<Longrightarrow> r \<in> set rows \<Longrightarrow> get_row (pk r) rows = Some r"
  unfolding get_row_def by (rule find_unique)

lemma has_row_append [simp]: "has_row i (xs @ ys) \<longleftrightarrow> has_row i xs \<or> has_row i ys"
  by (simp add: has_row_def)

lemma has_row_single [simp]: "has_row i [r] \<longleftrightarrow> pk r = i"
  by (simp add: has_row_def)

lemma get_row_append: "get_row i (xs @ ys) = (case get_row i xs of None \<Rightarrow> get_row i ys | Some r \<Rightarrow> Some r)"
  by (simp add: get_row_def find_append split: option.split)

section \<open>Writing rows\<close>

text \<open>\<open>UPDATE \<dots> WHERE id = i\<close> replaces the row with that id.\<close>

definition set_row :: "'a row_scheme \<Rightarrow> 'a row_scheme list \<Rightarrow> 'a row_scheme list" where
  "set_row r rows = map (\<lambda>x. if pk x = pk r then r else x) rows"

lemma map_pk_set_row [simp]: "map pk (set_row r rows) = map pk rows"
  by (induction rows) (auto simp: set_row_def)

lemma pk_image_set_row [simp]: "pk ` set (set_row r rows) = pk ` set rows"
  by (metis map_pk_set_row set_map)

lemma has_row_set_row [simp]: "has_row i (set_row r rows) = has_row i rows"
  by (simp add: has_row_iff)

lemma set_set_row: "x \<in> set (set_row r rows) \<Longrightarrow> x = r \<or> x \<in> set rows \<and> pk x \<noteq> pk r"
  by (auto simp: set_row_def split: if_splits)

lemma get_row_set_row:
  "get_row i (set_row r rows) =
     (if i = pk r \<and> has_row i rows then Some r else get_row i rows)"
  by (induction rows) (auto simp: get_row_def set_row_def has_row_def)

definition keys_ok :: "'a row_scheme list \<Rightarrow> int \<Rightarrow> bool" where
  "keys_ok rows n \<longleftrightarrow> distinct (map pk rows) \<and> (\<forall>r \<in> set rows. pk r < n)"

lemma keys_ok_insert: "keys_ok rows n \<Longrightarrow> pk r = n \<Longrightarrow> keys_ok (rows @ [r]) (n + 1)"
  by (auto simp: keys_ok_def)

lemma keys_ok_set_row [simp]: "keys_ok (set_row r rows) n \<longleftrightarrow> keys_ok rows n"
proof -
  have "(\<forall>x \<in> set xs. pk x < n) \<longleftrightarrow> (\<forall>i \<in> set (map pk xs). i < n)" for xs :: "'a row_scheme list"
    by simp
  then show ?thesis unfolding keys_ok_def by (simp only: map_pk_set_row)
qed

lemma keys_ok_filter: "keys_ok rows n \<Longrightarrow> keys_ok (filter P rows) n"
  by (auto simp: keys_ok_def distinct_map_filter)

lemma keys_ok_fresh: "keys_ok rows n \<Longrightarrow> \<not> has_row n rows"
  by (auto simp: keys_ok_def has_row_iff)

lemma keys_ok_get_row: "keys_ok rows n \<Longrightarrow> r \<in> set rows \<Longrightarrow> get_row (pk r) rows = Some r"
  unfolding keys_ok_def by (blast intro: get_row_eq)

end
