(* ===== verification/Sync_Json.thy ===== *)
theory Sync_Json
  imports Sync_Model "HOL-Library.List_Lexorder" "HOL-Library.Char_ord"
begin

text \<open>
  Python's \<open>json.dumps(value, ensure_ascii=False, sort_keys=True)\<close> and \<open>json.loads\<close>, on the values
  credentials are made of (null, booleans, integers, strings, lists, objects): the printer, a reader
  for the grammar it prints, and their round trip.  Recursion of the reader is bounded by fuel; the
  length of the text is always enough (\<open>json_loads_dumps\<close>).
\<close>

section \<open>The printer\<close>

definition hex_char :: "nat \<Rightarrow> char" where
  "hex_char d = (if d < 10 then char_of (48 + d) else char_of (87 + d))"

definition unhex :: "char \<Rightarrow> nat option" where
  "unhex c = (let k = of_char c :: nat in
     if 48 \<le> k \<and> k \<le> 57 then Some (k - 48)
     else if 97 \<le> k \<and> k \<le> 102 then Some (k - 87)
     else if 65 \<le> k \<and> k \<le> 70 then Some (k - 55) else None)"

abbreviation dquote :: char where "dquote \<equiv> CHR 0x22"
abbreviation backslash :: char where "backslash \<equiv> CHR 0x5C"

text \<open>The characters with a short escape, with the letter of the escape.\<close>

definition short_escapes :: "(char \<times> char) list" where
  "short_escapes = [(dquote, dquote), (backslash, backslash), (CHR 0x0A, CHR ''n''), (CHR 0x0D, CHR ''r''),
     (CHR 0x09, CHR ''t''), (CHR 0x0C, CHR ''f''), (CHR 0x08, CHR ''b'')]"

definition escape_char :: "char \<Rightarrow> string" where
  "escape_char c = (case map_of short_escapes c of
      Some e \<Rightarrow> [backslash, e]
    | None \<Rightarrow> (let k = of_char c :: nat in
        if k < 32 then [backslash, CHR ''u'', CHR ''0'', CHR ''0'', hex_char (k div 16), hex_char (k mod 16)]
        else [c]))"

definition dump_str :: "string \<Rightarrow> string" where
  "dump_str s = [dquote] @ concat (map escape_char s) @ [dquote]"

fun json_print :: "json \<Rightarrow> string" where
  "json_print JNull = ''null''"
| "json_print (JBool b) = (if b then ''true'' else ''false'')"
| "json_print (JInt i) = str_int i"
| "json_print (JStr s) = dump_str s"
| "json_print (JList xs) = ''['' @ join '', '' (map json_print xs) @ '']''"
| "json_print (JObj kvs) = ''{'' @ join '', '' (map (\<lambda>(k, v). dump_str k @ '': '' @ json_print v) kvs) @ ''}''"

text \<open>\<open>sort_keys=True\<close>: the members of every object in the order of their keys.\<close>

fun sort_json :: "json \<Rightarrow> json" where
  "sort_json (JList xs) = JList (map sort_json xs)"
| "sort_json (JObj kvs) = JObj (sort_key fst (map (\<lambda>(k, v). (k, sort_json v)) kvs))"
| "sort_json j = j"

definition json_dumps :: "json \<Rightarrow> string" where
  "json_dumps j = json_print (sort_json j)"

section \<open>The reader\<close>

definition skip_ws :: "string \<Rightarrow> string" where
  "skip_ws s = dropWhile (\<lambda>c. c = CHR '' '' \<or> c = CHR 0x09 \<or> c = CHR 0x0A \<or> c = CHR 0x0D) s"

definition unescape :: "char \<Rightarrow> char option" where
  "unescape e = (if e = CHR ''/'' then Some e else map_of (map (\<lambda>(c, e'). (e', c)) short_escapes) e)"

text \<open>The rest of a string literal after its opening quote; \<open>None\<close> for a malformed one.\<close>

fun parse_chars :: "string \<Rightarrow> (string \<times> string) option" where
  "parse_chars [] = None"
| "parse_chars (c # cs) =
     (if c = dquote then Some ([], cs)
      else if c = backslash then
        (case cs of
           [] \<Rightarrow> None
         | e # r \<Rightarrow>
             if e = CHR ''u'' then
               (case r of
                  h1 # h2 # h3 # h4 # r' \<Rightarrow>
                    (case (unhex h1, unhex h2, unhex h3, unhex h4) of
                       (Some a, Some b, Some x, Some y) \<Rightarrow>
                         if a = 0 \<and> b = 0 then map_option (\<lambda>(t, z). (char_of (16 * x + y) # t, z)) (parse_chars r')
                         else None
                     | _ \<Rightarrow> None)
                | _ \<Rightarrow> None)
             else (case unescape e of
                 None \<Rightarrow> None
               | Some d \<Rightarrow> map_option (\<lambda>(t, z). (d # t, z)) (parse_chars r)))
      else if (of_char c :: nat) < 32 then None
      else map_option (\<lambda>(t, z). (c # t, z)) (parse_chars cs))"

declare parse_chars.simps(2) [simp del]

definition is_digit :: "char \<Rightarrow> bool" where
  "is_digit c \<longleftrightarrow> char_digit c \<noteq> None"

definition parse_number :: "string \<Rightarrow> (json \<times> string) option" where
  "parse_number s =
     (let sign = (if s \<noteq> [] \<and> hd s = CHR ''-'' then ''-'' else []);
          r = drop (length sign) s
      in map_option (\<lambda>i. (JInt i, dropWhile is_digit r)) (parse_int (sign @ takeWhile is_digit r)))"

text \<open>A literal word at the start of the text.\<close>

definition eat :: "string \<Rightarrow> 'a \<Rightarrow> string \<Rightarrow> ('a \<times> string) option" where
  "eat w v s = (if take (length w) s = w then Some (v, drop (length w) s) else None)"

fun parse_value :: "nat \<Rightarrow> string \<Rightarrow> (json \<times> string) option"
  and parse_elems :: "nat \<Rightarrow> string \<Rightarrow> (json list \<times> string) option"
  and parse_members :: "nat \<Rightarrow> string \<Rightarrow> ((string \<times> json) list \<times> string) option" where
  "parse_value 0 s = None"
| "parse_value (Suc n) s = (case skip_ws s of
      [] \<Rightarrow> None
    | c # r \<Rightarrow>
        if c = dquote then map_option (\<lambda>(t, z). (JStr t, z)) (parse_chars r)
        else if c = CHR ''['' then
          (case skip_ws r of
             d # r' \<Rightarrow> if d = CHR '']'' then Some (JList [], r')
               else map_option (\<lambda>(xs, z). (JList xs, z)) (parse_elems n r)
           | [] \<Rightarrow> None)
        else if c = CHR ''{'' then
          (case skip_ws r of
             d # r' \<Rightarrow> if d = CHR ''}'' then Some (JObj [], r')
               else map_option (\<lambda>(kvs, z). (JObj kvs, z)) (parse_members n r)
           | [] \<Rightarrow> None)
        else if c = CHR ''n'' then eat ''null'' JNull (c # r)
        else if c = CHR ''t'' then eat ''true'' (JBool True) (c # r)
        else if c = CHR ''f'' then eat ''false'' (JBool False) (c # r)
        else parse_number (c # r))"
| "parse_elems 0 s = None"
| "parse_elems (Suc n) s = (case parse_value n s of
      None \<Rightarrow> None
    | Some (x, r) \<Rightarrow> (case skip_ws r of
        [] \<Rightarrow> None
      | d # r' \<Rightarrow>
          if d = CHR '']'' then Some ([x], r')
          else if d = CHR '','' then map_option (\<lambda>(xs, z). (x # xs, z)) (parse_elems n r')
          else None))"
| "parse_members 0 s = None"
| "parse_members (Suc n) s = (case skip_ws s of
      [] \<Rightarrow> None
    | q # r0 \<Rightarrow> if q \<noteq> dquote then None else (case parse_chars r0 of
        None \<Rightarrow> None
      | Some (k, r1) \<Rightarrow> (case skip_ws r1 of
          [] \<Rightarrow> None
        | c # r2 \<Rightarrow> if c \<noteq> CHR '':'' then None else (case parse_value n r2 of
            None \<Rightarrow> None
          | Some (v, r3) \<Rightarrow> (case skip_ws r3 of
              [] \<Rightarrow> None
            | d # r4 \<Rightarrow>
                if d = CHR ''}'' then Some ([(k, v)], r4)
                else if d = CHR '','' then map_option (\<lambda>(kvs, z). ((k, v) # kvs, z)) (parse_members n r4)
                else None)))))"

definition json_loads :: "string \<Rightarrow> json option" where
  "json_loads s = (case parse_value (Suc (length s)) s of
      Some (j, r) \<Rightarrow> if skip_ws r = [] then Some j else None
    | None \<Rightarrow> None)"

section \<open>The round trip\<close>

lemma hex_char_code: "d < 16 \<Longrightarrow> of_char (hex_char d) = (if d < 10 then 48 + d else 87 + d)"
  by (simp add: hex_char_def)

lemma unhex_hex_char: "d < 16 \<Longrightarrow> unhex (hex_char d) = Some d"
  by (simp add: unhex_def hex_char_code Let_def)

lemma unescape_short: "map_of short_escapes c = Some e \<Longrightarrow> unescape e = Some c \<and> e \<noteq> CHR ''u''"
  by (auto simp: short_escapes_def unescape_def split: if_splits)

lemma parse_chars_escape:
  "parse_chars (escape_char c @ rest) = map_option (\<lambda>(t, z). (c # t, z)) (parse_chars rest)"
proof (cases "map_of short_escapes c")
  case (Some e)
  with unescape_short [OF Some] show ?thesis
    by (simp add: escape_char_def parse_chars.simps(2) [of backslash])
next
  case None
  then have c: "c \<noteq> dquote" "c \<noteq> backslash" by (auto simp: short_escapes_def split: if_splits)
  show ?thesis
  proof (cases "(of_char c :: nat) < 32")
    case True
    let ?k = "of_char c :: nat"
    have "unhex (CHR ''0'') = Some 0" by (simp add: unhex_def)
    moreover have "char_of (16 * (?k div 16) + ?k mod 16) = c" by simp
    moreover have "unhex (hex_char (?k div 16)) = Some (?k div 16)" "unhex (hex_char (?k mod 16)) = Some (?k mod 16)"
      using True by (simp_all add: unhex_hex_char)
    ultimately show ?thesis using True None
      by (simp add: escape_char_def parse_chars.simps(2) [of backslash] Let_def)
  next
    case False
    with None c show ?thesis by (simp add: escape_char_def parse_chars.simps(2) [of c])
  qed
qed

lemma parse_chars_dump: "parse_chars (concat (map escape_char s) @ dquote # rest) = Some (s, rest)"
  by (induction s) (simp_all add: parse_chars.simps(2) [of dquote] parse_chars_escape)

lemma str_nat_digits: "c \<in> set (str_nat n) \<Longrightarrow> is_digit c"
  by (induction n rule: str_nat.induct)
    (subst (asm) (2) str_nat.simps, auto simp: is_digit_def split: if_splits)

text \<open>What may follow a printed value: anything that is not a digit.\<close>

definition follow :: "string \<Rightarrow> bool" where
  "follow rest \<longleftrightarrow> (case rest of [] \<Rightarrow> True | c # _ \<Rightarrow> \<not> is_digit c)"

lemma span_digits:
  "\<forall>c \<in> set ds. is_digit c \<Longrightarrow> follow rest \<Longrightarrow>
     takeWhile is_digit (ds @ rest) = ds \<and> dropWhile is_digit (ds @ rest) = rest"
  by (induction ds) (auto simp: follow_def split: list.splits)

lemma parse_number_str_int: "follow rest \<Longrightarrow> parse_number (str_int i @ rest) = Some (JInt i, rest)"
proof -
  assume f: "follow rest"
  have sp: "takeWhile is_digit (str_nat n @ rest) = str_nat n"
    "dropWhile is_digit (str_nat n @ rest) = rest" for n
    using span_digits [of "str_nat n" rest] f str_nat_digits by blast+
  show ?thesis
  proof (cases "i < 0")
    case True
    with sp parse_int_str_int [of i] show ?thesis by (simp add: parse_number_def str_int_def)
  next
    case False
    then have "hd (str_int i @ rest) \<noteq> CHR ''-''" using str_nat_hd [of "nat i"] by (simp add: str_int_def)
    with False sp parse_int_str_int [of i] show ?thesis by (simp add: parse_number_def str_int_def)
  qed
qed

lemma str_int_hd:
  "\<exists>c cs. str_int i = c # cs \<and> (is_digit c \<or> c = CHR ''-'')"
proof (cases "i < 0")
  case False
  then show ?thesis using str_nat_nonempty [of "nat i"] str_nat_digits [of _ "nat i"]
    by (cases "str_nat (nat i)") (auto simp: str_int_def)
qed (simp add: str_int_def)

text \<open>The fuel a value needs, and that the length of its text is enough.\<close>

fun need :: "json \<Rightarrow> nat" where
  "need (JList xs) = Suc (sum_list (map (\<lambda>x. Suc (need x)) xs))"
| "need (JObj kvs) = Suc (sum_list (map (\<lambda>(k, v). Suc (need v)) kvs))"
| "need j = 1"

lemma skip_ws_space [simp]: "skip_ws (CHR '' '' # s) = skip_ws s"
  by (simp add: skip_ws_def)

lemma skip_ws_other: "c \<notin> set [CHR '' '', CHR 0x09, CHR 0x0A, CHR 0x0D] \<Longrightarrow> skip_ws (c # s) = c # s"
  by (simp add: skip_ws_def)

lemma parse_space [simp]:
  "parse_value n (CHR '' '' # s) = parse_value n s" "parse_members n (CHR '' '' # s) = parse_members n s"
  by (cases n; simp)+

lemma parse_elems_space [simp]: "parse_elems n (CHR '' '' # s) = parse_elems n s"
  by (cases n; simp)

lemma digit_not: "is_digit c \<or> c = CHR ''-'' \<Longrightarrow>
    c \<notin> set [CHR '' '', CHR 0x09, CHR 0x0A, CHR 0x0D, dquote, CHR ''['', CHR ''{'', CHR ''n'', CHR ''t'', CHR ''f'', CHR '']'']"
  by (auto simp: is_digit_def char_digit_def)

lemma json_print_hd:
  "\<exists>c cs. json_print j = c # cs \<and> c \<notin> set [CHR '' '', CHR 0x09, CHR 0x0A, CHR 0x0D, CHR '']'']"
proof (cases j)
  case (JInt i)
  then show ?thesis using str_int_hd [of i] digit_not by fastforce
qed (auto simp: dump_str_def)

lemma follow_simps [simp]:
  "follow []" "follow (CHR '','' # s)" "follow (CHR '']'' # s)" "follow (CHR ''}'' # s)"
  by (simp_all add: follow_def is_digit_def char_digit_def)

lemma parse_elems_print:
  assumes "xs \<noteq> []" and "\<And>x n rest. x \<in> set xs \<Longrightarrow> follow rest \<Longrightarrow> need x \<le> n \<Longrightarrow>
      parse_value n (json_print x @ rest) = Some (x, rest)"
    and "sum_list (map (\<lambda>x. Suc (need x)) xs) \<le> n"
  shows "parse_elems n (join '', '' (map json_print xs) @ CHR '']'' # rest) = Some (xs, rest)"
  using assms
proof (induction xs arbitrary: n rule: induct_list012)
  case (2 x)
  then obtain m where "n = Suc m" "need x \<le> m" by (cases n) auto
  then show ?case using "2.prems"(2) [of x] by (simp add: skip_ws_other)
next
  case (3 x y xs)
  then obtain m where m: "n = Suc m" "need x \<le> m" "sum_list (map (\<lambda>x. Suc (need x)) (y # xs)) \<le> m"
    by (cases n) auto
  have "parse_value m (json_print x @ CHR '','' # r) = Some (x, CHR '','' # r)" for r
    using "3.prems"(2) [of x] m by simp
  moreover have "parse_elems m (join '', '' (map json_print (y # xs)) @ CHR '']'' # rest) = Some (y # xs, rest)"
    using "3.IH"(2) "3.prems"(2) m(3) by simp
  ultimately show ?case using m by (simp add: skip_ws_other)
qed simp

lemma parse_members_print:
  assumes "kvs \<noteq> []" and "\<And>k v n rest. (k, v) \<in> set kvs \<Longrightarrow> follow rest \<Longrightarrow> need v \<le> n \<Longrightarrow>
      parse_value n (json_print v @ rest) = Some (v, rest)"
    and "sum_list (map (\<lambda>(k, v). Suc (need v)) kvs) \<le> n"
  shows "parse_members n (join '', '' (map (\<lambda>(k, v). dump_str k @ '': '' @ json_print v) kvs) @ CHR ''}'' # rest)
     = Some (kvs, rest)"
  using assms
proof (induction kvs arbitrary: n rule: induct_list012)
  case (2 p)
  obtain k v where p: "p = (k, v)" by (cases p)
  with 2 obtain m where "n = Suc m" "need v \<le> m" by (cases n) auto
  then show ?case using "2.prems"(2) [of k v] p by (simp add: skip_ws_other dump_str_def parse_chars_dump)
next
  case (3 p q kvs)
  obtain k v where p: "p = (k, v)" by (cases p)
  with 3 obtain m where m: "n = Suc m" "need v \<le> m" "sum_list (map (\<lambda>(k, v). Suc (need v)) (q # kvs)) \<le> m"
    by (cases n) auto
  have "parse_value m (json_print v @ CHR '','' # r) = Some (v, CHR '','' # r)" for r
    using "3.prems"(2) [of k v] m p by simp
  moreover have "parse_members m (join '', '' (map (\<lambda>(k, v). dump_str k @ '': '' @ json_print v) (q # kvs)) @
      CHR ''}'' # rest) = Some (q # kvs, rest)"
    by (rule "3.IH"(2)) (use "3.prems"(2) m(3) in auto)
  ultimately show ?case using m p by (simp add: skip_ws_other dump_str_def parse_chars_dump)
qed simp

lemma parse_value_print:
  "follow rest \<Longrightarrow> need j \<le> n \<Longrightarrow> parse_value n (json_print j @ rest) = Some (j, rest)"
proof (induction j arbitrary: n rest)
  case (JInt i)
  then obtain m where "n = Suc m" by (cases n) auto
  moreover obtain c cs where c: "str_int i = c # cs" "is_digit c \<or> c = CHR ''-''" using str_int_hd by blast
  ultimately show ?case using parse_number_str_int [OF JInt.prems(1), of i] digit_not [OF c(2)]
    by (simp add: skip_ws_other)
next
  case (JStr s)
  then obtain m where "n = Suc m" by (cases n) auto
  then show ?case by (simp add: dump_str_def skip_ws_other parse_chars_dump)
next
  case (JList xs)
  then obtain m where m: "n = Suc m" "sum_list (map (\<lambda>x. Suc (need x)) xs) \<le> m" by (cases n) auto
  show ?case
  proof (cases xs)
    case Nil
    then show ?thesis by (simp add: m skip_ws_other)
  next
    case (Cons x ys)
    obtain c cs where "json_print x = c # cs" "c \<notin> set [CHR '' '', CHR 0x09, CHR 0x0A, CHR 0x0D, CHR '']'']"
      using json_print_hd by blast
    then obtain r where "join '', '' (map json_print xs) @ CHR '']'' # rest = c # r"
      and "skip_ws (c # r) = c # r" and "c \<noteq> CHR '']''"
      using Cons by (cases ys) (auto simp: skip_ws_other)
    moreover have "parse_elems m (join '', '' (map json_print xs) @ CHR '']'' # rest) = Some (xs, rest)"
      using Cons JList.IH m(2) by (intro parse_elems_print) auto
    ultimately show ?thesis by (simp add: m skip_ws_other)
  qed
next
  case (JObj kvs)
  then obtain m where m: "n = Suc m" "sum_list (map (\<lambda>(k, v). Suc (need v)) kvs) \<le> m" by (cases n) auto
  show ?case
  proof (cases kvs)
    case Nil
    then show ?thesis by (simp add: m skip_ws_other)
  next
    case (Cons p ys)
    let ?t = "join '', '' (map (\<lambda>(k, v). dump_str k @ '': '' @ json_print v) kvs) @ CHR ''}'' # rest"
    obtain r where "?t = dquote # r" using Cons by (cases p; cases ys) (auto simp: dump_str_def)
    moreover have "parse_members m ?t = Some (kvs, rest)"
      using Cons JObj.IH m(2) by (intro parse_members_print) auto
    ultimately show ?thesis by (simp add: m skip_ws_other)
  qed
next
  case JNull
  then obtain m where "n = Suc m" by (cases n) auto
  then show ?case by (simp add: skip_ws_other eat_def)
next
  case (JBool b)
  then obtain m where "n = Suc m" by (cases n) auto
  then show ?case by (cases b) (simp_all add: skip_ws_other eat_def)
qed

lemma length_join: "sum_list (map length xs) \<le> length (join sep xs)"
  by (induction sep xs rule: join.induct) auto

lemma length_join2: "2 \<le> length sep \<Longrightarrow> sum_list (map (\<lambda>x. Suc (length x)) xs) \<le> Suc (length (join sep xs))"
  by (induction sep xs rule: join.induct) auto

lemma need_length: "need j \<le> length (json_print j)"
proof (induction j)
  case (JList xs)
  have "sum_list (map (\<lambda>x. Suc (need x)) xs) \<le> sum_list (map (\<lambda>x. Suc (length x)) (map json_print xs))"
    using JList by (auto intro!: sum_list_mono simp: o_def)
  also have "\<dots> \<le> Suc (length (join '', '' (map json_print xs)))" by (rule length_join2) simp
  finally show ?case by simp
next
  case (JObj kvs)
  have "sum_list (map (\<lambda>(k, v). Suc (need v)) kvs) \<le>
      sum_list (map (\<lambda>x. Suc (length x)) (map (\<lambda>(k, v). dump_str k @ '': '' @ json_print v) kvs))"
    unfolding map_map o_def
  proof (rule sum_list_mono)
    fix p assume p: "p \<in> set kvs"
    obtain k v where kv: "p = (k, v)" by (cases p)
    have "need v \<le> length (json_print v)" using JObj [OF p, of v] kv by simp
    then show "(case p of (k, v) \<Rightarrow> Suc (need v)) \<le>
        Suc (length (case p of (k, v) \<Rightarrow> dump_str k @ '': '' @ json_print v))"
      by (simp add: kv)
  qed
  also have "\<dots> \<le> Suc (length (join '', '' (map (\<lambda>(k, v). dump_str k @ '': '' @ json_print v) kvs)))"
    by (rule length_join2) simp
  finally show ?case by simp
next
  case (JInt i)
  obtain c cs where "str_int i = c # cs" using str_int_hd by blast
  then show ?case by simp
qed (auto simp: dump_str_def)

lemma json_loads_print: "json_loads (json_print j) = Some j"
  using parse_value_print [of "[]" j "Suc (length (json_print j))"] need_length [of j]
  by (simp add: json_loads_def skip_ws_def)

lemma json_loads_dumps: "json_loads (json_dumps j) = Some (sort_json j)"
  by (simp add: json_dumps_def json_loads_print)

lemma sort_json_idem: "sort_json (sort_json j) = sort_json j"
proof (induction j)
  case (JObj kvs)
  let ?f = "\<lambda>(k, v). (k, sort_json v)"
  have "map ?f (sort_key fst (map ?f kvs)) = sort_key fst (map ?f kvs)"
  proof (rule map_idI)
    fix p assume "p \<in> set (sort_key fst (map ?f kvs))"
    then obtain k v where "p = (k, sort_json v)" "(k, v) \<in> set kvs" by auto
    then show "?f p = p" using JObj [of "(k, v)" v] by simp
  qed
  then show ?case by (simp add: sort_key_id_if_sorted)
qed auto

lemma map_of_sort: "distinct (map fst kvs) \<Longrightarrow> map_of (sort_key fst kvs) = map_of (kvs :: (string \<times> 'a) list)"
  by (intro map_of_inject_set [THEN iffD2]) (simp_all add: distinct_map)

end
