(* ===== verification/Sync_Schemas.thy ===== *)
theory Sync_Schemas
  imports Sync_Json
begin

text \<open>
  The request and response schemas of connections: the models of \<open>syncmaster/schemas/v1/auth\<close> and
  \<open>syncmaster/schemas/v1/connections\<close> as lists of fields, validation of a JSON object against such a
  list as pydantic does it, and the validators the models add.  A value of the declared JSON type is
  taken as it is; what pydantic makes of any other value (numeric strings for integers, URLs, which it
  normalises) is a parameter, as pydantic is not part of the repository.
\<close>

section \<open>Models as field lists\<close>

datatype ftype =
    TStr
  | TSecret
  | TInt "int option" "int option"
  | TBool
  | TLiteral "string list"
  | TUrl
  | TDict
  | TListStr
  | TOpt ftype

record field_spec =
  fs_name :: string
  fs_type :: ftype
  fs_default :: "json option"

type_synonym schema = "field_spec list"
type_synonym coercion = "ftype \<Rightarrow> json \<Rightarrow> json option"

definition field :: "string \<Rightarrow> ftype \<Rightarrow> field_spec" where
  "field n t = \<lparr>fs_name = n, fs_type = t, fs_default = None\<rparr>"

definition field_default :: "string \<Rightarrow> ftype \<Rightarrow> json \<Rightarrow> field_spec" where
  "field_default n t v = \<lparr>fs_name = n, fs_type = t, fs_default = Some v\<rparr>"

text \<open>A port: \<open>Field(gt=0, le=65535)\<close>.\<close>

definition TPort :: ftype where
  "TPort = TInt (Some 1) (Some 65535)"

fun is_str :: "json \<Rightarrow> bool" where
  "is_str (JStr _) = True"
| "is_str _ = False"

fun conforms :: "ftype \<Rightarrow> json \<Rightarrow> bool" where
  "conforms TStr v = is_str v"
| "conforms TSecret v = is_str v"
| "conforms (TInt lo hi) v = (case v of
      JInt i \<Rightarrow> (case lo of None \<Rightarrow> True | Some l \<Rightarrow> l \<le> i) \<and> (case hi of None \<Rightarrow> True | Some h \<Rightarrow> i \<le> h)
    | _ \<Rightarrow> False)"
| "conforms TBool v = (case v of JBool _ \<Rightarrow> True | _ \<Rightarrow> False)"
| "conforms (TLiteral ls) v = (case v of JStr s \<Rightarrow> s \<in> set ls | _ \<Rightarrow> False)"
| "conforms TUrl v = False"
| "conforms TDict v = (case v of JObj _ \<Rightarrow> True | _ \<Rightarrow> False)"
| "conforms TListStr v = (case v of JList xs \<Rightarrow> list_all is_str xs | _ \<Rightarrow> False)"
| "conforms (TOpt t) v = (v = JNull \<or> conforms t v)"

definition validate_value :: "coercion \<Rightarrow> ftype \<Rightarrow> json \<Rightarrow> json option" where
  "validate_value lax t v = (if conforms t v then Some v else lax t v)"

definition validate_field :: "coercion \<Rightarrow> field_spec \<Rightarrow> jdict \<Rightarrow> json option" where
  "validate_field lax f input = (case map_of input (fs_name f) of
      None \<Rightarrow> fs_default f
    | Some v \<Rightarrow> validate_value lax (fs_type f) v)"

text \<open>
  \<open>Model.model_validate(input).model_dump(mode="json")\<close>: every field in the declared order, keys that are
  not fields dropped; \<open>None\<close> is a \<open>ValidationError\<close>.
\<close>

fun validate_model :: "coercion \<Rightarrow> schema \<Rightarrow> jdict \<Rightarrow> jdict option" where
  "validate_model lax [] input = Some []"
| "validate_model lax (f # fs) input = (case validate_field lax f input of
      None \<Rightarrow> None
    | Some v \<Rightarrow> map_option (\<lambda>r. (fs_name f, v) # r) (validate_model lax fs input))"

section \<open>Credentials\<close>

datatype auth_type =
    BasicAuth
  | S3Auth
  | SambaAuth
  | IcebergBearer
  | IcebergOAuth2
  | IcebergBearerS3Basic
  | IcebergOAuth2S3Basic

fun auth_type_value :: "auth_type \<Rightarrow> string" where
  "auth_type_value BasicAuth = ''basic''"
| "auth_type_value S3Auth = ''s3''"
| "auth_type_value SambaAuth = ''samba''"
| "auth_type_value IcebergBearer = ''iceberg_rest_bearer''"
| "auth_type_value IcebergOAuth2 = ''iceberg_rest_oauth2_client_credentials''"
| "auth_type_value IcebergBearerS3Basic = ''iceberg_rest_bearer_s3_basic''"
| "auth_type_value IcebergOAuth2S3Basic = ''iceberg_rest_oauth2_client_credentials_s3_basic''"

definition type_field :: "string \<Rightarrow> field_spec" where
  "type_field v = field_default ''type'' (TLiteral [v]) (JStr v)"

definition ReadBasicAuthSchema :: schema where
  "ReadBasicAuthSchema = [type_field ''basic'', field ''user'' TStr]"

definition ReadS3AuthSchema :: schema where
  "ReadS3AuthSchema = [type_field ''s3'', field ''access_key'' TStr]"

definition ReadSambaAuthSchema :: schema where
  "ReadSambaAuthSchema = [type_field ''samba'', field ''user'' TStr,
     field_default ''auth_type'' (TLiteral [''NTLMv1'', ''NTLMv2'']) (JStr ''NTLMv2'')]"

definition ReadIcebergRESTCatalogBearerAuthSchema :: schema where
  "ReadIcebergRESTCatalogBearerAuthSchema = [type_field ''iceberg_rest_bearer'']"

text \<open>The OAuth2 fields of the two Iceberg models; the token endpoint is a URL in one and a string in the other.\<close>

definition oauth2_fields :: "ftype \<Rightarrow> schema" where
  "oauth2_fields endpoint =
     [field ''rest_catalog_oauth2_client_id'' TStr,
      field_default ''rest_catalog_oauth2_scopes'' TListStr (JList []),
      field_default ''rest_catalog_oauth2_resource'' (TOpt TStr) JNull,
      field_default ''rest_catalog_oauth2_audience'' (TOpt TStr) JNull,
      field_default ''rest_catalog_oauth2_token_endpoint'' (TOpt endpoint) JNull]"

definition ReadIcebergRESTCatalogOAuth2ClientCredentialsAuthSchema :: schema where
  "ReadIcebergRESTCatalogOAuth2ClientCredentialsAuthSchema =
     type_field ''iceberg_rest_oauth2_client_credentials'' # oauth2_fields TUrl"

definition ReadIcebergRESTCatalogBearerS3BasicAuthSchema :: schema where
  "ReadIcebergRESTCatalogBearerS3BasicAuthSchema =
     [type_field ''iceberg_rest_bearer_s3_basic'', field ''s3_access_key'' TStr]"

definition ReadIcebergRESTCatalogOAuth2ClientCredentialsS3BasicAuthSchema :: schema where
  "ReadIcebergRESTCatalogOAuth2ClientCredentialsS3BasicAuthSchema =
     type_field ''iceberg_rest_oauth2_client_credentials_s3_basic'' #
     oauth2_fields TStr @ [field ''s3_access_key'' TStr]"

fun read_auth_schema :: "auth_type \<Rightarrow> schema" where
  "read_auth_schema BasicAuth = ReadBasicAuthSchema"
| "read_auth_schema S3Auth = ReadS3AuthSchema"
| "read_auth_schema SambaAuth = ReadSambaAuthSchema"
| "read_auth_schema IcebergBearer = ReadIcebergRESTCatalogBearerAuthSchema"
| "read_auth_schema IcebergOAuth2 = ReadIcebergRESTCatalogOAuth2ClientCredentialsAuthSchema"
| "read_auth_schema IcebergBearerS3Basic = ReadIcebergRESTCatalogBearerS3BasicAuthSchema"
| "read_auth_schema IcebergOAuth2S3Basic = ReadIcebergRESTCatalogOAuth2ClientCredentialsS3BasicAuthSchema"

text \<open>\<open>get_secret_fields\<close> of the update schemas, which are also the fields the create schemas add.\<close>

fun get_secret_fields :: "auth_type \<Rightarrow> string list" where
  "get_secret_fields BasicAuth = [''password'']"
| "get_secret_fields S3Auth = [''secret_key'']"
| "get_secret_fields SambaAuth = [''password'']"
| "get_secret_fields IcebergBearer = [''rest_catalog_token'']"
| "get_secret_fields IcebergOAuth2 = [''rest_catalog_oauth2_client_secret'']"
| "get_secret_fields IcebergBearerS3Basic = [''rest_catalog_token'', ''s3_secret_key'']"
| "get_secret_fields IcebergOAuth2S3Basic = [''rest_catalog_oauth2_client_secret'', ''s3_secret_key'']"

datatype schema_mode = ReadMode | CreateMode | UpdateMode

definition auth_schema :: "schema_mode \<Rightarrow> auth_type \<Rightarrow> schema" where
  "auth_schema mode a = read_auth_schema a @ (case mode of
      ReadMode \<Rightarrow> []
    | CreateMode \<Rightarrow> map (\<lambda>n. field n TSecret) (get_secret_fields a)
    | UpdateMode \<Rightarrow> map (\<lambda>n. field_default n (TOpt TSecret) JNull) (get_secret_fields a))"

text \<open>The credentials a connection type accepts; Iceberg discriminates its four models by the key \<open>type\<close>.\<close>

definition connection_auth_types :: "connection_type \<Rightarrow> auth_type list" where
  "connection_auth_types ct = (case ct of
      S3 \<Rightarrow> [S3Auth]
    | SAMBA \<Rightarrow> [SambaAuth]
    | ICEBERG \<Rightarrow> [IcebergBearerS3Basic, IcebergOAuth2S3Basic, IcebergBearer, IcebergOAuth2]
    | _ \<Rightarrow> [BasicAuth])"

definition discriminate :: "auth_type list \<Rightarrow> jdict \<Rightarrow> auth_type option" where
  "discriminate as input = (case as of
      [a] \<Rightarrow> Some a
    | _ \<Rightarrow> List.find (\<lambda>a. map_of input ''type'' = Some (JStr (auth_type_value a))) as)"

definition validate_auth :: "coercion \<Rightarrow> schema_mode \<Rightarrow> connection_type \<Rightarrow> jdict \<Rightarrow> (auth_type \<times> jdict) option" where
  "validate_auth lax mode ct input = (case discriminate (connection_auth_types ct) input of
      None \<Rightarrow> None
    | Some a \<Rightarrow> map_option (Pair a) (validate_model lax (auth_schema mode a) input))"

section \<open>Connection data\<close>

definition host_port_schema :: "int \<Rightarrow> schema" where
  "host_port_schema port = [field ''host'' TStr, field_default ''port'' TPort (JInt port)]"

definition additional_params :: field_spec where
  "additional_params = field_default ''additional_params'' TDict (JObj [])"

definition PostgresConnectionDataSchema :: schema where
  "PostgresConnectionDataSchema = host_port_schema 5432 @ [field ''database_name'' TStr, additional_params]"

definition ClickhouseConnectionDataSchema :: schema where
  "ClickhouseConnectionDataSchema =
     host_port_schema 8123 @ [field_default ''database_name'' (TOpt TStr) JNull, additional_params]"

definition MSSQLConnectionDataSchema :: schema where
  "MSSQLConnectionDataSchema = host_port_schema 1433 @ [field ''database_name'' TStr, additional_params]"

definition MySQLConnectionDataSchema :: schema where
  "MySQLConnectionDataSchema =
     host_port_schema 3306 @ [field_default ''database_name'' (TOpt TStr) JNull, additional_params]"

definition OracleConnectionDataSchema :: schema where
  "OracleConnectionDataSchema =
     host_port_schema 1521 @ [field_default ''service_name'' (TOpt TStr) JNull,
       field_default ''sid'' (TOpt TStr) JNull, additional_params]"

definition HiveConnectionDataSchema :: schema where
  "HiveConnectionDataSchema = [field ''cluster'' TStr]"

definition HDFSConnectionDataSchema :: schema where
  "HDFSConnectionDataSchema = [field ''cluster'' TStr]"

definition FTPConnectionDataSchema :: schema where
  "FTPConnectionDataSchema = host_port_schema 21"

definition FTPSConnectionDataSchema :: schema where
  "FTPSConnectionDataSchema = host_port_schema 21"

definition SFTPConnectionDataSchema :: schema where
  "SFTPConnectionDataSchema = host_port_schema 22"

definition SambaConnectionDataSchema :: schema where
  "SambaConnectionDataSchema =
     [field ''host'' TStr, field ''share'' TStr, field_default ''port'' (TOpt TPort) JNull,
      field_default ''protocol'' (TLiteral [''SMB'', ''NetBIOS'']) (JStr ''SMB''),
      field_default ''domain'' TStr (JStr [])]"

definition WebDAVConnectionDataSchema :: schema where
  "WebDAVConnectionDataSchema =
     [field ''host'' TStr, field_default ''port'' (TOpt TPort) JNull,
      field_default ''protocol'' (TLiteral [''http'', ''https'']) (JStr ''https'')]"

definition ReadS3ConnectionDataSchema :: schema where
  "ReadS3ConnectionDataSchema =
     [field ''host'' TStr, field ''bucket'' TStr,
      field_default ''protocol'' (TLiteral [''http'', ''https'']) (JStr ''https''),
      field ''region'' TStr, field_default ''port'' (TOpt TPort) JNull,
      field_default ''bucket_style'' (TLiteral [''domain'', ''path'']) (JStr ''path''), additional_params]"

definition IcebergRESTCatalogS3DirectConnectionDataSchema :: schema where
  "IcebergRESTCatalogS3DirectConnectionDataSchema =
     [type_field ''iceberg_rest_s3_direct'', field ''rest_catalog_url'' TUrl, field ''s3_warehouse_path'' TStr,
      field ''s3_host'' TStr, field_default ''s3_port'' (TOpt TPort) JNull,
      field_default ''s3_protocol'' (TLiteral [''http'', ''https'']) (JStr ''https''),
      field ''s3_bucket'' TStr, field ''s3_region'' TStr,
      field_default ''s3_bucket_style'' (TLiteral [''domain'', ''path'']) (JStr ''path''),
      field_default ''s3_additional_params'' TDict (JObj [])]"

definition IcebergRESTCatalogS3DelegatedConnectionDataSchema :: schema where
  "IcebergRESTCatalogS3DelegatedConnectionDataSchema =
     [type_field ''iceberg_rest_s3_delegated'', field ''rest_catalog_url'' TUrl,
      field_default ''s3_warehouse_name'' (TOpt TStr) JNull,
      field_default ''s3_access_delegation'' (TLiteral [''vended-credentials'', ''remote-signing''])
        (JStr ''vended-credentials'')]"

text \<open>The Iceberg union, discriminated by \<open>type\<close>.\<close>

definition iceberg_data_schema :: "jdict \<Rightarrow> schema option" where
  "iceberg_data_schema input =
     (if map_of input ''type'' = Some (JStr ''iceberg_rest_s3_direct'')
      then Some IcebergRESTCatalogS3DirectConnectionDataSchema
      else if map_of input ''type'' = Some (JStr ''iceberg_rest_s3_delegated'')
      then Some IcebergRESTCatalogS3DelegatedConnectionDataSchema
      else None)"

definition connection_data_schema :: "connection_type \<Rightarrow> jdict \<Rightarrow> schema option" where
  "connection_data_schema ct input = (case ct of
      POSTGRES \<Rightarrow> Some PostgresConnectionDataSchema
    | HIVE \<Rightarrow> Some HiveConnectionDataSchema
    | ICEBERG \<Rightarrow> iceberg_data_schema input
    | ORACLE \<Rightarrow> Some OracleConnectionDataSchema
    | CLICKHOUSE \<Rightarrow> Some ClickhouseConnectionDataSchema
    | MSSQL \<Rightarrow> Some MSSQLConnectionDataSchema
    | MYSQL \<Rightarrow> Some MySQLConnectionDataSchema
    | S3 \<Rightarrow> Some ReadS3ConnectionDataSchema
    | HDFS \<Rightarrow> Some HDFSConnectionDataSchema
    | SFTP \<Rightarrow> Some SFTPConnectionDataSchema
    | FTP \<Rightarrow> Some FTPConnectionDataSchema
    | FTPS \<Rightarrow> Some FTPSConnectionDataSchema
    | WEBDAV \<Rightarrow> Some WebDAVConnectionDataSchema
    | SAMBA \<Rightarrow> Some SambaConnectionDataSchema)"

text \<open>\<open>OracleConnectionDataSchema.validate_connection_identifiers\<close>: truthy \<open>sid\<close> and \<open>service_name\<close> exclude each other.\<close>

definition truthy :: "json option \<Rightarrow> bool" where
  "truthy v = (case v of
      None \<Rightarrow> False
    | Some j \<Rightarrow> (case j of
        JNull \<Rightarrow> False
      | JBool b \<Rightarrow> b
      | JInt i \<Rightarrow> i \<noteq> 0
      | JStr s \<Rightarrow> s \<noteq> []
      | JList xs \<Rightarrow> xs \<noteq> []
      | JObj kvs \<Rightarrow> kvs \<noteq> []))"

definition validate_connection_identifiers :: "jdict \<Rightarrow> bool" where
  "validate_connection_identifiers input \<longleftrightarrow>
     \<not> (truthy (map_of input ''sid'') \<and> truthy (map_of input ''service_name''))"

text \<open>\<open>CreateS3ConnectionDataSchema.validate_port\<close>: the port of the protocol when none is given.\<close>

definition validate_port :: "jdict \<Rightarrow> jdict" where
  "validate_port r =
     (if map_of r ''port'' = Some JNull
      then dict_set r ''port'' (JInt (if map_of r ''protocol'' = Some (JStr ''https'') then 443 else 80))
      else r)"

definition validate_connection_data :: "coercion \<Rightarrow> schema_mode \<Rightarrow> connection_type \<Rightarrow> jdict \<Rightarrow> jdict option" where
  "validate_connection_data lax mode ct input = (case connection_data_schema ct input of
      None \<Rightarrow> None
    | Some sc \<Rightarrow>
        if ct = ORACLE \<and> \<not> validate_connection_identifiers input then None
        else (case validate_model lax sc input of
            None \<Rightarrow> None
          | Some r \<Rightarrow> Some (if ct = S3 \<and> mode \<noteq> ReadMode then validate_port r else r)))"

text \<open>\<open>CreateIcebergConnectionSchema.connection_and_auth_data_match\<close>: direct S3 access needs S3 credentials.\<close>

definition connection_and_auth_data_match :: "jdict \<Rightarrow> auth_type \<Rightarrow> bool" where
  "connection_and_auth_data_match data a \<longleftrightarrow>
     (let s3 = a \<in> {IcebergBearerS3Basic, IcebergOAuth2S3Basic} in
      (map_of data ''type'' = Some (JStr ''iceberg_rest_s3_direct'') \<longrightarrow> s3) \<and>
      (map_of data ''type'' = Some (JStr ''iceberg_rest_s3_delegated'') \<longrightarrow> \<not> s3))"

section \<open>What validation guarantees\<close>

lemma validate_model_keys: "validate_model lax fs input = Some r \<Longrightarrow> map fst r = map fs_name fs"
  by (induction fs arbitrary: r) (auto split: option.splits)

lemma validate_model_map_of:
  "validate_model lax fs input = Some r \<Longrightarrow> distinct (map fs_name fs) \<Longrightarrow> f \<in> set fs \<Longrightarrow>
     map_of r (fs_name f) = validate_field lax f input"
proof (induction fs arbitrary: r)
  case (Cons g fs)
  then have "fs_name f \<noteq> fs_name g" if "f \<in> set fs" using that by (metis distinct.simps(2) image_eqI list.simps(9) set_map)
  with Cons show ?case by (auto split: option.splits)
qed simp

lemma validate_model_total:
  "validate_model lax fs input \<noteq> None \<longleftrightarrow> (\<forall>f \<in> set fs. validate_field lax f input \<noteq> None)"
  by (induction fs) (auto split: option.splits)

text \<open>Two inputs that agree on the fields of a model validate to the same dump.\<close>

lemma validate_model_cong:
  "(\<And>f. f \<in> set fs \<Longrightarrow> validate_field lax f x = validate_field lax f y) \<Longrightarrow>
     validate_model lax fs x = validate_model lax fs y"
  by (induction fs) (auto split: option.splits)

text \<open>
  Re-validation.  A dump validated once is a fixed point, given that pydantic maps a value it
  produced to itself and that the defaults are of their type.
\<close>

definition stable :: "coercion \<Rightarrow> bool" where
  "stable lax \<longleftrightarrow> (\<forall>t v w. lax t v = Some w \<longrightarrow> conforms t w \<or> lax t w = Some w)"

definition defaults_ok :: "schema \<Rightarrow> bool" where
  "defaults_ok fs \<longleftrightarrow> list_all (\<lambda>f. case fs_default f of None \<Rightarrow> True | Some v \<Rightarrow> conforms (fs_type f) v) fs"

lemma validate_value_stable: "stable lax \<Longrightarrow> validate_value lax t v = Some w \<Longrightarrow> validate_value lax t w = Some w"
  by (auto simp: validate_value_def stable_def split: if_splits)

lemma validate_field_again:
  assumes "stable lax" and "defaults_ok fs" and "f \<in> set fs" and "validate_field lax f input = Some v"
    and "map_of r (fs_name f) = Some v"
  shows "validate_field lax f r = Some v"
proof (cases "map_of input (fs_name f)")
  case None
  with assms(2,3,4) have "conforms (fs_type f) v"
    by (auto simp: validate_field_def defaults_ok_def list_all_iff)
  then show ?thesis by (simp add: validate_field_def assms(5) validate_value_def)
next
  case (Some u)
  with assms(4) validate_value_stable [OF assms(1)] show ?thesis
    by (simp add: validate_field_def assms(5))
qed

lemma validate_model_again:
  assumes "stable lax" and "defaults_ok fs" and "distinct (map fs_name fs)"
    and "validate_model lax fs input = Some r"
  shows "validate_model lax fs r = Some r"
proof -
  have "validate_field lax f r = validate_field lax f input" if f: "f \<in> set fs" for f
  proof -
    from validate_model_total [of lax fs input] assms(4) f obtain v where v: "validate_field lax f input = Some v"
      by auto
    with validate_model_map_of [OF assms(4,3) f] validate_field_again [OF assms(1,2) f v] show ?thesis by simp
  qed
  then show ?thesis using assms(4) validate_model_cong [of fs lax r input] by simp
qed

definition all_auth_types :: "auth_type list" where
  "all_auth_types = [BasicAuth, S3Auth, SambaAuth, IcebergBearer, IcebergOAuth2, IcebergBearerS3Basic,
     IcebergOAuth2S3Basic]"

lemma all_auth_types: "a \<in> set all_auth_types"
  by (cases a) (simp_all add: all_auth_types_def)

lemma schema_defs_ok:
  "defaults_ok (auth_schema mode a) \<and> distinct (map fs_name (auth_schema mode a))"
proof -
  have "\<forall>m \<in> set [ReadMode, CreateMode, UpdateMode]. \<forall>b \<in> set all_auth_types.
    defaults_ok (auth_schema m b) \<and> distinct (map fs_name (auth_schema m b))"
    by code_simp
  moreover have "mode \<in> set [ReadMode, CreateMode, UpdateMode]" by (cases mode) simp_all
  ultimately show ?thesis using all_auth_types [of a] by blast
qed

lemma connection_data_schema_ok:
  "connection_data_schema ct input = Some sc \<Longrightarrow> defaults_ok sc \<and> distinct (map fs_name sc)"
proof -
  have "\<forall>sc \<in> set [PostgresConnectionDataSchema, HiveConnectionDataSchema,
      IcebergRESTCatalogS3DirectConnectionDataSchema, IcebergRESTCatalogS3DelegatedConnectionDataSchema,
      OracleConnectionDataSchema, ClickhouseConnectionDataSchema, MSSQLConnectionDataSchema,
      MySQLConnectionDataSchema, ReadS3ConnectionDataSchema, HDFSConnectionDataSchema, SFTPConnectionDataSchema,
      FTPConnectionDataSchema, FTPSConnectionDataSchema, WebDAVConnectionDataSchema, SambaConnectionDataSchema].
    defaults_ok sc \<and> distinct (map fs_name sc)"
    by code_simp
  moreover assume "connection_data_schema ct input = Some sc"
  ultimately show ?thesis
    by (cases ct) (auto simp: connection_data_schema_def iceberg_data_schema_def split: if_splits)
qed

text \<open>What a response can show of credentials: the fields of the read model, none of them a secret.\<close>

lemma read_auth_no_secret: "set (map fs_name (read_auth_schema b)) \<inter> set (get_secret_fields a) = {}"
proof -
  have "\<forall>x \<in> set all_auth_types. \<forall>y \<in> set all_auth_types.
    list_all (\<lambda>n. n \<notin> set (get_secret_fields x)) (map fs_name (read_auth_schema y))"
    by code_simp
  then have "list_all (\<lambda>n. n \<notin> set (get_secret_fields a)) (map fs_name (read_auth_schema b))"
    using all_auth_types by blast
  then show ?thesis by (auto simp: list_all_iff)
qed

lemma validate_auth_read_secret:
  assumes "validate_auth lax ReadMode ct input = Some (b, r)" and "s \<in> set (get_secret_fields a)"
  shows "map_of r s = None"
proof -
  from assms(1) have "validate_model lax (read_auth_schema b) input = Some r"
    by (auto simp: validate_auth_def auth_schema_def split: option.splits)
  from validate_model_keys [OF this] read_auth_no_secret [of b a] assms(2) have "s \<notin> fst ` set r"
    by (metis disjoint_iff set_map)
  then show ?thesis by (simp add: map_of_eq_None_iff)
qed

text \<open>Credentials accepted by the create or update model of a connection are readable by its read model.\<close>

lemma auth_schema_prefix: "f \<in> set (read_auth_schema a) \<Longrightarrow> f \<in> set (auth_schema mode a)"
  by (simp add: auth_schema_def)

lemma discriminate_type:
  assumes "discriminate (connection_auth_types ct) input = Some a"
    and "validate_model lax (auth_schema mode a) input = Some r" and "map_of r' ''type'' = map_of r ''type''"
  shows "discriminate (connection_auth_types ct) r' = Some a"
proof (cases "ct = ICEBERG")
  case False
  with assms(1) show ?thesis by (cases ct) (simp_all add: connection_auth_types_def discriminate_def)
next
  case True
  let ?as = "[IcebergBearerS3Basic, IcebergOAuth2S3Basic, IcebergBearer, IcebergOAuth2]"
  from True assms(1) have "List.find (\<lambda>a. map_of input ''type'' = Some (JStr (auth_type_value a))) ?as = Some a"
    by (simp only: connection_auth_types_def discriminate_def connection_type.case list.case)
  then have a: "a \<in> set ?as" and t: "map_of input ''type'' = Some (JStr (auth_type_value a))"
    by (blast dest: find_SomeD)+
  have f: "type_field (auth_type_value a) \<in> set (auth_schema mode a)"
    by (rule auth_schema_prefix) (use a in \<open>auto simp: ReadIcebergRESTCatalogBearerAuthSchema_def
      ReadIcebergRESTCatalogOAuth2ClientCredentialsAuthSchema_def ReadIcebergRESTCatalogBearerS3BasicAuthSchema_def
      ReadIcebergRESTCatalogOAuth2ClientCredentialsS3BasicAuthSchema_def\<close>)
  have "map_of r ''type'' = Some (JStr (auth_type_value a))"
    using validate_model_map_of [OF assms(2) _ f] schema_defs_ok [of mode a] t
    by (simp add: type_field_def field_default_def validate_field_def validate_value_def)
  with True a assms(3) show ?thesis by (auto simp: connection_auth_types_def discriminate_def)
qed

lemma validate_auth_readable:
  assumes "stable lax" and "validate_auth lax mode ct input = Some (a, r)"
    and "\<And>k. k \<notin> set (get_secret_fields a) \<Longrightarrow> map_of r' k = map_of r k"
  shows "\<exists>q. validate_auth lax ReadMode ct r' = Some (a, q)"
proof -
  from assms(2) have d: "discriminate (connection_auth_types ct) input = Some a"
    and v: "validate_model lax (auth_schema mode a) input = Some r"
    by (auto simp: validate_auth_def split: option.splits)
  note ok = schema_defs_ok [of mode a]
  have "validate_field lax f r' \<noteq> None" if f: "f \<in> set (read_auth_schema a)" for f
  proof -
    have nf: "fs_name f \<notin> set (get_secret_fields a)" using read_auth_no_secret [of a a] f by auto
    have f': "f \<in> set (auth_schema mode a)" using f by (rule auth_schema_prefix)
    with validate_model_total [of lax "auth_schema mode a" input] v obtain w
      where w: "validate_field lax f input = Some w" by auto
    have "map_of r' (fs_name f) = Some w"
      using assms(3) [OF nf] validate_model_map_of [OF v _ f'] ok w by simp
    with validate_field_again [OF assms(1) _ f' w] ok show ?thesis by simp
  qed
  moreover have "''type'' \<notin> set (get_secret_fields a)" by (cases a) auto
  with assms(3) have "discriminate (connection_auth_types ct) r' = Some a"
    using discriminate_type [OF d v] by blast
  ultimately show ?thesis
    using validate_model_total [of lax "read_auth_schema a" r'] by (auto simp: validate_auth_def auth_schema_def)
qed

end
