(* ===== verification/Sync_Store.thy ===== *)
theory Sync_Store
  imports Sync_Model
begin

text \<open>
  The statements of the database layer.  Each table has its insert, its update of one row by id and
  its delete; a delete cascades along the foreign keys declared \<open>ON DELETE CASCADE\<close>.  The
  invariants at the end are what the schema promises of every database the statements can produce:
  primary keys, unique constraints, foreign keys.
\<close>

section \<open>Inserts\<close>

definition insert_user :: "(int \<Rightarrow> user) \<Rightarrow> db \<Rightarrow> (user \<times> db) res" where
  "insert_user mk d = (let r = mk (seq_user d) in
     if list_ex (\<lambda>x. username x = username r) (users d) then Inl (IntegrityError ''ix__user__username'')
     else Inr (r, d\<lparr>users := users d @ [r], seq_user := seq_user d + 1\<rparr>))"

definition insert_group :: "(int \<Rightarrow> group) \<Rightarrow> db \<Rightarrow> (group \<times> db) res" where
  "insert_group mk d = (let r = mk (seq_group d) in
     if list_ex (\<lambda>x. gname x = gname r) (groups d) then Inl (IntegrityError ''uq__group__name'')
     else if \<not> has_row (owner_id r) (users d) then Inl (IntegrityError ''fk__group__owner_id__user'')
     else Inr (r, d\<lparr>groups := groups d @ [r], seq_group := seq_group d + 1\<rparr>))"

definition insert_user_group :: "user_group \<Rightarrow> db \<Rightarrow> (user_group \<times> db) res" where
  "insert_user_group r d =
     (if get_user_group_row (ug_group_id r) (ug_user_id r) d \<noteq> None
      then Inl (IntegrityError ''pk__user_group'')
      else if \<not> has_row (ug_group_id r) (groups d)
      then Inl (IntegrityError ''fk__user_group__group_id__group'')
      else if \<not> has_row (ug_user_id r) (users d)
      then Inl (IntegrityError ''fk__user_group__user_id__user'')
      else Inr (r, d\<lparr>user_groups := user_groups d @ [r]\<rparr>))"

text \<open>Two rows of a resource table collide on the constraint \<open>UNIQUE (name, group_id)\<close>.\<close>

definition same_name :: "'a resource_scheme \<Rightarrow> 'b resource_scheme \<Rightarrow> bool" where
  "same_name x y \<longleftrightarrow> rname x = rname y \<and> group_id x = group_id y"

definition insert_connection :: "(int \<Rightarrow> connection) \<Rightarrow> db \<Rightarrow> (connection \<times> db) res" where
  "insert_connection mk d = (let r = mk (seq_connection d) in
     if list_ex (\<lambda>x. same_name x r) (connections d)
     then Inl (IntegrityError ''uq__connection__name_group_id'')
     else if \<not> has_row (group_id r) (groups d)
     then Inl (IntegrityError ''fk__connection__group_id__group'')
     else Inr (r, d\<lparr>connections := connections d @ [r], seq_connection := seq_connection d + 1\<rparr>))"

definition insert_auth_data :: "auth_data \<Rightarrow> db \<Rightarrow> (auth_data \<times> db) res" where
  "insert_auth_data r d =
     (if get_auth_row (ad_connection_id r) d \<noteq> None then Inl (IntegrityError ''pk__auth_data'')
      else if \<not> has_row (ad_connection_id r) (connections d)
      then Inl (IntegrityError ''fk__auth_data__connection_id__connection'')
      else Inr (r, d\<lparr>auth_datas := auth_datas d @ [r]\<rparr>))"

definition insert_queue :: "(int \<Rightarrow> queue) \<Rightarrow> db \<Rightarrow> (queue \<times> db) res" where
  "insert_queue mk d = (let r = mk (seq_queue d) in
     if list_ex (\<lambda>x. slug x = slug r) (queues d) then Inl (IntegrityError ''uq__queue__slug'')
     else if \<not> has_row (group_id r) (groups d) then Inl (IntegrityError ''fk__queue__group_id__group'')
     else Inr (r, d\<lparr>queues := queues d @ [r], seq_queue := seq_queue d + 1\<rparr>))"

text \<open>The foreign keys of a transfer row, in the order the migration declares them.\<close>

definition transfer_fk :: "transfer \<Rightarrow> db \<Rightarrow> string option" where
  "transfer_fk r d =
     (if \<not> has_row (group_id r) (groups d) then Some ''fk__transfer__group_id__group''
      else if \<not> has_row (queue_id r) (queues d) then Some ''fk__transfer__queue_id__queue''
      else if \<not> has_row (source_connection_id r) (connections d)
      then Some ''fk__transfer__source_connection_id__connection''
      else if \<not> has_row (target_connection_id r) (connections d)
      then Some ''fk__transfer__target_connection_id__connection''
      else None)"

definition insert_transfer :: "(int \<Rightarrow> transfer) \<Rightarrow> db \<Rightarrow> (transfer \<times> db) res" where
  "insert_transfer mk d = (let r = mk (seq_transfer d) in
     if list_ex (\<lambda>x. same_name x r) (transfers d)
     then Inl (IntegrityError ''uq__transfer__name_group_id'')
     else (case transfer_fk r d of
         Some c \<Rightarrow> Inl (IntegrityError c)
       | None \<Rightarrow> Inr (r, d\<lparr>transfers := transfers d @ [r], seq_transfer := seq_transfer d + 1\<rparr>)))"

definition insert_run :: "(int \<Rightarrow> run) \<Rightarrow> db \<Rightarrow> (run \<times> db) res" where
  "insert_run mk d = (let r = mk (seq_run d) in
     if \<not> has_row (transfer_id r) (transfers d) then Inl (IntegrityError ''fk__run__transfer_id__transfer'')
     else Inr (r, d\<lparr>runs := runs d @ [r], seq_run := seq_run d + 1\<rparr>))"

section \<open>Updates of one row\<close>

text \<open>
  \<open>Repository._update\<close>: \<open>UPDATE \<dots> WHERE id = i RETURNING\<close>, then \<open>one()\<close>; no row is an
  \<open>EntityNotFoundError\<close>.  The function \<open>f\<close> gives the new values of the row; it does not change the
  id, and the caller sets \<open>updated_at\<close>.
\<close>

definition update_user_row :: "int \<Rightarrow> (user \<Rightarrow> user) \<Rightarrow> db \<Rightarrow> (user \<times> db) res" where
  "update_user_row i f d = (case get_row i (users d) of
      None \<Rightarrow> Inl EntityNotFoundError
    | Some r0 \<Rightarrow> (let r = (f r0)\<lparr>pk := i\<rparr> in
        if list_ex (\<lambda>x. pk x \<noteq> i \<and> username x = username r) (users d)
        then Inl (IntegrityError ''ix__user__username'')
        else Inr (r, d\<lparr>users := set_row r (users d)\<rparr>)))"

definition update_group_row :: "int \<Rightarrow> (group \<Rightarrow> group) \<Rightarrow> db \<Rightarrow> (group \<times> db) res" where
  "update_group_row i f d = (case get_row i (groups d) of
      None \<Rightarrow> Inl EntityNotFoundError
    | Some r0 \<Rightarrow> (let r = (f r0)\<lparr>pk := i\<rparr> in
        if list_ex (\<lambda>x. pk x \<noteq> i \<and> gname x = gname r) (groups d)
        then Inl (IntegrityError ''uq__group__name'')
        else if \<not> has_row (owner_id r) (users d) then Inl (IntegrityError ''fk__group__owner_id__user'')
        else Inr (r, d\<lparr>groups := set_row r (groups d)\<rparr>)))"

definition update_connection_row :: "int \<Rightarrow> (connection \<Rightarrow> connection) \<Rightarrow> db \<Rightarrow> (connection \<times> db) res" where
  "update_connection_row i f d = (case get_row i (connections d) of
      None \<Rightarrow> Inl EntityNotFoundError
    | Some r0 \<Rightarrow> (let r = (f r0)\<lparr>pk := i\<rparr> in
        if list_ex (\<lambda>x. pk x \<noteq> i \<and> same_name x r) (connections d)
        then Inl (IntegrityError ''uq__connection__name_group_id'')
        else if \<not> has_row (group_id r) (groups d)
        then Inl (IntegrityError ''fk__connection__group_id__group'')
        else Inr (r, d\<lparr>connections := set_row r (connections d)\<rparr>)))"

definition update_queue_row :: "int \<Rightarrow> (queue \<Rightarrow> queue) \<Rightarrow> db \<Rightarrow> (queue \<times> db) res" where
  "update_queue_row i f d = (case get_row i (queues d) of
      None \<Rightarrow> Inl EntityNotFoundError
    | Some r0 \<Rightarrow> (let r = (f r0)\<lparr>pk := i\<rparr> in
        if list_ex (\<lambda>x. pk x \<noteq> i \<and> slug x = slug r) (queues d)
        then Inl (IntegrityError ''uq__queue__slug'')
        else if \<not> has_row (group_id r) (groups d) then Inl (IntegrityError ''fk__queue__group_id__group'')
        else Inr (r, d\<lparr>queues := set_row r (queues d)\<rparr>)))"

definition update_transfer_row :: "int \<Rightarrow> (transfer \<Rightarrow> transfer) \<Rightarrow> db \<Rightarrow> (transfer \<times> db) res" where
  "update_transfer_row i f d = (case get_row i (transfers d) of
      None \<Rightarrow> Inl EntityNotFoundError
    | Some r0 \<Rightarrow> (let r = (f r0)\<lparr>pk := i\<rparr> in
        if list_ex (\<lambda>x. pk x \<noteq> i \<and> same_name x r) (transfers d)
        then Inl (IntegrityError ''uq__transfer__name_group_id'')
        else (case transfer_fk r d of
            Some c \<Rightarrow> Inl (IntegrityError c)
          | None \<Rightarrow> Inr (r, d\<lparr>transfers := set_row r (transfers d)\<rparr>))))"

definition update_run_row :: "int \<Rightarrow> (run \<Rightarrow> run) \<Rightarrow> db \<Rightarrow> (run \<times> db) res" where
  "update_run_row i f d = (case get_row i (runs d) of
      None \<Rightarrow> Inl EntityNotFoundError
    | Some r0 \<Rightarrow> (let r = (f r0)\<lparr>pk := i\<rparr> in
        if \<not> has_row (transfer_id r) (transfers d) then Inl (IntegrityError ''fk__run__transfer_id__transfer'')
        else Inr (r, d\<lparr>runs := set_row r (runs d)\<rparr>)))"

definition update_auth_data_row :: "int \<Rightarrow> string \<Rightarrow> db \<Rightarrow> (auth_data \<times> db) res" where
  "update_auth_data_row c v d = (case get_auth_row c d of
      None \<Rightarrow> Inl EntityNotFoundError
    | Some r0 \<Rightarrow> Inr (r0\<lparr>ad_value := v\<rparr>,
        d\<lparr>auth_datas := map (\<lambda>a. if ad_connection_id a = c then a\<lparr>ad_value := v\<rparr> else a) (auth_datas d)\<rparr>))"

definition update_user_group_row :: "int \<Rightarrow> int \<Rightarrow> group_member_role \<Rightarrow> db \<Rightarrow> (user_group option \<times> db) res" where
  "update_user_group_row g u role d =
     Inr (map_option (\<lambda>r. r\<lparr>ug_role := role\<rparr>) (get_user_group_row g u d),
        d\<lparr>user_groups := map (\<lambda>x. if ug_group_id x = g \<and> ug_user_id x = u then x\<lparr>ug_role := role\<rparr> else x)
             (user_groups d)\<rparr>)"

section \<open>Deletes with their cascades\<close>

definition cascade_transfers :: "(transfer \<Rightarrow> bool) \<Rightarrow> db \<Rightarrow> db" where
  "cascade_transfers P d = (let ts = filter (\<lambda>t. \<not> P t) (transfers d) in
     d\<lparr>transfers := ts, runs := filter (\<lambda>r. has_row (transfer_id r) ts) (runs d)\<rparr>)"

definition cascade_connections :: "(connection \<Rightarrow> bool) \<Rightarrow> db \<Rightarrow> db" where
  "cascade_connections P d = (let cs = filter (\<lambda>c. \<not> P c) (connections d) in
     cascade_transfers
       (\<lambda>t. \<not> has_row (source_connection_id t) cs \<or> \<not> has_row (target_connection_id t) cs)
       (d\<lparr>connections := cs, auth_datas := filter (\<lambda>a. has_row (ad_connection_id a) cs) (auth_datas d)\<rparr>))"

definition cascade_queues :: "(queue \<Rightarrow> bool) \<Rightarrow> db \<Rightarrow> db" where
  "cascade_queues P d = (let qs = filter (\<lambda>q. \<not> P q) (queues d) in
     cascade_transfers (\<lambda>t. \<not> has_row (queue_id t) qs) (d\<lparr>queues := qs\<rparr>))"

definition cascade_group :: "int \<Rightarrow> db \<Rightarrow> db" where
  "cascade_group g d =
     cascade_transfers (\<lambda>t. group_id t = g)
       (cascade_queues (\<lambda>q. group_id q = g)
         (cascade_connections (\<lambda>c. group_id c = g)
           (d\<lparr>groups := filter (\<lambda>x. pk x \<noteq> g) (groups d),
              user_groups := filter (\<lambda>x. ug_group_id x \<noteq> g) (user_groups d)\<rparr>)))"

text \<open>
  \<open>Repository._delete\<close>: \<open>DELETE \<dots> WHERE id = i RETURNING\<close>, then \<open>one()\<close>, which raises
  \<open>NoResultFound\<close> when there was no such row.
\<close>

definition delete_group_row :: "int \<Rightarrow> db \<Rightarrow> (group \<times> db) res" where
  "delete_group_row i d = (case get_row i (groups d) of
      None \<Rightarrow> Inl NoResultFound | Some r \<Rightarrow> Inr (r, cascade_group i d))"

definition delete_connection_row :: "int \<Rightarrow> db \<Rightarrow> (connection \<times> db) res" where
  "delete_connection_row i d = (case get_row i (connections d) of
      None \<Rightarrow> Inl NoResultFound | Some r \<Rightarrow> Inr (r, cascade_connections (\<lambda>c. pk c = i) d))"

definition delete_queue_row :: "int \<Rightarrow> db \<Rightarrow> (queue \<times> db) res" where
  "delete_queue_row i d = (case get_row i (queues d) of
      None \<Rightarrow> Inl NoResultFound | Some r \<Rightarrow> Inr (r, cascade_queues (\<lambda>q. pk q = i) d))"

definition delete_transfer_row :: "int \<Rightarrow> db \<Rightarrow> (transfer \<times> db) res" where
  "delete_transfer_row i d = (case get_row i (transfers d) of
      None \<Rightarrow> Inl NoResultFound | Some r \<Rightarrow> Inr (r, cascade_transfers (\<lambda>t. pk t = i) d))"

definition delete_user_group_row :: "int \<Rightarrow> int \<Rightarrow> db \<Rightarrow> (unit \<times> db) res" where
  "delete_user_group_row g u d =
     Inr ((), d\<lparr>user_groups := filter (\<lambda>x. \<not> (ug_group_id x = g \<and> ug_user_id x = u)) (user_groups d)\<rparr>)"


section \<open>What the schema promises\<close>

definition pk_ok :: "db \<Rightarrow> bool" where
  "pk_ok d \<longleftrightarrow> keys_ok (users d) (seq_user d) \<and> keys_ok (groups d) (seq_group d) \<and>
     keys_ok (connections d) (seq_connection d) \<and> keys_ok (queues d) (seq_queue d) \<and>
     keys_ok (transfers d) (seq_transfer d) \<and> keys_ok (runs d) (seq_run d) \<and>
     distinct (map ad_connection_id (auth_datas d)) \<and>
     distinct (map (\<lambda>x. (ug_group_id x, ug_user_id x)) (user_groups d))"

definition unique_ok :: "db \<Rightarrow> bool" where
  "unique_ok d \<longleftrightarrow> distinct (map username (users d)) \<and> distinct (map gname (groups d)) \<and>
     distinct (map (\<lambda>c. (rname c, group_id c)) (connections d)) \<and> distinct (map slug (queues d)) \<and>
     distinct (map (\<lambda>t. (rname t, group_id t)) (transfers d))"

definition fk_ok :: "db \<Rightarrow> bool" where
  "fk_ok d \<longleftrightarrow> (\<forall>g \<in> set (groups d). has_row (owner_id g) (users d)) \<and>
     (\<forall>x \<in> set (user_groups d). has_row (ug_group_id x) (groups d) \<and> has_row (ug_user_id x) (users d)) \<and>
     (\<forall>c \<in> set (connections d). has_row (group_id c) (groups d)) \<and>
     (\<forall>a \<in> set (auth_datas d). has_row (ad_connection_id a) (connections d)) \<and>
     (\<forall>q \<in> set (queues d). has_row (group_id q) (groups d)) \<and>
     (\<forall>t \<in> set (transfers d). has_row (group_id t) (groups d) \<and> has_row (queue_id t) (queues d) \<and>
        has_row (source_connection_id t) (connections d) \<and> has_row (target_connection_id t) (connections d)) \<and>
     (\<forall>r \<in> set (runs d). has_row (transfer_id r) (transfers d))"

definition schema_ok :: "db \<Rightarrow> bool" where
  "schema_ok d \<longleftrightarrow> pk_ok d \<and> unique_ok d \<and> fk_ok d"

lemmas schema_defs = schema_ok_def pk_ok_def unique_ok_def fk_ok_def

lemma schema_ok_empty_db: "schema_ok empty_db"
  by (simp add: schema_defs empty_db_def keys_ok_def)

lemma distinct_set_row:
  "distinct (map f rows) \<Longrightarrow> distinct (map pk rows) \<Longrightarrow> \<not> list_ex (\<lambda>x. pk x \<noteq> pk r \<and> f x = f r) rows \<Longrightarrow>
     distinct (map f (set_row r rows))"
proof (induction rows)
  case Nil
  then show ?case by (simp add: set_row_def)
next
  case (Cons a rows)
  have tail: "f b \<notin> f ` set (set_row r rows)" if "f b \<notin> f ` set rows" "pk b = pk r \<Longrightarrow> False" "f b \<noteq> f r" for b
    using that by (auto dest!: set_set_row)
  show ?case
  proof (cases "pk a = pk r")
    case True
    then have "set_row r (a # rows) = r # rows"
      using Cons.prems(2) by (auto simp: set_row_def image_iff intro!: map_idI)
    moreover have "f r \<notin> f ` set rows"
      using Cons.prems(2,3) True by (fastforce simp: image_iff list_ex_iff)
    ultimately show ?thesis using Cons.prems(1) by simp
  next
    case False
    then have "set_row r (a # rows) = a # set_row r rows" by (simp add: set_row_def)
    with Cons.prems tail [of a] False Cons.IH show ?thesis by simp
  qed
qed

lemma has_row_filter: "has_row i (filter P rows) \<longleftrightarrow> (\<exists>r \<in> set rows. P r \<and> pk r = i)"
  by (auto simp: has_row_def list_ex_iff)

lemma has_row_mono: "has_row i (filter P rows) \<Longrightarrow> has_row i rows"
  by (auto simp: has_row_iff)

lemma transfer_fk_None:
  "transfer_fk t d = None \<longleftrightarrow> has_row (group_id t) (groups d) \<and> has_row (queue_id t) (queues d) \<and>
     has_row (source_connection_id t) (connections d) \<and> has_row (target_connection_id t) (connections d)"
  by (simp add: transfer_fk_def)

section \<open>The interface of a table\<close>

text \<open>
  Every table numbered by a sequence is used through an insert and an update of one row.  The laws
  say what the repositories rely on: the inserted row carries the next number and is appended, an
  update replaces the row of the given id, and neither touches another row of the table.
\<close>

locale pk_table =
  fixes rows :: "db \<Rightarrow> 'a row_scheme list"
    and nextval :: "db \<Rightarrow> int"
    and ins :: "(int \<Rightarrow> 'a row_scheme) \<Rightarrow> db \<Rightarrow> ('a row_scheme \<times> db) res"
    and upd :: "int \<Rightarrow> ('a row_scheme \<Rightarrow> 'a row_scheme) \<Rightarrow> db \<Rightarrow> ('a row_scheme \<times> db) res"
  assumes ins_law: "ins mk d = Inr (r, d') \<Longrightarrow>
      r = mk (nextval d) \<and> rows d' = rows d @ [r] \<and> nextval d' = nextval d + 1"
    and upd_law: "upd i f d = Inr (r, d') \<Longrightarrow>
      (\<exists>r0. get_row i (rows d) = Some r0 \<and> r = (f r0)\<lparr>pk := i\<rparr>) \<and>
      rows d' = set_row r (rows d) \<and> nextval d' = nextval d"
    and upd_missing: "get_row i (rows d) = None \<Longrightarrow> upd i f d = Inl EntityNotFoundError"
begin

lemma ins_keys:
  assumes "ins mk d = Inr (r, d')" and "\<And>i. pk (mk i) = i" and "keys_ok (rows d) (nextval d)"
  shows "keys_ok (rows d') (nextval d')"
  using ins_law [OF assms(1)] assms(2,3) by (simp add: keys_ok_insert)

lemma ins_fresh:
  assumes "ins mk d = Inr (r, d')" and "\<And>i. pk (mk i) = i" and "keys_ok (rows d) (nextval d)"
  shows "get_row (pk r) (rows d) = None"
  using ins_law [OF assms(1)] assms(2) keys_ok_fresh [OF assms(3)] by (simp add: get_row_None has_row_iff)

lemma ins_get:
  assumes "ins mk d = Inr (r, d')" and "\<And>i. pk (mk i) = i" and "keys_ok (rows d) (nextval d)"
  shows "get_row i (rows d') = (if i = pk r then Some r else get_row i (rows d))"
  using ins_law [OF assms(1)] ins_fresh [OF assms]
  by (auto simp: get_row_append get_row_def [of _ "[_]"] split: option.split)

lemma upd_keys: "upd i f d = Inr (r, d') \<Longrightarrow> keys_ok (rows d) (nextval d) \<Longrightarrow> keys_ok (rows d') (nextval d')"
  using upd_law [of i f d r d'] by auto

lemma upd_pk: "upd i f d = Inr (r, d') \<Longrightarrow> pk r = i"
  using upd_law [of i f d r d'] by auto

lemma upd_get:
  assumes "upd i f d = Inr (r, d')"
  shows "get_row j (rows d') = (if j = i then Some r else get_row j (rows d))"
proof -
  from upd_law [OF assms] obtain r0 where r0: "get_row i (rows d) = Some r0"
    and eq: "rows d' = set_row r (rows d)"
    by blast
  have "has_row i (rows d)" using r0 by (rule get_row_has_row)
  with eq upd_pk [OF assms] show ?thesis by (auto simp: get_row_set_row)
qed

lemma upd_has_row: "upd i f d = Inr (r, d') \<Longrightarrow> has_row j (rows d') \<longleftrightarrow> has_row j (rows d)"
  using upd_law [of i f d r d'] by auto

end

interpretation users: pk_table users seq_user insert_user update_user_row
  by unfold_locales
    (auto simp: insert_user_def update_user_row_def Let_def split: if_splits option.splits)

interpretation groups: pk_table groups seq_group insert_group update_group_row
  by unfold_locales
    (auto simp: insert_group_def update_group_row_def Let_def split: if_splits option.splits)

interpretation connections: pk_table connections seq_connection insert_connection update_connection_row
  by unfold_locales
    (auto simp: insert_connection_def update_connection_row_def Let_def split: if_splits option.splits)

interpretation queues: pk_table queues seq_queue insert_queue update_queue_row
  by unfold_locales
    (auto simp: insert_queue_def update_queue_row_def Let_def split: if_splits option.splits)

interpretation transfers: pk_table transfers seq_transfer insert_transfer update_transfer_row
  by unfold_locales
    (auto simp: insert_transfer_def update_transfer_row_def Let_def split: if_splits option.splits)

interpretation runs: pk_table runs seq_run insert_run update_run_row
  by unfold_locales
    (auto simp: insert_run_def update_run_row_def Let_def split: if_splits option.splits)


section \<open>Every statement keeps what the schema promises\<close>

lemma list_ex_image: "list_ex (\<lambda>x. f x = v) rows \<longleftrightarrow> v \<in> f ` set rows"
  by (auto simp: list_ex_iff)

lemma list_ex_same_name:
  "list_ex (\<lambda>x. same_name x r) rows \<longleftrightarrow> (rname r, group_id r) \<in> (\<lambda>x. (rname x, group_id x)) ` set rows"
  by (force simp: list_ex_iff same_name_def)

lemma list_ex_other_same_name:
  "list_ex (\<lambda>x. pk x \<noteq> i \<and> same_name x r) rows \<longleftrightarrow>
     list_ex (\<lambda>x. pk x \<noteq> i \<and> (rname x, group_id x) = (rname r, group_id r)) rows"
  by (simp add: same_name_def)

lemma get_user_group_row_None:
  "get_user_group_row g u d = None \<longleftrightarrow> (g, u) \<notin> (\<lambda>x. (ug_group_id x, ug_user_id x)) ` set (user_groups d)"
  by (force simp: get_user_group_row_def find_None_iff_set)

lemma get_auth_row_None: "get_auth_row c d = None \<longleftrightarrow> c \<notin> ad_connection_id ` set (auth_datas d)"
  by (force simp: get_auth_row_def find_None_iff_set)

named_theorems schema_keeps \<open>statements keep the schema invariants\<close>
named_theorems row_shape \<open>what a successful statement has checked and written\<close>

subsection \<open>Inserts\<close>

lemma insert_user_shape [row_shape]:
  "insert_user mk d = Inr (r, d') \<Longrightarrow> mk (seq_user d) = r \<and> username r \<notin> username ` set (users d) \<and>
     d' = d\<lparr>users := users d @ [r], seq_user := seq_user d + 1\<rparr>"
  by (auto simp: insert_user_def Let_def list_ex_image split: if_splits)

lemma insert_group_shape [row_shape]:
  "insert_group mk d = Inr (r, d') \<Longrightarrow> mk (seq_group d) = r \<and> gname r \<notin> gname ` set (groups d) \<and>
     has_row (owner_id r) (users d) \<and> d' = d\<lparr>groups := groups d @ [r], seq_group := seq_group d + 1\<rparr>"
  by (auto simp: insert_group_def Let_def list_ex_image split: if_splits)

lemma insert_connection_shape [row_shape]:
  "insert_connection mk d = Inr (r, d') \<Longrightarrow> mk (seq_connection d) = r \<and>
     (rname r, group_id r) \<notin> (\<lambda>x. (rname x, group_id x)) ` set (connections d) \<and> has_row (group_id r) (groups d) \<and>
     d' = d\<lparr>connections := connections d @ [r], seq_connection := seq_connection d + 1\<rparr>"
  by (auto simp: insert_connection_def Let_def list_ex_same_name split: if_splits)

lemma insert_queue_shape [row_shape]:
  "insert_queue mk d = Inr (r, d') \<Longrightarrow> mk (seq_queue d) = r \<and> slug r \<notin> slug ` set (queues d) \<and>
     has_row (group_id r) (groups d) \<and> d' = d\<lparr>queues := queues d @ [r], seq_queue := seq_queue d + 1\<rparr>"
  by (auto simp: insert_queue_def Let_def list_ex_image split: if_splits)

lemma insert_transfer_shape [row_shape]:
  "insert_transfer mk d = Inr (r, d') \<Longrightarrow> mk (seq_transfer d) = r \<and>
     (rname r, group_id r) \<notin> (\<lambda>x. (rname x, group_id x)) ` set (transfers d) \<and> transfer_fk r d = None \<and>
     d' = d\<lparr>transfers := transfers d @ [r], seq_transfer := seq_transfer d + 1\<rparr>"
  by (auto simp: insert_transfer_def Let_def list_ex_same_name split: if_splits option.splits)

lemma insert_run_shape [row_shape]:
  "insert_run mk d = Inr (r, d') \<Longrightarrow> mk (seq_run d) = r \<and> has_row (transfer_id r) (transfers d) \<and>
     d' = d\<lparr>runs := runs d @ [r], seq_run := seq_run d + 1\<rparr>"
  by (auto simp: insert_run_def Let_def split: if_splits)

lemma insert_user_group_shape [row_shape]:
  "insert_user_group r0 d = Inr (r, d') \<Longrightarrow> r0 = r \<and>
     (ug_group_id r, ug_user_id r) \<notin> (\<lambda>x. (ug_group_id x, ug_user_id x)) ` set (user_groups d) \<and>
     has_row (ug_group_id r) (groups d) \<and> has_row (ug_user_id r) (users d) \<and>
     d' = d\<lparr>user_groups := user_groups d @ [r]\<rparr>"
  by (auto simp: insert_user_group_def get_user_group_row_None split: if_splits)

lemma insert_auth_data_shape [row_shape]:
  "insert_auth_data r0 d = Inr (r, d') \<Longrightarrow> r0 = r \<and> ad_connection_id r \<notin> ad_connection_id ` set (auth_datas d) \<and>
     has_row (ad_connection_id r) (connections d) \<and> d' = d\<lparr>auth_datas := auth_datas d @ [r]\<rparr>"
  by (auto simp: insert_auth_data_def get_auth_row_None split: if_splits)

lemma insert_user_schema [schema_keeps]:
  assumes "schema_ok d" and "insert_user mk d = Inr (r, d')" and "\<And>i. pk (mk i) = i"
  shows "schema_ok d'"
proof -
  note s = insert_user_shape [OF assms(2)] and k = users.ins_keys [OF assms(2,3)]
  from s assms(1) show ?thesis using k by (simp add: schema_defs)
qed

lemma insert_group_schema [schema_keeps]:
  assumes "schema_ok d" and "insert_group mk d = Inr (r, d')" and "\<And>i. pk (mk i) = i"
  shows "schema_ok d'"
proof -
  note s = insert_group_shape [OF assms(2)] and k = groups.ins_keys [OF assms(2,3)]
  from s assms(1) show ?thesis using k by (simp add: schema_defs)
qed

lemma insert_connection_schema [schema_keeps]:
  assumes "schema_ok d" and "insert_connection mk d = Inr (r, d')" and "\<And>i. pk (mk i) = i"
  shows "schema_ok d'"
proof -
  note s = insert_connection_shape [OF assms(2)] and k = connections.ins_keys [OF assms(2,3)]
  from s assms(1) show ?thesis using k by (simp add: schema_defs)
qed

lemma insert_queue_schema [schema_keeps]:
  assumes "schema_ok d" and "insert_queue mk d = Inr (r, d')" and "\<And>i. pk (mk i) = i"
  shows "schema_ok d'"
proof -
  note s = insert_queue_shape [OF assms(2)] and k = queues.ins_keys [OF assms(2,3)]
  from s assms(1) show ?thesis using k by (simp add: schema_defs)
qed

lemma insert_transfer_schema [schema_keeps]:
  assumes "schema_ok d" and "insert_transfer mk d = Inr (r, d')" and "\<And>i. pk (mk i) = i"
  shows "schema_ok d'"
proof -
  note s = insert_transfer_shape [OF assms(2)] and k = transfers.ins_keys [OF assms(2,3)]
  from s assms(1) show ?thesis using k by (simp add: schema_defs transfer_fk_None)
qed

lemma insert_run_schema [schema_keeps]:
  assumes "schema_ok d" and "insert_run mk d = Inr (r, d')" and "\<And>i. pk (mk i) = i"
  shows "schema_ok d'"
proof -
  note s = insert_run_shape [OF assms(2)] and k = runs.ins_keys [OF assms(2,3)]
  from s assms(1) show ?thesis using k by (simp add: schema_defs)
qed

lemma insert_user_group_schema [schema_keeps]:
  "schema_ok d \<Longrightarrow> insert_user_group r0 d = Inr (r, d') \<Longrightarrow> schema_ok d'"
  by (drule insert_user_group_shape) (simp add: schema_defs)

lemma insert_auth_data_schema [schema_keeps]:
  "schema_ok d \<Longrightarrow> insert_auth_data r0 d = Inr (r, d') \<Longrightarrow> schema_ok d'"
  by (drule insert_auth_data_shape) (simp add: schema_defs)

subsection \<open>Updates\<close>

lemma update_user_row_shape [row_shape]:
  "update_user_row i f d = Inr (r, d') \<Longrightarrow> i = pk r \<and>
     \<not> list_ex (\<lambda>x. pk x \<noteq> pk r \<and> username x = username r) (users d) \<and> d' = d\<lparr>users := set_row r (users d)\<rparr>"
  by (auto simp: update_user_row_def Let_def split: option.splits if_splits)

lemma update_group_row_shape [row_shape]:
  "update_group_row i f d = Inr (r, d') \<Longrightarrow> i = pk r \<and> has_row (owner_id r) (users d) \<and>
     \<not> list_ex (\<lambda>x. pk x \<noteq> pk r \<and> gname x = gname r) (groups d) \<and> d' = d\<lparr>groups := set_row r (groups d)\<rparr>"
  by (auto simp: update_group_row_def Let_def split: option.splits if_splits)

lemma update_connection_row_shape [row_shape]:
  "update_connection_row i f d = Inr (r, d') \<Longrightarrow> i = pk r \<and> has_row (group_id r) (groups d) \<and>
     \<not> list_ex (\<lambda>x. pk x \<noteq> pk r \<and> (rname x, group_id x) = (rname r, group_id r)) (connections d) \<and>
     d' = d\<lparr>connections := set_row r (connections d)\<rparr>"
  by (auto simp: update_connection_row_def Let_def same_name_def split: option.splits if_splits)

lemma update_queue_row_shape [row_shape]:
  "update_queue_row i f d = Inr (r, d') \<Longrightarrow> i = pk r \<and> has_row (group_id r) (groups d) \<and>
     \<not> list_ex (\<lambda>x. pk x \<noteq> pk r \<and> slug x = slug r) (queues d) \<and> d' = d\<lparr>queues := set_row r (queues d)\<rparr>"
  by (auto simp: update_queue_row_def Let_def split: option.splits if_splits)

lemma update_transfer_row_shape [row_shape]:
  "update_transfer_row i f d = Inr (r, d') \<Longrightarrow> i = pk r \<and> transfer_fk r d = None \<and>
     \<not> list_ex (\<lambda>x. pk x \<noteq> pk r \<and> (rname x, group_id x) = (rname r, group_id r)) (transfers d) \<and>
     d' = d\<lparr>transfers := set_row r (transfers d)\<rparr>"
  by (auto simp: update_transfer_row_def Let_def same_name_def split: option.splits if_splits)

lemma update_run_row_shape [row_shape]:
  "update_run_row i f d = Inr (r, d') \<Longrightarrow> i = pk r \<and> has_row (transfer_id r) (transfers d) \<and>
     d' = d\<lparr>runs := set_row r (runs d)\<rparr>"
  by (auto simp: update_run_row_def Let_def split: option.splits if_splits)

lemma update_auth_data_row_shape [row_shape]:
  "update_auth_data_row c v d = Inr (r, d') \<Longrightarrow>
     d' = d\<lparr>auth_datas := map (\<lambda>a. if ad_connection_id a = c then a\<lparr>ad_value := v\<rparr> else a) (auth_datas d)\<rparr>"
  by (auto simp: update_auth_data_row_def split: option.splits)

lemma update_user_group_row_shape [row_shape]:
  "update_user_group_row g u role d = Inr (r, d') \<Longrightarrow>
     d' = d\<lparr>user_groups := map (\<lambda>x. if ug_group_id x = g \<and> ug_user_id x = u then x\<lparr>ug_role := role\<rparr> else x)
       (user_groups d)\<rparr>"
  by (simp add: update_user_group_row_def)

lemma delete_user_group_row_shape [row_shape]:
  "delete_user_group_row g u d = Inr (r, d') \<Longrightarrow>
     d' = d\<lparr>user_groups := filter (\<lambda>x. \<not> (ug_group_id x = g \<and> ug_user_id x = u)) (user_groups d)\<rparr>"
  by (simp add: delete_user_group_row_def)

text \<open>A reference to any row of a table holds of the rows of the updated table when it holds of the new row.\<close>

lemma ball_set_row: "\<forall>x \<in> set rows. P x \<Longrightarrow> P r \<Longrightarrow> \<forall>x \<in> set (set_row r rows). P x"
  by (auto dest!: set_set_row)

lemma update_user_row_schema [schema_keeps]:
  assumes "schema_ok d" and "update_user_row i f d = Inr (r, d')"
  shows "schema_ok d'"
proof -
  note s = update_user_row_shape [OF assms(2)]
  have "distinct (map username (set_row r (users d)))"
    using assms(1) s by (intro distinct_set_row) (simp_all add: schema_defs keys_ok_def)
  then show ?thesis using assms(1) s by (simp add: schema_defs)
qed

lemma update_group_row_schema [schema_keeps]:
  assumes "schema_ok d" and "update_group_row i f d = Inr (r, d')"
  shows "schema_ok d'"
proof -
  note s = update_group_row_shape [OF assms(2)]
  have "distinct (map gname (set_row r (groups d)))"
    using assms(1) s by (intro distinct_set_row) (simp_all add: schema_defs keys_ok_def)
  moreover have "\<forall>g \<in> set (set_row r (groups d)). has_row (owner_id g) (users d)"
    using assms(1) s by (intro ball_set_row) (simp_all add: schema_defs)
  ultimately show ?thesis using assms(1) s by (simp add: schema_defs)
qed

lemma update_connection_row_schema [schema_keeps]:
  assumes "schema_ok d" and "update_connection_row i f d = Inr (r, d')"
  shows "schema_ok d'"
proof -
  note s = update_connection_row_shape [OF assms(2)]
  have "distinct (map (\<lambda>c. (rname c, group_id c)) (set_row r (connections d)))"
    using assms(1) s by (intro distinct_set_row) (simp_all add: schema_defs keys_ok_def)
  moreover have "\<forall>c \<in> set (set_row r (connections d)). has_row (group_id c) (groups d)"
    using assms(1) s by (intro ball_set_row) (simp_all add: schema_defs)
  ultimately show ?thesis using assms(1) s by (simp add: schema_defs)
qed

lemma update_queue_row_schema [schema_keeps]:
  assumes "schema_ok d" and "update_queue_row i f d = Inr (r, d')"
  shows "schema_ok d'"
proof -
  note s = update_queue_row_shape [OF assms(2)]
  have "distinct (map slug (set_row r (queues d)))"
    using assms(1) s by (intro distinct_set_row) (simp_all add: schema_defs keys_ok_def)
  moreover have "\<forall>q \<in> set (set_row r (queues d)). has_row (group_id q) (groups d)"
    using assms(1) s by (intro ball_set_row) (simp_all add: schema_defs)
  ultimately show ?thesis using assms(1) s by (simp add: schema_defs)
qed

lemma update_transfer_row_schema [schema_keeps]:
  assumes "schema_ok d" and "update_transfer_row i f d = Inr (r, d')"
  shows "schema_ok d'"
proof -
  note s = update_transfer_row_shape [OF assms(2)]
  have "distinct (map (\<lambda>t. (rname t, group_id t)) (set_row r (transfers d)))"
    using assms(1) s by (intro distinct_set_row) (simp_all add: schema_defs keys_ok_def)
  moreover have "\<forall>t \<in> set (set_row r (transfers d)). has_row (group_id t) (groups d) \<and> has_row (queue_id t) (queues d) \<and>
      has_row (source_connection_id t) (connections d) \<and> has_row (target_connection_id t) (connections d)"
    using assms(1) s by (intro ball_set_row) (simp_all add: schema_defs transfer_fk_None)
  ultimately show ?thesis using assms(1) s by (simp add: schema_defs)
qed

lemma update_run_row_schema [schema_keeps]:
  assumes "schema_ok d" and "update_run_row i f d = Inr (r, d')"
  shows "schema_ok d'"
proof -
  note s = update_run_row_shape [OF assms(2)]
  have "\<forall>x \<in> set (set_row r (runs d)). has_row (transfer_id x) (transfers d)"
    using assms(1) s by (intro ball_set_row) (simp_all add: schema_defs)
  then show ?thesis using assms(1) s by (simp add: schema_defs)
qed

lemma update_auth_data_row_schema [schema_keeps]:
  assumes "schema_ok d" and "update_auth_data_row c v d = Inr (r, d')"
  shows "schema_ok d'"
proof -
  have "map ad_connection_id (map (\<lambda>a. if ad_connection_id a = c then a\<lparr>ad_value := v\<rparr> else a) xs)
      = map ad_connection_id xs" for xs :: "auth_data list"
    by (rule map_if_same) simp
  with assms(1) update_auth_data_row_shape [OF assms(2)] show ?thesis
    by (auto simp: schema_defs simp del: map_map)
qed

lemma update_user_group_row_schema [schema_keeps]:
  assumes "schema_ok d" and "update_user_group_row g u role d = Inr (r, d')"
  shows "schema_ok d'"
proof -
  have "map (\<lambda>x. (ug_group_id x, ug_user_id x))
        (map (\<lambda>x. if ug_group_id x = g \<and> ug_user_id x = u then x\<lparr>ug_role := role\<rparr> else x) xs)
      = map (\<lambda>x. (ug_group_id x, ug_user_id x)) xs" for xs :: "user_group list"
    by (rule map_if_same) simp
  with assms(1) update_user_group_row_shape [OF assms(2)] show ?thesis
    by (auto simp: schema_defs simp del: map_map)
qed

subsection \<open>Deletes\<close>

lemma cascade_transfers_schema:
  "pk_ok d \<and> unique_ok d \<Longrightarrow> pk_ok (cascade_transfers P d) \<and> unique_ok (cascade_transfers P d)"
  by (auto simp: pk_ok_def unique_ok_def cascade_transfers_def Let_def keys_ok_filter distinct_map_filter)

lemma cascade_connections_schema:
  "pk_ok d \<and> unique_ok d \<Longrightarrow> pk_ok (cascade_connections P d) \<and> unique_ok (cascade_connections P d)"
  unfolding cascade_connections_def Let_def
  by (rule cascade_transfers_schema) (auto simp: pk_ok_def unique_ok_def keys_ok_filter distinct_map_filter)

lemma cascade_queues_schema:
  "pk_ok d \<and> unique_ok d \<Longrightarrow> pk_ok (cascade_queues P d) \<and> unique_ok (cascade_queues P d)"
  unfolding cascade_queues_def Let_def
  by (rule cascade_transfers_schema) (auto simp: pk_ok_def unique_ok_def keys_ok_filter distinct_map_filter)

lemma cascade_transfers_fk: "fk_ok d \<Longrightarrow> fk_ok (cascade_transfers P d)"
  by (auto simp: fk_ok_def cascade_transfers_def Let_def)

lemma cascade_connections_fk: "fk_ok d \<Longrightarrow> fk_ok (cascade_connections P d)"
  by (auto simp: fk_ok_def cascade_connections_def cascade_transfers_def Let_def)

lemma cascade_queues_fk: "fk_ok d \<Longrightarrow> fk_ok (cascade_queues P d)"
  by (auto simp: fk_ok_def cascade_queues_def cascade_transfers_def Let_def)

lemma has_row_remove: "has_row i rows \<Longrightarrow> i \<noteq> g \<Longrightarrow> has_row i (filter (\<lambda>x. pk x \<noteq> g) rows)"
  by (auto simp: has_row_filter has_row_iff)

lemma cascade_transfers_rows:
  "users (cascade_transfers P d) = users d" "groups (cascade_transfers P d) = groups d"
  "user_groups (cascade_transfers P d) = user_groups d" "connections (cascade_transfers P d) = connections d"
  "queues (cascade_transfers P d) = queues d" "auth_datas (cascade_transfers P d) = auth_datas d"
  "transfers (cascade_transfers P d) = filter (\<lambda>t. \<not> P t) (transfers d)"
  "runs (cascade_transfers P d) = filter (\<lambda>r. has_row (transfer_id r) (filter (\<lambda>t. \<not> P t) (transfers d))) (runs d)"
  by (simp_all add: cascade_transfers_def Let_def)

lemma cascade_connections_rows:
  "users (cascade_connections P d) = users d" "groups (cascade_connections P d) = groups d"
  "user_groups (cascade_connections P d) = user_groups d" "queues (cascade_connections P d) = queues d"
  "connections (cascade_connections P d) = filter (\<lambda>c. \<not> P c) (connections d)"
  "auth_datas (cascade_connections P d) =
     filter (\<lambda>a. has_row (ad_connection_id a) (filter (\<lambda>c. \<not> P c) (connections d))) (auth_datas d)"
  "transfers (cascade_connections P d) = filter (\<lambda>t. has_row (source_connection_id t) (filter (\<lambda>c. \<not> P c) (connections d)) \<and>
     has_row (target_connection_id t) (filter (\<lambda>c. \<not> P c) (connections d))) (transfers d)"
  by (simp_all add: cascade_connections_def cascade_transfers_rows Let_def)

lemma cascade_queues_rows:
  "users (cascade_queues P d) = users d" "groups (cascade_queues P d) = groups d"
  "user_groups (cascade_queues P d) = user_groups d" "connections (cascade_queues P d) = connections d"
  "auth_datas (cascade_queues P d) = auth_datas d" "queues (cascade_queues P d) = filter (\<lambda>q. \<not> P q) (queues d)"
  "transfers (cascade_queues P d) = filter (\<lambda>t. has_row (queue_id t) (filter (\<lambda>q. \<not> P q) (queues d))) (transfers d)"
  by (simp_all add: cascade_queues_def cascade_transfers_rows Let_def)

lemma cascade_group_rows:
  "users (cascade_group g d) = users d" "groups (cascade_group g d) = filter (\<lambda>x. pk x \<noteq> g) (groups d)"
  "user_groups (cascade_group g d) = filter (\<lambda>x. ug_group_id x \<noteq> g) (user_groups d)"
  "connections (cascade_group g d) = filter (\<lambda>c. group_id c \<noteq> g) (connections d)"
  "queues (cascade_group g d) = filter (\<lambda>q. group_id q \<noteq> g) (queues d)"
  "auth_datas (cascade_group g d) =
     filter (\<lambda>a. has_row (ad_connection_id a) (connections (cascade_group g d))) (auth_datas d)"
  "set (transfers (cascade_group g d)) = {t \<in> set (transfers d). group_id t \<noteq> g \<and>
     has_row (queue_id t) (queues (cascade_group g d)) \<and>
     has_row (source_connection_id t) (connections (cascade_group g d)) \<and>
     has_row (target_connection_id t) (connections (cascade_group g d))}"
  "\<forall>r \<in> set (runs (cascade_group g d)). has_row (transfer_id r) (transfers (cascade_group g d))"
  unfolding cascade_group_def
  by (auto simp: cascade_transfers_rows cascade_queues_rows cascade_connections_rows)

lemma cascade_group_fk: "fk_ok d \<Longrightarrow> fk_ok (cascade_group g d)"
  unfolding fk_ok_def
  using cascade_group_rows(8) [of g d]
  by (intro conjI; simp add: cascade_group_rows(1-7); blast intro: has_row_remove)

lemma cascade_group_schema: "schema_ok d \<Longrightarrow> schema_ok (cascade_group g d)"
  unfolding schema_ok_def
proof (intro conjI; (elim conjE)?)
  assume pk: "pk_ok d" and un: "unique_ok d" and fk: "fk_ok d"
  let ?d = "d\<lparr>groups := filter (\<lambda>x. pk x \<noteq> g) (groups d),
              user_groups := filter (\<lambda>x. ug_group_id x \<noteq> g) (user_groups d)\<rparr>"
  have "pk_ok ?d \<and> unique_ok ?d"
    using pk un by (auto simp: pk_ok_def unique_ok_def keys_ok_filter distinct_map_filter)
  then show "pk_ok (cascade_group g d)" "unique_ok (cascade_group g d)"
    unfolding cascade_group_def
    by (simp_all add: cascade_transfers_schema cascade_queues_schema cascade_connections_schema)
  show "fk_ok (cascade_group g d)" using fk by (rule cascade_group_fk)
qed

lemma delete_group_row_schema [schema_keeps]:
  "schema_ok d \<Longrightarrow> delete_group_row i d = Inr (r, d') \<Longrightarrow> schema_ok d'"
  by (auto simp: delete_group_row_def cascade_group_schema split: option.splits)

lemma delete_connection_row_schema [schema_keeps]:
  "schema_ok d \<Longrightarrow> delete_connection_row i d = Inr (r, d') \<Longrightarrow> schema_ok d'"
  by (auto simp: delete_connection_row_def schema_ok_def cascade_connections_schema
      cascade_connections_fk split: option.splits)

lemma delete_queue_row_schema [schema_keeps]:
  "schema_ok d \<Longrightarrow> delete_queue_row i d = Inr (r, d') \<Longrightarrow> schema_ok d'"
  by (auto simp: delete_queue_row_def schema_ok_def cascade_queues_schema cascade_queues_fk
      split: option.splits)

lemma delete_transfer_row_schema [schema_keeps]:
  "schema_ok d \<Longrightarrow> delete_transfer_row i d = Inr (r, d') \<Longrightarrow> schema_ok d'"
  by (auto simp: delete_transfer_row_def schema_ok_def cascade_transfers_schema cascade_transfers_fk
      split: option.splits)

lemma delete_user_group_row_schema [schema_keeps]:
  "schema_ok d \<Longrightarrow> delete_user_group_row g u d = Inr (r, d') \<Longrightarrow> schema_ok d'"
  unfolding delete_user_group_row_def schema_defs by (clarsimp simp: distinct_map_filter)

end
