(* ===== verification/Sync_Permissions.thy ===== *)
theory Sync_Permissions
  imports Sync_Store
begin

text \<open>
  Permissions: \<open>Permission\<close> of \<open>syncmaster/db/utils.py\<close>, the role hierarchy of \<open>GroupMemberRole\<close>, and the
  functions that decide what a user may do in a group or with a resource of it
  (\<open>RepositoryWithOwner\<close>, \<open>QueueRepository\<close>, \<open>GroupRepository\<close>).
\<close>

section \<open>Permission levels\<close>

datatype permission = NONE | READ | WRITE | DELETE

fun permission_value :: "permission \<Rightarrow> nat" where
  "permission_value NONE = 0"
| "permission_value READ = 1"
| "permission_value WRITE = 2"
| "permission_value DELETE = 3"

text \<open>\<open>Permission\<close> is an \<open>IntEnum\<close>: its members compare as their values do.\<close>

instantiation permission :: linorder
begin

definition less_eq_permission :: "permission \<Rightarrow> permission \<Rightarrow> bool" where
  "p \<le> q \<longleftrightarrow> permission_value p \<le> permission_value q"

definition less_permission :: "permission \<Rightarrow> permission \<Rightarrow> bool" where
  "p < q \<longleftrightarrow> permission_value p < permission_value q"

instance
proof
  fix p q r :: permission
  show "p < q \<longleftrightarrow> p \<le> q \<and> \<not> q \<le> p"
    by (auto simp: less_permission_def less_eq_permission_def)
  show "p \<le> p" by (simp add: less_eq_permission_def)
  show "p \<le> q \<Longrightarrow> q \<le> r \<Longrightarrow> p \<le> r" by (simp add: less_eq_permission_def)
  show "p \<le> q \<Longrightarrow> q \<le> p \<Longrightarrow> p = q"
    by (cases p; cases q) (simp_all add: less_eq_permission_def)
  show "p \<le> q \<or> q \<le> p" by (auto simp: less_eq_permission_def)
qed

end

lemmas permission_order = less_permission_def less_eq_permission_def

section \<open>The role hierarchy\<close>

fun role_value :: "group_member_role \<Rightarrow> string" where
  "role_value Maintainer = ''Maintainer''"
| "role_value Developer = ''Developer''"
| "role_value Owner = ''Owner''"
| "role_value Guest = ''Guest''"
| "role_value Superuser = ''Superuser''"

definition all_roles :: "group_member_role list" where
  "all_roles = [Maintainer, Developer, Owner, Guest, Superuser]"

text \<open>\<open>GroupMemberRole(text)\<close>, which raises \<open>ValueError\<close> for a text that names no member.\<close>

definition parse_role :: "string \<Rightarrow> group_member_role res" where
  "parse_role s = (case List.find (\<lambda>r. role_value r = s) all_roles of
      Some r \<Rightarrow> Inr r | None \<Rightarrow> Inl (ValueError s))"

definition public_roles :: "group_member_role list" where
  "public_roles = [Maintainer, Developer, Guest]"

definition public_roles_str :: string where
  "public_roles_str = join '', '' (map role_value public_roles)"

definition is_public_role :: "string \<Rightarrow> bool" where
  "is_public_role s = (case parse_role s of Inr r \<Rightarrow> r \<in> set public_roles | Inl _ \<Rightarrow> False)"

definition role_hierarchy :: "(group_member_role \<times> nat) list" where
  "role_hierarchy = [(Guest, 1), (Developer, 2), (Maintainer, 3), (Owner, 4), (Superuser, 5)]"

definition role_level :: "group_member_role \<Rightarrow> nat" where
  "role_level r = (case map_of role_hierarchy r of None \<Rightarrow> 0 | Some n \<Rightarrow> n)"

definition is_at_least_privilege_level :: "group_member_role \<Rightarrow> string \<Rightarrow> bool res" where
  "is_at_least_privilege_level role1 role2 = (case parse_role role2 of
      Inl e \<Rightarrow> Inl e
    | Inr r \<Rightarrow> Inr (role_level r \<le> role_level role1))"

definition roles_at_least :: "string \<Rightarrow> group_member_role list res" where
  "roles_at_least role = (case parse_role role of
      Inl e \<Rightarrow> Inl e
    | Inr r \<Rightarrow> Inr (map fst (filter (\<lambda>(_, level). role_level r \<le> level) role_hierarchy)))"

lemma parse_role_value [simp]: "parse_role (role_value r) = Inr r"
  by (cases r) (simp_all add: parse_role_def all_roles_def)

lemma parse_roleD: "parse_role s = Inr r \<Longrightarrow> s = role_value r"
  by (auto simp: parse_role_def split: option.splits dest: find_SomeD)

lemma roles_at_least_iff:
  "roles_at_least (role_value r) = Inr rs \<Longrightarrow> q \<in> set rs \<longleftrightarrow> role_level r \<le> role_level q"
  unfolding roles_at_least_def parse_role_value
  by (cases r; cases q) (auto simp: role_hierarchy_def role_level_def)

lemma is_public_role_iff: "is_public_role (role_value r) \<longleftrightarrow> r \<in> {Maintainer, Developer, Guest}"
  by (auto simp: is_public_role_def public_roles_def)

section \<open>What a user may do in a group\<close>

text \<open>
  \<open>RepositoryWithOwner.get_group_permission\<close>, the version connections and transfers use.
\<close>

definition get_group_permission :: "user \<Rightarrow> int \<Rightarrow> db \<Rightarrow> permission res" where
  "get_group_permission u g d =
     (if get_row g (groups d) = None then Inl GroupNotFoundError
      else if is_superuser u then Inr DELETE
      else if list_ex (\<lambda>x. owner_id x = pk u \<and> pk x = g) (groups d) then Inr DELETE
      else (case get_user_group_row g (pk u) d of
          None \<Rightarrow> Inr NONE
        | Some ug \<Rightarrow>
            if ug_role ug = Maintainer then Inr DELETE
            else if ug_role ug = Developer then Inr WRITE
            else Inr READ))"

text \<open>
  \<open>RepositoryWithOwner.get_resource_permission\<close>, for the table of connections or of transfers: the
  joins select the resource's group and the user's membership of it.
\<close>

definition get_resource_permission ::
  "(db \<Rightarrow> 'a resource_scheme list) \<Rightarrow> user \<Rightarrow> int \<Rightarrow> db \<Rightarrow> permission" where
  "get_resource_permission table u i d = (case get_row i (table d) of
      None \<Rightarrow> NONE
    | Some r \<Rightarrow>
        if is_superuser u then DELETE
        else if list_ex (\<lambda>x. pk x = group_id r \<and> owner_id x = pk u) (groups d) then DELETE
        else (case get_user_group_row (group_id r) (pk u) d of
            None \<Rightarrow> NONE
          | Some ug \<Rightarrow>
              if ug_role ug = Maintainer then DELETE
              else if ug_role ug = Developer then WRITE
              else READ))"

text \<open>\<open>QueueRepository.get_group_permission\<close>: a developer only reads queues.\<close>

definition queue_get_group_permission :: "user \<Rightarrow> int \<Rightarrow> db \<Rightarrow> permission res" where
  "queue_get_group_permission u g d =
     (if get_row g (groups d) = None then Inl GroupNotFoundError
      else if is_superuser u then Inr DELETE
      else if list_ex (\<lambda>x. owner_id x = pk u \<and> pk x = g) (groups d) then Inr DELETE
      else (case get_user_group_row g (pk u) d of
          None \<Rightarrow> Inr NONE
        | Some ug \<Rightarrow> if ug_role ug = Maintainer then Inr DELETE else Inr READ))"

definition queue_get_resource_permission :: "user \<Rightarrow> int \<Rightarrow> db \<Rightarrow> permission" where
  "queue_get_resource_permission u i d = (case get_row i (queues d) of
      None \<Rightarrow> NONE
    | Some r \<Rightarrow>
        if is_superuser u then DELETE
        else if list_ex (\<lambda>x. pk x = group_id r \<and> owner_id x = pk u) (groups d) then DELETE
        else (case get_user_group_row (group_id r) (pk u) d of
            None \<Rightarrow> NONE
          | Some ug \<Rightarrow> if ug_role ug = Maintainer then DELETE else READ))"

text \<open>\<open>GroupRepository.get_group_permission\<close>: members only read the group itself.\<close>

definition group_get_group_permission :: "user \<Rightarrow> int \<Rightarrow> db \<Rightarrow> permission res" where
  "group_get_group_permission u g d =
     (if get_row g (groups d) = None then Inl GroupNotFoundError
      else if is_superuser u then Inr DELETE
      else if list_ex (\<lambda>x. owner_id x = pk u \<and> pk x = g) (groups d) then Inr DELETE
      else if get_user_group_row g (pk u) d = None then Inr NONE else Inr READ)"

section \<open>The documented policy\<close>

text \<open>
  The role a user has in a group, as \<open>mddocs/docs/design/permissions.md\<close> describes it: superuser first, then the
  group's owner, then the role of the membership.
\<close>

definition effective_role :: "user \<Rightarrow> int \<Rightarrow> db \<Rightarrow> group_member_role option" where
  "effective_role u g d =
     (if is_superuser u then Some Superuser
      else (case get_row g (groups d) of
          None \<Rightarrow> None
        | Some x \<Rightarrow>
            if owner_id x = pk u then Some Owner
            else map_option ug_role (get_user_group_row g (pk u) d)))"

text \<open>The tables of that document: what a role may do with transfers, connections and runs, with queues, with the group.\<close>

fun resource_policy :: "group_member_role \<Rightarrow> permission" where
  "resource_policy Guest = READ"
| "resource_policy Developer = WRITE"
| "resource_policy Maintainer = DELETE"
| "resource_policy Owner = DELETE"
| "resource_policy Superuser = DELETE"

fun queue_policy :: "group_member_role \<Rightarrow> permission" where
  "queue_policy Guest = READ"
| "queue_policy Developer = READ"
| "queue_policy Maintainer = DELETE"
| "queue_policy Owner = DELETE"
| "queue_policy Superuser = DELETE"

fun group_policy :: "group_member_role \<Rightarrow> permission" where
  "group_policy Guest = READ"
| "group_policy Developer = READ"
| "group_policy Maintainer = READ"
| "group_policy Owner = DELETE"
| "group_policy Superuser = DELETE"

definition policy_permission :: "(group_member_role \<Rightarrow> permission) \<Rightarrow> group_member_role option \<Rightarrow> permission" where
  "policy_permission pol r = (case r of None \<Rightarrow> NONE | Some x \<Rightarrow> pol x)"

text \<open>Membership rows hold public roles only; the API validates them and ownership is not a row.\<close>

definition roles_ok :: "db \<Rightarrow> bool" where
  "roles_ok d \<longleftrightarrow> (\<forall>x \<in> set (user_groups d). ug_role x \<in> set public_roles)"

lemma owner_list_ex:
  "distinct (map pk (groups d)) \<Longrightarrow> get_row g (groups d) = Some x \<Longrightarrow>
     list_ex (\<lambda>y. owner_id y = o' \<and> pk y = g) (groups d) \<longleftrightarrow> owner_id x = o'"
  by (auto simp: list_ex_iff dest!: get_row_Some) (metis get_row_eq option.inject)

lemma owner_list_ex':
  "distinct (map pk (groups d)) \<Longrightarrow> get_row g (groups d) = Some x \<Longrightarrow>
     list_ex (\<lambda>y. pk y = g \<and> owner_id y = o') (groups d) \<longleftrightarrow> owner_id x = o'"
  using owner_list_ex [of d g x o'] by (simp add: conj_commute)

lemma get_user_group_rowD:
  "get_user_group_row g u d = Some x \<Longrightarrow> x \<in> set (user_groups d) \<and> ug_group_id x = g \<and> ug_user_id x = u"
  unfolding get_user_group_row_def by (auto dest: find_SomeD)

lemma member_role_public:
  "roles_ok d \<Longrightarrow> get_user_group_row g u d = Some x \<Longrightarrow> ug_role x \<in> {Maintainer, Developer, Guest}"
  by (auto simp: roles_ok_def public_roles_def dest!: get_user_group_rowD)


section \<open>The code implements the policy\<close>

text \<open>
  The contract of a permission function on groups and of one on resources, with what the handlers
  conclude from a check that passed.
\<close>

locale group_policy_impl =
  fixes perm :: "user \<Rightarrow> int \<Rightarrow> db \<Rightarrow> permission res"
    and pol :: "group_member_role \<Rightarrow> permission"
  assumes perm_missing: "get_row g (groups d) = None \<Longrightarrow> perm u g d = Inl GroupNotFoundError"
    and perm_policy: "schema_ok d \<Longrightarrow> roles_ok d \<Longrightarrow> has_row g (groups d) \<Longrightarrow>
      perm u g d = Inr (policy_permission pol (effective_role u g d))"
begin

lemma perm_cases:
  assumes "schema_ok d" and "roles_ok d"
  shows "perm u g d = (if has_row g (groups d) then Inr (policy_permission pol (effective_role u g d))
     else Inl GroupNotFoundError)"
  using perm_missing [of g d u] perm_policy [OF assms, of g u] by (auto simp: get_row_None has_row_iff)

lemma perm_granted:
  assumes "schema_ok d" and "roles_ok d" and "perm u g d = Inr p" and "p \<noteq> NONE"
  shows "has_row g (groups d) \<and> (\<exists>r. effective_role u g d = Some r \<and> pol r = p)"
  using assms(3,4) unfolding perm_cases [OF assms(1,2)]
  by (auto simp: policy_permission_def split: if_splits option.splits)

lemma stranger_denied:
  assumes "schema_ok d" and "roles_ok d" and "has_row g (groups d)" and "effective_role u g d = None"
  shows "perm u g d = Inr NONE"
  using assms unfolding perm_cases [OF assms(1,2)] by (simp add: policy_permission_def)

end

locale resource_policy_impl =
  fixes table :: "db \<Rightarrow> 'a resource_scheme list"
    and perm :: "user \<Rightarrow> int \<Rightarrow> db \<Rightarrow> permission"
    and pol :: "group_member_role \<Rightarrow> permission"
  assumes perm_missing: "get_row i (table d) = None \<Longrightarrow> perm u i d = NONE"
    and perm_policy: "schema_ok d \<Longrightarrow> roles_ok d \<Longrightarrow> get_row i (table d) = Some r \<Longrightarrow>
      perm u i d = policy_permission pol (effective_role u (group_id r) d)"
begin

lemma perm_granted:
  assumes "schema_ok d" and "roles_ok d" and "perm u i d \<noteq> NONE"
  shows "\<exists>r x. get_row i (table d) = Some r \<and> effective_role u (group_id r) d = Some x \<and> pol x = perm u i d"
proof (cases "get_row i (table d)")
  case None
  with assms(3) perm_missing show ?thesis by simp
next
  case (Some r)
  with perm_policy [OF assms(1,2) Some] assms(3) show ?thesis
    by (auto simp: policy_permission_def split: option.splits)
qed

lemma stranger_denied:
  assumes "schema_ok d" and "roles_ok d" and "get_row i (table d) = Some r"
    and "effective_role u (group_id r) d = None"
  shows "perm u i d = NONE"
  using perm_policy [OF assms(1,2,3), of u] assms(4) by (simp add: policy_permission_def)

end

lemma schema_okD:
  assumes "schema_ok d"
  shows "distinct (map pk (groups d))" and "distinct (map pk (connections d))"
    and "distinct (map pk (transfers d))" and "distinct (map pk (queues d))"
    and "distinct (map pk (users d))" and "distinct (map pk (runs d))"
  using assms by (simp_all add: schema_ok_def pk_ok_def keys_ok_def)

lemma has_row_get_row: "has_row i rows \<Longrightarrow> \<exists>r. get_row i rows = Some r"
  by (cases "get_row i rows") (auto simp: get_row_None has_row_iff)

lemma resource_group:
  assumes "schema_ok d"
  shows "get_row i (connections d) = Some c \<Longrightarrow> has_row (group_id c) (groups d)"
    and "get_row i (transfers d) = Some t \<Longrightarrow> has_row (group_id t) (groups d)"
    and "get_row i (queues d) = Some q \<Longrightarrow> has_row (group_id q) (groups d)"
  using assms by (auto simp: schema_ok_def fk_ok_def dest!: get_row_Some)

lemma resource_perm_policy:
  assumes "schema_ok d" and "roles_ok d" and "get_row i (table d) = Some r" and "has_row (group_id r) (groups d)"
  shows "get_resource_permission table u i d = policy_permission resource_policy (effective_role u (group_id r) d)"
proof -
  obtain x where x: "get_row (group_id r) (groups d) = Some x"
    using has_row_get_row [OF assms(4)] by blast
  have ex: "list_ex (\<lambda>y. pk y = group_id r \<and> owner_id y = pk u) (groups d) \<longleftrightarrow> owner_id x = pk u"
    by (rule owner_list_ex' [OF schema_okD(1) [OF assms(1)] x])
  show ?thesis
  proof (cases "get_user_group_row (group_id r) (pk u) d")
    case None
    then show ?thesis
      by (simp add: get_resource_permission_def assms(3) ex x effective_role_def policy_permission_def)
  next
    case (Some ug)
    then show ?thesis
      using member_role_public [OF assms(2) Some]
      by (cases "ug_role ug")
        (simp_all add: get_resource_permission_def assms(3) ex x effective_role_def policy_permission_def)
  qed
qed

lemma queue_perm_policy:
  assumes "schema_ok d" and "roles_ok d" and "get_row i (queues d) = Some r" and "has_row (group_id r) (groups d)"
  shows "queue_get_resource_permission u i d = policy_permission queue_policy (effective_role u (group_id r) d)"
proof -
  obtain x where x: "get_row (group_id r) (groups d) = Some x"
    using has_row_get_row [OF assms(4)] by blast
  have ex: "list_ex (\<lambda>y. pk y = group_id r \<and> owner_id y = pk u) (groups d) \<longleftrightarrow> owner_id x = pk u"
    by (rule owner_list_ex' [OF schema_okD(1) [OF assms(1)] x])
  show ?thesis
  proof (cases "get_user_group_row (group_id r) (pk u) d")
    case None
    then show ?thesis
      by (simp add: queue_get_resource_permission_def assms(3) ex x effective_role_def policy_permission_def)
  next
    case (Some ug)
    then show ?thesis
      using member_role_public [OF assms(2) Some]
      by (cases "ug_role ug")
        (simp_all add: queue_get_resource_permission_def assms(3) ex x effective_role_def policy_permission_def)
  qed
qed

interpretation conn_group: group_policy_impl get_group_permission resource_policy
proof
  fix d :: db and g :: int and u :: user
  assume s: "schema_ok d" and r: "roles_ok d" and h: "has_row g (groups d)"
  obtain x where x: "get_row g (groups d) = Some x"
    using has_row_get_row [OF h] by blast
  have ex: "list_ex (\<lambda>y. owner_id y = pk u \<and> pk y = g) (groups d) \<longleftrightarrow> owner_id x = pk u"
    by (rule owner_list_ex [OF schema_okD(1) [OF s] x])
  show "get_group_permission u g d = Inr (policy_permission resource_policy (effective_role u g d))"
    using x ex member_role_public [OF r, of g "pk u"]
    by (auto simp: get_group_permission_def effective_role_def policy_permission_def split: option.splits)
qed (simp add: get_group_permission_def)

interpretation queue_group: group_policy_impl queue_get_group_permission queue_policy
proof
  fix d :: db and g :: int and u :: user
  assume s: "schema_ok d" and r: "roles_ok d" and h: "has_row g (groups d)"
  obtain x where x: "get_row g (groups d) = Some x"
    using has_row_get_row [OF h] by blast
  have ex: "list_ex (\<lambda>y. owner_id y = pk u \<and> pk y = g) (groups d) \<longleftrightarrow> owner_id x = pk u"
    by (rule owner_list_ex [OF schema_okD(1) [OF s] x])
  show "queue_get_group_permission u g d = Inr (policy_permission queue_policy (effective_role u g d))"
    using x ex member_role_public [OF r, of g "pk u"]
    by (auto simp: queue_get_group_permission_def effective_role_def policy_permission_def split: option.splits)
qed (simp add: queue_get_group_permission_def)

interpretation group_group: group_policy_impl group_get_group_permission group_policy
proof
  fix d :: db and g :: int and u :: user
  assume s: "schema_ok d" and r: "roles_ok d" and h: "has_row g (groups d)"
  obtain x where x: "get_row g (groups d) = Some x"
    using has_row_get_row [OF h] by blast
  have ex: "list_ex (\<lambda>y. owner_id y = pk u \<and> pk y = g) (groups d) \<longleftrightarrow> owner_id x = pk u"
    by (rule owner_list_ex [OF schema_okD(1) [OF s] x])
  show "group_get_group_permission u g d = Inr (policy_permission group_policy (effective_role u g d))"
    using x ex member_role_public [OF r, of g "pk u"]
    by (auto simp: group_get_group_permission_def effective_role_def policy_permission_def split: option.splits)
qed (simp add: group_get_group_permission_def)

interpretation conn_perm: resource_policy_impl connections "get_resource_permission connections" resource_policy
proof unfold_locales
  show "get_resource_permission connections u i d = NONE" if "get_row i (connections d) = None" for u i d
    using that by (simp add: get_resource_permission_def)
qed (rule resource_perm_policy; simp add: resource_group)

interpretation transfer_perm: resource_policy_impl transfers "get_resource_permission transfers" resource_policy
proof unfold_locales
  show "get_resource_permission transfers u i d = NONE" if "get_row i (transfers d) = None" for u i d
    using that by (simp add: get_resource_permission_def)
qed (rule resource_perm_policy; simp add: resource_group)

interpretation queue_perm: resource_policy_impl queues queue_get_resource_permission queue_policy
proof unfold_locales
  show "queue_get_resource_permission u i d = NONE" if "get_row i (queues d) = None" for u i d
    using that by (simp add: queue_get_resource_permission_def)
qed (rule queue_perm_policy; simp add: resource_group)

end
