(* ===== verification/Sync_Paging.thy ===== *)
theory Sync_Paging
  imports Sync_Permissions "HOL-Library.List_Lexorder" "HOL-Library.Char_ord"
begin

text \<open>
  Pages and search: \<open>Pagination\<close> of \<open>syncmaster/db/utils.py\<close>, the page queries of
  \<open>Repository\<close>, the page schemas, and the construction of a full-text query from what the user typed
  (\<open>syncmaster/db/repositories/search.py\<close>).
\<close>

section \<open>Pages\<close>

record 'a pagination =
  pg_items :: "'a list"
  pg_total :: int
  pg_page_size :: int
  pg_page :: int
  pg_previous_page :: "int option"
  pg_next_page :: "int option"
  pg_has_previous :: bool
  pg_has_next :: bool
  pg_pages :: int

text \<open>
  \<open>math.ceil(total / float(page_size)) or 1\<close>.  The division is in floating point; it is exact
  enough for the integer ceiling while \<open>total\<close> stays below \<open>2 ^ 47\<close>, with the page sizes the API
  accepts (1 to 50 or 200).
\<close>

definition page_count :: "int \<Rightarrow> int \<Rightarrow> int" where
  "page_count tot ps = (let n = - ((- tot) div ps) in if n = 0 then 1 else n)"

definition Pagination :: "'a list \<Rightarrow> int \<Rightarrow> int \<Rightarrow> int \<Rightarrow> 'a pagination" where
  "Pagination its p ps tot =
     (let has_previous = 1 < p;
          previous_items = (p - 1) * ps;
          has_next = previous_items + int (length its) < tot
      in \<lparr>pg_items = its, pg_total = tot, pg_page_size = ps, pg_page = p,
          pg_previous_page = (if has_previous then Some (p - 1) else None),
          pg_next_page = (if has_next then Some (p + 1) else None),
          pg_has_previous = has_previous, pg_has_next = has_next,
          pg_pages = page_count tot ps\<rparr>)"

text \<open>
  \<open>_paginate_scalar_result\<close> and \<open>_paginate_raw_result\<close>: the rows of the query with \<open>LIMIT\<close> and
  \<open>OFFSET\<close>, and its count.
\<close>

definition page_slice :: "'a list \<Rightarrow> int \<Rightarrow> int \<Rightarrow> 'a list" where
  "page_slice rows p ps = take (nat ps) (drop (nat ((p - 1) * ps)) rows)"

definition paginate_result :: "'a list \<Rightarrow> int \<Rightarrow> int \<Rightarrow> 'a pagination" where
  "paginate_result rows p ps = Pagination (page_slice rows p ps) p ps (int (length rows))"

text \<open>
  \<open>ORDER BY name\<close>: PostgreSQL compares texts by the sort keys of the collation, which is a parameter.
\<close>

definition order_by :: "(string \<Rightarrow> string) \<Rightarrow> ('a \<Rightarrow> string) \<Rightarrow> 'a list \<Rightarrow> 'a list" where
  "order_by collate column rows = sort_key (\<lambda>r. collate (column r)) rows"

record meta_page =
  mp_page :: int
  mp_pages :: int
  mp_total :: int
  mp_page_size :: int
  mp_has_next :: bool
  mp_has_previous :: bool
  mp_next_page :: "int option"
  mp_previous_page :: "int option"

record 'a page_schema =
  ps_meta :: meta_page
  ps_items :: "'a list"

text \<open>\<open>PageSchema.from_pagination\<close>; \<open>read\<close> is the validation of one item against its schema.\<close>

definition from_pagination :: "('a \<Rightarrow> 'b) \<Rightarrow> 'a pagination \<Rightarrow> 'b page_schema" where
  "from_pagination read p =
     \<lparr>ps_meta = \<lparr>mp_page = pg_page p, mp_pages = pg_pages p, mp_total = pg_total p,
        mp_page_size = pg_page_size p, mp_has_next = pg_has_next p, mp_has_previous = pg_has_previous p,
        mp_next_page = pg_next_page p, mp_previous_page = pg_previous_page p\<rparr>,
      ps_items = map read (pg_items p)\<rparr>"

lemma page_slice_length:
  assumes "1 \<le> p" and "0 < ps"
  shows "int (length (page_slice rows p ps)) =
     max 0 (min ps (int (length rows) - (p - 1) * ps))"
proof -
  have "0 \<le> (p - 1) * ps" using assms by simp
  then obtain k where k: "(p - 1) * ps = int k" using nonneg_int_cases by blast
  show ?thesis unfolding page_slice_def k using assms(2) by (auto simp: min_def max_def)
qed

lemma page_count_pos: "0 \<le> tot \<Longrightarrow> 0 < ps \<Longrightarrow> 1 \<le> page_count tot ps"
proof -
  assume a: "0 \<le> tot" "0 < ps"
  then have "(- tot) div ps \<le> 0" by (simp add: div_nonpos_pos_le0)
  then show ?thesis by (auto simp: page_count_def Let_def)
qed

lemma page_count_bounds:
  assumes "0 < tot" and "0 < ps"
  shows "(page_count tot ps - 1) * ps < tot" and "tot \<le> page_count tot ps * ps"
proof -
  define q r where "q = (- tot) div ps" and "r = (- tot) mod ps"
  have e: "- tot = q * ps + r" by (simp add: q_def r_def)
  have r: "0 \<le> r" "r < ps" using assms(2) by (simp_all add: r_def)
  have "q \<noteq> 0" using assms pos_imp_zdiv_neg_iff [of ps "- tot"] by (simp add: q_def)
  then have c: "page_count tot ps = - q" by (simp add: page_count_def Let_def q_def)
  show "(page_count tot ps - 1) * ps < tot" and "tot \<le> page_count tot ps * ps"
    unfolding c using e r by (simp_all add: algebra_simps)
qed

lemma page_count_le_iff:
  assumes "0 < ps" and "1 \<le> p" and "0 \<le> tot"
  shows "p < page_count tot ps \<longleftrightarrow> p * ps < tot"
proof (cases "tot = 0")
  case True
  moreover have "0 < p * ps" using assms by simp
  ultimately show ?thesis using assms(2) by (simp add: page_count_def not_less)
next
  case False
  with assms have t: "0 < tot" by simp
  note b = page_count_bounds [OF t assms(1)]
  show ?thesis
  proof
    assume "p < page_count tot ps"
    then have "p * ps \<le> (page_count tot ps - 1) * ps" using assms(1) by simp
    with b(1) show "p * ps < tot" by simp
  next
    assume "p * ps < tot"
    with b(2) have "p * ps < page_count tot ps * ps" by simp
    then show "p < page_count tot ps" using assms(1) by (simp add: mult_less_cancel_right)
  qed
qed

lemma paginate_has_next:
  assumes "1 \<le> p" and "0 < ps"
  shows "pg_has_next (paginate_result rows p ps) \<longleftrightarrow> p < pg_pages (paginate_result rows p ps)"
proof -
  have "(p - 1) * ps + max 0 (min ps (t - (p - 1) * ps)) < t \<longleftrightarrow> p * ps < t" if "0 \<le> t" for t :: int
    using assms by (simp add: algebra_simps min_def max_def)
  then show ?thesis
    using page_slice_length [OF assms, of rows] page_count_le_iff [OF assms(2,1), of "int (length rows)"]
    by (simp add: paginate_result_def Pagination_def Let_def)
qed

lemma page_slice_upto:
  assumes "0 \<le> ps"
  shows "concat (map (\<lambda>p. page_slice rows p ps) (map int [1..<Suc n])) = take (n * nat ps) rows"
proof (induction n)
  case (Suc n)
  have "nat ((int (Suc n) - 1) * ps) = n * nat ps"
    using assms by (simp add: nat_mult_distrib)
  then show ?case using Suc
    by (simp add: page_slice_def take_add [symmetric] add.commute)
qed simp

lemma pages_cover:
  assumes "0 < ps"
  shows "concat (map (\<lambda>p. pg_items (paginate_result rows p ps))
      (map int [1..<Suc (nat (page_count (int (length rows)) ps))])) = rows"
proof -
  let ?n = "page_count (int (length rows)) ps"
  have "int (length rows) \<le> ?n * ps"
    using page_count_bounds(2) [of "int (length rows)" ps] assms
    by (cases "rows = []") (simp_all add: page_count_def)
  moreover have "1 \<le> ?n" using page_count_pos [of "int (length rows)" ps] assms by simp
  ultimately have "length rows \<le> nat ?n * nat ps"
    using assms by (metis int_nat_eq nat_int nat_le_iff nat_mult_distrib order.trans zero_le_one)
  then show ?thesis
    using page_slice_upto [of ps rows "nat ?n"] assms
    by (simp add: paginate_result_def Pagination_def Let_def)
qed

section \<open>Full-text queries\<close>

definition punctuation :: string where
  "punctuation = ''!'' @ [CHR 0x22] @ ''#$%&'' @ [CHR 0x27] @ ''()*+,-./:;<=>?@['' @ [CHR 0x5C] @ '']^_'' @
     [CHR 0x60] @ ''{|}~''"

definition TSQUERY_UNSUPPORTED_CHARS :: string where
  "TSQUERY_UNSUPPORTED_CHARS = filter (\<lambda>c. c \<notin> set ''/._-'') punctuation"

definition combine_words :: "string list \<Rightarrow> bool \<Rightarrow> string" where
  "combine_words ws by_prefix = (let modifier = (if by_prefix then '':*'' else []) in
     join '' & '' (map (\<lambda>w. [CHR 0x27] @ w @ [CHR 0x27] @ modifier) (filter (\<lambda>w. w \<noteq> []) ws)))"

definition combine_queries :: "string list \<Rightarrow> string" where
  "combine_queries qs = join '' | '' (map (\<lambda>q. ''('' @ q @ '')'') (filter (\<lambda>q. q \<noteq> []) qs))"

definition words_with_supported_punctuation :: "string \<Rightarrow> string list" where
  "words_with_supported_punctuation q =
     filter (\<lambda>part. \<not> list_all (\<lambda>c. c \<in> set punctuation) part)
       (py_split (translate_to_space TSQUERY_UNSUPPORTED_CHARS q))"

definition words_without_any_punctuation :: "string \<Rightarrow> string list" where
  "words_without_any_punctuation q = py_split (translate_to_space punctuation q)"

definition build_tsquery :: "string \<Rightarrow> string" where
  "build_tsquery user_input =
     (let original_words = words_with_supported_punctuation user_input;
          only_words = words_without_any_punctuation user_input
      in combine_queries
           [combine_words original_words False,
            combine_words original_words True,
            if only_words \<noteq> original_words then combine_words only_words True else []])"

text \<open>
  The quoted lexemes of a query text, read from left to right the way \<open>to_tsquery\<close> does: what stands
  between a quote and the next one.
\<close>

abbreviation quote_char :: char where
  "quote_char \<equiv> CHR 0x27"

function quoted :: "string \<Rightarrow> string list" where
  "quoted s = (case dropWhile (\<lambda>c. c \<noteq> quote_char) s of
      [] \<Rightarrow> []
    | _ # r \<Rightarrow> takeWhile (\<lambda>c. c \<noteq> quote_char) r # quoted (drop 1 (dropWhile (\<lambda>c. c \<noteq> quote_char) r)))"
  by pat_completeness auto
termination
proof (relation "measure length")
  fix s :: string and a :: char and r :: string
  assume "dropWhile (\<lambda>c. c \<noteq> quote_char) s = a # r"
  then have "length (a # r) \<le> length s" by (metis length_dropWhile_le)
  moreover have "length (dropWhile (\<lambda>c. c \<noteq> quote_char) r) \<le> length r" by (rule length_dropWhile_le)
  ultimately show "(drop 1 (dropWhile (\<lambda>c. c \<noteq> quote_char) r), s) \<in> measure length" by simp
qed simp

declare quoted.simps [simp del]

lemma quoted_Nil [simp]: "quoted [] = []"
  by (simp add: quoted.simps [of "[]"])

lemma quoted_skip: "quote_char \<notin> set pre \<Longrightarrow> quoted (pre @ rest) = quoted rest"
proof -
  assume "quote_char \<notin> set pre"
  then have "dropWhile (\<lambda>c. c \<noteq> quote_char) (pre @ rest) = dropWhile (\<lambda>c. c \<noteq> quote_char) rest"
    by (induction pre) auto
  then show ?thesis by (simp add: quoted.simps [of "pre @ rest"] quoted.simps [of rest])
qed

lemma takeWhile_quote:
  "quote_char \<notin> set w \<Longrightarrow> takeWhile (\<lambda>c. c \<noteq> quote_char) (w @ quote_char # rest) = w \<and>
     dropWhile (\<lambda>c. c \<noteq> quote_char) (w @ quote_char # rest) = quote_char # rest"
  by (induction w) auto

lemma quoted_word:
  "quote_char \<notin> set w \<Longrightarrow> quoted (quote_char # w @ quote_char # rest) = w # quoted rest"
  by (simp add: quoted.simps [of "quote_char # w @ quote_char # rest"] takeWhile_quote)

lemma quoted_join_words:
  assumes "quote_char \<notin> set m" and "quote_char \<notin> set sep" and "\<forall>w \<in> set ws. quote_char \<notin> set w"
  shows "quoted (join sep (map (\<lambda>w. quote_char # w @ quote_char # m) ws) @ rest) = ws @ quoted rest"
  using assms(3)
proof (induction ws rule: induct_list012)
  case (2 w)
  then show ?case using assms(1) by (simp add: quoted_word quoted_skip)
next
  case (3 w v ws)
  have "quoted (m @ sep @ x) = quoted x" for x
    using quoted_skip [of "m @ sep" x] assms(1,2) by simp
  with 3 show ?case by (simp add: quoted_word)
qed simp

lemma quoted_combine_words:
  assumes "\<forall>w \<in> set ws. quote_char \<notin> set w \<and> w \<noteq> []"
  shows "quoted (combine_words ws p @ rest) = ws @ quoted rest"
  using assms quoted_join_words [of "if p then '':*'' else []" "'' & ''" ws rest]
  by (simp add: combine_words_def Let_def)

lemma combine_words_Nil: "combine_words ws p = [] \<longleftrightarrow> filter (\<lambda>w. w \<noteq> []) ws = []"
  unfolding combine_words_def Let_def by (cases "filter (\<lambda>w. w \<noteq> []) ws" rule: remdups_adj.cases) auto

lemma quoted_combine_queries:
  assumes "\<And>q rest. q \<in> set qs \<Longrightarrow> quoted (q @ rest) = f q @ quoted rest"
  shows "quoted (combine_queries qs) = concat (map f qs)"
proof -
  have skip: "quoted (CHR ''('' # x) = quoted x" "quoted ('')'' @ x) = quoted x"
    "quoted ('') | '' @ x) = quoted x" for x
    using quoted_skip [of "''(''" x] quoted_skip [of "'')''" x] quoted_skip [of "'') | ''" x] by simp_all
  have join: "quoted (join '' | '' (map (\<lambda>q. ''('' @ q @ '')'') zs)) = concat (map f zs)"
    if "set zs \<subseteq> set qs" for zs
    using that
  proof (induction zs rule: induct_list012)
    case (2 q)
    then show ?case using assms [of q "'')''"] skip(1) [of "q @ '')''"] skip(2) [of "[]"] by simp
  next
    case (3 q q' zs)
    then show ?case using assms [of q] skip by simp
  qed simp
  have nil: "f q = []" if "q \<in> set qs" "q = []" for q
    using assms [OF that(1), of "[]"] that(2) by simp
  have "concat (map f (filter (\<lambda>q. q \<noteq> []) zs)) = concat (map f zs)" if "set zs \<subseteq> set qs" for zs
    using that nil by (induction zs) auto
  then show ?thesis unfolding combine_queries_def using join [of "filter (\<lambda>q. q \<noteq> []) qs"] by auto
qed

lemma py_split_safe:
  assumes "w \<in> set (py_split (translate_to_space bad q))" and "CHR '' '' \<notin> set bad"
  shows "w \<noteq> [] \<and> (\<forall>c \<in> set w. c \<notin> set bad \<and> \<not> is_space c)"
proof -
  have "c \<notin> set bad" if "c \<in> set w" for c
    using py_split_chars [OF assms(1) that] assms(2) by (auto simp: translate_to_space_def split: if_splits)
  with py_split_words [OF assms(1)] show ?thesis by blast
qed

lemma supported_words_safe:
  "w \<in> set (words_with_supported_punctuation q) \<Longrightarrow>
     w \<noteq> [] \<and> (\<forall>c \<in> set w. c \<notin> set TSQUERY_UNSUPPORTED_CHARS \<and> \<not> is_space c) \<and>
     (\<exists>c \<in> set w. c \<notin> set punctuation)"
proof -
  assume "w \<in> set (words_with_supported_punctuation q)"
  then have w: "w \<in> set (py_split (translate_to_space TSQUERY_UNSUPPORTED_CHARS q))"
    and p: "\<not> list_all (\<lambda>c. c \<in> set punctuation) w"
    by (simp_all add: words_with_supported_punctuation_def)
  have "CHR '' '' \<notin> set TSQUERY_UNSUPPORTED_CHARS" by code_simp
  from py_split_safe [OF w this] p show ?thesis by (simp add: list_all_iff)
qed

lemma only_words_safe:
  "w \<in> set (words_without_any_punctuation q) \<Longrightarrow>
     w \<noteq> [] \<and> (\<forall>c \<in> set w. c \<notin> set punctuation \<and> \<not> is_space c)"
proof -
  assume w: "w \<in> set (words_without_any_punctuation q)"
  have "CHR '' '' \<notin> set punctuation" by code_simp
  from py_split_safe [OF w [unfolded words_without_any_punctuation_def] this] show ?thesis .
qed

lemma quote_unsupported: "quote_char \<in> set TSQUERY_UNSUPPORTED_CHARS \<and> quote_char \<in> set punctuation"
  by code_simp

lemma quoted_build_tsquery:
  "quoted (build_tsquery q) =
     words_with_supported_punctuation q @ words_with_supported_punctuation q @
     (if words_without_any_punctuation q \<noteq> words_with_supported_punctuation q
      then words_without_any_punctuation q else [])"
proof -
  let ?o = "words_with_supported_punctuation q" and ?w = "words_without_any_punctuation q"
  let ?qs = "[combine_words ?o False, combine_words ?o True, if ?w \<noteq> ?o then combine_words ?w True else []]"
  have o: "\<forall>w \<in> set ?o. quote_char \<notin> set w \<and> w \<noteq> []"
    using supported_words_safe quote_unsupported by blast
  have w: "\<forall>w \<in> set ?w. quote_char \<notin> set w \<and> w \<noteq> []"
    using only_words_safe quote_unsupported by blast
  note c = quoted_combine_words [OF o] quoted_combine_words [OF w]
  have "quoted (x @ rest) = quoted x @ quoted rest" if "x \<in> set ?qs" for x rest
    using that c [where rest = "[]"] c by (auto split: if_splits)
  from quoted_combine_queries [of ?qs quoted, OF this] show ?thesis
    using c [where rest = "[]"] by (simp add: build_tsquery_def Let_def)
qed

end
