(* ===== verification/Sync_Groups.thy ===== *)
theory Sync_Groups
  imports Sync_Paging
begin

text \<open>
  Groups: \<open>GroupRepository\<close> (\<open>syncmaster/db/repositories/group.py\<close>) and the handlers of
  \<open>syncmaster/server/api/v1/groups.py\<close>, with the invariants they keep: membership rows hold public
  roles, and the owner of a group is never also a member row of it.
\<close>

section \<open>Schemas\<close>

record create_group_schema =
  cg_name :: string
  cg_description :: string

record update_group_schema = create_group_schema +
  cg_owner_id :: int

record read_group_schema = update_group_schema +
  rg_id :: int

definition read_group_of :: "group \<Rightarrow> read_group_schema" where
  "read_group_of g = \<lparr>cg_name = gname g, cg_description = gdescription g, cg_owner_id = owner_id g, rg_id = pk g\<rparr>"

text \<open>
  \<open>AddUserSchema\<close>: the validator rejects roles that are not public and pydantic then parses the role;
  a missing or empty role passes the validator and fails in pydantic.
\<close>

definition add_user_schema :: "string option \<Rightarrow> group_member_role res" where
  "add_user_schema role = (case role of
      None \<Rightarrow> Inl (ValueError ''Field required'')
    | Some r \<Rightarrow>
        if r \<noteq> [] \<and> \<not> is_public_role r then Inl (ValueError (''Input should be one of: '' @ public_roles_str))
        else parse_role r)"

lemma add_user_schema_public: "add_user_schema role = Inr r \<Longrightarrow> r \<in> set public_roles"
proof -
  assume a: "add_user_schema role = Inr r"
  then obtain s where s: "role = Some s" and p: "parse_role s = Inr r"
    and "s = [] \<or> is_public_role s"
    by (auto simp: add_user_schema_def split: option.splits if_splits)
  with parse_roleD [OF p] have "is_public_role (role_value r)" by (cases r) auto
  then show ?thesis by (auto simp: is_public_role_iff public_roles_def)
qed

section \<open>Full-text search over a table\<close>

text \<open>
  What PostgreSQL contributes to a search: the collation, whether the row's search vector matches
  a query text parsed by \<open>to_tsquery('simple', \<dots>)\<close> or by \<open>plainto_tsquery('russian', \<dots>)\<close>, and the
  row's rank for what the user typed, as a position on the integers.  The code joins the two queries
  with \<open>||\<close>.
\<close>

record 'r text_search =
  collate :: "string \<Rightarrow> string"
  to_tsquery_match :: "'r \<Rightarrow> string \<Rightarrow> bool"
  plainto_tsquery_match :: "'r \<Rightarrow> string \<Rightarrow> bool"
  ts_rank :: "'r \<Rightarrow> string \<Rightarrow> int"

definition make_tsquery_match :: "'r text_search \<Rightarrow> string \<Rightarrow> 'r \<Rightarrow> bool" where
  "make_tsquery_match ts user_input row \<longleftrightarrow>
     to_tsquery_match ts row (build_tsquery user_input) \<or> plainto_tsquery_match ts row user_input"

text \<open>
  \<open>_construct_vector_search\<close>, under the callers' \<open>if search_query\<close>: keep the rows that match, best rank
  first.  Sorting is stable, so an order given to the argument is the secondary one.
\<close>

definition construct_vector_search :: "'r text_search \<Rightarrow> string option \<Rightarrow> ('a \<Rightarrow> 'r) \<Rightarrow> 'a list \<Rightarrow> 'a list" where
  "construct_vector_search ts search_query f rows =
     (case search_query of
        None \<Rightarrow> rows
      | Some q \<Rightarrow>
          if q = [] then rows
          else sort_key (\<lambda>r. - ts_rank ts (f r) q) (filter (\<lambda>r. make_tsquery_match ts q (f r)) rows))"

lemma construct_vector_search_set:
  "set (construct_vector_search ts q f rows) \<subseteq> set rows"
  by (auto simp: construct_vector_search_def split: option.splits)

lemma construct_vector_search_none [simp]:
  "construct_vector_search ts None f rows = rows" "construct_vector_search ts (Some []) f rows = rows"
  by (simp_all add: construct_vector_search_def)

section \<open>The repository\<close>

text \<open>\<open>except IntegrityError\<close>: the error is translated by the constraint it names.\<close>

definition on_integrity :: "(string \<Rightarrow> exn) \<Rightarrow> exn \<Rightarrow> exn" where
  "on_integrity h e = (case e of IntegrityError c \<Rightarrow> h c | _ \<Rightarrow> e)"

definition group_raise_error :: "string \<Rightarrow> exn" where
  "group_raise_error c =
     (if c = ''fk__group__owner_id__user'' then UserNotFoundError
      else if c = ''uq__group__name'' then GroupAlreadyExistsError
      else if c = ''pk__user_group'' then AlreadyIsGroupMemberError
      else if c = ''fk__user_group__group_id__group'' then GroupNotFoundError
      else if c = ''fk__user_group__user_id__user'' then UserNotFoundError
      else SyncmasterError)"

definition group_repo_paginate_for_superuser ::
  "group text_search \<Rightarrow> int \<Rightarrow> int \<Rightarrow> string option \<Rightarrow> db \<Rightarrow> (group \<times> group_member_role) pagination" where
  "group_repo_paginate_for_superuser ts p ps search_query d =
     (let result = paginate_result
            (construct_vector_search ts search_query id (order_by (collate ts) gname (groups d))) p ps
      in Pagination (map (\<lambda>g. (g, Superuser)) (pg_items result)) p ps (pg_total result))"

text \<open>The groups a user owns, and those he is a member of with the role, before they are cut into pages.\<close>

definition owned_groups :: "group text_search \<Rightarrow> int \<Rightarrow> string option \<Rightarrow> db \<Rightarrow> (group \<times> group_member_role) list" where
  "owned_groups ts uid search_query d =
     map (\<lambda>g. (g, Owner))
       (order_by (collate ts) gname
         (construct_vector_search ts search_query id (filter (\<lambda>g. owner_id g = uid) (groups d))))"

definition member_groups ::
  "group text_search \<Rightarrow> int \<Rightarrow> group_member_role list option \<Rightarrow> string option \<Rightarrow> db \<Rightarrow> (group \<times> group_member_role) list" where
  "member_groups ts uid roles search_query d =
     order_by (collate ts) (\<lambda>(g, _). gname g)
       (construct_vector_search ts search_query fst
         (concat (map (\<lambda>ug. map (\<lambda>g. (g, ug_role ug)) (filter (\<lambda>g. pk g = ug_group_id ug) (groups d)))
           (filter (\<lambda>ug. ug_user_id ug = uid \<and>
               (case roles of None \<Rightarrow> True | Some rs \<Rightarrow> rs = [] \<or> ug_role ug \<in> set rs))
             (user_groups d)))))"

definition group_repo_paginate_for_user ::
  "group text_search \<Rightarrow> int \<Rightarrow> int \<Rightarrow> int \<Rightarrow> string option \<Rightarrow> string option \<Rightarrow> db \<Rightarrow>
    (group \<times> group_member_role) pagination res" where
  "group_repo_paginate_for_user ts p ps uid role search_query d =
     (let page_of = (\<lambda>owned members. let combined = owned @ members in
            Pagination (page_slice combined p ps) p ps (int (length owned) + int (length members)))
      in case role of
          None \<Rightarrow> Inr (page_of (owned_groups ts uid search_query d) (member_groups ts uid None search_query d))
        | Some r \<Rightarrow>
            if r = [] then
              Inr (page_of (owned_groups ts uid search_query d) (member_groups ts uid None search_query d))
            else (case roles_at_least r of
                Inl e \<Rightarrow> Inl e
              | Inr rs \<Rightarrow> (case is_at_least_privilege_level Owner r of
                  Inl e \<Rightarrow> Inl e
                | Inr ok \<Rightarrow> Inr (page_of (if ok then owned_groups ts uid search_query d else [])
                    (member_groups ts uid (Some rs) search_query d)))))"

definition group_repo_read_by_id :: "int \<Rightarrow> group act" where
  "group_repo_read_by_id gid = query (\<lambda>d. case get_row gid (groups d) of
      None \<Rightarrow> Inl GroupNotFoundError | Some g \<Rightarrow> Inr g)"

definition group_repo_create :: "int \<Rightarrow> string \<Rightarrow> string \<Rightarrow> int \<Rightarrow> group act" where
  "group_repo_create now name desc owner = exec (\<lambda>d. rethrow (on_integrity group_raise_error)
     (insert_group (\<lambda>i. \<lparr>pk = i, created_at = now, updated_at = now, gname = name, gdescription = desc,
        owner_id = owner\<rparr>) d))"

definition group_repo_update :: "int \<Rightarrow> int \<Rightarrow> string \<Rightarrow> string \<Rightarrow> int \<Rightarrow> group act" where
  "group_repo_update now gid name desc owner = exec (\<lambda>d.
     rethrow (\<lambda>e. if is_EntityNotFoundError e then GroupNotFoundError else on_integrity group_raise_error e)
       (update_group_row gid (\<lambda>g. g\<lparr>gname := name, gdescription := desc, owner_id := owner, updated_at := now\<rparr>) d))"

definition group_repo_get_member_role :: "user \<Rightarrow> int \<Rightarrow> group_member_role act" where
  "group_repo_get_member_role u gid = query (\<lambda>d.
     if is_superuser u then Inr Superuser
     else (case get_user_group_row gid (pk u) d of Some ug \<Rightarrow> Inr (ug_role ug) | None \<Rightarrow> Inr Owner))"

definition group_repo_update_member_role :: "int \<Rightarrow> int \<Rightarrow> group_member_role \<Rightarrow> user_group act" where
  "group_repo_update_member_role gid uid role =
     bindE (exec (\<lambda>d. rethrow (on_integrity group_raise_error) (update_user_group_row gid uid role d)))
       (\<lambda>obj. case obj of None \<Rightarrow> raise UserNotFoundError | Some x \<Rightarrow> return x)"

definition group_repo_get_member_paginate ::
  "(string \<Rightarrow> string) \<Rightarrow> int \<Rightarrow> int \<Rightarrow> int \<Rightarrow> (user \<times> group_member_role) pagination act" where
  "group_repo_get_member_paginate collation p ps gid =
     bindE (group_repo_read_by_id gid) (\<lambda>g. query (\<lambda>d. Inr (paginate_result
       (order_by collation (\<lambda>(u, _). username u)
         (concat (map (\<lambda>u. map (\<lambda>ug. (u, ug_role ug))
             (filter (\<lambda>ug. ug_user_id ug = pk u \<and> ug_group_id ug = pk g) (user_groups d)))
           (filter is_active (users d))))) p ps)))"

definition group_repo_delete :: "int \<Rightarrow> group act" where
  "group_repo_delete gid = exec (\<lambda>d.
     rethrow (\<lambda>e. if is_EntityNotFoundError e \<or> e = NoResultFound then GroupNotFoundError else e)
       (delete_group_row gid d))"

definition group_repo_add_user :: "int \<Rightarrow> int \<Rightarrow> group_member_role \<Rightarrow> user_group act" where
  "group_repo_add_user gid uid role = exec (\<lambda>d. rethrow (on_integrity group_raise_error)
     (insert_user_group \<lparr>ug_user_id = uid, ug_group_id = gid, ug_role = role\<rparr> d))"

definition group_repo_get_user_group :: "int \<Rightarrow> int \<Rightarrow> user_group option act" where
  "group_repo_get_user_group gid uid = query (\<lambda>d. Inr (get_user_group_row gid uid d))"

definition group_repo_delete_user :: "int \<Rightarrow> int \<Rightarrow> unit act" where
  "group_repo_delete_user gid uid =
     bindE (query (\<lambda>d. Inr (get_user_group_row gid uid d))) (\<lambda>ug. case ug of
        None \<Rightarrow> raise AlreadyIsNotGroupMemberError
      | Some _ \<Rightarrow> exec (delete_user_group_row gid uid))"

section \<open>The handlers\<close>

definition read_groups ::
  "group text_search \<Rightarrow> int \<Rightarrow> int \<Rightarrow> string option \<Rightarrow> string option \<Rightarrow> user \<Rightarrow>
    (read_group_schema \<times> group_member_role) page_schema act" where
  "read_groups ts p ps role search_query u =
     bindE (query (\<lambda>d. if is_superuser u then Inr (group_repo_paginate_for_superuser ts p ps search_query d)
              else group_repo_paginate_for_user ts p ps (pk u) role search_query d))
       (\<lambda>pagination. return (from_pagination (\<lambda>(g, r). (read_group_of g, r)) pagination))"

definition create_group :: "int \<Rightarrow> create_group_schema \<Rightarrow> user \<Rightarrow> read_group_schema act" where
  "create_group now group_data u =
     bindE (uow (group_repo_create now (cg_name group_data) (cg_description group_data) (pk u)))
       (\<lambda>g. return (read_group_of g))"

definition read_group :: "int \<Rightarrow> user \<Rightarrow> (read_group_schema \<times> group_member_role) act" where
  "read_group gid u =
     bindE (query (group_get_group_permission u gid)) (\<lambda>resource_role.
     if resource_role = NONE then raise GroupNotFoundError
     else bindE (group_repo_read_by_id gid) (\<lambda>g.
       bindE (group_repo_get_member_role u gid) (\<lambda>user_role. return (read_group_of g, user_role))))"

text \<open>The body of \<open>update_group\<close>: on a change of owner the new owner's membership goes and the previous owner becomes a guest.\<close>

definition update_group_block :: "int \<Rightarrow> int \<Rightarrow> update_group_schema \<Rightarrow> group act" where
  "update_group_block now gid group_data =
     bindE (group_repo_read_by_id gid) (\<lambda>g0.
     bindE (group_repo_update now gid (cg_name group_data) (cg_description group_data) (cg_owner_id group_data)) (\<lambda>g.
     if owner_id g0 \<noteq> cg_owner_id group_data then
       bindE (group_repo_get_user_group gid (cg_owner_id group_data)) (\<lambda>new_owner_user_group.
       bindE (case new_owner_user_group of
           Some _ \<Rightarrow> group_repo_delete_user gid (cg_owner_id group_data)
         | None \<Rightarrow> return ()) (\<lambda>_.
       bindE (group_repo_add_user gid (owner_id g0) Guest) (\<lambda>_. return g)))
     else return g))"

definition update_group :: "int \<Rightarrow> int \<Rightarrow> update_group_schema \<Rightarrow> user \<Rightarrow> read_group_schema act" where
  "update_group now gid group_data u =
     bindE (query (group_get_group_permission u gid)) (\<lambda>resource_rule.
     if resource_rule = NONE then raise GroupNotFoundError
     else if resource_rule < DELETE then raise ActionNotAllowedError
     else bindE (uow (update_group_block now gid group_data)) (\<lambda>g. return (read_group_of g)))"

definition delete_group :: "int \<Rightarrow> unit act" where
  "delete_group gid = uow (bindE (group_repo_delete gid) (\<lambda>_. return ()))"

definition read_group_users ::
  "(string \<Rightarrow> string) \<Rightarrow> int \<Rightarrow> int \<Rightarrow> int \<Rightarrow> user \<Rightarrow> (int \<times> string \<times> group_member_role) page_schema act" where
  "read_group_users collation gid p ps u =
     bindE (query (group_get_group_permission u gid)) (\<lambda>resource_role.
     if resource_role = NONE then raise GroupNotFoundError
     else bindE (group_repo_get_member_paginate collation p ps gid) (\<lambda>pagination.
       return (from_pagination (\<lambda>(m, role). (pk m, username m, role)) pagination)))"

definition update_user_role_group :: "int \<Rightarrow> int \<Rightarrow> group_member_role \<Rightarrow> user \<Rightarrow> group_member_role act" where
  "update_user_role_group gid uid role u =
     bindE (query (group_get_group_permission u gid)) (\<lambda>resource_rule.
     if resource_rule = NONE then raise GroupNotFoundError
     else if resource_rule < DELETE then raise ActionNotAllowedError
     else bindE (uow (group_repo_update_member_role gid uid role)) (\<lambda>x. return (ug_role x)))"

definition add_user_to_group :: "int \<Rightarrow> int \<Rightarrow> group_member_role \<Rightarrow> user \<Rightarrow> unit act" where
  "add_user_to_group gid uid role u =
     bindE (query (group_get_group_permission u gid)) (\<lambda>resource_rule.
     if resource_rule = NONE then raise GroupNotFoundError
     else if resource_rule < DELETE then raise ActionNotAllowedError
     else bindE (group_repo_read_by_id gid) (\<lambda>g.
       if owner_id g = uid then raise AlreadyIsGroupOwnerError
       else uow (bindE (group_repo_add_user gid uid role) (\<lambda>_. return ()))))"

definition delete_user_from_group :: "int \<Rightarrow> int \<Rightarrow> user \<Rightarrow> unit act" where
  "delete_user_from_group gid uid u =
     bindE (query (group_get_group_permission u gid)) (\<lambda>resource_rule.
     if resource_rule = NONE then raise GroupNotFoundError
     else if uid \<noteq> pk u \<and> resource_rule < DELETE then raise ActionNotAllowedError
     else uow (group_repo_delete_user gid uid))"

section \<open>Invariants\<close>

text \<open>The owner of a group holds no membership row of it.\<close>

definition owner_ok :: "db \<Rightarrow> bool" where
  "owner_ok d \<longleftrightarrow> (\<forall>x \<in> set (user_groups d). \<forall>g \<in> set (groups d).
     pk g = ug_group_id x \<longrightarrow> owner_id g \<noteq> ug_user_id x)"

definition db_ok :: "db \<Rightarrow> bool" where
  "db_ok d \<longleftrightarrow> schema_ok d \<and> roles_ok d \<and> owner_ok d"

named_theorems db_keeps \<open>repository methods keep the database invariant\<close>
named_theorems repo_uncommitted \<open>repository methods never commit\<close>
named_theorems repo_pure \<open>repository methods that only read\<close>

lemma db_ok_empty_db: "db_ok empty_db"
  using schema_ok_empty_db by (simp add: db_ok_def roles_ok_def owner_ok_def) (simp add: empty_db_def)

lemma db_okD: "db_ok d \<Longrightarrow> schema_ok d" "db_ok d \<Longrightarrow> roles_ok d" "db_ok d \<Longrightarrow> owner_ok d"
  by (simp_all add: db_ok_def)

text \<open>Statements that leave groups and memberships alone only have to keep the schema.\<close>

lemma db_ok_frame:
  "db_ok d \<Longrightarrow> schema_ok d' \<Longrightarrow> groups d' = groups d \<Longrightarrow> user_groups d' = user_groups d \<Longrightarrow> db_ok d'"
  by (simp add: db_ok_def roles_ok_def owner_ok_def)

lemma cascade_members [simp]:
  "groups (cascade_transfers P d) = groups d" "user_groups (cascade_transfers P d) = user_groups d"
  "groups (cascade_connections Q d) = groups d" "user_groups (cascade_connections Q d) = user_groups d"
  "groups (cascade_queues R d) = groups d" "user_groups (cascade_queues R d) = user_groups d"
  by (simp_all add: cascade_transfers_def cascade_connections_def cascade_queues_def Let_def)

lemma owner_ok_subset:
  "owner_ok d \<Longrightarrow> set (groups d') \<subseteq> set (groups d) \<Longrightarrow> set (user_groups d') \<subseteq> set (user_groups d) \<Longrightarrow> owner_ok d'"
  unfolding owner_ok_def by blast

lemma roles_ok_subset: "roles_ok d \<Longrightarrow> set (user_groups d') \<subseteq> set (user_groups d) \<Longrightarrow> roles_ok d'"
  unfolding roles_ok_def by blast

lemma insert_group_db:
  assumes "db_ok d" and "insert_group mk d = Inr (r, d')" and "\<And>i. pk (mk i) = i"
  shows "db_ok d'"
proof -
  from assms(2) have d': "groups d' = groups d @ [r]" "user_groups d' = user_groups d" "pk r = seq_group d"
    using assms(3) by (auto simp: insert_group_def Let_def split: if_splits)
  have "has_row (ug_group_id x) (groups d)" if "x \<in> set (user_groups d)" for x
    using db_okD(1) [OF assms(1)] that by (simp add: schema_ok_def fk_ok_def)
  moreover have "\<not> has_row (pk r) (groups d)"
    using db_okD(1) [OF assms(1)] keys_ok_fresh [of "groups d" "seq_group d"]
    by (simp add: schema_ok_def pk_ok_def d'(3))
  ultimately have "owner_ok d'"
    using db_okD(3) [OF assms(1)] unfolding owner_ok_def d'(1,2) by fastforce
  moreover have "schema_ok d'" using insert_group_schema [OF db_okD(1) [OF assms(1)] assms(2,3)] .
  ultimately show ?thesis using db_okD(2) [OF assms(1)] by (simp add: db_ok_def roles_ok_def d')
qed

lemma delete_group_db:
  assumes "db_ok d" and "delete_group_row g d = Inr (r, d')"
  shows "db_ok d'"
proof -
  have "set (groups d') \<subseteq> set (groups d)" "set (user_groups d') \<subseteq> set (user_groups d)"
    using assms(2) by (auto simp: delete_group_row_def cascade_group_def split: option.splits)
  with assms show ?thesis
    by (meson db_ok_def delete_group_row_schema owner_ok_subset roles_ok_subset)
qed

lemma delete_user_group_db:
  assumes "db_ok d" and "delete_user_group_row g u d = Inr (r, d')"
  shows "db_ok d'"
proof -
  have "set (groups d') \<subseteq> set (groups d)" "set (user_groups d') \<subseteq> set (user_groups d)"
    using assms(2) by (auto simp: delete_user_group_row_def)
  with assms show ?thesis
    by (meson db_ok_def delete_user_group_row_schema owner_ok_subset roles_ok_subset)
qed

lemma update_user_group_db:
  assumes "db_ok d" and "update_user_group_row g u role d = Inr (r, d')" and "role \<in> set public_roles"
  shows "db_ok d'"
proof -
  have g: "groups d' = groups d" and m: "user_groups d' =
      map (\<lambda>x. if ug_group_id x = g \<and> ug_user_id x = u then x\<lparr>ug_role := role\<rparr> else x) (user_groups d)"
    using assms(2) by (auto simp: update_user_group_row_def)
  have "roles_ok d'" using db_okD(2) [OF assms(1)] assms(3) by (auto simp: roles_ok_def m)
  moreover have "owner_ok d'" using db_okD(3) [OF assms(1)] by (auto simp: owner_ok_def m g)
  ultimately show ?thesis using update_user_group_row_schema [OF db_okD(1) [OF assms(1)] assms(2)]
    by (simp add: db_ok_def)
qed

lemma insert_user_group_db:
  assumes "db_ok d" and "insert_user_group x d = Inr (r, d')" and "ug_role x \<in> set public_roles"
    and "get_row (ug_group_id x) (groups d) = Some g" and "owner_id g \<noteq> ug_user_id x"
  shows "db_ok d'"
proof -
  have d': "groups d' = groups d" "user_groups d' = user_groups d @ [x]"
    using assms(2) by (auto simp: insert_user_group_def split: if_splits)
  have "owner_id y \<noteq> ug_user_id x" if "y \<in> set (groups d)" "pk y = ug_group_id x" for y
    using get_row_eq [OF schema_okD(1) [OF db_okD(1) [OF assms(1)]] that(1)] that(2) assms(4,5) by simp
  then have "owner_ok d'" using db_okD(3) [OF assms(1)] by (auto simp: owner_ok_def d')
  moreover have "roles_ok d'" using db_okD(2) [OF assms(1)] assms(3) by (auto simp: roles_ok_def d')
  ultimately show ?thesis using insert_user_group_schema [OF db_okD(1) [OF assms(1)] assms(2)]
    by (simp add: db_ok_def)
qed

text \<open>A change of owner: the row is updated, the new owner's membership removed, the previous owner added.\<close>

lemma schema_update_group:
  assumes "schema_ok d" and "update_group_row i f d = Inr (r, d')"
  shows "schema_ok d'" and "groups d' = set_row r (groups d)" and "pk r = i"
    and "user_groups d' = user_groups d"
  using update_group_row_schema [OF assms] groups.upd_law [OF assms(2)] groups.upd_pk [OF assms(2)] assms(2)
  by (auto simp: update_group_row_def Let_def split: option.splits if_splits)

lemma owner_ok_same_owner:
  assumes "owner_ok d" and "get_row i (groups d) = Some g0" and "groups d' = set_row r (groups d)" and "pk r = i"
    and "user_groups d' = user_groups d" and "owner_id r = owner_id g0"
  shows "owner_ok d'"
  unfolding owner_ok_def
proof (intro ballI impI)
  fix x g
  assume x: "x \<in> set (user_groups d')" and g: "g \<in> set (groups d')" and k: "pk g = ug_group_id x"
  from g assms(3) consider "g = r" | "g \<in> set (groups d)" using set_set_row by fastforce
  then show "owner_id g \<noteq> ug_user_id x"
  proof cases
    case 1
    with get_row_Some [OF assms(2)] assms(1,4,5,6) x k show ?thesis by (auto simp: owner_ok_def)
  next
    case 2
    with assms(1,5) x k show ?thesis by (auto simp: owner_ok_def)
  qed
qed

lemma owner_ok_new_owner:
  assumes "owner_ok d" and "groups d' = set_row r (groups d)" and "pk r = i"
    and "set (user_groups d') \<subseteq> insert \<lparr>ug_user_id = o0, ug_group_id = i, ug_role = role\<rparr>
      {x \<in> set (user_groups d). \<not> (ug_group_id x = i \<and> ug_user_id x = owner_id r)}"
    and "o0 \<noteq> owner_id r"
  shows "owner_ok d'"
  unfolding owner_ok_def
proof (intro ballI impI)
  fix x g
  assume x: "x \<in> set (user_groups d')" and g: "g \<in> set (groups d')" and k: "pk g = ug_group_id x"
  from g assms(2) have "g = r \<or> g \<in> set (groups d) \<and> pk g \<noteq> i"
    using set_set_row [of g r "groups d"] assms(3) by auto
  with x k assms(1,3,4,5) show "owner_id g \<noteq> ug_user_id x" by (fastforce simp: owner_ok_def)
qed

abbreviation group_update_of :: "int \<Rightarrow> update_group_schema \<Rightarrow> group \<Rightarrow> group" where
  "group_update_of now gd \<equiv> (\<lambda>g. g\<lparr>gname := cg_name gd, gdescription := cg_description gd,
     owner_id := cg_owner_id gd, updated_at := now\<rparr>)"

lemma update_group_block_Inr:
  assumes "update_group_block now gid gd s = (Inr g, s')"
  shows "\<exists>g0 d1. get_row gid (groups (working s)) = Some g0 \<and>
     update_group_row gid (group_update_of now gd) (working s) = Inr (g, d1) \<and>
     (if owner_id g0 = cg_owner_id gd then s' = s\<lparr>working := d1\<rparr>
      else \<exists>r d3. insert_user_group \<lparr>ug_user_id = owner_id g0, ug_group_id = gid, ug_role = Guest\<rparr>
             (d1\<lparr>user_groups := filter (\<lambda>x. ug_group_id x = gid \<longrightarrow> ug_user_id x \<noteq> cg_owner_id gd) (user_groups d1)\<rparr>)
             = Inr (r, d3) \<and> s' = s\<lparr>working := d3\<rparr>)"
proof -
  have id: "d\<lparr>user_groups := filter (\<lambda>x. ug_group_id x = gid \<longrightarrow> ug_user_id x \<noteq> u) (user_groups d)\<rparr> = d"
    if "get_user_group_row gid u d = None" for u and d :: db
  proof -
    have "filter (\<lambda>x. ug_group_id x = gid \<longrightarrow> ug_user_id x \<noteq> u) (user_groups d) = user_groups d"
      using that by (auto simp: get_user_group_row_def find_None_iff_set intro!: filter_True)
    then show ?thesis by simp
  qed
  show ?thesis
    using assms
    by (cases "owner_id (the (get_row gid (groups (working s)))) = cg_owner_id gd")
      (auto simp: update_group_block_def group_repo_read_by_id_def group_repo_update_def
        group_repo_get_user_group_def group_repo_delete_user_def group_repo_add_user_def
        delete_user_group_row_def id run_simps split: option.splits if_splits)
qed

lemma update_group_block_db:
  assumes "update_group_block now gid gd s = (Inr g, s')" and ok: "db_ok (working s)"
  shows "db_ok (working s')"
proof -
  obtain g0 d1 where g0: "get_row gid (groups (working s)) = Some g0"
    and u: "update_group_row gid (group_update_of now gd) (working s) = Inr (g, d1)"
    and upd: "if owner_id g0 = cg_owner_id gd then s' = s\<lparr>working := d1\<rparr>
      else \<exists>r d3. insert_user_group \<lparr>ug_user_id = owner_id g0, ug_group_id = gid, ug_role = Guest\<rparr>
             (d1\<lparr>user_groups := filter (\<lambda>x. ug_group_id x = gid \<longrightarrow> ug_user_id x \<noteq> cg_owner_id gd) (user_groups d1)\<rparr>)
             = Inr (r, d3) \<and> s' = s\<lparr>working := d3\<rparr>"
    using update_group_block_Inr [OF assms(1)] by blast
  note d1 = schema_update_group [OF db_okD(1) [OF ok] u]
  have own: "owner_id g = cg_owner_id gd" using groups.upd_law [OF u] by auto
  show ?thesis
  proof (cases "owner_id g0 = cg_owner_id gd")
    case True
    have "owner_ok d1" using owner_ok_same_owner [OF db_okD(3) [OF ok] g0 d1(2,3,4)] own True by simp
    with d1 db_okD(2) [OF ok] upd True show ?thesis by (simp add: db_ok_def roles_ok_def)
  next
    case False
    define d2 where "d2 = d1\<lparr>user_groups :=
      filter (\<lambda>x. ug_group_id x = gid \<longrightarrow> ug_user_id x \<noteq> cg_owner_id gd) (user_groups d1)\<rparr>"
    from upd False obtain r d3 where
      ins: "insert_user_group \<lparr>ug_user_id = owner_id g0, ug_group_id = gid, ug_role = Guest\<rparr> d2 = Inr (r, d3)"
      and s': "s' = s\<lparr>working := d3\<rparr>" by (auto simp: d2_def)
    have "delete_user_group_row gid (cg_owner_id gd) d1 = Inr ((), d2)"
      by (simp add: delete_user_group_row_def d2_def)
    then have sch: "schema_ok d3"
      using insert_user_group_schema [OF delete_user_group_row_schema [OF d1(1)] ins] by blast
    have d3: "groups d3 = set_row g (groups (working s))"
      "user_groups d3 = filter (\<lambda>x. \<not> (ug_group_id x = gid \<and> ug_user_id x = cg_owner_id gd)) (user_groups (working s)) @
        [\<lparr>ug_user_id = owner_id g0, ug_group_id = gid, ug_role = Guest\<rparr>]"
      using ins d1 by (auto simp: insert_user_group_def d2_def split: if_splits)
    have "owner_ok d3"
      using owner_ok_new_owner [OF db_okD(3) [OF ok] d3(1) d1(3), of "owner_id g0" Guest] False
      by (auto simp: d3(2) own)
    moreover have "roles_ok d3"
      using db_okD(2) [OF ok] by (auto simp: roles_ok_def d3(2) public_roles_def)
    ultimately show ?thesis using sch by (simp add: db_ok_def s')
  qed
qed

section \<open>Every method and handler keeps the invariant\<close>

lemma group_repo_create_db [db_keeps]: "keeps db_ok (group_repo_create now name desc owner)"
  unfolding group_repo_create_def by (rule keeps_exec_rethrow) (erule (1) insert_group_db, simp)

lemma group_repo_delete_db [db_keeps]: "keeps db_ok (group_repo_delete gid)"
  unfolding group_repo_delete_def by (rule keeps_exec_rethrow) (rule delete_group_db)

lemma group_repo_update_member_role_db [db_keeps]:
  "role \<in> set public_roles \<Longrightarrow> keeps db_ok (group_repo_update_member_role gid uid role)"
  unfolding group_repo_update_member_role_def
  by (intro keeps_intros keeps_exec_rethrow) (erule (2) update_user_group_db)

lemma group_repo_delete_user_db [db_keeps]: "keeps db_ok (group_repo_delete_user gid uid)"
  unfolding group_repo_delete_user_def
  by (intro keeps_intros keeps_exec) (rule delete_user_group_db)

lemma group_repo_read_pure [repo_pure]: "pure (group_repo_read_by_id gid)"
  "pure (group_repo_get_member_role u gid)" "pure (group_repo_get_user_group gid uid)"
  "pure (group_repo_get_member_paginate c p ps gid)"
  unfolding group_repo_read_by_id_def group_repo_get_member_role_def group_repo_get_user_group_def
    group_repo_get_member_paginate_def
  by (intro pure_intros)+

lemma pure_keeps: "pure m \<Longrightarrow> keeps I m"
  by (rule keepsI) (auto dest: pureD)

lemma pure_uncommitted: "pure m \<Longrightarrow> uncommitted m"
  by (rule uncommittedI) (auto dest: pureD)

lemmas group_repo_read_keeps [db_keeps] = group_repo_read_pure [THEN pure_keeps]
lemmas group_repo_read_uncommitted [repo_uncommitted] = group_repo_read_pure [THEN pure_uncommitted]

lemma group_repo_uncommitted [repo_uncommitted]:
  "uncommitted (group_repo_create now name desc owner)" "uncommitted (group_repo_update now gid name desc owner)"
  "uncommitted (group_repo_delete gid)" "uncommitted (group_repo_update_member_role gid uid role)"
  "uncommitted (group_repo_add_user gid uid role)" "uncommitted (group_repo_delete_user gid uid)"
  unfolding group_repo_create_def group_repo_update_def group_repo_delete_def
    group_repo_update_member_role_def group_repo_add_user_def group_repo_delete_user_def
  by (intro uncommitted_intros)+

lemma update_group_block_uncommitted [repo_uncommitted]: "uncommitted (update_group_block now gid gd)"
  unfolding update_group_block_def by (intro uncommitted_intros repo_uncommitted)

named_theorems handler_keeps \<open>handlers keep the database invariant\<close>
named_theorems handler_atomic \<open>a handler that raises has committed nothing\<close>
named_theorems handler_pure \<open>handlers of GET requests\<close>

lemma read_groups_pure [handler_pure]: "pure (read_groups ts p ps role q u)"
  "pure (read_group gid u)" "pure (read_group_users c gid p ps u)"
  unfolding read_groups_def read_group_def read_group_users_def
  by (intro pure_intros repo_pure)+

lemma create_group_db [handler_keeps]: "keeps db_ok (create_group now gd u)"
  unfolding create_group_def by (intro keeps_intros db_keeps)

lemma update_group_db [handler_keeps]: "keeps db_ok (update_group now gid gd u)"
  unfolding update_group_def
  by (intro keeps_intros keeps_uow_block repo_uncommitted) (erule (1) update_group_block_db)

lemma delete_group_handler_db [handler_keeps]: "keeps db_ok (delete_group gid)"
  unfolding delete_group_def by (intro keeps_intros db_keeps)

lemma update_user_role_group_db [handler_keeps]:
  "role \<in> set public_roles \<Longrightarrow> keeps db_ok (update_user_role_group gid uid role u)"
  unfolding update_user_role_group_def by (intro keeps_intros db_keeps)

lemma delete_user_from_group_db [handler_keeps]: "keeps db_ok (delete_user_from_group gid uid u)"
  unfolding delete_user_from_group_def by (intro keeps_intros db_keeps)

text \<open>Adding a member keeps the invariant because the handler has compared the owner before.\<close>

lemma add_user_to_group_db [handler_keeps]:
  assumes "role \<in> set public_roles"
  shows "keeps db_ok (add_user_to_group gid uid role u)"
proof (rule keepsI)
  fix s e s'
  assume "add_user_to_group gid uid role u s = (Inl e, s')" and "db_ok (committed s)" "db_ok (working s)"
  then show "db_ok (committed s') \<and> db_ok (working s')"
    by (auto simp: add_user_to_group_def group_repo_read_by_id_def group_repo_add_user_def run_simps
        split: option.splits if_splits)
next
  fix s x s'
  assume r: "add_user_to_group gid uid role u s = (Inr x, s')" and "db_ok (committed s)" "db_ok (working s)"
  then obtain g r d where "get_row gid (groups (working s)) = Some g" and "owner_id g \<noteq> uid"
    and "insert_user_group \<lparr>ug_user_id = uid, ug_group_id = gid, ug_role = role\<rparr> (working s) = Inr (r, d)"
    and "s' = s\<lparr>working := d, committed := d\<rparr>"
    by (auto simp: add_user_to_group_def group_repo_read_by_id_def group_repo_add_user_def run_simps
        split: option.splits if_splits)
  with \<open>db_ok (working s)\<close> insert_user_group_db [of "working s"] assms
  show "db_ok (committed s') \<and> db_ok (working s')" by fastforce
qed

lemma group_handlers_atomic [handler_atomic]:
  "atomic (create_group now cgd u)" "atomic (update_group now gid gd u)" "atomic (delete_group gid)"
  "atomic (update_user_role_group gid uid role u)" "atomic (add_user_to_group gid uid role u)"
  "atomic (delete_user_from_group gid uid u)"
  unfolding create_group_def update_group_def delete_group_def update_user_role_group_def
    add_user_to_group_def delete_user_from_group_def
  by (intro atomic_intros uncommitted_intros repo_uncommitted)+

end
