(* ===== verification/Sync_Credentials.thy ===== *)
theory Sync_Credentials
  imports Sync_Schemas Sync_Groups
begin

text \<open>
  Stored credentials: \<open>encrypt_auth_data\<close> and \<open>decrypt_auth_data\<close> of
  \<open>syncmaster/db/repositories/utils.py\<close>, and \<open>CredentialsRepository\<close>.  Fernet is not part of the
  repository: it is a parameter, with the random bytes of an encryption as an argument.
\<close>

section \<open>Encryption\<close>

record fernet =
  fernet_encrypt :: "string \<Rightarrow> string \<Rightarrow> string"
  fernet_decrypt :: "string \<Rightarrow> string option"

text \<open>What the cryptography package documents: a token decrypts to the text it was made from.\<close>

definition fernet_ok :: "fernet \<Rightarrow> bool" where
  "fernet_ok c \<longleftrightarrow> (\<forall>rnd t. fernet_decrypt c (fernet_encrypt c rnd t) = Some t)"

definition encrypt_auth_data :: "fernet \<Rightarrow> string \<Rightarrow> jdict \<Rightarrow> string" where
  "encrypt_auth_data c rnd value = fernet_encrypt c rnd (json_dumps (JObj value))"

text \<open>The stored text is always that of an object, so any other JSON value is treated as a read error.\<close>

definition decrypt_auth_data :: "fernet \<Rightarrow> string \<Rightarrow> jdict res" where
  "decrypt_auth_data c value = (case fernet_decrypt c value of
      None \<Rightarrow> Inl InvalidToken
    | Some t \<Rightarrow> (case json_loads t of
        Some (JObj d) \<Rightarrow> Inr d
      | _ \<Rightarrow> Inl (ValueError t)))"

definition sort_dict :: "jdict \<Rightarrow> jdict" where
  "sort_dict d = sort_key fst (map (\<lambda>(k, v). (k, sort_json v)) d)"

lemma decrypt_encrypt: "fernet_ok c \<Longrightarrow> decrypt_auth_data c (encrypt_auth_data c rnd d) = Inr (sort_dict d)"
  by (simp add: fernet_ok_def decrypt_auth_data_def encrypt_auth_data_def json_loads_dumps sort_dict_def)

lemma map_of_sort_dict: "distinct (map fst d) \<Longrightarrow> map_of (sort_dict d) k = map_option sort_json (map_of d k)"
proof -
  assume "distinct (map fst d)"
  then have "distinct (map fst (map (\<lambda>(k, v). (k, sort_json v)) d))" by (simp add: o_def case_prod_beta)
  from map_of_sort [OF this] show ?thesis
    by (simp add: sort_dict_def map_of_map)
qed

section \<open>The repository\<close>

definition credentials_repo_read :: "fernet \<Rightarrow> int \<Rightarrow> jdict act" where
  "credentials_repo_read c cid = query (\<lambda>d. case get_auth_row cid d of
      None \<Rightarrow> Inl (AuthDataNotFoundError (''Connection id = '' @ str_int cid))
    | Some a \<Rightarrow> decrypt_auth_data c (ad_value a))"

text \<open>\<open>read_bulk\<close>: a dict from connection ids to credentials; one value that does not decrypt fails the call.\<close>

fun decrypt_rows :: "fernet \<Rightarrow> auth_data list \<Rightarrow> (int \<times> jdict) list res" where
  "decrypt_rows c [] = Inr []"
| "decrypt_rows c (a # as) = (case decrypt_auth_data c (ad_value a) of
      Inl e \<Rightarrow> Inl e
    | Inr x \<Rightarrow> (case decrypt_rows c as of Inl e \<Rightarrow> Inl e | Inr xs \<Rightarrow> Inr ((ad_connection_id a, x) # xs)))"

definition credentials_repo_read_bulk :: "fernet \<Rightarrow> int list \<Rightarrow> (int \<times> jdict) list act" where
  "credentials_repo_read_bulk c ids =
     query (\<lambda>d. decrypt_rows c (filter (\<lambda>a. ad_connection_id a \<in> set ids) (auth_datas d)))"

definition credentials_repo_create :: "fernet \<Rightarrow> string \<Rightarrow> int \<Rightarrow> jdict \<Rightarrow> auth_data act" where
  "credentials_repo_create c rnd cid data = exec (\<lambda>d. rethrow (on_integrity (\<lambda>_. SyncmasterError))
     (insert_auth_data \<lparr>ad_connection_id = cid, ad_value = encrypt_auth_data c rnd data\<rparr> d))"

definition credentials_repo_update :: "fernet \<Rightarrow> string \<Rightarrow> int \<Rightarrow> jdict \<Rightarrow> auth_data act" where
  "credentials_repo_update c rnd cid data = exec (\<lambda>d. rethrow (on_integrity (\<lambda>_. SyncmasterError))
     (update_auth_data_row cid (encrypt_auth_data c rnd data) d))"

text \<open>
  \<open>ReadAuthDataSchema(auth_data=\<dots>).model_dump()["auth_data"]\<close>: the read model its \<open>type\<close> names; a
  validation error is a \<open>ValueError\<close>.
\<close>

definition read_auth_data :: "coercion \<Rightarrow> jdict \<Rightarrow> jdict res" where
  "read_auth_data lax creds =
     (case List.find (\<lambda>a. map_of creds ''type'' = Some (JStr (auth_type_value a))) all_auth_types of
        None \<Rightarrow> Inl (ValueError ''auth_data'')
      | Some a \<Rightarrow> (case validate_model lax (read_auth_schema a) creds of
          None \<Rightarrow> Inl (ValueError ''auth_data'')
        | Some r \<Rightarrow> Inr r))"

section \<open>Laws of the repository\<close>

lemma insert_auth_data_get:
  "insert_auth_data r d = Inr (x, d') \<Longrightarrow>
     x = r \<and> get_auth_row i d' = (if i = ad_connection_id r then Some r else get_auth_row i d)"
  by (auto simp: insert_auth_data_def get_auth_row_def find_append split: if_splits option.splits)

lemma update_auth_data_get:
  "update_auth_data_row cid v d = Inr (x, d') \<Longrightarrow>
     get_auth_row i d' = (if i = cid then map_option (\<lambda>a. a\<lparr>ad_value := v\<rparr>) (get_auth_row i d) else get_auth_row i d)"
proof -
  assume "update_auth_data_row cid v d = Inr (x, d')"
  then have "auth_datas d' = map (\<lambda>a. if ad_connection_id a = cid then a\<lparr>ad_value := v\<rparr> else a) (auth_datas d)"
    by (auto simp: update_auth_data_row_def split: option.splits)
  moreover have "List.find (\<lambda>a. ad_connection_id a = i) (map (\<lambda>a. if ad_connection_id a = cid then a\<lparr>ad_value := v\<rparr> else a) xs)
      = (if i = cid then map_option (\<lambda>a. a\<lparr>ad_value := v\<rparr>) (List.find (\<lambda>a. ad_connection_id a = i) xs)
         else List.find (\<lambda>a. ad_connection_id a = i) xs)" for xs :: "auth_data list"
    by (induction xs) auto
  ultimately show ?thesis by (simp add: get_auth_row_def)
qed

lemma update_auth_data_row_Some:
  "update_auth_data_row cid v d = Inr (x, d') \<Longrightarrow> get_auth_row cid d \<noteq> None"
  by (auto simp: update_auth_data_row_def split: option.splits)

text \<open>The contract the handlers rely on: what was stored last is what a read returns.\<close>

locale credential_store =
  fixes store :: "fernet \<Rightarrow> string \<Rightarrow> int \<Rightarrow> jdict \<Rightarrow> auth_data act"
  assumes store_read: "fernet_ok c \<Longrightarrow> store c rnd cid data s = (Inr a, s') \<Longrightarrow>
      credentials_repo_read c i s' =
        (if i = cid then Inr (sort_dict data) else fst (credentials_repo_read c i s), s')"
begin

lemma store_read_field:
  assumes "fernet_ok c" and "store c rnd cid data s = (Inr a, s')" and "distinct (map fst data)"
  shows "\<exists>r. credentials_repo_read c cid s' = (Inr r, s') \<and> (\<forall>k. map_of r k = map_option sort_json (map_of data k))"
  using store_read [OF assms(1,2), of cid] map_of_sort_dict [OF assms(3)] by auto

end

interpretation create_credentials: credential_store credentials_repo_create
proof unfold_locales
  fix c rnd cid data i and s s' :: "db session" and a
  assume ok: "fernet_ok c" and "credentials_repo_create c rnd cid data s = (Inr a, s')"
  then obtain d where "insert_auth_data \<lparr>ad_connection_id = cid, ad_value = encrypt_auth_data c rnd data\<rparr> (working s)
      = Inr (a, d)" and s': "s' = s\<lparr>working := d\<rparr>"
    by (auto simp: credentials_repo_create_def run_simps)
  from insert_auth_data_get [OF this(1)] show "credentials_repo_read c i s' =
      (if i = cid then Inr (sort_dict data) else fst (credentials_repo_read c i s), s')"
    by (simp add: credentials_repo_read_def query_def s' decrypt_encrypt [OF ok])
qed

interpretation update_credentials: credential_store credentials_repo_update
proof unfold_locales
  fix c rnd cid data i and s s' :: "db session" and a
  assume ok: "fernet_ok c" and "credentials_repo_update c rnd cid data s = (Inr a, s')"
  then obtain d where u: "update_auth_data_row cid (encrypt_auth_data c rnd data) (working s) = Inr (a, d)"
    and s': "s' = s\<lparr>working := d\<rparr>"
    by (auto simp: credentials_repo_update_def run_simps)
  from update_auth_data_get [OF u] update_auth_data_row_Some [OF u]
  show "credentials_repo_read c i s' =
      (if i = cid then Inr (sort_dict data) else fst (credentials_repo_read c i s), s')"
    by (auto simp: credentials_repo_read_def query_def s' decrypt_encrypt [OF ok])
qed

lemma insert_auth_data_frame:
  "insert_auth_data r d = Inr (x, d') \<Longrightarrow> groups d' = groups d \<and> user_groups d' = user_groups d"
  by (auto simp: insert_auth_data_def split: if_splits)

lemma update_auth_data_frame:
  "update_auth_data_row c v d = Inr (x, d') \<Longrightarrow> groups d' = groups d \<and> user_groups d' = user_groups d"
  by (auto simp: update_auth_data_row_def split: option.splits)

lemma credentials_repo_db [db_keeps]:
  "keeps db_ok (credentials_repo_create c rnd cid data)" "keeps db_ok (credentials_repo_update c rnd cid data)"
  unfolding credentials_repo_create_def credentials_repo_update_def
  by (rule keeps_exec_rethrow, metis db_ok_frame db_okD(1) insert_auth_data_schema insert_auth_data_frame,
      rule keeps_exec_rethrow, metis db_ok_frame db_okD(1) update_auth_data_row_schema update_auth_data_frame)

lemma credentials_repo_pure [repo_pure]:
  "pure (credentials_repo_read c cid)" "pure (credentials_repo_read_bulk c ids)"
  unfolding credentials_repo_read_def credentials_repo_read_bulk_def by (intro pure_intros)+

lemmas credentials_repo_read_keeps [db_keeps] = credentials_repo_pure [THEN pure_keeps]

lemma credentials_repo_uncommitted [repo_uncommitted]:
  "uncommitted (credentials_repo_create c rnd cid data)" "uncommitted (credentials_repo_update c rnd cid data)"
  unfolding credentials_repo_create_def credentials_repo_update_def by (intro uncommitted_intros)+

lemmas credentials_repo_read_uncommitted [repo_uncommitted] = credentials_repo_pure [THEN pure_uncommitted]

text \<open>A dump of credentials for a response or a run holds no secret field of any credential type.\<close>

lemma read_auth_data_keys:
  assumes "read_auth_data lax creds = Inr r"
  shows "\<exists>a. map fst r = map fs_name (read_auth_schema a)"
  using assms validate_model_keys by (auto simp: read_auth_data_def split: option.splits)

lemma read_auth_data_no_secret:
  "read_auth_data lax creds = Inr r \<Longrightarrow> s \<in> set (get_secret_fields b) \<Longrightarrow> map_of r s = None"
  using read_auth_data_keys read_auth_no_secret [of _ b] by (metis disjoint_iff map_of_eq_None_iff set_map)

end
