(* ===== verification/Sync_Repositories.thy ===== *)
theory Sync_Repositories
  imports Sync_Credentials
begin

text \<open>
  The repositories of connections, queues, transfers and runs
  (\<open>syncmaster/db/repositories/{connection,queue,transfer,run}.py\<close>, with \<open>_copy\<close>, \<open>_update\<close> and
  \<open>_delete\<close> of \<open>base.py\<close>), the invariant that a transfer's parameters are of the type of its
  connections, and which method keeps what.
\<close>

section \<open>Connections\<close>

definition connection_raise_error :: "string \<Rightarrow> exn" where
  "connection_raise_error c =
     (if c = ''fk__connection__group_id__group'' then GroupNotFoundError
      else if c = ''fk__connection__user_id__user'' then UserNotFoundError
      else if c = ''ck__connection__owner_constraint'' then ConnectionOwnerError
      else if c = ''uq__connection__name_group_id'' then DuplicatedConnectionNameError
      else SyncmasterError)"

definition connection_repo_paginate ::
  "connection text_search \<Rightarrow> int \<Rightarrow> int \<Rightarrow> int \<Rightarrow> string option \<Rightarrow> connection_type list option \<Rightarrow> db \<Rightarrow>
    connection pagination" where
  "connection_repo_paginate ts p ps gid search_query types d =
     paginate_result
       (construct_vector_search ts search_query id
         (order_by (collate ts) rname
           (filter (\<lambda>c. group_id c = gid \<and> (case types of None \<Rightarrow> True | Some l \<Rightarrow> conn_type c \<in> set l))
             (connections d)))) p ps"

definition connection_repo_read_by_id :: "int \<Rightarrow> connection act" where
  "connection_repo_read_by_id cid = query (\<lambda>d. case get_row cid (connections d) of
      None \<Rightarrow> Inl ConnectionNotFoundError | Some c \<Rightarrow> Inr c)"

definition connection_repo_create ::
  "int \<Rightarrow> int \<Rightarrow> connection_type \<Rightarrow> string \<Rightarrow> string \<Rightarrow> jdict \<Rightarrow> connection act" where
  "connection_repo_create now gid ct name desc data = exec (\<lambda>d.
     rethrow (on_integrity connection_raise_error)
       (insert_connection (\<lambda>i. \<lparr>pk = i, created_at = now, updated_at = now, rname = name, group_id = gid,
          rdescription = desc, conn_type = ct, conn_data = data\<rparr>) d))"

definition connection_repo_update ::
  "int \<Rightarrow> int \<Rightarrow> string \<Rightarrow> connection_type \<Rightarrow> string \<Rightarrow> jdict \<Rightarrow> connection act" where
  "connection_repo_update now cid name ct desc data = exec (\<lambda>d.
     rethrow (on_integrity connection_raise_error)
       (update_connection_row cid (\<lambda>c. c\<lparr>conn_type := ct, rname := name, rdescription := desc,
          conn_data := data, updated_at := now\<rparr>) d))"

definition connection_repo_delete :: "int \<Rightarrow> connection act" where
  "connection_repo_delete cid = exec (\<lambda>d.
     rethrow (\<lambda>e. if e = NoResultFound \<or> is_EntityNotFoundError e then ConnectionNotFoundError else e)
       (delete_connection_row cid d))"

text \<open>
  \<open>_copy\<close>: a new row with the columns of the origin, except its id and the given values; a given
  \<open>None\<close> stands for the origin's value.
\<close>

definition connection_repo_copy :: "int \<Rightarrow> int \<Rightarrow> string option \<Rightarrow> connection act" where
  "connection_repo_copy cid new_group_id new_name = exec (\<lambda>d.
     rethrow (on_integrity connection_raise_error)
       (case get_row cid (connections d) of
          None \<Rightarrow> Inl NoResultFound
        | Some c0 \<Rightarrow> insert_connection (\<lambda>i. c0\<lparr>pk := i, group_id := new_group_id,
            rname := (case new_name of None \<Rightarrow> rname c0 | Some n \<Rightarrow> n)\<rparr>) d))"

section \<open>Queues\<close>

definition queue_raise_error :: "string \<Rightarrow> exn" where
  "queue_raise_error c = (if c = ''uq__queue__slug'' then DuplicatedQueueNameError else SyncmasterError)"

definition queue_repo_create :: "int \<Rightarrow> string \<Rightarrow> int \<Rightarrow> string \<Rightarrow> string \<Rightarrow> queue act" where
  "queue_repo_create now name gid desc sl = exec (\<lambda>d.
     rethrow (on_integrity queue_raise_error)
       (insert_queue (\<lambda>i. \<lparr>pk = i, created_at = now, updated_at = now, rname = name, group_id = gid,
          rdescription = desc, slug = sl\<rparr>) d))"

definition queue_repo_read_by_id :: "int \<Rightarrow> queue act" where
  "queue_repo_read_by_id qid = query (\<lambda>d. case get_row qid (queues d) of
      None \<Rightarrow> Inl QueueNotFoundError | Some q \<Rightarrow> Inr q)"

definition queue_repo_paginate ::
  "queue text_search \<Rightarrow> int \<Rightarrow> int \<Rightarrow> int \<Rightarrow> string option \<Rightarrow> db \<Rightarrow> queue pagination" where
  "queue_repo_paginate ts p ps gid search_query d =
     paginate_result (construct_vector_search ts search_query id
       (sort_key pk (filter (\<lambda>q. group_id q = gid) (queues d)))) p ps"

definition queue_repo_update :: "int \<Rightarrow> int \<Rightarrow> string \<Rightarrow> string \<Rightarrow> queue act" where
  "queue_repo_update now qid name desc = exec (\<lambda>d.
     rethrow (on_integrity queue_raise_error)
       (update_queue_row qid (\<lambda>q. q\<lparr>rname := name, rdescription := desc, updated_at := now\<rparr>) d))"

definition queue_repo_delete :: "int \<Rightarrow> queue act" where
  "queue_repo_delete qid = exec (\<lambda>d.
     rethrow (\<lambda>e. if e = NoResultFound \<or> is_EntityNotFoundError e then QueueNotFoundError else e)
       (delete_queue_row qid d))"

section \<open>Transfers\<close>

definition transfer_raise_error :: "string \<Rightarrow> exn" where
  "transfer_raise_error c =
     (if c = ''fk__transfer__group_id__group'' then GroupNotFoundError
      else if c = ''fk__transfer__user_id__user'' then UserNotFoundError
      else if c \<in> set [''fk__transfer__source_connection_id__connection'',
          ''fk__transfer__target_connection_id__connection''] then ConnectionNotFoundError
      else if c = ''ck__transfer__owner_constraint'' then TransferOwnerError
      else if c = ''fk__transfer__queue_id__queue'' then QueueNotFoundError
      else if c = ''uq__transfer__name_group_id'' then DuplicatedTransferNameError
      else SyncmasterError)"

text \<open>The optional filters of \<open>TransferRepository.paginate\<close>.\<close>

record transfer_filter =
  tf_source_connection_id :: "int option"
  tf_target_connection_id :: "int option"
  tf_queue_id :: "int option"
  tf_is_scheduled :: "bool option"
  tf_source_connection_type :: "connection_type list option"
  tf_target_connection_type :: "connection_type list option"

definition no_transfer_filter :: transfer_filter where
  "no_transfer_filter = \<lparr>tf_source_connection_id = None, tf_target_connection_id = None, tf_queue_id = None,
     tf_is_scheduled = None, tf_source_connection_type = None, tf_target_connection_type = None\<rparr>"

definition opt_eq :: "'a option \<Rightarrow> 'a \<Rightarrow> bool" where
  "opt_eq v x = (case v of None \<Rightarrow> True | Some y \<Rightarrow> x = y)"

definition connection_type_in :: "connection_type list option \<Rightarrow> int \<Rightarrow> db \<Rightarrow> bool" where
  "connection_type_in types cid d = (case types of
      None \<Rightarrow> True | Some l \<Rightarrow> list_ex (\<lambda>c. pk c = cid \<and> conn_type c \<in> set l) (connections d))"

definition transfer_matches :: "transfer_filter \<Rightarrow> db \<Rightarrow> transfer \<Rightarrow> bool" where
  "transfer_matches f d t \<longleftrightarrow>
     opt_eq (tf_source_connection_id f) (source_connection_id t) \<and>
     opt_eq (tf_target_connection_id f) (target_connection_id t) \<and>
     opt_eq (tf_queue_id f) (queue_id t) \<and> opt_eq (tf_is_scheduled f) (is_scheduled t) \<and>
     connection_type_in (tf_source_connection_type f) (source_connection_id t) d \<and>
     connection_type_in (tf_target_connection_type f) (target_connection_id t) d"

definition transfer_repo_paginate ::
  "transfer text_search \<Rightarrow> int \<Rightarrow> int \<Rightarrow> int \<Rightarrow> string option \<Rightarrow> transfer_filter \<Rightarrow> db \<Rightarrow> transfer pagination" where
  "transfer_repo_paginate ts p ps gid search_query f d =
     paginate_result (construct_vector_search ts search_query id
       (order_by (collate ts) rname
         (filter (\<lambda>t. group_id t = gid \<and> transfer_matches f d t) (transfers d)))) p ps"

definition transfer_repo_read_by_id :: "int \<Rightarrow> transfer act" where
  "transfer_repo_read_by_id tid = query (\<lambda>d. case get_row tid (transfers d) of
      None \<Rightarrow> Inl TransferNotFoundError | Some t \<Rightarrow> Inr t)"

text \<open>The columns a create or update request sets, with the parameters as their JSON dumps.\<close>

record transfer_values =
  tv_name :: string
  tv_description :: string
  tv_source_connection_id :: int
  tv_target_connection_id :: int
  tv_source_params :: params
  tv_target_params :: params
  tv_strategy_params :: json
  tv_transformations :: "json list"
  tv_resources :: json
  tv_queue_id :: int
  tv_is_scheduled :: bool
  tv_schedule :: "string option"

text \<open>\<open>schedule or ""\<close>.\<close>

definition schedule_text :: "string option \<Rightarrow> string" where
  "schedule_text s = (case s of None \<Rightarrow> [] | Some t \<Rightarrow> t)"

definition transfer_repo_create :: "int \<Rightarrow> int \<Rightarrow> transfer_values \<Rightarrow> transfer act" where
  "transfer_repo_create now gid v = exec (\<lambda>d.
     rethrow (on_integrity transfer_raise_error)
       (insert_transfer (\<lambda>i. \<lparr>pk = i, created_at = now, updated_at = now, rname = tv_name v, group_id = gid,
          rdescription = tv_description v, source_connection_id = tv_source_connection_id v,
          target_connection_id = tv_target_connection_id v, strategy_params = tv_strategy_params v,
          source_params = tv_source_params v, target_params = tv_target_params v,
          transformations = tv_transformations v, resources = tv_resources v,
          is_scheduled = tv_is_scheduled v, schedule = schedule_text (tv_schedule v),
          queue_id = tv_queue_id v\<rparr>) d))"

definition transfer_update_of :: "int \<Rightarrow> transfer_values \<Rightarrow> transfer \<Rightarrow> transfer" where
  "transfer_update_of now v t = t\<lparr>rname := tv_name v, rdescription := tv_description v,
     strategy_params := tv_strategy_params v, is_scheduled := tv_is_scheduled v,
     schedule := schedule_text (tv_schedule v), source_connection_id := tv_source_connection_id v,
     target_connection_id := tv_target_connection_id v, source_params := tv_source_params v,
     target_params := tv_target_params v, transformations := tv_transformations v,
     resources := tv_resources v, queue_id := tv_queue_id v, updated_at := now\<rparr>"

definition transfer_repo_update :: "int \<Rightarrow> int \<Rightarrow> transfer_values \<Rightarrow> transfer act" where
  "transfer_repo_update now tid v = exec (\<lambda>d.
     rethrow (on_integrity transfer_raise_error) (update_transfer_row tid (transfer_update_of now v) d))"

definition transfer_repo_delete :: "int \<Rightarrow> transfer act" where
  "transfer_repo_delete tid = exec (\<lambda>d.
     rethrow (\<lambda>e. if e = NoResultFound \<or> is_EntityNotFoundError e then TransferNotFoundError else e)
       (delete_transfer_row tid d))"

definition given :: "'a option \<Rightarrow> 'a \<Rightarrow> 'a" where
  "given v x = (case v of None \<Rightarrow> x | Some y \<Rightarrow> y)"

definition transfer_copy_of ::
  "int \<Rightarrow> int option \<Rightarrow> int option \<Rightarrow> int option \<Rightarrow> string option \<Rightarrow> transfer \<Rightarrow> int \<Rightarrow> transfer" where
  "transfer_copy_of new_queue new_group new_source new_target new_name t0 i =
     t0\<lparr>pk := i, group_id := given new_group (group_id t0),
       source_connection_id := given new_source (source_connection_id t0),
       target_connection_id := given new_target (target_connection_id t0),
       queue_id := new_queue, rname := given new_name (rname t0)\<rparr>"

definition transfer_repo_copy ::
  "int \<Rightarrow> int \<Rightarrow> int option \<Rightarrow> int option \<Rightarrow> int option \<Rightarrow> string option \<Rightarrow> transfer act" where
  "transfer_repo_copy tid new_queue new_group new_source new_target new_name = exec (\<lambda>d.
     rethrow (on_integrity transfer_raise_error)
       (case get_row tid (transfers d) of
          None \<Rightarrow> Inl NoResultFound
        | Some t0 \<Rightarrow> insert_transfer (transfer_copy_of new_queue new_group new_source new_target new_name t0) d))"

definition list_by_connection_id :: "int \<Rightarrow> db \<Rightarrow> transfer list" where
  "list_by_connection_id cid d =
     filter (\<lambda>t. source_connection_id t = cid \<or> target_connection_id t = cid) (transfers d)"

section \<open>Runs\<close>

definition run_raise_error :: "string \<Rightarrow> exn" where
  "run_raise_error c = (if c = ''fk__run__transfer_id__transfer'' then TransferNotFoundError else SyncmasterError)"

record run_filter =
  rf_status :: "status list option"
  rf_started_at_since :: "int option"
  rf_started_at_until :: "int option"

text \<open>A comparison with \<open>NULL\<close> is not true; \<open>if status\<close> skips an empty list.\<close>

definition run_matches :: "run_filter \<Rightarrow> run \<Rightarrow> bool" where
  "run_matches f r \<longleftrightarrow>
     (case rf_status f of None \<Rightarrow> True | Some l \<Rightarrow> l = [] \<or> run_status r \<in> set l) \<and>
     (case rf_started_at_since f of None \<Rightarrow> True
      | Some t \<Rightarrow> (case started_at r of None \<Rightarrow> False | Some x \<Rightarrow> t \<le> x)) \<and>
     (case rf_started_at_until f of None \<Rightarrow> True
      | Some t \<Rightarrow> (case started_at r of None \<Rightarrow> False | Some x \<Rightarrow> x \<le> t))"

definition run_repo_paginate :: "int \<Rightarrow> int \<Rightarrow> int \<Rightarrow> run_filter \<Rightarrow> db \<Rightarrow> run pagination" where
  "run_repo_paginate tid p ps f d =
     paginate_result (sort_key (\<lambda>r. - created_at r)
       (filter (\<lambda>r. transfer_id r = tid \<and> run_matches f r) (runs d))) p ps"

definition run_repo_read_by_id :: "int \<Rightarrow> run act" where
  "run_repo_read_by_id rid = query (\<lambda>d. case get_row rid (runs d) of
      None \<Rightarrow> Inl RunNotFoundError | Some r \<Rightarrow> Inr r)"

definition connection_dump :: "connection \<Rightarrow> jdict \<Rightarrow> json" where
  "connection_dump c creds = JObj
     [(''id'', JInt (pk c)), (''group_id'', JInt (group_id c)), (''name'', JStr (rname c)),
      (''description'', JStr (rdescription c)), (''data'', JObj (conn_data c)), (''auth_data'', JObj creds)]"

text \<open>
  \<open>read_full_serialized_transfer\<close>; a missing connection cannot happen under the foreign keys, the
  attribute access would fail.
\<close>

definition read_full_serialized_transfer :: "int \<Rightarrow> jdict \<Rightarrow> jdict \<Rightarrow> db \<Rightarrow> json res" where
  "read_full_serialized_transfer tid source_creds target_creds d = (case get_row tid (transfers d) of
      None \<Rightarrow> Inl NoResultFound
    | Some t \<Rightarrow> (case (get_row (source_connection_id t) (connections d), get_row (target_connection_id t) (connections d)) of
        (Some src, Some tgt) \<Rightarrow> Inr (JObj
          [(''id'', JInt (pk t)), (''name'', JStr (rname t)), (''group_id'', JInt (group_id t)),
           (''queue_id'', JInt (queue_id t)), (''source_connection_id'', JInt (source_connection_id t)),
           (''target_connection_id'', JInt (target_connection_id t)), (''is_scheduled'', JBool (is_scheduled t)),
           (''description'', JStr (rdescription t)), (''schedule'', JStr (schedule t)),
           (''source_params'', params_dump (source_params t)), (''target_params'', params_dump (target_params t)),
           (''strategy_params'', strategy_params t),
           (''source_connection'', connection_dump src source_creds),
           (''target_connection'', connection_dump tgt target_creds)])
      | _ \<Rightarrow> Inl (KeyError ''source_connection'')))"

definition run_repo_create :: "int \<Rightarrow> int \<Rightarrow> jdict \<Rightarrow> jdict \<Rightarrow> run_type \<Rightarrow> run act" where
  "run_repo_create now tid source_creds target_creds ty =
     bindE (query (read_full_serialized_transfer tid source_creds target_creds)) (\<lambda>dump.
       exec (\<lambda>d. rethrow (on_integrity run_raise_error)
         (insert_run (\<lambda>i. \<lparr>pk = i, created_at = now, updated_at = now, transfer_id = tid, started_at = None,
            ended_at = None, run_status = CREATED, run_type = ty, log_url = None, transfer_dump = dump\<rparr>) d)))"

definition run_repo_update_status :: "int \<Rightarrow> int \<Rightarrow> status \<Rightarrow> run act" where
  "run_repo_update_status now rid st = exec (\<lambda>d.
     rethrow (on_integrity run_raise_error)
       (update_run_row rid (\<lambda>r. r\<lparr>run_status := st, updated_at := now\<rparr>) d))"

definition run_repo_stop :: "int \<Rightarrow> int \<Rightarrow> run act" where
  "run_repo_stop now rid =
     bindE (run_repo_read_by_id rid) (\<lambda>r.
     if run_status r \<notin> set [CREATED, STARTED] then raise (CannotStopRunError rid (run_status r))
     else exec (update_run_row rid (\<lambda>r. r\<lparr>run_status := SEND_STOP_SIGNAL, updated_at := now\<rparr>)))"

section \<open>Reads and uncommitted writes\<close>

lemma resource_repo_pure [repo_pure]:
  "pure (connection_repo_read_by_id cid)" "pure (queue_repo_read_by_id qid)" "pure (transfer_repo_read_by_id tid)"
  "pure (run_repo_read_by_id rid)"
  unfolding connection_repo_read_by_id_def queue_repo_read_by_id_def transfer_repo_read_by_id_def
    run_repo_read_by_id_def
  by (intro pure_intros)+

lemmas resource_repo_read_keeps [db_keeps] = resource_repo_pure [THEN pure_keeps]
lemmas resource_repo_read_uncommitted [repo_uncommitted] = resource_repo_pure [THEN pure_uncommitted]

lemma resource_repo_uncommitted [repo_uncommitted]:
  "uncommitted (connection_repo_create now gid ct name desc data)"
  "uncommitted (connection_repo_update now cid name ct desc data)"
  "uncommitted (connection_repo_delete cid)" "uncommitted (connection_repo_copy cid gid nm)"
  "uncommitted (queue_repo_create now name gid desc sl)" "uncommitted (queue_repo_update now qid name desc)"
  "uncommitted (queue_repo_delete qid)"
  "uncommitted (transfer_repo_create now gid v)" "uncommitted (transfer_repo_update now tid v)"
  "uncommitted (transfer_repo_delete tid)" "uncommitted (transfer_repo_copy tid nq ng nso nta nm)"
  "uncommitted (run_repo_create now tid sc tc ty)" "uncommitted (run_repo_update_status now rid st)"
  "uncommitted (run_repo_stop now rid)"
  unfolding connection_repo_create_def connection_repo_update_def connection_repo_delete_def
    connection_repo_copy_def queue_repo_create_def queue_repo_update_def queue_repo_delete_def
    transfer_repo_create_def transfer_repo_update_def transfer_repo_delete_def transfer_repo_copy_def
    run_repo_create_def run_repo_update_status_def run_repo_stop_def run_repo_read_by_id_def
  by (intro uncommitted_intros)+

section \<open>The database invariant\<close>

text \<open>None of these statements touches groups or memberships.\<close>

lemma member_frame:
  "insert_connection mc d = Inr (c, d') \<Longrightarrow> groups d' = groups d \<and> user_groups d' = user_groups d"
  "update_connection_row i fc d = Inr (c, d') \<Longrightarrow> groups d' = groups d \<and> user_groups d' = user_groups d"
  "delete_connection_row i d = Inr (c, d') \<Longrightarrow> groups d' = groups d \<and> user_groups d' = user_groups d"
  "insert_queue mq d = Inr (q, d') \<Longrightarrow> groups d' = groups d \<and> user_groups d' = user_groups d"
  "update_queue_row i fq d = Inr (q, d') \<Longrightarrow> groups d' = groups d \<and> user_groups d' = user_groups d"
  "delete_queue_row i d = Inr (q, d') \<Longrightarrow> groups d' = groups d \<and> user_groups d' = user_groups d"
  "insert_transfer mt d = Inr (t, d') \<Longrightarrow> groups d' = groups d \<and> user_groups d' = user_groups d"
  "update_transfer_row i ft d = Inr (t, d') \<Longrightarrow> groups d' = groups d \<and> user_groups d' = user_groups d"
  "delete_transfer_row i d = Inr (t, d') \<Longrightarrow> groups d' = groups d \<and> user_groups d' = user_groups d"
  "insert_run mr d = Inr (r, d') \<Longrightarrow> groups d' = groups d \<and> user_groups d' = user_groups d"
  "update_run_row i fr d = Inr (r, d') \<Longrightarrow> groups d' = groups d \<and> user_groups d' = user_groups d"
  by (auto simp: insert_connection_def update_connection_row_def delete_connection_row_def insert_queue_def
      update_queue_row_def delete_queue_row_def insert_transfer_def update_transfer_row_def
      delete_transfer_row_def insert_run_def update_run_row_def Let_def split: if_splits option.splits)

lemma db_ok_row:
  "db_ok d \<Longrightarrow> (schema_ok d \<Longrightarrow> schema_ok d') \<Longrightarrow> groups d' = groups d \<and> user_groups d' = user_groups d \<Longrightarrow> db_ok d'"
  by (simp add: db_ok_def roles_ok_def owner_ok_def)

lemma row_db:
  "insert_connection mc d = Inr (c, d') \<Longrightarrow> (\<And>i. pk (mc i) = i) \<Longrightarrow> db_ok d \<Longrightarrow> db_ok d'"
  "update_connection_row i fc d = Inr (c, d') \<Longrightarrow> db_ok d \<Longrightarrow> db_ok d'"
  "delete_connection_row i d = Inr (c, d') \<Longrightarrow> db_ok d \<Longrightarrow> db_ok d'"
  "insert_queue mq d = Inr (q, d') \<Longrightarrow> (\<And>i. pk (mq i) = i) \<Longrightarrow> db_ok d \<Longrightarrow> db_ok d'"
  "update_queue_row i fq d = Inr (q, d') \<Longrightarrow> db_ok d \<Longrightarrow> db_ok d'"
  "delete_queue_row i d = Inr (q, d') \<Longrightarrow> db_ok d \<Longrightarrow> db_ok d'"
  "insert_transfer mt d = Inr (t, d') \<Longrightarrow> (\<And>i. pk (mt i) = i) \<Longrightarrow> db_ok d \<Longrightarrow> db_ok d'"
  "update_transfer_row i ft d = Inr (t, d') \<Longrightarrow> db_ok d \<Longrightarrow> db_ok d'"
  "delete_transfer_row i d = Inr (t, d') \<Longrightarrow> db_ok d \<Longrightarrow> db_ok d'"
  "insert_run mr d = Inr (r, d') \<Longrightarrow> (\<And>i. pk (mr i) = i) \<Longrightarrow> db_ok d \<Longrightarrow> db_ok d'"
  "update_run_row i fr d = Inr (r, d') \<Longrightarrow> db_ok d \<Longrightarrow> db_ok d'"
  by (rule db_ok_row, assumption, rule schema_keeps, assumption+, rule member_frame, assumption)+

lemma connection_repo_db [db_keeps]:
  "keeps db_ok (connection_repo_create now gid ct name desc data)"
  "keeps db_ok (connection_repo_update now cid name ct desc data)"
  "keeps db_ok (connection_repo_delete cid)"
  "keeps db_ok (connection_repo_copy cid gid nm)"
  unfolding connection_repo_create_def connection_repo_update_def connection_repo_delete_def connection_repo_copy_def
  by (rule keeps_exec_rethrow; auto intro: row_db split: option.splits)+

lemma queue_repo_db [db_keeps]:
  "keeps db_ok (queue_repo_create now name gid desc sl)" "keeps db_ok (queue_repo_update now qid name desc)"
  "keeps db_ok (queue_repo_delete qid)"
  unfolding queue_repo_create_def queue_repo_update_def queue_repo_delete_def
  by (rule keeps_exec_rethrow; auto intro: row_db split: option.splits)+

lemma transfer_copy_of_pk [simp]: "pk (transfer_copy_of nq ng nso nta nm t0 i) = i"
  by (simp add: transfer_copy_of_def)

lemma transfer_repo_db [db_keeps]:
  "keeps db_ok (transfer_repo_create now gid v)" "keeps db_ok (transfer_repo_update now tid v)"
  "keeps db_ok (transfer_repo_delete tid)" "keeps db_ok (transfer_repo_copy tid nq ng nso nta nm)"
  unfolding transfer_repo_create_def transfer_repo_update_def transfer_repo_delete_def transfer_repo_copy_def
  by (rule keeps_exec_rethrow; auto intro: row_db split: option.splits)+

lemma run_repo_db [db_keeps]:
  "keeps db_ok (run_repo_create now tid sc tc ty)" "keeps db_ok (run_repo_update_status now rid st)"
  "keeps db_ok (run_repo_stop now rid)"
  unfolding run_repo_create_def run_repo_update_status_def run_repo_stop_def run_repo_read_by_id_def
  by (intro keeps_intros keeps_exec_rethrow keeps_exec; auto intro: row_db)+

end
