(* ===== verification/Sync_Queues.thy ===== *)
theory Sync_Queues
  imports Sync_Repositories
begin

text \<open>
  Queues: the name pattern and the slug of \<open>syncmaster/schemas/v1/queue.py\<close>, and the handlers of
  \<open>syncmaster/server/api/v1/queue.py\<close>.  The slug is the name of the Celery queue.
\<close>

section \<open>Names and slugs\<close>

definition name_constr :: "string \<Rightarrow> bool" where
  "name_constr s \<longleftrightarrow> 3 \<le> length s \<and> length s \<le> 128"

text \<open>\<open>ALLOWED_PATTERN\<close>, the printable ASCII characters; pydantic's regex engine takes \<open>$\<close> as the end of the text.\<close>

definition allowed_char :: "char \<Rightarrow> bool" where
  "allowed_char c \<longleftrightarrow> (let k = of_char c :: nat in 32 \<le> k \<and> k \<le> 126)"

definition queue_name :: "string \<Rightarrow> bool" where
  "queue_name s \<longleftrightarrow> name_constr s \<and> list_all allowed_char s"

definition is_alnum :: "char \<Rightarrow> bool" where
  "is_alnum c \<longleftrightarrow> (let k = of_char c :: nat in
     48 \<le> k \<and> k \<le> 57 \<or> 65 \<le> k \<and> k \<le> 90 \<or> 97 \<le> k \<and> k \<le> 122)"

text \<open>\<open>RESTRICTED_PATTERN.sub("_", s)\<close>: each maximal run of other characters becomes one underscore.\<close>

fun sub_restricted :: "string \<Rightarrow> string" where
  "sub_restricted [] = []"
| "sub_restricted (c # cs) =
     (if is_alnum c then c # sub_restricted cs
      else (case cs of
          [] \<Rightarrow> ''_''
        | d # _ \<Rightarrow> if is_alnum d then CHR ''_'' # sub_restricted cs else sub_restricted cs))"

definition short_name :: "string \<Rightarrow> string" where
  "short_name name = strip_char CHR ''_'' (sub_restricted (lower name))"

definition queue_slug :: "int \<Rightarrow> string \<Rightarrow> string" where
  "queue_slug gid name = str_int gid @ ''-'' @ short_name name"

record create_queue_schema =
  cq_name :: string
  cq_group_id :: int
  cq_description :: string

record update_queue_schema =
  uq_name :: string
  uq_description :: string

record read_queue_schema =
  rq_id :: int
  rq_name :: string
  rq_group_id :: int
  rq_description :: string
  rq_slug :: string

definition read_queue_of :: "queue \<Rightarrow> read_queue_schema" where
  "read_queue_of q = \<lparr>rq_id = pk q, rq_name = rname q, rq_group_id = group_id q,
     rq_description = rdescription q, rq_slug = slug q\<rparr>"

section \<open>The handlers\<close>

definition read_queues ::
  "queue text_search \<Rightarrow> int \<Rightarrow> int \<Rightarrow> int \<Rightarrow> string option \<Rightarrow> user \<Rightarrow> read_queue_schema page_schema act" where
  "read_queues ts gid p ps search_query u =
     bindE (query (queue_get_group_permission u gid)) (\<lambda>resource_role.
     if resource_role = NONE then raise GroupNotFoundError
     else bindE (query (\<lambda>d. Inr (queue_repo_paginate ts p ps gid search_query d))) (\<lambda>pagination.
       return (from_pagination read_queue_of pagination)))"

definition read_queue :: "int \<Rightarrow> user \<Rightarrow> read_queue_schema act" where
  "read_queue qid u =
     bindE (query (\<lambda>d. Inr (queue_get_resource_permission u qid d))) (\<lambda>resource_role.
     if resource_role = NONE then raise QueueNotFoundError
     else bindE (queue_repo_read_by_id qid) (\<lambda>q. return (read_queue_of q)))"

definition create_queue :: "int \<Rightarrow> create_queue_schema \<Rightarrow> user \<Rightarrow> read_queue_schema act" where
  "create_queue now queue_data u =
     bindE (query (queue_get_group_permission u (cq_group_id queue_data))) (\<lambda>group_permission.
     if group_permission = NONE then raise GroupNotFoundError
     else if group_permission < DELETE then raise ActionNotAllowedError
     else bindE (uow (queue_repo_create now (cq_name queue_data) (cq_group_id queue_data)
              (cq_description queue_data) (queue_slug (cq_group_id queue_data) (cq_name queue_data))))
       (\<lambda>q. return (read_queue_of q)))"

definition update_queue :: "int \<Rightarrow> int \<Rightarrow> update_queue_schema \<Rightarrow> user \<Rightarrow> read_queue_schema act" where
  "update_queue now qid queue_data u =
     bindE (query (\<lambda>d. Inr (queue_get_resource_permission u qid d))) (\<lambda>resource_role.
     if resource_role = NONE then raise QueueNotFoundError
     else if resource_role < DELETE then raise ActionNotAllowedError
     else bindE (uow (queue_repo_update now qid (uq_name queue_data) (uq_description queue_data)))
       (\<lambda>q. return (read_queue_of q)))"

text \<open>The handler asks for one transfer of the queue in the queue's group, without a search.\<close>

definition delete_queue :: "transfer text_search \<Rightarrow> int \<Rightarrow> user \<Rightarrow> unit act" where
  "delete_queue ts qid u =
     bindE (query (\<lambda>d. Inr (queue_get_resource_permission u qid d))) (\<lambda>resource_role.
     if resource_role = NONE then raise QueueNotFoundError
     else if resource_role < DELETE then raise ActionNotAllowedError
     else bindE (queue_repo_read_by_id qid) (\<lambda>q.
       bindE (query (\<lambda>d. Inr (transfer_repo_paginate ts 1 1 (group_id q) None
           (no_transfer_filter\<lparr>tf_queue_id := Some (pk q)\<rparr>) d))) (\<lambda>ts.
       if pg_items ts \<noteq> [] then
         raise (QueueDeleteError (''The queue has an associated transfers(s). Number of the linked transfers: '' @
           str_int (pg_total ts)))
       else uow (bindE (queue_repo_delete qid) (\<lambda>_. return ())))))"

lemma queue_handlers_pure [handler_pure]:
  "pure (read_queues ts gid p ps q u)" "pure (read_queue qid u)"
  unfolding read_queues_def read_queue_def by (intro pure_intros repo_pure)+

lemma queue_handlers_db [handler_keeps]:
  "keeps db_ok (create_queue now qd u)" "keeps db_ok (update_queue now qid uqd u)"
  "keeps db_ok (delete_queue ts qid u)"
  unfolding create_queue_def update_queue_def delete_queue_def by (intro keeps_intros db_keeps)+

lemma queue_handlers_atomic [handler_atomic]:
  "atomic (create_queue now qd u)" "atomic (update_queue now qid uqd u)" "atomic (delete_queue ts qid u)"
  unfolding create_queue_def update_queue_def delete_queue_def
  by (intro atomic_intros uncommitted_intros repo_uncommitted)+

section \<open>What a slug looks like\<close>

lemma lower_char_alnum: "is_alnum (lower_char c) \<longleftrightarrow> is_alnum c"
proof (cases "65 \<le> (of_char c :: nat) \<and> (of_char c :: nat) \<le> 90")
  case True
  then have "(of_char (lower_char c) :: nat) = of_char c + 32" by (simp add: lower_char_def)
  with True show ?thesis by (simp add: is_alnum_def)
qed (auto simp: lower_char_def Let_def)

definition slug_char :: "char \<Rightarrow> bool" where
  "slug_char c \<longleftrightarrow> (let k = of_char c :: nat in 48 \<le> k \<and> k \<le> 57 \<or> 97 \<le> k \<and> k \<le> 122 \<or> k = 95)"

lemma slug_char_lower: "is_alnum (lower_char c) \<Longrightarrow> slug_char (lower_char c)"
  by (auto simp: is_alnum_def slug_char_def lower_char_def Let_def split: if_splits)

lemma sub_restricted_two [simp]:
  "sub_restricted [c] = (if is_alnum c then [c] else ''_'')"
  "sub_restricted (c # d # cs) = (if is_alnum c then c # sub_restricted (d # cs)
     else if is_alnum d then CHR ''_'' # sub_restricted (d # cs) else sub_restricted (d # cs))"
  by simp_all

declare sub_restricted.simps(2) [simp del]

lemma sub_restricted_chars: "c \<in> set (sub_restricted s) \<Longrightarrow> c = CHR ''_'' \<or> is_alnum c \<and> c \<in> set s"
  by (induction s rule: induct_list012) (auto split: if_splits)

lemma short_name_chars: "c \<in> set (short_name name) \<Longrightarrow> slug_char c"
proof -
  assume "c \<in> set (short_name name)"
  then have "c \<in> set (sub_restricted (lower name))"
    using strip_char_subset unfolding short_name_def by blast
  then show "slug_char c"
    using sub_restricted_chars [of c "lower name"] slug_char_lower
    by (auto simp: lower_def slug_char_def)
qed

text \<open>No two underscores in a row: a run of other characters leaves one.\<close>

fun no_double :: "string \<Rightarrow> bool" where
  "no_double (a # b # s) = (\<not> (a = CHR ''_'' \<and> b = CHR ''_'') \<and> no_double (b # s))"
| "no_double _ = True"

lemma alnum_underscore [simp]: "\<not> is_alnum CHR ''_''"
  by (simp add: is_alnum_def)

lemma sub_restricted_hd:
  "sub_restricted (c # cs) \<noteq> [] \<and> (is_alnum c \<longrightarrow> hd (sub_restricted (c # cs)) = c)"
  by (induction cs arbitrary: c) auto

lemma no_double_Cons: "no_double (a # s) \<longleftrightarrow> no_double s \<and> (s = [] \<or> \<not> (a = CHR ''_'' \<and> hd s = CHR ''_''))"
  by (cases s) auto

lemma sub_restricted_no_double: "no_double (sub_restricted s)"
proof (induction s rule: induct_list012)
  case (3 c d cs)
  with sub_restricted_hd [of d cs] show ?case by (auto simp: no_double_Cons)
qed simp_all

text \<open>The last dash splits a slug into group and name, so slugs of different groups are different.\<close>

lemma slug_inject:
  assumes "CHR ''-'' \<notin> set a" and "CHR ''-'' \<notin> set b" and "x @ CHR ''-'' # a = y @ CHR ''-'' # b"
  shows "x = y \<and> a = b"
proof -
  have t: "takeWhile (\<lambda>c. c \<noteq> CHR ''-'') (rev (z @ CHR ''-'' # e)) = rev e" if "CHR ''-'' \<notin> set e" for z e
    using that by (auto simp: takeWhile_append)
  have "rev a = rev b" using t [OF assms(1), of x] t [OF assms(2), of y] assms(3) by simp
  with assms(3) show ?thesis by simp
qed

lemma short_name_no_dash: "CHR ''-'' \<notin> set (short_name name)"
  using short_name_chars by (force simp: slug_char_def)

lemma queue_slug_inject:
  "queue_slug g n = queue_slug g' n' \<longleftrightarrow> g = g' \<and> short_name n = short_name n'"
  using slug_inject [OF short_name_no_dash short_name_no_dash, of "str_int g" n "str_int g'" n']
  by (auto simp: queue_slug_def)

end
