(* ===== verification/Sync_Connections.thy ===== *)
theory Sync_Connections
  imports Sync_Repositories
begin

text \<open>
  The handlers of \<open>syncmaster/server/api/v1/connections.py\<close>.  A request body has passed its schema, so a
  handler takes the dumps of the validated connection data and credentials; responses are validated
  against the read schemas.
\<close>

section \<open>Schemas\<close>

record connection_schema =
  cs_name :: string
  cs_description :: string
  cs_type :: connection_type
  cs_data :: jdict
  cs_auth_type :: auth_type
  cs_auth_data :: jdict

text \<open>A body of \<open>POST\<close> (\<open>CreateConnectionSchema\<close>) or \<open>PUT\<close> (\<open>UpdateConnectionSchema\<close>), validated.\<close>

definition parse_connection ::
  "coercion \<Rightarrow> schema_mode \<Rightarrow> string \<Rightarrow> string \<Rightarrow> connection_type \<Rightarrow> jdict \<Rightarrow> jdict \<Rightarrow> connection_schema option" where
  "parse_connection lax mode name desc ct data auth =
     (if length name < 3 \<or> 128 < length name then None
      else (case validate_connection_data lax mode ct data of
          None \<Rightarrow> None
        | Some d \<Rightarrow> (case validate_auth lax mode ct auth of
            None \<Rightarrow> None
          | Some (a, ad) \<Rightarrow>
              if ct = ICEBERG \<and> \<not> connection_and_auth_data_match d a then None
              else Some \<lparr>cs_name = name, cs_description = desc, cs_type = ct, cs_data = d,
                cs_auth_type = a, cs_auth_data = ad\<rparr>)))"

record copy_connection_schema =
  cc_new_group_id :: int
  cc_new_name :: "string option"
  cc_remove_source :: bool

record read_connection_schema =
  rc_id :: int
  rc_group_id :: int
  rc_name :: string
  rc_description :: string
  rc_type :: connection_type
  rc_data :: jdict
  rc_auth_data :: "jdict option"

text \<open>\<open>TypeAdapter(ReadConnectionSchema).validate_python\<close>; a validation error is a \<open>ValueError\<close>.\<close>

definition read_connection_of :: "coercion \<Rightarrow> connection \<Rightarrow> jdict option \<Rightarrow> read_connection_schema res" where
  "read_connection_of lax c creds = (case validate_connection_data lax ReadMode (conn_type c) (conn_data c) of
      None \<Rightarrow> Inl (ValueError ''data'')
    | Some d \<Rightarrow> (case creds of
        None \<Rightarrow> Inr \<lparr>rc_id = pk c, rc_group_id = group_id c, rc_name = rname c, rc_description = rdescription c,
          rc_type = conn_type c, rc_data = d, rc_auth_data = None\<rparr>
      | Some cr \<Rightarrow> (case validate_auth lax ReadMode (conn_type c) cr of
          None \<Rightarrow> Inl (ValueError ''auth_data'')
        | Some (_, a) \<Rightarrow> Inr \<lparr>rc_id = pk c, rc_group_id = group_id c, rc_name = rname c,
            rc_description = rdescription c, rc_type = conn_type c, rc_data = d, rc_auth_data = Some a\<rparr>)))"

fun read_items :: "coercion \<Rightarrow> (int \<times> jdict) list \<Rightarrow> connection list \<Rightarrow> read_connection_schema list res" where
  "read_items lax creds [] = Inr []"
| "read_items lax creds (c # cs) = (case read_connection_of lax c (map_of creds (pk c)) of
      Inl e \<Rightarrow> Inl e
    | Inr r \<Rightarrow> (case read_items lax creds cs of Inl e \<Rightarrow> Inl e | Inr rs \<Rightarrow> Inr (r # rs)))"

section \<open>The handlers\<close>

definition read_connections ::
  "coercion \<Rightarrow> fernet \<Rightarrow> connection text_search \<Rightarrow> int \<Rightarrow> int \<Rightarrow> int \<Rightarrow> connection_type list option \<Rightarrow>
    string option \<Rightarrow> user \<Rightarrow> read_connection_schema page_schema act" where
  "read_connections lax c ts gid p ps types search_query u =
     bindE (query (get_group_permission u gid)) (\<lambda>resource_role.
     if resource_role = NONE then raise GroupNotFoundError
     else bindE (query (\<lambda>d. Inr (connection_repo_paginate ts p ps gid search_query types d))) (\<lambda>pagination.
       bindE (if pg_items pagination = [] then return []
              else bindE (credentials_repo_read_bulk c (map pk (pg_items pagination))) (\<lambda>credentials.
                query (\<lambda>_. read_items lax credentials (pg_items pagination))))
         (\<lambda>items. return \<lparr>ps_meta = ps_meta (from_pagination id pagination), ps_items = items\<rparr>)))"

definition create_connection ::
  "coercion \<Rightarrow> fernet \<Rightarrow> string \<Rightarrow> int \<Rightarrow> int \<Rightarrow> connection_schema \<Rightarrow> user \<Rightarrow> read_connection_schema act" where
  "create_connection lax c rnd now gid connection_data u =
     bindE (query (get_group_permission u gid)) (\<lambda>group_permission.
     if group_permission = NONE then raise GroupNotFoundError
     else if group_permission < WRITE then raise ActionNotAllowedError
     else bindE (uow (bindE (connection_repo_create now gid (cs_type connection_data) (cs_name connection_data)
              (cs_description connection_data) (cs_data connection_data)) (\<lambda>conn.
            bindE (credentials_repo_create c rnd (pk conn) (cs_auth_data connection_data)) (\<lambda>_. return conn))))
       (\<lambda>conn. bindE (credentials_repo_read c (pk conn)) (\<lambda>credentials.
          query (\<lambda>_. read_connection_of lax conn (Some credentials)))))"

definition FILE_CONNECTION_TYPES :: "connection_type list" where
  "FILE_CONNECTION_TYPES = [FTP, FTPS, HDFS, S3, SAMBA, SFTP, WEBDAV]"

definition DB_CONNECTION_TYPES :: "connection_type list" where
  "DB_CONNECTION_TYPES = [CLICKHOUSE, HIVE, ICEBERG, MSSQL, MYSQL, ORACLE, POSTGRES]"

definition CONNECTION_TYPES :: "connection_type list" where
  "CONNECTION_TYPES = DB_CONNECTION_TYPES @ FILE_CONNECTION_TYPES"

definition read_connection_types :: "string list act" where
  "read_connection_types = return (map connection_type_value CONNECTION_TYPES)"

definition is_AuthDataNotFoundError :: "exn \<Rightarrow> bool" where
  "is_AuthDataNotFoundError e = (case e of AuthDataNotFoundError _ \<Rightarrow> True | _ \<Rightarrow> False)"

definition read_connection :: "coercion \<Rightarrow> fernet \<Rightarrow> int \<Rightarrow> user \<Rightarrow> read_connection_schema act" where
  "read_connection lax c cid u =
     bindE (query (\<lambda>d. Inr (get_resource_permission connections u cid d))) (\<lambda>resource_role.
     if resource_role = NONE then raise ConnectionNotFoundError
     else bindE (connection_repo_read_by_id cid) (\<lambda>conn.
       bindE (catchE (bindE (credentials_repo_read c (pk conn)) (\<lambda>x. return (Some x)))
            (\<lambda>e. if is_AuthDataNotFoundError e then return None else raise e)) (\<lambda>credentials.
       query (\<lambda>_. read_connection_of lax conn credentials))))"

text \<open>
  The loop over the secret fields of \<open>update_connection\<close>: a secret left out of the request is taken
  from the stored credentials, provided they are of the same type.
\<close>

fun keep_secrets :: "jdict \<Rightarrow> string list \<Rightarrow> jdict \<Rightarrow> jdict res" where
  "keep_secrets existing [] auth = Inr auth"
| "keep_secrets existing (f # fs) auth = (case dict_get auth f of
      Inl e \<Rightarrow> Inl e
    | Inr v \<Rightarrow>
        if v \<noteq> JNull then keep_secrets existing fs auth
        else (case (dict_get existing ''type'', dict_get auth ''type'') of
            (Inr et, Inr at) \<Rightarrow>
              if et \<noteq> at then Inl ConnectionAuthDataUpdateError
              else (case dict_get existing f of
                  Inl e \<Rightarrow> Inl e
                | Inr w \<Rightarrow> keep_secrets existing fs (dict_set auth f w))
          | (Inl e, _) \<Rightarrow> Inl e
          | (_, Inl e) \<Rightarrow> Inl e))"

definition update_connection_block ::
  "fernet \<Rightarrow> string \<Rightarrow> int \<Rightarrow> int \<Rightarrow> connection_schema \<Rightarrow> connection act" where
  "update_connection_block c rnd now cid connection_data =
     bindE (connection_repo_read_by_id cid) (\<lambda>existing.
     bindE (if cs_type connection_data \<noteq> conn_type existing then
              bindE (query (\<lambda>d. Inr (list_by_connection_id cid d))) (\<lambda>linked_transfers.
              if linked_transfers \<noteq> [] then raise ConnectionTypeUpdateError else return ())
            else return ()) (\<lambda>_.
     bindE (credentials_repo_read c cid) (\<lambda>existing_credentials.
     bindE (query (\<lambda>_. keep_secrets existing_credentials (get_secret_fields (cs_auth_type connection_data))
              (cs_auth_data connection_data))) (\<lambda>auth_data.
     bindE (connection_repo_update now cid (cs_name connection_data) (cs_type connection_data)
              (cs_description connection_data) (cs_data connection_data)) (\<lambda>conn.
     bindE (credentials_repo_update c rnd cid auth_data) (\<lambda>_. return conn))))))"

definition update_connection ::
  "coercion \<Rightarrow> fernet \<Rightarrow> string \<Rightarrow> int \<Rightarrow> int \<Rightarrow> connection_schema \<Rightarrow> user \<Rightarrow> read_connection_schema act" where
  "update_connection lax c rnd now cid connection_data u =
     bindE (query (\<lambda>d. Inr (get_resource_permission connections u cid d))) (\<lambda>resource_role.
     if resource_role = NONE then raise ConnectionNotFoundError
     else if resource_role < WRITE then raise ActionNotAllowedError
     else bindE (uow (update_connection_block c rnd now cid connection_data)) (\<lambda>conn.
       bindE (credentials_repo_read c cid) (\<lambda>credentials.
       query (\<lambda>_. read_connection_of lax conn (Some credentials)))))"

definition delete_connection :: "int \<Rightarrow> user \<Rightarrow> unit act" where
  "delete_connection cid u =
     bindE (query (\<lambda>d. Inr (get_resource_permission connections u cid d))) (\<lambda>resource_role.
     if resource_role = NONE then raise ConnectionNotFoundError
     else if resource_role < DELETE then raise ActionNotAllowedError
     else bindE (connection_repo_read_by_id cid) (\<lambda>conn.
       bindE (query (\<lambda>d. Inr (list_by_connection_id (pk conn) d))) (\<lambda>ts.
       if ts \<noteq> [] then
         raise (ConnectionDeleteError
           (''The connection has an associated transfers. Number of the connected transfers: '' @ str_int (int (length ts))))
       else uow (bindE (connection_repo_delete cid) (\<lambda>_. return ())))))"

definition copy_connection_block :: "int \<Rightarrow> copy_connection_schema \<Rightarrow> connection act" where
  "copy_connection_block cid copy_data =
     bindE (connection_repo_copy cid (cc_new_group_id copy_data) (cc_new_name copy_data)) (\<lambda>conn.
     bindE (if cc_remove_source copy_data then bindE (connection_repo_delete cid) (\<lambda>_. return ()) else return ())
       (\<lambda>_. return conn))"

definition copy_connection :: "coercion \<Rightarrow> int \<Rightarrow> copy_connection_schema \<Rightarrow> user \<Rightarrow> read_connection_schema act" where
  "copy_connection lax cid copy_data u =
     bindE (query (\<lambda>d. Inr (get_resource_permission connections u cid d))) (\<lambda>resource_role.
     if resource_role = NONE then raise ConnectionNotFoundError
     else if cc_remove_source copy_data \<and> resource_role < DELETE then raise ActionNotAllowedError
     else bindE (query (get_group_permission u (cc_new_group_id copy_data))) (\<lambda>target_group_role.
       if target_group_role = NONE then raise GroupNotFoundError
       else if target_group_role < WRITE then raise ActionNotAllowedError
       else bindE (uow (copy_connection_block cid copy_data)) (\<lambda>conn.
         query (\<lambda>_. read_connection_of lax conn None))))"

section \<open>Invariants of the handlers\<close>

lemma connection_handlers_pure [handler_pure]:
  "pure (read_connections lax c ts gid p ps types q u)" "pure (read_connection lax c cid u)"
  "pure read_connection_types"
  unfolding read_connections_def read_connection_def read_connection_types_def
  by (intro pure_intros repo_pure)+

lemma connection_handlers_db [handler_keeps]:
  "keeps db_ok (create_connection lax c rnd now gid cd u)"
  "keeps db_ok (update_connection lax c rnd now cid cd u)"
  "keeps db_ok (delete_connection cid u)" "keeps db_ok (copy_connection lax cid ccd u)"
  unfolding create_connection_def update_connection_def delete_connection_def copy_connection_def
    update_connection_block_def copy_connection_block_def
  by (intro keeps_intros db_keeps)+

lemma update_connection_block_uncommitted [repo_uncommitted]: "uncommitted (update_connection_block c rnd now cid cd)"
  unfolding update_connection_block_def by (intro uncommitted_intros repo_uncommitted)

lemma copy_connection_block_uncommitted [repo_uncommitted]: "uncommitted (copy_connection_block cid ccd)"
  unfolding copy_connection_block_def by (intro uncommitted_intros repo_uncommitted)

lemma delete_connection_atomic [handler_atomic]: "atomic (delete_connection cid u)"
  unfolding delete_connection_def by (intro atomic_intros uncommitted_intros repo_uncommitted)

section \<open>Keeping secrets\<close>

lemma dict_get_Inr [simp]: "dict_get d k = Inr v \<longleftrightarrow> map_of d k = Some v"
  by (auto simp: dict_get_def split: option.splits)

lemma dict_get_Inl: "dict_get d k = Inl e \<longleftrightarrow> map_of d k = None \<and> e = KeyError k"
  by (auto simp: dict_get_def split: option.splits)

lemma keep_secrets_map_of:
  assumes "keep_secrets existing fs auth = Inr r" and "''type'' \<notin> set fs" and "distinct fs"
  shows "map_of r k = (if k \<in> set fs \<and> map_of auth k = Some JNull then map_of existing k else map_of auth k)"
  using assms
proof (induction existing fs auth rule: keep_secrets.induct)
  case (2 existing f fs auth)
  show ?case
  proof (cases "map_of auth f")
    case None
    with 2 show ?thesis by (simp add: dict_get_def)
  next
    case (Some v)
    show ?thesis
    proof (cases "v = JNull")
      case False
      with 2 Some show ?thesis by (auto simp: dict_get_def)
    next
      case True
      with 2 Some show ?thesis by (auto simp: dict_get_def split: if_splits option.splits)
    qed
  qed
qed simp

lemma keep_secrets_changed_type:
  assumes "map_of existing ''type'' \<noteq> map_of auth ''type''" and "''type'' \<notin> set fs"
    and "\<exists>f \<in> set fs. map_of auth f = Some JNull" and "keep_secrets existing fs auth = Inr r"
  shows False
  using assms
proof (induction existing fs auth rule: keep_secrets.induct)
  case (2 existing f fs auth)
  then show ?case by (auto simp: dict_get_def split: if_splits option.splits)
qed simp

lemma keep_secrets_keys: "keep_secrets existing fs auth = Inr r \<Longrightarrow> set fs \<subseteq> fst ` set auth \<Longrightarrow> map fst r = map fst auth"
proof (induction fs arbitrary: auth)
  case (Cons f fs)
  have m: "map fst (dict_set auth f w) = map fst auth" for w
  proof -
    have "f \<in> fst ` set xs \<Longrightarrow> map fst (dict_set xs f w) = map fst xs" for xs :: jdict
      by (induction xs) force+
    with Cons.prems(2) show ?thesis by simp
  qed
  have "set fs \<subseteq> insert f (fst ` set auth)" using Cons.prems(2) by auto
  with Cons m show ?case by (auto simp: dict_get_def split: if_splits option.splits)
qed simp

end
