(* ===== verification/Sync_Transfers.thy ===== *)
theory Sync_Transfers
  imports Sync_Repositories
begin

text \<open>
  The handlers of \<open>syncmaster/server/api/v1/transfers.py\<close>, with the checks of \<open>CreateTransferSchema\<close> that
  look at several fields (\<open>syncmaster/schemas/v1/transfers/__init__.py\<close>).
\<close>

section \<open>Schemas\<close>

record transfer_schema = transfer_values +
  tv_group_id :: int

text \<open>\<open>CreateTransferSchema.validate_scheduling\<close>: a scheduled transfer needs a schedule; an empty one is dropped.\<close>

definition validate_scheduling :: "bool \<Rightarrow> string option \<Rightarrow> string option option" where
  "validate_scheduling scheduled value =
     (if (value = None \<or> value = Some []) \<and> scheduled then None
      else Some (if value = Some [] then None else value))"

text \<open>
  \<open>validate_strategy\<close>: an incremental strategy is refused for S3 and HDFS sources, and for the other
  file sources it must go by file name or modification time.
\<close>

datatype strategy = FullStrategy | IncrementalStrategy string

definition file_types :: "connection_type list" where
  "file_types = [FTP, FTPS, HDFS, S3, SAMBA, SFTP, WEBDAV]"

definition validate_strategy :: "connection_type \<Rightarrow> strategy \<Rightarrow> bool" where
  "validate_strategy source_type st = (case st of
      FullStrategy \<Rightarrow> True
    | IncrementalStrategy increment_by \<Rightarrow>
        source_type \<notin> set [S3, HDFS] \<and>
        (source_type \<in> set file_types \<longrightarrow> increment_by \<in> set [''file_modified_since'', ''file_name'']))"

definition strategy_dump :: "strategy \<Rightarrow> json" where
  "strategy_dump st = (case st of
      FullStrategy \<Rightarrow> JObj [(''type'', JStr ''full'')]
    | IncrementalStrategy f \<Rightarrow> JObj [(''type'', JStr ''incremental''), (''increment_by'', JStr f)])"

text \<open>\<open>Resources\<close>: cores, tasks and memory of a run, within their bounds.\<close>

record resources_schema =
  max_parallel_tasks :: int
  cpu_cores_per_task :: int
  ram_bytes_per_task :: int

definition ONE_MB :: int where "ONE_MB = 2 ^ 20"
definition ONE_GB :: int where "ONE_GB = 2 ^ 30"

definition default_resources :: resources_schema where
  "default_resources = \<lparr>max_parallel_tasks = 1, cpu_cores_per_task = 1, ram_bytes_per_task = ONE_GB\<rparr>"

definition valid_resources :: "resources_schema \<Rightarrow> bool" where
  "valid_resources r \<longleftrightarrow> 1 \<le> max_parallel_tasks r \<and> max_parallel_tasks r \<le> 100 \<and>
     1 \<le> cpu_cores_per_task r \<and> cpu_cores_per_task r \<le> 32 \<and>
     512 * ONE_MB \<le> ram_bytes_per_task r \<and> ram_bytes_per_task r \<le> 64 * ONE_GB"

definition resources_dump :: "resources_schema \<Rightarrow> json" where
  "resources_dump r = JObj [(''max_parallel_tasks'', JInt (max_parallel_tasks r)),
     (''cpu_cores_per_task'', JInt (cpu_cores_per_task r)), (''ram_bytes_per_task'', JInt (ram_bytes_per_task r))]"

record copy_transfer_schema =
  ct_new_group_id :: int
  ct_new_queue_id :: int
  ct_new_source_connection_name :: "string option"
  ct_new_target_connection_name :: "string option"
  ct_new_name :: "string option"
  ct_remove_source :: bool

record read_transfer_schema = transfer_schema +
  rt_id :: int

definition read_transfer_of :: "transfer \<Rightarrow> read_transfer_schema" where
  "read_transfer_of t = \<lparr>tv_name = rname t, tv_description = rdescription t,
     tv_source_connection_id = source_connection_id t, tv_target_connection_id = target_connection_id t,
     tv_source_params = source_params t, tv_target_params = target_params t,
     tv_strategy_params = strategy_params t, tv_transformations = transformations t,
     tv_resources = resources t, tv_queue_id = queue_id t, tv_is_scheduled = is_scheduled t,
     tv_schedule = Some (schedule t), tv_group_id = group_id t, rt_id = pk t\<rparr>"

section \<open>The handlers\<close>

definition read_transfers ::
  "transfer text_search \<Rightarrow> int \<Rightarrow> int \<Rightarrow> int \<Rightarrow> string option \<Rightarrow> transfer_filter \<Rightarrow> user \<Rightarrow>
    read_transfer_schema page_schema act" where
  "read_transfers ts gid p ps search_query f u =
     bindE (query (get_group_permission u gid)) (\<lambda>resource_role.
     if resource_role = NONE then raise GroupNotFoundError
     else bindE (query (\<lambda>d. Inr (transfer_repo_paginate ts p ps gid search_query f d))) (\<lambda>pagination.
       return (from_pagination read_transfer_of pagination)))"

text \<open>
  The checks \<open>create_transfer\<close> and \<open>update_transfer\<close> make on the connections and the queue of a request.
\<close>

definition check_transfer :: "transfer_schema \<Rightarrow> connection \<Rightarrow> connection \<Rightarrow> queue \<Rightarrow> exn option" where
  "check_transfer td src tgt q =
     (if group_id tgt \<noteq> group_id src \<or> group_id tgt \<noteq> tv_group_id td \<or> group_id src \<noteq> tv_group_id td
      then Some DifferentTransferAndConnectionsGroupsError
      else if conn_type tgt \<noteq> ptype (tv_target_params td)
      then Some (DifferentTypeConnectionsAndParamsError ''target'' (connection_type_value (conn_type tgt))
        (connection_type_value (ptype (tv_target_params td))))
      else if conn_type src \<noteq> ptype (tv_source_params td)
      then Some (DifferentTypeConnectionsAndParamsError ''source'' (connection_type_value (conn_type src))
        (connection_type_value (ptype (tv_source_params td))))
      else if tv_group_id td \<noteq> group_id q then Some DifferentTransferAndQueueGroupError
      else None)"

definition create_transfer :: "int \<Rightarrow> transfer_schema \<Rightarrow> user \<Rightarrow> read_transfer_schema act" where
  "create_transfer now transfer_data u =
     bindE (query (get_group_permission u (tv_group_id transfer_data))) (\<lambda>group_permission.
     if group_permission < WRITE then raise ActionNotAllowedError
     else bindE (connection_repo_read_by_id (tv_target_connection_id transfer_data)) (\<lambda>tgt.
       bindE (connection_repo_read_by_id (tv_source_connection_id transfer_data)) (\<lambda>src.
       bindE (queue_repo_read_by_id (tv_queue_id transfer_data)) (\<lambda>q.
       case check_transfer transfer_data src tgt q of
         Some e \<Rightarrow> raise e
       | None \<Rightarrow> bindE (uow (transfer_repo_create now (tv_group_id transfer_data)
             (transfer_values.truncate transfer_data)))
           (\<lambda>t. return (read_transfer_of t))))))"

definition read_transfer :: "int \<Rightarrow> user \<Rightarrow> read_transfer_schema act" where
  "read_transfer tid u =
     bindE (query (\<lambda>d. Inr (get_resource_permission transfers u tid d))) (\<lambda>resource_role.
     if resource_role = NONE then raise TransferNotFoundError
     else bindE (transfer_repo_read_by_id tid) (\<lambda>t. return (read_transfer_of t)))"

text \<open>The unit of work of \<open>copy_transfer\<close>: the connections are copied first, once when both are the same.\<close>

definition copy_transfer_block :: "int \<Rightarrow> copy_transfer_schema \<Rightarrow> transfer \<Rightarrow> transfer act" where
  "copy_transfer_block tid td t =
     bindE (connection_repo_copy (source_connection_id t) (ct_new_group_id td) (ct_new_source_connection_name td))
       (\<lambda>copied_source.
     bindE (if source_connection_id t \<noteq> target_connection_id t
            then connection_repo_copy (target_connection_id t) (ct_new_group_id td) (ct_new_target_connection_name td)
            else return copied_source) (\<lambda>copied_target.
     bindE (transfer_repo_copy tid (ct_new_queue_id td) (Some (ct_new_group_id td)) (Some (pk copied_source))
              (Some (pk copied_target)) (ct_new_name td)) (\<lambda>copied_transfer.
     bindE (if ct_remove_source td then bindE (transfer_repo_delete tid) (\<lambda>_. return ()) else return ())
       (\<lambda>_. return copied_transfer))))"

definition copy_transfer :: "int \<Rightarrow> copy_transfer_schema \<Rightarrow> user \<Rightarrow> read_transfer_schema act" where
  "copy_transfer tid td u =
     bindE (query (\<lambda>d. Inr (get_resource_permission transfers u tid d))) (\<lambda>resource_role.
     if resource_role = NONE then raise TransferNotFoundError
     else if ct_remove_source td \<and> resource_role < DELETE then raise ActionNotAllowedError
     else bindE (query (get_group_permission u (ct_new_group_id td))) (\<lambda>target_group_role.
       if target_group_role < WRITE then raise ActionNotAllowedError
       else bindE (transfer_repo_read_by_id tid) (\<lambda>t.
         bindE (query (\<lambda>d. Inr (get_resource_permission connections u (source_connection_id t) d))) (\<lambda>source_role.
         if source_role = NONE then raise ConnectionNotFoundError
         else bindE (query (\<lambda>d. Inr (get_resource_permission connections u (target_connection_id t) d))) (\<lambda>target_role.
           if target_role = NONE then raise ConnectionNotFoundError
           else bindE (queue_repo_read_by_id (ct_new_queue_id td)) (\<lambda>new_queue.
             if group_id new_queue \<noteq> ct_new_group_id td then raise DifferentTransferAndQueueGroupError
             else bindE (uow (copy_transfer_block tid td t)) (\<lambda>ct. return (read_transfer_of ct))))))))"

definition update_transfer :: "int \<Rightarrow> int \<Rightarrow> transfer_schema \<Rightarrow> user \<Rightarrow> read_transfer_schema act" where
  "update_transfer now tid transfer_data u =
     bindE (query (\<lambda>d. Inr (get_resource_permission transfers u tid d))) (\<lambda>resource_role.
     if resource_role = NONE then raise TransferNotFoundError
     else if resource_role < WRITE then raise ActionNotAllowedError
     else bindE (connection_repo_read_by_id (tv_target_connection_id transfer_data)) (\<lambda>tgt.
       bindE (connection_repo_read_by_id (tv_source_connection_id transfer_data)) (\<lambda>src.
       bindE (queue_repo_read_by_id (tv_queue_id transfer_data)) (\<lambda>q.
       bindE (query (\<lambda>d. Inr (get_resource_permission connections u (pk tgt) d))) (\<lambda>target_role.
       bindE (query (\<lambda>d. Inr (get_resource_permission connections u (pk src) d))) (\<lambda>source_role.
       if NONE \<in> set [source_role, target_role] then raise ConnectionNotFoundError
       else (case check_transfer transfer_data src tgt q of
           Some e \<Rightarrow> raise e
         | None \<Rightarrow> bindE (uow (transfer_repo_update now tid (transfer_values.truncate transfer_data)))
             (\<lambda>t. return (read_transfer_of t)))))))))"

definition delete_transfer :: "int \<Rightarrow> user \<Rightarrow> unit act" where
  "delete_transfer tid u =
     bindE (query (\<lambda>d. Inr (get_resource_permission transfers u tid d))) (\<lambda>resource_role.
     if resource_role = NONE then raise TransferNotFoundError
     else if resource_role < DELETE then raise ActionNotAllowedError
     else uow (bindE (transfer_repo_delete tid) (\<lambda>_. return ())))"

section \<open>Invariants of the handlers\<close>

lemma transfer_handlers_pure [handler_pure]:
  "pure (read_transfers ts gid p ps q f u)" "pure (read_transfer tid u)"
  unfolding read_transfers_def read_transfer_def by (intro pure_intros repo_pure)+

lemma transfer_handlers_db [handler_keeps]:
  "keeps db_ok (create_transfer now td u)" "keeps db_ok (copy_transfer tid ctd u)"
  "keeps db_ok (update_transfer now tid td u)" "keeps db_ok (delete_transfer tid u)"
  unfolding create_transfer_def copy_transfer_def copy_transfer_block_def update_transfer_def delete_transfer_def
  by (intro keeps_intros db_keeps)+

lemma copy_transfer_block_uncommitted [repo_uncommitted]: "uncommitted (copy_transfer_block tid td t)"
  unfolding copy_transfer_block_def by (intro uncommitted_intros repo_uncommitted)

lemma atomic_case_option [atomic_intros]:
  "atomic m \<Longrightarrow> (\<And>x. atomic (f x)) \<Longrightarrow> atomic (case v of None \<Rightarrow> m | Some x \<Rightarrow> f x)"
  by (cases v) auto

lemma transfer_handlers_atomic [handler_atomic]:
  "atomic (create_transfer now td u)" "atomic (copy_transfer tid ctd u)"
  "atomic (update_transfer now tid td u)" "atomic (delete_transfer tid u)"
  unfolding create_transfer_def copy_transfer_def update_transfer_def delete_transfer_def
  by (intro atomic_intros uncommitted_intros repo_uncommitted)+

end
