(* ===== verification/Sync_Runs.thy ===== *)
theory Sync_Runs
  imports Sync_Repositories
begin

text \<open>
  The handlers of \<open>syncmaster/server/api/v1/runs.py\<close>.  The broker is part of the session: a task that was
  sent is the pair of its queue and run id.  Whether the broker can be reached is an argument.
\<close>

section \<open>Schemas\<close>

record short_run_schema =
  sr_id :: int
  sr_transfer_id :: int
  sr_started_at :: "int option"
  sr_ended_at :: "int option"
  sr_status :: status
  sr_log_url :: "string option"
  sr_type :: run_type

record read_run_schema = short_run_schema +
  sr_transfer_dump :: json

definition short_run_of :: "run \<Rightarrow> short_run_schema" where
  "short_run_of r = \<lparr>sr_id = pk r, sr_transfer_id = transfer_id r, sr_started_at = started_at r,
     sr_ended_at = ended_at r, sr_status = run_status r, sr_log_url = log_url r, sr_type = run_type r\<rparr>"

definition read_run_of :: "run \<Rightarrow> read_run_schema" where
  "read_run_of r = \<lparr>sr_id = pk r, sr_transfer_id = transfer_id r, sr_started_at = started_at r,
     sr_ended_at = ended_at r, sr_status = run_status r, sr_log_url = log_url r, sr_type = run_type r,
     sr_transfer_dump = transfer_dump r\<rparr>"

section \<open>The handlers\<close>

definition read_runs :: "int \<Rightarrow> int \<Rightarrow> int \<Rightarrow> run_filter \<Rightarrow> user \<Rightarrow> short_run_schema page_schema act" where
  "read_runs tid p ps f u =
     bindE (query (\<lambda>d. Inr (get_resource_permission transfers u tid d))) (\<lambda>resource_rule.
     if resource_rule = NONE then raise TransferNotFoundError
     else bindE (query (\<lambda>d. Inr (run_repo_paginate tid p ps f d))) (\<lambda>pagination.
       return (from_pagination short_run_of pagination)))"

definition read_run :: "int \<Rightarrow> user \<Rightarrow> read_run_schema act" where
  "read_run rid u =
     bindE (run_repo_read_by_id rid) (\<lambda>r.
     bindE (query (\<lambda>d. Inr (get_resource_permission transfers u (transfer_id r) d))) (\<lambda>resource_role.
     if resource_role = NONE then raise TransferNotFoundError
     else return (read_run_of r)))"

text \<open>\<open>celery.send_task("run_transfer_task", kwargs={"run_id": \<dots>}, queue=\<dots>)\<close>.\<close>

definition send_task :: "bool \<Rightarrow> string \<Rightarrow> int \<Rightarrow> unit act" where
  "send_task available queue_slug run_id s =
     (if available then (Inr (), s\<lparr>broker := broker s @ [(queue_slug, run_id)]\<rparr>) else (Inl KombuError, s))"

definition start_run ::
  "coercion \<Rightarrow> fernet \<Rightarrow> bool \<Rightarrow> int \<Rightarrow> int \<Rightarrow> user \<Rightarrow> read_run_schema act" where
  "start_run lax c available now tid u =
     bindE (query (\<lambda>d. Inr (get_resource_permission transfers u tid d))) (\<lambda>resource_rule.
     if resource_rule = NONE then raise TransferNotFoundError
     else if resource_rule < WRITE then raise ActionNotAllowedError
     else bindE (transfer_repo_read_by_id tid) (\<lambda>t.
       bindE (queue_repo_read_by_id (queue_id t)) (\<lambda>q.
       bindE (credentials_repo_read c (source_connection_id t)) (\<lambda>credentials_source.
       bindE (credentials_repo_read c (target_connection_id t)) (\<lambda>credentials_target.
       bindE (uow (bindE (query (\<lambda>_. read_auth_data lax credentials_source)) (\<lambda>source_creds.
              bindE (query (\<lambda>_. read_auth_data lax credentials_target)) (\<lambda>target_creds.
              run_repo_create now tid source_creds target_creds MANUAL)))) (\<lambda>r.
       bindE (catchE (send_task available (slug q) (pk r))
            (\<lambda>e. if e = KombuError then
                bindE (uow (run_repo_update_status now (pk r) FAILED)) (\<lambda>_. raise (CannotConnectToTaskQueueError (pk r)))
              else raise e)) (\<lambda>_. return (read_run_of r))))))))"

definition stop_run :: "int \<Rightarrow> int \<Rightarrow> user \<Rightarrow> read_run_schema act" where
  "stop_run now rid u =
     bindE (run_repo_read_by_id rid) (\<lambda>r.
     bindE (query (\<lambda>d. Inr (get_resource_permission transfers u (transfer_id r) d))) (\<lambda>resource_rule.
     if resource_rule = NONE then raise TransferNotFoundError
     else if resource_rule < WRITE then raise ActionNotAllowedError
     else bindE (uow (run_repo_stop now rid)) (\<lambda>r'. return (read_run_of r'))))"

section \<open>Invariants of the handlers\<close>

lemma run_handlers_pure [handler_pure]: "pure (read_runs tid p ps f u)" "pure (read_run rid u)"
  unfolding read_runs_def read_run_def by (intro pure_intros repo_pure)+

lemma send_task_keeps [db_keeps]: "keeps I (send_task available q r)"
  by (rule keepsI) (auto simp: send_task_def split: if_splits)

lemma run_handlers_db [handler_keeps]:
  "keeps db_ok (start_run lax c available now tid u)" "keeps db_ok (stop_run now rid u)"
  unfolding start_run_def stop_run_def by (intro keeps_intros db_keeps)+

lemma stop_run_atomic [handler_atomic]: "atomic (stop_run now rid u)"
  unfolding stop_run_def by (intro atomic_intros uncommitted_intros repo_uncommitted)

end
