(* ===== verification/Sync_Coherence.thy ===== *)
theory Sync_Coherence
  imports Sync_Queues Sync_Connections Sync_Transfers Sync_Runs
begin

text \<open>
  The invariant no constraint of the schema states: the parameters of a transfer are of the type of the
  connection they are for.  The worker relies on it when it picks a handler.  Every handler of the API
  keeps it; the guards of \<open>create_transfer\<close>, \<open>update_transfer\<close> and \<open>update_connection\<close> and the way
  \<open>copy_transfer\<close> copies its connections are what makes it hold.
\<close>

definition types_match :: "transfer \<Rightarrow> connection list \<Rightarrow> bool" where
  "types_match t cs \<longleftrightarrow> (\<forall>c \<in> set cs.
     (pk c = source_connection_id t \<longrightarrow> conn_type c = ptype (source_params t)) \<and>
     (pk c = target_connection_id t \<longrightarrow> conn_type c = ptype (target_params t)))"

definition types_ok :: "db \<Rightarrow> bool" where
  "types_ok d \<longleftrightarrow> (\<forall>t \<in> set (transfers d). types_match t (connections d))"

definition coherent :: "db \<Rightarrow> bool" where
  "coherent d \<longleftrightarrow> db_ok d \<and> types_ok d"

named_theorems coherent_keeps \<open>methods keep the coherence invariant\<close>

lemma coherentD: "coherent d \<Longrightarrow> db_ok d" "coherent d \<Longrightarrow> types_ok d" "coherent d \<Longrightarrow> schema_ok d"
  by (simp_all add: coherent_def db_ok_def)

lemma coherent_empty_db: "coherent empty_db"
  using db_ok_empty_db by (simp add: coherent_def types_ok_def) (simp add: empty_db_def)

lemma types_ok_subset:
  "types_ok d \<Longrightarrow> set (transfers d') \<subseteq> set (transfers d) \<Longrightarrow> set (connections d') \<subseteq> set (connections d) \<Longrightarrow> types_ok d'"
  unfolding types_ok_def types_match_def by blast

lemma types_ok_cascade_transfers: "types_ok d \<Longrightarrow> types_ok (cascade_transfers P d)"
  by (erule types_ok_subset) (auto simp: cascade_transfers_def Let_def)

lemma types_ok_cascade_connections: "types_ok d \<Longrightarrow> types_ok (cascade_connections P d)"
  unfolding cascade_connections_def Let_def
  by (rule types_ok_cascade_transfers, erule types_ok_subset) auto

lemma types_ok_cascade_queues: "types_ok d \<Longrightarrow> types_ok (cascade_queues P d)"
  unfolding cascade_queues_def Let_def
  by (rule types_ok_cascade_transfers, erule types_ok_subset) auto

lemma types_ok_cascade_group: "types_ok d \<Longrightarrow> types_ok (cascade_group g d)"
  unfolding cascade_group_def
  by (intro types_ok_cascade_transfers types_ok_cascade_queues types_ok_cascade_connections, erule types_ok_subset) auto

lemma types_ok_delete:
  "delete_connection_row i d = Inr (c, d') \<Longrightarrow> types_ok d \<Longrightarrow> types_ok d'"
  "delete_queue_row i d = Inr (q, d') \<Longrightarrow> types_ok d \<Longrightarrow> types_ok d'"
  "delete_transfer_row i d = Inr (t, d') \<Longrightarrow> types_ok d \<Longrightarrow> types_ok d'"
  "delete_group_row i d = Inr (g, d') \<Longrightarrow> types_ok d \<Longrightarrow> types_ok d'"
  by (auto simp: delete_connection_row_def delete_queue_row_def delete_transfer_row_def delete_group_row_def
      types_ok_cascade_transfers types_ok_cascade_connections types_ok_cascade_queues types_ok_cascade_group
      split: option.splits)

text \<open>Statements on other tables.\<close>

lemma types_ok_frame: "types_ok d \<Longrightarrow> transfers d' = transfers d \<and> connections d' = connections d \<Longrightarrow> types_ok d'"
  by (simp add: types_ok_def)

lemma resource_frame:
  "insert_group mg d = Inr (g, d') \<Longrightarrow> transfers d' = transfers d \<and> connections d' = connections d"
  "update_group_row i fg d = Inr (g, d') \<Longrightarrow> transfers d' = transfers d \<and> connections d' = connections d"
  "insert_user_group x d = Inr (y, d') \<Longrightarrow> transfers d' = transfers d \<and> connections d' = connections d"
  "update_user_group_row gi u role d = Inr (z, d') \<Longrightarrow> transfers d' = transfers d \<and> connections d' = connections d"
  "delete_user_group_row gi u d = Inr (v, d') \<Longrightarrow> transfers d' = transfers d \<and> connections d' = connections d"
  "insert_auth_data a d = Inr (b, d') \<Longrightarrow> transfers d' = transfers d \<and> connections d' = connections d"
  "update_auth_data_row i w d = Inr (b, d') \<Longrightarrow> transfers d' = transfers d \<and> connections d' = connections d"
  "insert_queue mq d = Inr (q, d') \<Longrightarrow> transfers d' = transfers d \<and> connections d' = connections d"
  "update_queue_row i fq d = Inr (q, d') \<Longrightarrow> transfers d' = transfers d \<and> connections d' = connections d"
  "insert_run mr d = Inr (r, d') \<Longrightarrow> transfers d' = transfers d \<and> connections d' = connections d"
  "update_run_row i fr d = Inr (r, d') \<Longrightarrow> transfers d' = transfers d \<and> connections d' = connections d"
  by (auto simp: insert_group_def update_group_row_def insert_user_group_def update_user_group_row_def
      delete_user_group_row_def insert_auth_data_def update_auth_data_row_def insert_queue_def
      update_queue_row_def insert_run_def update_run_row_def Let_def split: if_splits option.splits)

lemmas types_ok_resource_frame = types_ok_frame [OF _ resource_frame(1)] types_ok_frame [OF _ resource_frame(2)]
  types_ok_frame [OF _ resource_frame(3)] types_ok_frame [OF _ resource_frame(4)]
  types_ok_frame [OF _ resource_frame(5)] types_ok_frame [OF _ resource_frame(6)]
  types_ok_frame [OF _ resource_frame(7)] types_ok_frame [OF _ resource_frame(8)]
  types_ok_frame [OF _ resource_frame(9)] types_ok_frame [OF _ resource_frame(10)]
  types_ok_frame [OF _ resource_frame(11)]

named_theorems types_keeps \<open>methods and handlers keep the types of transfers\<close>

lemma group_repo_types [types_keeps]:
  "keeps types_ok (group_repo_create now name desc owner)" "keeps types_ok (group_repo_update now gid name desc owner)"
  "keeps types_ok (group_repo_delete gid)" "keeps types_ok (group_repo_update_member_role gid uid role)"
  "keeps types_ok (group_repo_add_user gid uid role)" "keeps types_ok (group_repo_delete_user gid uid)"
  unfolding group_repo_create_def group_repo_update_def group_repo_delete_def group_repo_update_member_role_def
    group_repo_add_user_def group_repo_delete_user_def
  by (intro keeps_intros keeps_exec_rethrow keeps_exec; auto intro: types_ok_resource_frame  types_ok_delete)+

lemma other_repo_types [types_keeps]:
  "keeps types_ok (credentials_repo_create c rnd cid data)" "keeps types_ok (credentials_repo_update c rnd cid data)"
  "keeps types_ok (connection_repo_delete cid)"
  "keeps types_ok (queue_repo_create now name gid desc sl)" "keeps types_ok (queue_repo_update now qid name desc)"
  "keeps types_ok (queue_repo_delete qid)" "keeps types_ok (transfer_repo_delete tid)"
  "keeps types_ok (run_repo_create now tid sc tc ty)" "keeps types_ok (run_repo_update_status now rid st)"
  "keeps types_ok (run_repo_stop now rid)"
  unfolding credentials_repo_create_def credentials_repo_update_def connection_repo_delete_def
    queue_repo_create_def queue_repo_update_def queue_repo_delete_def transfer_repo_delete_def
    run_repo_create_def run_repo_update_status_def run_repo_stop_def run_repo_read_by_id_def
  by (intro keeps_intros keeps_exec_rethrow keeps_exec; auto intro: types_ok_resource_frame types_ok_delete)+

lemmas pure_repo_keeps = repo_pure [THEN pure_keeps]

lemma group_handlers_types [types_keeps]:
  "keeps types_ok (create_group now cgd u)" "keeps types_ok (update_group now gid gd u)"
  "keeps types_ok (delete_group gid)" "keeps types_ok (update_user_role_group gid uid role u)"
  "keeps types_ok (add_user_to_group gid uid role u)" "keeps types_ok (delete_user_from_group gid uid u)"
  unfolding create_group_def update_group_def update_group_block_def delete_group_def update_user_role_group_def
    add_user_to_group_def delete_user_from_group_def
  by (intro keeps_intros types_keeps pure_repo_keeps)+

lemma queue_handlers_types [types_keeps]:
  "keeps types_ok (create_queue now qd u)" "keeps types_ok (update_queue now qid uqd u)"
  "keeps types_ok (delete_queue ts qid u)"
  unfolding create_queue_def update_queue_def delete_queue_def
  by (intro keeps_intros types_keeps pure_repo_keeps)+

lemma run_handlers_types [types_keeps]:
  "keeps types_ok (start_run lax c available now tid u)" "keeps types_ok (stop_run now rid u)"
  unfolding start_run_def stop_run_def
  by (intro keeps_intros types_keeps pure_repo_keeps send_task_keeps)+

lemma delete_handlers_types [types_keeps]:
  "keeps types_ok (delete_connection cid u)" "keeps types_ok (delete_transfer tid u)"
  unfolding delete_connection_def delete_transfer_def
  by (intro keeps_intros types_keeps pure_repo_keeps)+

lemma keeps_coherent: "keeps db_ok m \<Longrightarrow> keeps types_ok m \<Longrightarrow> keeps coherent m"
  unfolding coherent_def by (rule keeps_mono_conj)

lemma group_handlers_coherent [coherent_keeps]:
  "keeps coherent (create_group now cgd u)" "keeps coherent (update_group now gid gd u)"
  "keeps coherent (delete_group gid)" "keeps coherent (delete_user_from_group gid uid u)"
  "role \<in> set public_roles \<Longrightarrow> keeps coherent (update_user_role_group gid uid role u)"
  "role \<in> set public_roles \<Longrightarrow> keeps coherent (add_user_to_group gid uid role u)"
  by (rule keeps_coherent; intro handler_keeps types_keeps; assumption?)+

lemma other_handlers_coherent [coherent_keeps]:
  "keeps coherent (create_queue now qd u)" "keeps coherent (update_queue now qid uqd u)"
  "keeps coherent (delete_queue ts qid u)" "keeps coherent (delete_connection cid u)"
  "keeps coherent (delete_transfer tid u)" "keeps coherent (start_run lax c available now tid u)"
  "keeps coherent (stop_run now rid u)"
  by (rule keeps_coherent; intro handler_keeps types_keeps)+

section \<open>Handlers that write connections or transfers\<close>

lemma transfer_connections_exist:
  assumes "schema_ok d" and "t \<in> set (transfers d)"
  shows "has_row (source_connection_id t) (connections d)" "has_row (target_connection_id t) (connections d)"
  using assms by (simp_all add: schema_ok_def fk_ok_def)

lemma insert_connection_law:
  assumes "insert_connection mk d = Inr (c, d')" and "\<And>i. pk (mk i) = i" and "schema_ok d"
  shows "connections d' = connections d @ [c]" "transfers d' = transfers d" "c = mk (seq_connection d)"
    "\<not> has_row (pk c) (connections d)"
proof -
  show "connections d' = connections d @ [c]" "c = mk (seq_connection d)"
    using connections.ins_law [OF assms(1)] by auto
  show "transfers d' = transfers d"
    using assms(1) by (auto simp: insert_connection_def Let_def split: if_splits)
  show "\<not> has_row (pk c) (connections d)"
    using connections.ins_fresh [OF assms(1,2)] assms(3)
    by (simp add: schema_ok_def pk_ok_def get_row_None has_row_iff)
qed

lemma insert_connection_types:
  assumes "insert_connection mk d = Inr (c, d')" and "\<And>i. pk (mk i) = i" and "schema_ok d" and "types_ok d"
  shows "types_ok d'"
proof -
  note l = insert_connection_law [OF assms(1,2,3)]
  have "types_match t (connections d @ [c])" if t: "t \<in> set (transfers d)" for t
  proof -
    have "pk c \<noteq> source_connection_id t" "pk c \<noteq> target_connection_id t"
      using transfer_connections_exist [OF assms(3) t] l(4) by metis+
    with assms(4) t show ?thesis by (auto simp: types_ok_def types_match_def)
  qed
  then show ?thesis by (simp add: types_ok_def l)
qed

lemma insert_connection_coherent:
  "insert_connection mk d = Inr (c, d') \<Longrightarrow> (\<And>i. pk (mk i) = i) \<Longrightarrow> coherent d \<Longrightarrow> coherent d'"
  using insert_connection_types row_db(1) by (metis coherentD coherent_def)

lemma connection_repo_coherent [coherent_keeps]:
  "keeps coherent (connection_repo_create now gid ct name desc data)" "keeps coherent (connection_repo_copy cid gid nm)"
  unfolding connection_repo_create_def connection_repo_copy_def
  by (rule keeps_exec_rethrow; auto intro: insert_connection_coherent split: option.splits)+

lemma simple_repo_coherent [coherent_keeps]:
  "keeps coherent (connection_repo_delete cid)" "keeps coherent (credentials_repo_create c rnd cid data)"
  by (rule keeps_coherent; intro db_keeps types_keeps)+

lemma create_connection_coherent [coherent_keeps]: "keeps coherent (create_connection lax c rnd now gid cd u)"
  unfolding create_connection_def by (intro keeps_intros coherent_keeps pure_repo_keeps)

lemma copy_connection_coherent [coherent_keeps]: "keeps coherent (copy_connection lax cid ccd u)"
  unfolding copy_connection_def copy_connection_block_def by (intro keeps_intros coherent_keeps)

text \<open>A transfer row is written with parameters of the types of its connections.\<close>

lemma types_match_rows:
  assumes "schema_ok d" and "get_row (source_connection_id t) (connections d) = Some src"
    and "get_row (target_connection_id t) (connections d) = Some tgt"
    and "conn_type src = ptype (source_params t)" and "conn_type tgt = ptype (target_params t)"
  shows "types_match t (connections d)"
proof -
  have "c = src" if "c \<in> set (connections d)" "pk c = source_connection_id t" for c
    using get_row_eq [OF schema_okD(2) [OF assms(1)] that(1)] that(2) assms(2) by simp
  moreover have "c = tgt" if "c \<in> set (connections d)" "pk c = target_connection_id t" for c
    using get_row_eq [OF schema_okD(2) [OF assms(1)] that(1)] that(2) assms(3) by simp
  ultimately show ?thesis using assms(4,5) by (auto simp: types_match_def)
qed

lemma insert_transfer_coherent:
  assumes "insert_transfer mk d = Inr (t, d')" and "\<And>i. pk (mk i) = i" and "coherent d"
    and "types_match (mk (seq_transfer d)) (connections d)"
  shows "coherent d'"
proof -
  from transfers.ins_law [OF assms(1)] have t: "t = mk (seq_transfer d)" "transfers d' = transfers d @ [t]" by auto
  have "connections d' = connections d"
    using assms(1) by (auto simp: insert_transfer_def Let_def split: if_splits option.splits)
  with t assms(3,4) have "types_ok d'" by (auto simp: coherent_def types_ok_def)
  with row_db(7) [OF assms(1,2)] assms(3) show ?thesis by (simp add: coherent_def)
qed

lemma update_transfer_coherent:
  assumes "update_transfer_row i f d = Inr (t, d')" and "coherent d" and "types_match t (connections d)"
  shows "coherent d'"
proof -
  from transfers.upd_law [OF assms(1)] have "transfers d' = set_row t (transfers d)" by auto
  moreover have "connections d' = connections d"
    using assms(1) by (auto simp: update_transfer_row_def Let_def split: if_splits option.splits)
  ultimately have "types_ok d'"
    using assms(2,3) set_set_row by (fastforce simp: coherent_def types_ok_def)
  with row_db(8) [OF assms(1)] assms(2) show ?thesis by (simp add: coherent_def)
qed

lemma check_transfer_types:
  "check_transfer td src tgt q = None \<Longrightarrow>
     conn_type src = ptype (tv_source_params td) \<and> conn_type tgt = ptype (tv_target_params td) \<and>
     group_id src = tv_group_id td \<and> group_id tgt = tv_group_id td \<and> group_id q = tv_group_id td"
  by (auto simp: check_transfer_def split: if_splits)

lemma create_transfer_coherent [coherent_keeps]: "keeps coherent (create_transfer now td u)"
proof (rule keepsI)
  fix s e s'
  assume "create_transfer now td u s = (Inl e, s')" and "coherent (committed s)" "coherent (working s)"
  then show "coherent (committed s') \<and> coherent (working s')"
    by (auto simp: create_transfer_def connection_repo_read_by_id_def queue_repo_read_by_id_def
        transfer_repo_create_def run_simps split: option.splits if_splits)
next
  fix s x s'
  assume r: "create_transfer now td u s = (Inr x, s')" and ok: "coherent (working s)"
  then obtain src tgt q t d where "get_row (tv_source_connection_id td) (connections (working s)) = Some src"
    and "get_row (tv_target_connection_id td) (connections (working s)) = Some tgt"
    and c: "check_transfer td src tgt q = None"
    and i: "insert_transfer (\<lambda>i. \<lparr>pk = i, created_at = now, updated_at = now, rname = tv_name td, group_id = tv_group_id td,
          rdescription = tv_description td, source_connection_id = tv_source_connection_id td,
          target_connection_id = tv_target_connection_id td, strategy_params = tv_strategy_params td,
          source_params = tv_source_params td, target_params = tv_target_params td,
          transformations = tv_transformations td, resources = tv_resources td,
          is_scheduled = tv_is_scheduled td, schedule = schedule_text (tv_schedule td),
          queue_id = tv_queue_id td\<rparr>) (working s) = Inr (t, d)"
    and s': "s' = s\<lparr>working := d, committed := d\<rparr>"
    by (auto simp: create_transfer_def connection_repo_read_by_id_def queue_repo_read_by_id_def
        transfer_repo_create_def transfer_values.truncate_def run_simps split: option.splits if_splits)
  with coherentD(3) [OF ok] check_transfer_types [OF c] have "coherent d"
    by (intro insert_transfer_coherent [OF i _ ok] types_match_rows) auto
  then show "coherent (committed s') \<and> coherent (working s')" by (simp add: s')
qed

lemma update_transfer_handler_coherent [coherent_keeps]: "keeps coherent (update_transfer now tid td u)"
proof (rule keepsI)
  fix s e s'
  assume "update_transfer now tid td u s = (Inl e, s')" and "coherent (committed s)" "coherent (working s)"
  then show "coherent (committed s') \<and> coherent (working s')"
    by (auto simp: update_transfer_def connection_repo_read_by_id_def queue_repo_read_by_id_def
        transfer_repo_update_def run_simps split: option.splits if_splits)
next
  fix s x s'
  assume r: "update_transfer now tid td u s = (Inr x, s')" and ok: "coherent (working s)"
  then obtain src tgt q t d where src: "get_row (tv_source_connection_id td) (connections (working s)) = Some src"
    and tgt: "get_row (tv_target_connection_id td) (connections (working s)) = Some tgt"
    and c: "check_transfer td src tgt q = None"
    and i: "update_transfer_row tid (transfer_update_of now (transfer_values.truncate td)) (working s) = Inr (t, d)"
    and s': "s' = s\<lparr>working := d, committed := d\<rparr>"
    by (auto simp: update_transfer_def connection_repo_read_by_id_def queue_repo_read_by_id_def
        transfer_repo_update_def run_simps split: option.splits if_splits)
  from transfers.upd_law [OF i] have "source_connection_id t = tv_source_connection_id td"
    "target_connection_id t = tv_target_connection_id td" "source_params t = tv_source_params td"
    "target_params t = tv_target_params td"
    by (auto simp: transfer_update_of_def transfer_values.truncate_def)
  with src tgt coherentD(3) [OF ok] check_transfer_types [OF c] have "coherent d"
    by (intro update_transfer_coherent [OF i ok] types_match_rows) auto
  then show "coherent (committed s') \<and> coherent (working s')" by (simp add: s')
qed

text \<open>Copies: a copied connection is a new row of the same type.\<close>

lemma connection_repo_copy_Inr:
  assumes "connection_repo_copy cid gid nm s = (Inr c, s')" and "schema_ok (working s)"
  shows "\<exists>c0. get_row cid (connections (working s)) = Some c0 \<and> conn_type c = conn_type c0 \<and>
     group_id c = gid \<and> conn_data c = conn_data c0 \<and> rname c = given nm (rname c0) \<and>
     connections (working s') = connections (working s) @ [c] \<and> \<not> has_row (pk c) (connections (working s)) \<and>
     transfers (working s') = transfers (working s) \<and> schema_ok (working s') \<and>
     queues (working s') = queues (working s) \<and> auth_datas (working s') = auth_datas (working s) \<and>
     committed s' = committed s \<and> broker s' = broker s"
proof -
  from assms(1) obtain c0 d where c0: "get_row cid (connections (working s)) = Some c0"
    and i: "insert_connection (\<lambda>i. c0\<lparr>pk := i, group_id := gid,
            rname := (case nm of None \<Rightarrow> rname c0 | Some n \<Rightarrow> n)\<rparr>) (working s) = Inr (c, d)"
    and s': "s' = s\<lparr>working := d\<rparr>"
    by (auto simp: connection_repo_copy_def run_simps split: option.splits)
  have p: "pk ((\<lambda>i. c0\<lparr>pk := i, group_id := gid, rname := (case nm of None \<Rightarrow> rname c0 | Some n \<Rightarrow> n)\<rparr>) i) = i" for i
    by simp
  note l = insert_connection_law [OF i p assms(2)]
  have "queues d = queues (working s) \<and> auth_datas d = auth_datas (working s)"
    using i by (auto simp: insert_connection_def Let_def split: if_splits)
  with c0 l insert_connection_schema [OF assms(2) i p] show ?thesis by (auto simp: s' given_def)
qed

lemma get_row_append_old: "get_row i xs = Some r \<Longrightarrow> get_row i (xs @ ys) = Some r"
  by (simp add: get_row_append)

lemma get_row_append_new: "\<not> has_row (pk r) xs \<Longrightarrow> get_row (pk r) (xs @ [r]) = Some r"
  by (induction xs) (auto simp: get_row_def has_row_def)

lemma coherent_match:
  assumes "coherent d" and "t \<in> set (transfers d)"
  shows "get_row (source_connection_id t) (connections d) = Some c \<Longrightarrow> conn_type c = ptype (source_params t)"
    and "get_row (target_connection_id t) (connections d) = Some c \<Longrightarrow> conn_type c = ptype (target_params t)"
  using assms by (auto simp: coherent_def types_ok_def types_match_def dest!: get_row_Some)

lemma transfer_repo_copy_Inr:
  assumes "transfer_repo_copy tid nq ng nso nta nm s = (Inr t, s')"
  shows "\<exists>t0 d. get_row tid (transfers (working s)) = Some t0 \<and> s' = s\<lparr>working := d\<rparr> \<and>
     insert_transfer (transfer_copy_of nq ng nso nta nm t0) (working s) = Inr (t, d)"
  using assms by (auto simp: transfer_repo_copy_def run_simps split: option.splits)

text \<open>The two copies of connections that precede the copy of the transfer.\<close>

lemma copied_connections:
  assumes "connection_repo_copy (source_connection_id t) gid n1 s = (Inr c1, s1)"
    and "(if source_connection_id t \<noteq> target_connection_id t
          then connection_repo_copy (target_connection_id t) gid n2 else return c1) s1 = (Inr c2, s2)"
    and "coherent (working s)" and "t \<in> set (transfers (working s))"
  shows "coherent (working s2) \<and> transfers (working s2) = transfers (working s) \<and>
     get_row (pk c1) (connections (working s2)) = Some c1 \<and> get_row (pk c2) (connections (working s2)) = Some c2 \<and>
     conn_type c1 = ptype (source_params t) \<and> conn_type c2 = ptype (target_params t) \<and>
     group_id c1 = gid \<and> group_id c2 = gid \<and> queues (working s2) = queues (working s) \<and>
     (\<exists>cs. connections (working s2) = connections (working s) @ cs)"
proof -
  note sch = coherentD(3) [OF assms(3)]
  have one: "coherent (working s')" if "connection_repo_copy i gid nm s0 = (Inr c, s')" "coherent (working s0)" for i nm s0 c s'
    using that(1) insert_connection_coherent [OF _ _ that(2)]
    by (auto simp: connection_repo_copy_def run_simps split: option.splits)
  note c1 = connection_repo_copy_Inr [OF assms(1) sch]
  note ok1 = one [OF assms(1,3)]
  from c1 coherent_match(1) [OF assms(3,4)] have t1: "conn_type c1 = ptype (source_params t)" by auto
  have g1: "get_row (pk c1) (connections (working s1)) = Some c1" using c1 get_row_append_new by metis
  show ?thesis
  proof (cases "source_connection_id t = target_connection_id t")
    case True
    with assms(2) have "c2 = c1" "s2 = s1" by (simp_all add: run_simps)
    moreover have "conn_type c1 = ptype (target_params t)"
      using c1 coherent_match(2) [OF assms(3,4)] True by auto
    ultimately show ?thesis using c1 ok1 t1 g1 by auto
  next
    case False
    with assms(2) have copy: "connection_repo_copy (target_connection_id t) gid n2 s1 = (Inr c2, s2)" by simp
    note c2 = connection_repo_copy_Inr [OF copy coherentD(3) [OF ok1]]
    have "t \<in> set (transfers (working s1))" using c1 assms(4) by auto
    from c2 coherent_match(2) [OF ok1 this] have t2: "conn_type c2 = ptype (target_params t)" by auto
    have "get_row (pk c1) (connections (working s2)) = Some c1"
      "get_row (pk c2) (connections (working s2)) = Some c2"
      using c2 g1 get_row_append_old get_row_append_new by (metis, metis)
    moreover have "\<exists>cs. connections (working s2) = connections (working s) @ cs" using c1 c2 by auto
    ultimately show ?thesis using c1 c2 one [OF copy ok1] t1 t2 by auto
  qed
qed

lemma copy_transfer_block_Inr:
  assumes "copy_transfer_block tid td t s = (Inr ct, s')"
  shows "\<exists>c1 s1 c2 s2 s3. connection_repo_copy (source_connection_id t) (ct_new_group_id td)
        (ct_new_source_connection_name td) s = (Inr c1, s1) \<and>
     (if source_connection_id t \<noteq> target_connection_id t
      then connection_repo_copy (target_connection_id t) (ct_new_group_id td) (ct_new_target_connection_name td)
      else return c1) s1 = (Inr c2, s2) \<and>
     transfer_repo_copy tid (ct_new_queue_id td) (Some (ct_new_group_id td)) (Some (pk c1)) (Some (pk c2))
       (ct_new_name td) s2 = (Inr ct, s3) \<and>
     (if ct_remove_source td then \<exists>x. transfer_repo_delete tid s3 = (Inr x, s') else s' = s3)"
  using assms unfolding copy_transfer_block_def bindE_Inr
  by (fastforce simp: run_simps split: if_splits)

lemma copy_transfer_block_coherent:
  assumes "copy_transfer_block tid td t s = (Inr ct, s')" and ok: "coherent (working s)"
    and t: "get_row tid (transfers (working s)) = Some t"
  shows "coherent (working s')"
proof -
  from copy_transfer_block_Inr [OF assms(1)] obtain c1 s1 c2 s2 s3 where
    one: "connection_repo_copy (source_connection_id t) (ct_new_group_id td)
        (ct_new_source_connection_name td) s = (Inr c1, s1)"
    and two: "(if source_connection_id t \<noteq> target_connection_id t
      then connection_repo_copy (target_connection_id t) (ct_new_group_id td) (ct_new_target_connection_name td)
      else return c1) s1 = (Inr c2, s2)"
    and copy: "transfer_repo_copy tid (ct_new_queue_id td) (Some (ct_new_group_id td)) (Some (pk c1)) (Some (pk c2))
       (ct_new_name td) s2 = (Inr ct, s3)"
    and del: "if ct_remove_source td then \<exists>x. transfer_repo_delete tid s3 = (Inr x, s') else s' = s3"
    by blast
  have "t \<in> set (transfers (working s))" using get_row_Some [OF t] by simp
  note cc = copied_connections [OF one two ok this]
  from transfer_repo_copy_Inr [OF copy] cc t obtain d where s3: "s3 = s2\<lparr>working := d\<rparr>"
    and i: "insert_transfer (transfer_copy_of (ct_new_queue_id td) (Some (ct_new_group_id td)) (Some (pk c1))
       (Some (pk c2)) (ct_new_name td) t) (working s2) = Inr (ct, d)"
    by auto
  have "coherent d"
    using cc coherentD(3) by (intro insert_transfer_coherent [OF i] types_match_rows [where src = c1 and tgt = c2])
      (auto simp: transfer_copy_of_def given_def)
  then have c3: "coherent (working s3)" by (simp add: s3)
  show ?thesis
  proof (cases "ct_remove_source td")
    case True
    with del obtain x where "delete_transfer_row tid (working s3) = Inr (x, working s')"
      by (auto simp: transfer_repo_delete_def run_simps)
    from row_db(9) [OF this] types_ok_delete(3) [OF this] c3 show ?thesis by (simp add: coherent_def)
  qed (use del c3 in simp)
qed

lemma copy_transfer_coherent [coherent_keeps]: "keeps coherent (copy_transfer tid td u)"
proof (rule keepsI)
  fix s e s'
  assume "copy_transfer tid td u s = (Inl e, s')" and "coherent (committed s)" "coherent (working s)"
  then show "coherent (committed s') \<and> coherent (working s')"
    by (auto simp: copy_transfer_def transfer_repo_read_by_id_def queue_repo_read_by_id_def run_simps
        dest: uncommittedD [OF copy_transfer_block_uncommitted] split: option.splits if_splits)
next
  fix s x s'
  assume "copy_transfer tid td u s = (Inr x, s')" and ok: "coherent (working s)"
  then obtain t ct s1 where "get_row tid (transfers (working s)) = Some t"
    and "copy_transfer_block tid td t s = (Inr ct, s1)" and "s' = s1\<lparr>committed := working s1\<rparr>"
    by (auto simp: copy_transfer_def transfer_repo_read_by_id_def queue_repo_read_by_id_def run_simps
        split: option.splits if_splits)
  with copy_transfer_block_coherent [OF _ ok] show "coherent (committed s') \<and> coherent (working s')" by simp
qed

text \<open>An update of a connection changes its type only when no transfer is linked to it.\<close>

lemma update_connection_coherent:
  assumes "update_connection_row i f d = Inr (c, d')" and "coherent d" and "get_row i (connections d) = Some c0"
    and "conn_type c \<noteq> conn_type c0 \<Longrightarrow> list_by_connection_id i d = []"
  shows "coherent d'"
proof -
  from connections.upd_law [OF assms(1)] have cs: "connections d' = set_row c (connections d)" and p: "pk c = i"
    using connections.upd_pk [OF assms(1)] by auto
  have ts: "transfers d' = transfers d"
    using assms(1) by (auto simp: update_connection_row_def Let_def split: if_splits option.splits)
  have "types_match t (connections d')" if t: "t \<in> set (transfers d)" for t
  proof -
    have m: "types_match t (connections d)" using assms(2) t by (auto simp: coherent_def types_ok_def)
    have "conn_type c = conn_type c0" if "i = source_connection_id t \<or> i = target_connection_id t"
      using assms(4) t that by (fastforce simp: list_by_connection_id_def filter_empty_conv)
    with m get_row_Some [OF assms(3)] show ?thesis
      unfolding types_match_def cs by (auto dest!: set_set_row simp: p)
  qed
  then have "types_ok d'" by (simp add: types_ok_def ts)
  with row_db(2) [OF assms(1)] assms(2) show ?thesis by (simp add: coherent_def)
qed

lemma update_connection_block_Inr:
  assumes "update_connection_block c rnd now cid cd s = (Inr conn, s')"
  shows "\<exists>c0 creds auth d1. get_row cid (connections (working s)) = Some c0 \<and>
     (cs_type cd \<noteq> conn_type c0 \<longrightarrow> list_by_connection_id cid (working s) = []) \<and>
     fst (credentials_repo_read c cid s) = Inr creds \<and>
     keep_secrets creds (get_secret_fields (cs_auth_type cd)) (cs_auth_data cd) = Inr auth \<and>
     update_connection_row cid (\<lambda>c. c\<lparr>conn_type := cs_type cd, rname := cs_name cd,
        rdescription := cs_description cd, conn_data := cs_data cd, updated_at := now\<rparr>) (working s) = Inr (conn, d1) \<and>
     (\<exists>a. credentials_repo_update c rnd cid auth (s\<lparr>working := d1\<rparr>) = (Inr a, s'))"
proof -
  have r: "credentials_repo_read c cid t = (v, t') \<longleftrightarrow> t' = t \<and> fst (credentials_repo_read c cid t) = v" for t t' v
    by (auto simp: credentials_repo_read_def query_def)
  have guard: "(if p then bindE (query q) (\<lambda>x. if x \<noteq> [] then raise e else return ()) else return ()) t = (Inr v, t')
      \<longleftrightarrow> t' = t \<and> (p \<longrightarrow> q (working t) = Inr [])" for p t t' and v :: unit and e :: exn
      and q :: "db \<Rightarrow> exn + transfer list"
    by (auto simp: run_simps)
  from assms obtain c0 creds auth d1 a where "get_row cid (connections (working s)) = Some c0"
    and "cs_type cd \<noteq> conn_type c0 \<longrightarrow> list_by_connection_id cid (working s) = []"
    and "fst (credentials_repo_read c cid s) = Inr creds"
    and "keep_secrets creds (get_secret_fields (cs_auth_type cd)) (cs_auth_data cd) = Inr auth"
    and "update_connection_row cid (\<lambda>c. c\<lparr>conn_type := cs_type cd, rname := cs_name cd,
        rdescription := cs_description cd, conn_data := cs_data cd, updated_at := now\<rparr>) (working s) = Inr (conn, d1)"
    and "credentials_repo_update c rnd cid auth (s\<lparr>working := d1\<rparr>) = (Inr a, s')"
    unfolding update_connection_block_def bindE_Inr r guard connection_repo_read_by_id_def
      connection_repo_update_def query_run return_run exec_Inr rethrow_Inr
    by (auto split: option.splits dest!: sym [of "Inr _" "keep_secrets _ _ _"]) metis
  then show ?thesis by blast
qed

lemma credentials_update_coherent:
  "credentials_repo_update c rnd cid auth s = (Inr a, s') \<Longrightarrow> coherent (working s) \<Longrightarrow> coherent (working s')"
  using update_auth_data_row_schema update_auth_data_frame resource_frame(7)
  by (fastforce simp: credentials_repo_update_def run_simps coherent_def db_ok_def roles_ok_def owner_ok_def types_ok_def)

lemma update_connection_block_coherent:
  assumes "update_connection_block c rnd now cid cd s = (Inr conn, s')" and ok: "coherent (working s)"
  shows "coherent (working s')"
proof -
  from update_connection_block_Inr [OF assms(1)] obtain c0 auth d1 a where
    c0: "get_row cid (connections (working s)) = Some c0"
    and l: "cs_type cd \<noteq> conn_type c0 \<longrightarrow> list_by_connection_id cid (working s) = []"
    and u: "update_connection_row cid (\<lambda>c. c\<lparr>conn_type := cs_type cd, rname := cs_name cd,
        rdescription := cs_description cd, conn_data := cs_data cd, updated_at := now\<rparr>) (working s) = Inr (conn, d1)"
    and a: "credentials_repo_update c rnd cid auth (s\<lparr>working := d1\<rparr>) = (Inr a, s')"
    by blast
  have "conn_type conn = cs_type cd" using connections.upd_law [OF u] by auto
  with l have "coherent d1" by (intro update_connection_coherent [OF u ok c0]) simp
  with credentials_update_coherent [OF a] show ?thesis by simp
qed

lemma update_connection_handler_coherent [coherent_keeps]: "keeps coherent (update_connection lax c rnd now cid cd u)"
  unfolding update_connection_def
  by (intro keeps_intros keeps_uow_block repo_uncommitted pure_repo_keeps) (erule (1) update_connection_block_coherent)

end
