(* ===== verification/Sync_Scheduler.thy ===== *)
theory Sync_Scheduler
  imports Sync_Coherence
begin

text \<open>
  The scheduler process: \<open>TransferFetcher\<close>, \<open>TransferJobManager\<close> and the loop of
  \<open>syncmaster/scheduler/__main__.py\<close>.  APScheduler's job store and cron parser are parameters, used
  through \<open>get_job\<close>, \<open>get_jobs\<close>, \<open>add_job\<close>, \<open>modify_job\<close>, \<open>remove_job\<close> and \<open>from_crontab\<close>; what
  their documentation promises is \<open>store_ok\<close>.
\<close>

section \<open>The job store\<close>

record 'c job =
  job_trigger :: 'c
  job_misfire_grace_time :: int
  job_args :: int

record ('s, 'c) job_store =
  get_job :: "'s \<Rightarrow> string \<Rightarrow> 'c job option"
  get_jobs :: "'s \<Rightarrow> string list"
  add_job :: "'s \<Rightarrow> string \<Rightarrow> 'c job \<Rightarrow> 's"
  modify_job :: "'s \<Rightarrow> string \<Rightarrow> 'c job \<Rightarrow> 's"
  remove_job :: "'s \<Rightarrow> string \<Rightarrow> 's"
  from_crontab :: "string \<Rightarrow> 'c option"

definition store_ok :: "('s, 'c) job_store \<Rightarrow> bool" where
  "store_ok js \<longleftrightarrow>
     (\<forall>s i. i \<in> set (get_jobs js s) \<longleftrightarrow> get_job js s i \<noteq> None) \<and>
     (\<forall>s i j k. get_job js s i = None \<longrightarrow> get_job js (add_job js s i j) k = (if k = i then Some j else get_job js s k)) \<and>
     (\<forall>s i j k. get_job js s i \<noteq> None \<longrightarrow> get_job js (modify_job js s i j) k = (if k = i then Some j else get_job js s k)) \<and>
     (\<forall>s i k. get_job js s i \<noteq> None \<longrightarrow> get_job js (remove_job js s i) k = (if k = i then None else get_job js s k))"

section \<open>\<open>TransferFetcher\<close> and \<open>TransferJobManager\<close>\<close>

definition fetch_updated_jobs :: "int option \<Rightarrow> db \<Rightarrow> transfer list" where
  "fetch_updated_jobs last_updated_at d = (case last_updated_at of
      None \<Rightarrow> transfers d
    | Some l \<Rightarrow> filter (\<lambda>t. l < updated_at t) (transfers d))"

text \<open>
  \<open>update_jobs\<close>: the crontab is parsed before the job is touched, and a text that does not parse raises
  out of the loop.
\<close>

definition job_for :: "int \<Rightarrow> 'c \<Rightarrow> transfer \<Rightarrow> 'c job" where
  "job_for misfire c t = \<lparr>job_trigger = c, job_misfire_grace_time = misfire, job_args = pk t\<rparr>"

fun update_jobs :: "('s, 'c) job_store \<Rightarrow> int \<Rightarrow> transfer list \<Rightarrow> 's \<Rightarrow> (exn + unit) \<times> 's" where
  "update_jobs js misfire [] s = (Inr (), s)"
| "update_jobs js misfire (t # ts) s =
     (let job_id = str_int (pk t); existing_job = get_job js s job_id in
      if \<not> is_scheduled t then
        update_jobs js misfire ts (if existing_job \<noteq> None then remove_job js s job_id else s)
      else (case from_crontab js (schedule t) of
          None \<Rightarrow> (Inl (ValueError (schedule t)), s)
        | Some c \<Rightarrow>
            update_jobs js misfire ts
              (if existing_job \<noteq> None then modify_job js s job_id (job_for misfire c t)
               else add_job js s job_id (job_for misfire c t))))"

fun job_ids :: "string list \<Rightarrow> int list res" where
  "job_ids [] = Inr []"
| "job_ids (s # ss) = (case parse_int s of
      None \<Rightarrow> Inl (ValueError s)
    | Some i \<Rightarrow> (case job_ids ss of Inl e \<Rightarrow> Inl e | Inr ids \<Rightarrow> Inr (i # ids)))"

definition remove_orphan_jobs :: "('s, 'c) job_store \<Rightarrow> db \<Rightarrow> 's \<Rightarrow> (exn + unit) \<times> 's" where
  "remove_orphan_jobs js d s = (case job_ids (get_jobs js s) of
      Inl e \<Rightarrow> (Inl e, s)
    | Inr job_transfer_ids \<Rightarrow>
        (let existing_transfer_ids = map pk (filter (\<lambda>t. pk t \<in> set job_transfer_ids) (transfers d));
             missing_job_ids = filter (\<lambda>i. i \<notin> set existing_transfer_ids) (remdups job_transfer_ids)
         in (Inr (), fold (\<lambda>i s. remove_job js s (str_int i)) missing_job_ids s)))"

text \<open>One round of the loop of \<open>main\<close>, over the job store and the time of the last update seen.\<close>

record 's scheduler_state =
  sc_jobs :: 's
  sc_last_updated_at :: "int option"

definition max_updated_at :: "transfer list \<Rightarrow> int option" where
  "max_updated_at ts = (case ts of [] \<Rightarrow> None | t # us \<Rightarrow> Some (fold max (map updated_at us) (updated_at t)))"

definition scheduler_round :: "('s, 'c) job_store \<Rightarrow> int \<Rightarrow> db \<Rightarrow> 's scheduler_state \<Rightarrow> (exn + unit) \<times> 's scheduler_state" where
  "scheduler_round js misfire d st = (case remove_orphan_jobs js d (sc_jobs st) of
      (Inl e, s) \<Rightarrow> (Inl e, st\<lparr>sc_jobs := s\<rparr>)
    | (Inr _, s) \<Rightarrow>
        (let ts = fetch_updated_jobs (sc_last_updated_at st) d in
         if ts = [] then (Inr (), st\<lparr>sc_jobs := s\<rparr>)
         else (case update_jobs js misfire ts s of
             (Inl e, s') \<Rightarrow> (Inl e, st\<lparr>sc_jobs := s'\<rparr>)
           | (Inr _, s') \<Rightarrow> (Inr (), \<lparr>sc_jobs = s', sc_last_updated_at = max_updated_at ts\<rparr>))))"

text \<open>\<open>send_job_to_celery\<close>: a job whose transfer is gone does nothing.\<close>

definition send_job_to_celery :: "coercion \<Rightarrow> fernet \<Rightarrow> bool \<Rightarrow> int \<Rightarrow> int \<Rightarrow> unit act" where
  "send_job_to_celery lax c available now tid =
     bindE (catchE (bindE (transfer_repo_read_by_id tid) (\<lambda>t. return (Some t)))
        (\<lambda>e. if e = TransferNotFoundError then return None else raise e)) (\<lambda>found.
     case found of
       None \<Rightarrow> return ()
     | Some t \<Rightarrow>
       bindE (query (\<lambda>d. case get_row (queue_id t) (queues d) of None \<Rightarrow> Inl (KeyError ''queue'') | Some q \<Rightarrow> Inr q)) (\<lambda>q.
       bindE (credentials_repo_read c (source_connection_id t)) (\<lambda>credentials_source.
       bindE (credentials_repo_read c (target_connection_id t)) (\<lambda>credentials_target.
       bindE (uow (bindE (query (\<lambda>_. read_auth_data lax credentials_source)) (\<lambda>source_creds.
              bindE (query (\<lambda>_. read_auth_data lax credentials_target)) (\<lambda>target_creds.
              run_repo_create now tid source_creds target_creds SCHEDULED)))) (\<lambda>r.
       catchE (send_task available (slug q) (pk r))
         (\<lambda>e. if e = KombuError then
             bindE (uow (run_repo_update_status now (pk r) FAILED)) (\<lambda>_. raise (CannotConnectToTaskQueueError (pk r)))
           else raise e))))))"

section \<open>What the rounds establish\<close>

text \<open>The job a transfer should have.\<close>

definition expected_job :: "('s, 'c) job_store \<Rightarrow> int \<Rightarrow> transfer \<Rightarrow> 'c job option" where
  "expected_job js misfire t =
     (if is_scheduled t then map_option (\<lambda>c. job_for misfire c t) (from_crontab js (schedule t)) else None)"

definition schedules_valid :: "('s, 'c) job_store \<Rightarrow> transfer list \<Rightarrow> bool" where
  "schedules_valid js ts \<longleftrightarrow> list_all (\<lambda>t. is_scheduled t \<longrightarrow> from_crontab js (schedule t) \<noteq> None) ts"

lemma store_laws:
  assumes "store_ok js"
  shows "i \<in> set (get_jobs js s) \<longleftrightarrow> get_job js s i \<noteq> None"
    and "get_job js s i = None \<Longrightarrow> get_job js (add_job js s i j) k = (if k = i then Some j else get_job js s k)"
    and "get_job js s i \<noteq> None \<Longrightarrow> get_job js (modify_job js s i j) k = (if k = i then Some j else get_job js s k)"
    and "get_job js s i \<noteq> None \<Longrightarrow> get_job js (remove_job js s i) k = (if k = i then None else get_job js s k)"
  using assms unfolding store_ok_def by blast+

text \<open>After \<open>update_jobs\<close> the transfers of the list have their jobs, and no other job has changed.\<close>

lemma update_jobs_result:
  assumes "store_ok js" and "schedules_valid js ts" and "distinct (map pk ts)"
  shows "\<exists>s'. update_jobs js misfire ts s = (Inr (), s') \<and>
     (\<forall>t \<in> set ts. get_job js s' (str_int (pk t)) = expected_job js misfire t) \<and>
     (\<forall>i. i \<notin> str_int ` pk ` set ts \<longrightarrow> get_job js s' i = get_job js s i)"
  using assms(2,3)
proof (induction ts arbitrary: s)
  case (Cons t ts)
  note L = store_laws [OF assms(1)]
  let ?i = "str_int (pk t)"
  obtain s1 where s1: "update_jobs js misfire (t # ts) s = update_jobs js misfire ts s1"
    and j: "\<And>k. get_job js s1 k = (if k = ?i then expected_job js misfire t else get_job js s k)"
  proof (cases "is_scheduled t")
    case False
    show thesis
    proof (rule that)
      show "update_jobs js misfire (t # ts) s = update_jobs js misfire ts
          (if get_job js s ?i \<noteq> None then remove_job js s ?i else s)"
        using False by (simp add: Let_def)
      show "get_job js (if get_job js s ?i \<noteq> None then remove_job js s ?i else s) k =
          (if k = ?i then expected_job js misfire t else get_job js s k)" for k
        using False L(4) [of s ?i k] by (auto simp: expected_job_def)
    qed
  next
    case True
    with Cons.prems(1) obtain c where c: "from_crontab js (schedule t) = Some c"
      by (auto simp: schedules_valid_def)
    let ?j = "job_for misfire c t"
    show thesis
    proof (rule that)
      show "update_jobs js misfire (t # ts) s = update_jobs js misfire ts
          (if get_job js s ?i \<noteq> None then modify_job js s ?i ?j else add_job js s ?i ?j)"
        using True c by (simp add: Let_def)
      show "get_job js (if get_job js s ?i \<noteq> None then modify_job js s ?i ?j else add_job js s ?i ?j) k =
          (if k = ?i then expected_job js misfire t else get_job js s k)" for k
        using True c L(2) [of s ?i ?j k] L(3) [of s ?i ?j k] by (auto simp: expected_job_def)
    qed
  qed
  have "schedules_valid js ts" "distinct (map pk ts)" using Cons.prems by (simp_all add: schedules_valid_def)
  from Cons.IH [OF this, of s1] obtain s' where s': "update_jobs js misfire ts s1 = (Inr (), s')"
    and a: "\<forall>t \<in> set ts. get_job js s' (str_int (pk t)) = expected_job js misfire t"
    and b: "\<forall>i. i \<notin> str_int ` pk ` set ts \<longrightarrow> get_job js s' i = get_job js s1 i"
    by blast
  have "?i \<notin> str_int ` pk ` set ts" using Cons.prems(2) by (auto simp: image_iff)
  with b j have "get_job js s' ?i = expected_job js misfire t" by simp
  moreover have "\<forall>i. i \<notin> str_int ` pk ` set (t # ts) \<longrightarrow> get_job js s' i = get_job js s i"
    using b j by auto
  ultimately show ?case using s1 s' a by auto
qed simp

text \<open>Every job id is the text of an integer: the manager is the only writer of its job store.\<close>

definition int_ids :: "('s, 'c) job_store \<Rightarrow> 's \<Rightarrow> bool" where
  "int_ids js s \<longleftrightarrow> (\<forall>i. get_job js s i \<noteq> None \<longrightarrow> (\<exists>n. i = str_int n))"

lemma job_ids_map: "job_ids (map str_int ids) = Inr ids"
  by (induction ids) auto

lemma job_ids_int_ids:
  assumes "store_ok js" and "int_ids js s"
  shows "\<exists>ids. get_jobs js s = map str_int ids \<and> job_ids (get_jobs js s) = Inr ids"
proof -
  have "\<exists>ids. xs = map str_int ids" if "\<forall>i \<in> set xs. \<exists>n. i = str_int n" for xs
    using that
  proof (induction xs)
    case (Cons x xs)
    then obtain n ids where "x # xs = map str_int (n # ids)" by auto
    then show ?case by (rule exI)
  qed simp
  moreover have "\<forall>i \<in> set (get_jobs js s). \<exists>n. i = str_int n"
    using assms store_laws(1) [OF assms(1)] by (auto simp: int_ids_def)
  ultimately obtain ids where "get_jobs js s = map str_int ids" by blast
  then show ?thesis using job_ids_map by auto
qed

lemma remove_all_jobs:
  assumes "store_ok js" and "\<forall>i \<in> set ids. get_job js s (str_int i) \<noteq> None" and "distinct ids"
  shows "get_job js (fold (\<lambda>i s. remove_job js s (str_int i)) ids s) k =
     (if k \<in> str_int ` set ids then None else get_job js s k)"
  using assms(2,3)
proof (induction ids arbitrary: s)
  case (Cons i ids)
  note r = store_laws(4) [OF assms(1), of s "str_int i"]
  have "\<forall>n \<in> set ids. get_job js (remove_job js s (str_int i)) (str_int n) \<noteq> None"
    using Cons.prems r by auto
  with Cons.IH [of "remove_job js s (str_int i)"] Cons.prems r show ?case by auto
qed simp

lemma remove_orphan_jobs_result:
  assumes "store_ok js" and "int_ids js s"
  shows "\<exists>s'. remove_orphan_jobs js d s = (Inr (), s') \<and>
     (\<forall>n. get_job js s' (str_int n) = (if has_row n (transfers d) then get_job js s (str_int n) else None)) \<and>
     int_ids js s'"
proof -
  from job_ids_int_ids [OF assms] obtain ids where i: "get_jobs js s = map str_int ids"
    "job_ids (get_jobs js s) = Inr ids" by blast
  let ?m = "filter (\<lambda>i. i \<notin> set (map pk (filter (\<lambda>t. pk t \<in> set ids) (transfers d)))) (remdups ids)"
  have mem: "get_job js s (str_int n) \<noteq> None \<longleftrightarrow> n \<in> set ids" for n
    using store_laws(1) [OF assms(1), of "str_int n" s] i(1) by auto
  have none: "get_job js s (str_int n) = None" if "n \<notin> set ids" for n
    using mem [of n] that by (simp del: not_None_eq)
  have m: "n \<in> set ?m \<longleftrightarrow> n \<in> set ids \<and> \<not> has_row n (transfers d)" for n
    by (auto simp: has_row_iff)
  have "get_job js (fold (\<lambda>i s. remove_job js s (str_int i)) ?m s) k =
      (if k \<in> str_int ` set ?m then None else get_job js s k)" for k
    using mem by (intro remove_all_jobs [OF assms(1)]) auto
  moreover have "remove_orphan_jobs js d s = (Inr (), fold (\<lambda>i s. remove_job js s (str_int i)) ?m s)"
    by (simp add: remove_orphan_jobs_def i(2) Let_def)
  moreover have "str_int n \<in> str_int ` set ?m \<longleftrightarrow> n \<in> set ids \<and> \<not> has_row n (transfers d)" for n
    using m [of n] by auto
  ultimately show ?thesis using assms(2) none
    by (intro exI [of _ "fold (\<lambda>i s. remove_job js s (str_int i)) ?m s"]) (auto simp: int_ids_def)
qed

text \<open>
  The specification: the job store holds exactly the jobs of the scheduled transfers, each with the
  trigger of the transfer's schedule.
\<close>

definition synced :: "('s, 'c) job_store \<Rightarrow> int \<Rightarrow> transfer list \<Rightarrow> 's \<Rightarrow> bool" where
  "synced js misfire ts s \<longleftrightarrow> int_ids js s \<and>
     (\<forall>n. get_job js s (str_int n) = (case get_row n ts of None \<Rightarrow> None | Some t \<Rightarrow> expected_job js misfire t))"

lemma round_result:
  assumes "store_ok js" and "int_ids js (sc_jobs st)" and "schedules_valid js (transfers d)"
    and "distinct (map pk (transfers d))"
    and "\<And>t. t \<in> set (transfers d) \<Longrightarrow> t \<notin> set (fetch_updated_jobs (sc_last_updated_at st) d) \<Longrightarrow>
      get_job js (sc_jobs st) (str_int (pk t)) = expected_job js misfire t"
  shows "\<exists>st'. scheduler_round js misfire d st = (Inr (), st') \<and> synced js misfire (transfers d) (sc_jobs st') \<and>
     sc_last_updated_at st' = (if fetch_updated_jobs (sc_last_updated_at st) d = [] then sc_last_updated_at st
       else max_updated_at (fetch_updated_jobs (sc_last_updated_at st) d))"
proof -
  let ?ts = "fetch_updated_jobs (sc_last_updated_at st) d"
  have sub: "set ?ts \<subseteq> set (transfers d)" and dist: "distinct (map pk ?ts)" and val: "schedules_valid js ?ts"
    using assms(3,4) by (auto simp: fetch_updated_jobs_def distinct_map_filter schedules_valid_def list_all_iff
        split: option.splits)
  from remove_orphan_jobs_result [OF assms(1,2)] obtain s1 where
    r: "remove_orphan_jobs js d (sc_jobs st) = (Inr (), s1)" "int_ids js s1"
    and j1: "\<And>n. get_job js s1 (str_int n) = (if has_row n (transfers d) then get_job js (sc_jobs st) (str_int n) else None)"
    by blast
  from update_jobs_result [OF assms(1) val dist] obtain s2 where u: "update_jobs js misfire ?ts s1 = (Inr (), s2)"
    and j2: "\<forall>t \<in> set ?ts. get_job js s2 (str_int (pk t)) = expected_job js misfire t"
    and j2': "\<forall>i. i \<notin> str_int ` pk ` set ?ts \<longrightarrow> get_job js s2 i = get_job js s1 i"
    by blast
  have "int_ids js s2" using r(2) j2' by (fastforce simp: int_ids_def)
  moreover have "get_job js s2 (str_int n) = (case get_row n (transfers d) of None \<Rightarrow> None | Some t \<Rightarrow> expected_job js misfire t)" for n
  proof (cases "get_row n (transfers d)")
    case None
    then have "n \<notin> pk ` set (transfers d)" by (simp add: get_row_None)
    with sub have "str_int n \<notin> str_int ` pk ` set ?ts" by auto
    with j2' have "get_job js s2 (str_int n) = get_job js s1 (str_int n)" by blast
    with j1 [of n] \<open>n \<notin> pk ` set (transfers d)\<close> None show ?thesis by (simp add: has_row_iff)
  next
    case (Some t)
    note t = get_row_Some [OF Some]
    show ?thesis
    proof (cases "t \<in> set ?ts")
      case True
      with j2 t Some show ?thesis by auto
    next
      case False
      have "n \<notin> pk ` set ?ts"
      proof
        assume "n \<in> pk ` set ?ts"
        then obtain x where "x \<in> set ?ts" "pk x = n" by auto
        with get_row_eq [OF assms(4), of x] sub Some False show False by auto
      qed
      then have "str_int n \<notin> str_int ` pk ` set ?ts" by auto
      with j2' j1 [of n] assms(5) [of t] t False Some get_row_has_row [OF Some] show ?thesis by simp
    qed
  qed
  ultimately have sy: "synced js misfire (transfers d) s2" by (simp add: synced_def)
  show ?thesis
  proof (cases "?ts = []")
    case True
    with u have "s2 = s1" by simp
    with sy r True show ?thesis by (simp add: scheduler_round_def)
  next
    case False
    with sy r u show ?thesis by (simp add: scheduler_round_def Let_def)
  qed
qed

text \<open>What a round may rely on between two fetches: a changed or new transfer is stamped later than the last one seen.\<close>

definition stamped_since :: "int option \<Rightarrow> transfer list \<Rightarrow> transfer list \<Rightarrow> bool" where
  "stamped_since l old new \<longleftrightarrow> (\<forall>t \<in> set new. t \<in> set old \<or> (case l of None \<Rightarrow> True | Some x \<Rightarrow> x < updated_at t))"

lemma send_job_to_celery_db [handler_keeps]: "keeps db_ok (send_job_to_celery lax c available now tid)"
  unfolding send_job_to_celery_def by (intro keeps_intros db_keeps)

lemma send_job_to_celery_coherent [coherent_keeps]: "keeps coherent (send_job_to_celery lax c available now tid)"
proof (rule keeps_coherent [OF send_job_to_celery_db])
  show "keeps types_ok (send_job_to_celery lax c available now tid)"
    unfolding send_job_to_celery_def
    by (intro keeps_intros types_keeps pure_repo_keeps send_task_keeps)
qed

end
