(* ===== verification/Sync_Users.thy ===== *)
theory Sync_Users
  imports Sync_Groups
begin

text \<open>
  Users and authentication: \<open>UserRepository\<close>, the handlers of \<open>syncmaster/server/api/v1/users.py\<close>,
  \<open>get_user\<close>, the three authentication providers of \<open>syncmaster/server/providers/auth\<close> with what they share
  stated as the locale \<open>auth_provider\<close>, and the script \<open>manage_superusers\<close>.  JWT and Keycloak clients are
  parameters; a call of theirs that raises one of the exceptions the code catches is \<open>None\<close>.
\<close>

section \<open>The repository\<close>

definition user_raise_error :: "string \<Rightarrow> exn" where
  "user_raise_error c = (if c = ''ix__user__username'' then UsernameAlreadyExistsError else SyncmasterError)"

definition user_repo_paginate ::
  "(string \<Rightarrow> string) \<Rightarrow> (string \<Rightarrow> string \<Rightarrow> bool) \<Rightarrow> int \<Rightarrow> int \<Rightarrow> bool \<Rightarrow> string option \<Rightarrow> db \<Rightarrow> user pagination" where
  "user_repo_paginate collation similar p ps su search_query d =
     paginate_result (order_by collation username
       (filter (\<lambda>u. (case search_query of None \<Rightarrow> True | Some q \<Rightarrow> q = [] \<or> similar (username u) q) \<and>
           (su \<or> is_active u)) (users d))) p ps"

definition user_repo_read_by_id :: "int \<Rightarrow> user act" where
  "user_repo_read_by_id uid = query (\<lambda>d. case get_row uid (users d) of
      None \<Rightarrow> Inl UserNotFoundError | Some u \<Rightarrow> Inr u)"

definition user_repo_read_by_username :: "string \<Rightarrow> user act" where
  "user_repo_read_by_username name = query (\<lambda>d. case List.find (\<lambda>u. username u = name) (users d) of
      None \<Rightarrow> Inl EntityNotFoundError | Some u \<Rightarrow> Inr u)"

record user_data =
  ud_email :: "string option"
  ud_first_name :: "string option"
  ud_middle_name :: "string option"
  ud_last_name :: "string option"

definition no_user_data :: user_data where
  "no_user_data = \<lparr>ud_email = None, ud_first_name = None, ud_middle_name = None, ud_last_name = None\<rparr>"

definition new_user :: "int \<Rightarrow> string \<Rightarrow> user_data \<Rightarrow> bool \<Rightarrow> int \<Rightarrow> user" where
  "new_user now name ud su i = \<lparr>pk = i, created_at = now, updated_at = now, username = name, email = ud_email ud,
     first_name = ud_first_name ud, last_name = ud_last_name ud, middle_name = ud_middle_name ud,
     is_superuser = su, is_active = True\<rparr>"

definition user_repo_create :: "int \<Rightarrow> string \<Rightarrow> user_data \<Rightarrow> bool \<Rightarrow> user act" where
  "user_repo_create now name ud su = exec (\<lambda>d.
     rethrow (on_integrity user_raise_error) (insert_user (new_user now name ud su) d))"

definition user_repo_update :: "int \<Rightarrow> (user \<Rightarrow> user) \<Rightarrow> user act" where
  "user_repo_update uid f = exec (\<lambda>d.
     rethrow (\<lambda>e. if is_EntityNotFoundError e then UserNotFoundError else on_integrity user_raise_error e)
       (update_user_row uid f d))"

section \<open>Handlers\<close>

record read_user_schema =
  ru_id :: int
  ru_username :: string
  ru_is_superuser :: bool

definition read_user_of :: "user \<Rightarrow> read_user_schema" where
  "read_user_of u = \<lparr>ru_id = pk u, ru_username = username u, ru_is_superuser = is_superuser u\<rparr>"

definition get_users ::
  "(string \<Rightarrow> string) \<Rightarrow> (string \<Rightarrow> string \<Rightarrow> bool) \<Rightarrow> int \<Rightarrow> int \<Rightarrow> string option \<Rightarrow> user \<Rightarrow>
    read_user_schema page_schema act" where
  "get_users collation similar p ps search_query u =
     bindE (query (\<lambda>d. Inr (user_repo_paginate collation similar p ps (is_superuser u) search_query d)))
       (\<lambda>pagination. return (from_pagination read_user_of pagination))"

definition read_current_user :: "user \<Rightarrow> read_user_schema act" where
  "read_current_user u = return (read_user_of u)"

definition read_user :: "int \<Rightarrow> read_user_schema act" where
  "read_user uid = bindE (user_repo_read_by_id uid) (\<lambda>u. return (read_user_of u))"

text \<open>
  The token of a request: an explicit bearer token, then the OAuth2 header, then the session cookie.
\<close>

definition request_token :: "string option \<Rightarrow> string option \<Rightarrow> string option \<Rightarrow> string option" where
  "request_token bearer oauth cookie = (case bearer of
      Some t \<Rightarrow> Some t
    | None \<Rightarrow> (case oauth of Some t \<Rightarrow> if t \<noteq> [] then Some t else cookie | None \<Rightarrow> cookie))"

text \<open>
  \<open>get_user\<close>, over a provider's \<open>get_current_user\<close>.  No provider returns \<open>None\<close> for a user, so that branch of
  the code has no counterpart here.
\<close>

definition get_user :: "(string option \<Rightarrow> user act) \<Rightarrow> bool \<Rightarrow> string option \<Rightarrow> user act" where
  "get_user current su token = bindE (current token) (\<lambda>u.
     if \<not> is_active u then raise ActionNotAllowedError
     else if su \<and> \<not> is_superuser u then raise ActionNotAllowedError
     else return u)"

section \<open>Providers\<close>

text \<open>Both Keycloak providers find the user of a valid token by name, or create it.\<close>

definition read_or_create :: "int \<Rightarrow> string \<Rightarrow> user_data \<Rightarrow> user act" where
  "read_or_create now login ud =
     uow (catchE (user_repo_read_by_username login)
       (\<lambda>e. if is_EntityNotFoundError e then user_repo_create now login ud False else raise e))"

subsection \<open>Dummy\<close>

record jwt =
  jwt_encode :: "jdict \<Rightarrow> string"
  jwt_decode :: "int \<Rightarrow> string \<Rightarrow> jdict option"

definition sign_jwt :: "jwt \<Rightarrow> jdict \<Rightarrow> string" where
  "sign_jwt j payload = jwt_encode j payload"

definition decode_jwt :: "jwt \<Rightarrow> int \<Rightarrow> string \<Rightarrow> jdict res" where
  "decode_jwt j now token = (case jwt_decode j now token of
      None \<Rightarrow> Inl (AuthorizationError ''Invalid token'')
    | Some p \<Rightarrow> if map_of p ''exp'' = None then Inl (AuthorizationError ''Invalid token'') else Inr p)"

text \<open>\<open>int(payload["user_id"])\<close>; a missing key, a wrong type and a wrong text are all caught.\<close>

definition get_user_id_from_token :: "jwt \<Rightarrow> int \<Rightarrow> string \<Rightarrow> int res" where
  "get_user_id_from_token j now token = (case decode_jwt j now token of
      Inl e \<Rightarrow> Inl e
    | Inr p \<Rightarrow> (case map_of p ''user_id'' of
        Some (JInt i) \<Rightarrow> Inr i
      | Some (JBool b) \<Rightarrow> Inr (if b then 1 else 0)
      | Some (JStr s) \<Rightarrow> (case parse_int s of Some i \<Rightarrow> Inr i | None \<Rightarrow> Inl (AuthorizationError ''Invalid token''))
      | _ \<Rightarrow> Inl (AuthorizationError ''Invalid token'')))"

definition generate_access_token :: "jwt \<Rightarrow> int \<Rightarrow> int \<Rightarrow> int \<Rightarrow> string \<times> int" where
  "generate_access_token j now expire_seconds uid =
     (let expires_at = now + expire_seconds in
      (sign_jwt j [(''user_id'', JInt uid), (''exp'', JInt expires_at)], expires_at))"

definition dummy_get_current_user :: "jwt \<Rightarrow> int \<Rightarrow> string option \<Rightarrow> user act" where
  "dummy_get_current_user j now token = (case token of
      None \<Rightarrow> raise (AuthorizationError ''Missing auth credentials'')
    | Some t \<Rightarrow>
        if t = [] then raise (AuthorizationError ''Missing auth credentials'')
        else bindE (query (\<lambda>_. get_user_id_from_token j now t)) user_repo_read_by_id)"

record auth_token =
  access_token :: string
  token_type :: string
  expires_at :: int

definition dummy_get_token_password_grant ::
  "jwt \<Rightarrow> int \<Rightarrow> int \<Rightarrow> string option \<Rightarrow> string option \<Rightarrow> auth_token act" where
  "dummy_get_token_password_grant j now expire_seconds login password =
     (case (login, password) of
        (Some l, Some p) \<Rightarrow>
          if l = [] \<or> p = [] then raise (AuthorizationError ''Missing auth credentials'')
          else bindE (read_or_create now l no_user_data) (\<lambda>u.
            if \<not> is_active u then raise (AuthorizationError (''User '' @ username u @ '' is disabled''))
            else (let (tok, expires) = generate_access_token j now expire_seconds (pk u) in
              return \<lparr>access_token = tok, token_type = ''bearer'', expires_at = expires\<rparr>))
      | _ \<Rightarrow> raise (AuthorizationError ''Missing auth credentials''))"

subsection \<open>Keycloak and the OAuth2 gateway\<close>

record keycloak =
  kc_decode_token :: "string \<Rightarrow> jdict option"
  kc_refresh_token :: "string \<Rightarrow> (string \<times> string) option"
  kc_auth_url :: string
  kc_introspect :: "string \<Rightarrow> jdict option"

text \<open>The claims the providers read; a claim that is not a string is not accepted by the column.\<close>

definition claim :: "jdict \<Rightarrow> string \<Rightarrow> string option" where
  "claim info k = (case map_of info k of Some (JStr s) \<Rightarrow> Some s | _ \<Rightarrow> None)"

definition claims_data :: "jdict \<Rightarrow> user_data" where
  "claims_data info = \<lparr>ud_email = claim info ''email'', ud_first_name = claim info ''given_name'',
     ud_middle_name = claim info ''middle_name'', ud_last_name = claim info ''family_name''\<rparr>"

definition user_of_claims :: "int \<Rightarrow> jdict \<Rightarrow> user act" where
  "user_of_claims now info = (case claim info ''preferred_username'' of
      None \<Rightarrow> raise (AuthorizationError ''Invalid token'')
    | Some login \<Rightarrow>
        if login = [] then raise (AuthorizationError ''Invalid token'')
        else read_or_create now login (claims_data info))"

text \<open>
  \<open>KeycloakAuthProvider.get_current_user\<close>, with the refresh token of the session.  The refreshed tokens
  it stores in the cookie are not part of the database session.
\<close>

definition keycloak_get_current_user :: "keycloak \<Rightarrow> int \<Rightarrow> string option \<Rightarrow> string option \<Rightarrow> user act" where
  "keycloak_get_current_user kc now refresh token = (case token of
      None \<Rightarrow> raise (RedirectError (kc_auth_url kc))
    | Some t \<Rightarrow>
        if t = [] then raise (RedirectError (kc_auth_url kc))
        else (case kc_decode_token kc t of
            Some (c # cs) \<Rightarrow> user_of_claims now (c # cs)
          | _ \<Rightarrow> (case refresh of
              None \<Rightarrow> raise (AuthorizationError ''Invalid token payload'')
            | Some rt \<Rightarrow>
                if rt = [] then raise (AuthorizationError ''Invalid token payload'')
                else (case kc_refresh_token kc rt of
                    None \<Rightarrow> raise (RedirectError (kc_auth_url kc))
                  | Some (new_access, _) \<Rightarrow> (case kc_decode_token kc new_access of
                      None \<Rightarrow> raise (RedirectError (kc_auth_url kc))
                    | Some [] \<Rightarrow> raise (AuthorizationError ''Invalid token payload'')
                    | Some info \<Rightarrow> user_of_claims now info)))))"

definition gateway_get_current_user :: "keycloak \<Rightarrow> int \<Rightarrow> string option \<Rightarrow> user act" where
  "gateway_get_current_user kc now token = (case token of
      None \<Rightarrow> raise (AuthorizationError ''Missing auth credentials'')
    | Some t \<Rightarrow>
        if t = [] then raise (AuthorizationError ''Missing auth credentials'')
        else (case kc_introspect kc t of
            None \<Rightarrow> raise (AuthorizationError ''Invalid token payload'')
          | Some info \<Rightarrow> (case map_of info ''active'' of
              None \<Rightarrow> raise (KeyError ''active'')
            | Some a \<Rightarrow>
                if a = JBool False then raise (AuthorizationError ''Token is not active'')
                else user_of_claims now info)))"

section \<open>What the providers promise\<close>

lemma user_repo_pure [repo_pure]: "pure (user_repo_read_by_id uid)" "pure (user_repo_read_by_username name)"
  unfolding user_repo_read_by_id_def user_repo_read_by_username_def by (intro pure_intros)+

lemmas user_repo_read_keeps [db_keeps] = user_repo_pure [THEN pure_keeps]
lemmas user_repo_read_uncommitted [repo_uncommitted] = user_repo_pure [THEN pure_uncommitted]

lemma user_member_frame:
  "insert_user mk d = Inr (u, d') \<Longrightarrow> groups d' = groups d \<and> user_groups d' = user_groups d"
  "update_user_row i f d = Inr (u, d') \<Longrightarrow> groups d' = groups d \<and> user_groups d' = user_groups d"
  by (auto simp: insert_user_def update_user_row_def Let_def split: if_splits option.splits)

lemma new_user_pk [simp]: "pk (new_user now name ud su i) = i"
  by (simp add: new_user_def)

lemma insert_user_db: "insert_user mk d = Inr (u, d') \<Longrightarrow> (\<And>i. pk (mk i) = i) \<Longrightarrow> db_ok d \<Longrightarrow> db_ok d'"
  using insert_user_schema user_member_frame(1) by (metis db_okD(1) db_ok_frame)

lemma update_user_db: "update_user_row i f d = Inr (u, d') \<Longrightarrow> db_ok d \<Longrightarrow> db_ok d'"
  using update_user_row_schema user_member_frame(2) by (metis db_okD(1) db_ok_frame)

lemma user_repo_db [db_keeps]:
  "keeps db_ok (user_repo_create now name ud su)" "keeps db_ok (user_repo_update uid f)"
  unfolding user_repo_create_def user_repo_update_def
  by (rule keeps_exec_rethrow; auto intro: insert_user_db update_user_db)+

lemma user_repo_uncommitted [repo_uncommitted]:
  "uncommitted (user_repo_create now name ud su)" "uncommitted (user_repo_update uid f)"
  unfolding user_repo_create_def user_repo_update_def by (intro uncommitted_intros)+

lemma read_or_create_db [db_keeps]: "keeps db_ok (read_or_create now login ud)"
  unfolding read_or_create_def by (intro keeps_intros db_keeps)

lemma user_handlers_pure [handler_pure]:
  "pure (get_users c sim p ps q u)" "pure (read_current_user u)" "pure (read_user uid)"
  unfolding get_users_def read_current_user_def read_user_def by (intro pure_intros repo_pure)+

text \<open>
  The contract of \<open>AuthProvider.get_current_user\<close>: it needs a token, keeps the database invariant and
  returns a row of the users table as it is committed.
\<close>

locale auth_provider =
  fixes current :: "string option \<Rightarrow> user act"
  assumes current_keeps: "keeps db_ok (current token)"
    and current_row: "current token s = (Inr u, s') \<Longrightarrow> db_ok (working s) \<Longrightarrow> committed s = working s \<Longrightarrow>
      get_row (pk u) (users (working s')) = Some u \<and> committed s' = working s'"
    and current_no_token: "\<exists>e. current None s = (Inl e, s)"
begin

lemma get_user_keeps: "keeps db_ok (get_user current su token)"
  unfolding get_user_def by (intro keeps_intros current_keeps)

lemma get_user_active:
  assumes "get_user current su token s = (Inr u, s')" and "db_ok (working s)" and "committed s = working s"
  shows "get_row (pk u) (users (working s')) = Some u \<and> is_active u \<and> (su \<longrightarrow> is_superuser u) \<and>
     committed s' = working s'"
proof -
  from assms(1) have "current token s = (Inr u, s')" and "is_active u" and "su \<longrightarrow> is_superuser u"
    by (auto simp: get_user_def run_simps split: if_splits)
  with current_row [OF _ assms(2,3)] show ?thesis by blast
qed

lemma get_user_needs_token: "\<exists>e. get_user current su None s = (Inl e, s)"
  using current_no_token [of s] by (auto simp: get_user_def bindE_def)

end

lemma find_user_row: "schema_ok d \<Longrightarrow> List.find P (users d) = Some u \<Longrightarrow> get_row (pk u) (users d) = Some u"
  using get_row_eq [OF schema_okD(5)] find_SomeD by metis

lemma read_or_create_row:
  assumes "read_or_create now login ud s = (Inr u, s')" and "db_ok (working s)"
  shows "get_row (pk u) (users (working s')) = Some u \<and> committed s' = working s' \<and> username u = login"
proof -
  have sch: "schema_ok (working s)" using db_okD(1) [OF assms(2)] .
  consider "List.find (\<lambda>u. username u = login) (users (working s)) = Some u" "s' = s\<lparr>committed := working s\<rparr>"
    | d where "insert_user (new_user now login ud False) (working s) = Inr (u, d)"
      "s' = s\<lparr>working := d, committed := d\<rparr>"
    using assms(1)
    by (auto simp: read_or_create_def user_repo_read_by_username_def user_repo_create_def run_simps
        split: option.splits if_splits)
  then show ?thesis
  proof cases
    case 1
    with find_user_row [OF sch 1(1)] find_SomeD [OF 1(1)] show ?thesis by simp
  next
    case 2
    have "keys_ok (users (working s)) (seq_user (working s))" using sch by (simp add: schema_ok_def pk_ok_def)
    with users.ins_get [OF 2(1), of "pk u"] users.ins_law [OF 2(1)] 2(2) show ?thesis by (simp add: new_user_def)
  qed
qed

lemma user_of_claims_row:
  "user_of_claims now info s = (Inr u, s') \<Longrightarrow> db_ok (working s) \<Longrightarrow>
     get_row (pk u) (users (working s')) = Some u \<and> committed s' = working s' \<and>
     claim info ''preferred_username'' = Some (username u)"
  using read_or_create_row by (fastforce simp: user_of_claims_def run_simps split: option.splits if_splits)

lemma user_of_claims_db [db_keeps]: "keeps db_ok (user_of_claims now info)"
  unfolding user_of_claims_def by (auto intro!: keeps_intros db_keeps split: option.split)

interpretation dummy: auth_provider "dummy_get_current_user j now"
proof unfold_locales
  show "keeps db_ok (dummy_get_current_user j now token)" for token
    unfolding dummy_get_current_user_def by (intro keeps_intros db_keeps)
  show "\<exists>e. dummy_get_current_user j now None s = (Inl e, s)" for s
    by (simp add: dummy_get_current_user_def raise_def)
  show "get_row (pk u) (users (working s')) = Some u \<and> committed s' = working s'"
    if "dummy_get_current_user j now token s = (Inr u, s')" "committed s = working s" for token s u s'
    using that
    by (auto simp: dummy_get_current_user_def user_repo_read_by_id_def run_simps dest: get_row_Some
        split: option.splits if_splits)
qed

interpretation keycloak: auth_provider "keycloak_get_current_user kc now refresh"
proof unfold_locales
  show "keeps db_ok (keycloak_get_current_user kc now refresh token)" for token
    unfolding keycloak_get_current_user_def
    by (auto intro!: keeps_intros db_keeps split: option.split list.split)
  show "\<exists>e. keycloak_get_current_user kc now refresh None s = (Inl e, s)" for s
    by (simp add: keycloak_get_current_user_def raise_def)
  show "get_row (pk u) (users (working s')) = Some u \<and> committed s' = working s'"
    if "keycloak_get_current_user kc now refresh token s = (Inr u, s')" "db_ok (working s)" for token s u s'
    using that user_of_claims_row [of now _ s u s']
    by (auto simp: keycloak_get_current_user_def run_simps split: option.splits list.splits if_splits prod.splits)
qed

interpretation gateway: auth_provider "gateway_get_current_user kc now"
proof unfold_locales
  show "keeps db_ok (gateway_get_current_user kc now token)" for token
    unfolding gateway_get_current_user_def by (auto intro!: keeps_intros db_keeps split: option.split)
  show "\<exists>e. gateway_get_current_user kc now None s = (Inl e, s)" for s
    by (simp add: gateway_get_current_user_def raise_def)
  show "get_row (pk u) (users (working s')) = Some u \<and> committed s' = working s'"
    if "gateway_get_current_user kc now token s = (Inr u, s')" "db_ok (working s)" for token s u s'
    using that user_of_claims_row [of now _ s u s']
    by (auto simp: gateway_get_current_user_def run_simps split: option.splits if_splits)
qed

section \<open>Superusers\<close>

text \<open>
  \<open>add_superusers\<close> and \<open>remove_superusers\<close>: one session, committed at the end.  New users are added in
  the order of the argument; the code iterates over a set.
\<close>

definition set_superuser :: "int \<Rightarrow> bool \<Rightarrow> string list \<Rightarrow> db \<Rightarrow> db" where
  "set_superuser now su names d =
     d\<lparr>users := map (\<lambda>u. if username u \<in> set names \<and> is_superuser u \<noteq> su
        then u\<lparr>is_superuser := su, updated_at := now\<rparr> else u) (users d)\<rparr>"

fun add_users :: "int \<Rightarrow> string list \<Rightarrow> db \<Rightarrow> db res" where
  "add_users now [] d = Inr d"
| "add_users now (n # ns) d = (case insert_user (new_user now n no_user_data True) d of
      Inl e \<Rightarrow> Inl e | Inr (_, d') \<Rightarrow> add_users now ns d')"

definition add_superusers :: "int \<Rightarrow> string list \<Rightarrow> unit act" where
  "add_superusers now names =
     uow (exec (\<lambda>d.
       let not_found = filter (\<lambda>n. \<not> list_ex (\<lambda>u. username u = n) (users d)) (remdups names) in
       (case add_users now not_found (set_superuser now True names d) of
          Inl e \<Rightarrow> Inl e | Inr d' \<Rightarrow> Inr ((), d'))))"

definition remove_superusers :: "int \<Rightarrow> string list \<Rightarrow> unit act" where
  "remove_superusers now names = uow (exec (\<lambda>d. Inr ((), set_superuser now False names d)))"

definition list_superusers :: "(string \<Rightarrow> string) \<Rightarrow> string list act" where
  "list_superusers collation =
     query (\<lambda>d. Inr (map username (order_by collation username (filter is_superuser (users d)))))"

lemma schema_ok_users:
  assumes "schema_ok d" and "map pk us = map pk (users d)" and "map username us = map username (users d)"
  shows "schema_ok (d\<lparr>users := us\<rparr>)"
proof -
  have s: "pk ` set us = pk ` set (users d)" using assms(2) by (metis set_map)
  then have "has_row i us \<longleftrightarrow> has_row i (users d)" for i by (simp add: has_row_iff)
  moreover have "(\<forall>r \<in> set us. pk r < n) \<longleftrightarrow> (\<forall>r \<in> set (users d). pk r < n)" for n
  proof -
    have "(\<forall>r \<in> set xs. pk r < n) \<longleftrightarrow> (\<forall>i \<in> pk ` set xs. i < n)" for xs :: "user list" by simp
    then show ?thesis by (simp only: s)
  qed
  ultimately show ?thesis using assms by (simp add: schema_defs keys_ok_def)
qed

lemma set_superuser_map:
  "map pk (users (set_superuser now su names d)) = map pk (users d)"
  "map username (users (set_superuser now su names d)) = map username (users d)"
  by (auto simp: set_superuser_def)

lemma set_superuser_db: "db_ok d \<Longrightarrow> db_ok (set_superuser now su names d)"
proof -
  assume ok: "db_ok d"
  note set_superuser_map [of now su names d]
  then have "schema_ok (d\<lparr>users := users (set_superuser now su names d)\<rparr>)"
    by (intro schema_ok_users db_okD ok)
  then show ?thesis using ok by (auto simp: set_superuser_def intro: db_ok_frame)
qed

lemma add_users_law:
  assumes "distinct ns" and "\<forall>n \<in> set ns. n \<notin> username ` set (users d)"
  shows "\<exists>d' us. add_users now ns d = Inr d' \<and> users d' = users d @ us \<and> map username us = ns \<and>
     (\<forall>u \<in> set us. is_superuser u) \<and> (db_ok d \<longrightarrow> db_ok d')"
  using assms
proof (induction ns arbitrary: d)
  case (Cons n ns)
  let ?u = "new_user now n no_user_data True (seq_user d)"
  let ?d = "d\<lparr>users := users d @ [?u], seq_user := seq_user d + 1\<rparr>"
  have i: "insert_user (new_user now n no_user_data True) d = Inr (?u, ?d)"
    using Cons.prems(2) by (auto simp: insert_user_def Let_def list_ex_image new_user_def)
  have "\<forall>m \<in> set ns. m \<notin> username ` set (users ?d)"
    using Cons.prems by (auto simp: new_user_def)
  with Cons.IH [of ?d] Cons.prems(1) obtain d' us where "add_users now ns ?d = Inr d'"
    "users d' = users ?d @ us" "map username us = ns" "\<forall>u \<in> set us. is_superuser u" "db_ok ?d \<longrightarrow> db_ok d'"
    by auto
  moreover have "db_ok d \<longrightarrow> db_ok ?d" using insert_user_db [OF i] by simp
  ultimately show ?case using i
    by (intro exI [of _ d'] exI [of _ "?u # us"]) (auto simp: new_user_def)
qed simp

lemma superuser_scripts_db [handler_keeps]:
  "keeps db_ok (add_superusers now names)" "keeps db_ok (remove_superusers now names)"
proof -
  have "db_ok d'" if ok: "db_ok d" and a: "add_users now (filter (\<lambda>n. \<not> list_ex (\<lambda>u. username u = n) (users d)) (remdups names))
      (set_superuser now True names d) = Inr d'" for d d'
  proof -
    have "username ` set (users (set_superuser now True names d)) = username ` set (users d)"
      using set_superuser_map(2) by (metis set_map)
    with add_users_law [of "filter (\<lambda>n. \<not> list_ex (\<lambda>u. username u = n) (users d)) (remdups names)"
        "set_superuser now True names d" now] a set_superuser_db [OF ok]
    show ?thesis by (auto simp: list_ex_iff)
  qed
  then show "keeps db_ok (add_superusers now names)"
    unfolding add_superusers_def Let_def
    by (intro keeps_intros keeps_exec) (auto split: sum.splits)
  show "keeps db_ok (remove_superusers now names)"
    unfolding remove_superusers_def by (intro keeps_intros keeps_exec) (auto intro: set_superuser_db)
qed

end
