(* ===== verification/Sync_Worker.thy ===== *)
theory Sync_Worker
  imports Sync_Scheduler Sync_Users
begin

text \<open>
  The worker task \<open>run_transfer\<close> of \<open>syncmaster/worker/transfer.py\<close>, split where it commits, and the
  invariants of runs: which handler writes a run row, and how.  Executing the transfer itself
  (\<open>TransferController.perform_transfer\<close>, Spark) and rendering the log URL are parameters.
\<close>

section \<open>The task\<close>

record worker_context =
  wc_run :: run
  wc_transfer :: transfer
  wc_group :: "group option"
  wc_source_connection :: connection
  wc_target_connection :: connection
  wc_source_auth_data :: jdict
  wc_target_auth_data :: jdict

text \<open>\<open>select(Run).where(Run.id == run_id, Run.status == Status.CREATED)\<close>.\<close>

definition pick_run :: "int \<Rightarrow> db \<Rightarrow> run option" where
  "pick_run rid d = List.find (\<lambda>r. pk r = rid \<and> run_status r = CREATED) (runs d)"

text \<open>\<open>session.scalars(source_auth_data_query).one()\<close>, decrypted.\<close>

definition worker_auth_data :: "fernet \<Rightarrow> int \<Rightarrow> db \<Rightarrow> jdict res" where
  "worker_auth_data c cid d = (case get_auth_row cid d of
      None \<Rightarrow> Inl NoResultFound | Some a \<Rightarrow> decrypt_auth_data c (ad_value a))"

definition worker_context_of :: "fernet \<Rightarrow> run \<Rightarrow> db \<Rightarrow> worker_context res" where
  "worker_context_of c r d = (case get_row (transfer_id r) (transfers d) of
      None \<Rightarrow> Inl (AttributeError ''transfer'')
    | Some t \<Rightarrow> (case (get_row (source_connection_id t) (connections d), get_row (target_connection_id t) (connections d)) of
        (Some src, Some tgt) \<Rightarrow> (case worker_auth_data c (pk src) d of
            Inl e \<Rightarrow> Inl e
          | Inr sa \<Rightarrow> (case worker_auth_data c (pk tgt) d of
              Inl e \<Rightarrow> Inl e
            | Inr ta \<Rightarrow> Inr \<lparr>wc_run = r, wc_transfer = t, wc_group = get_row (group_id t) (groups d), wc_source_connection = src, wc_target_connection = tgt,
                wc_source_auth_data = sa, wc_target_auth_data = ta\<rparr>))
      | _ \<Rightarrow> Inl (AttributeError ''connection'')))"

definition worker_start ::
  "fernet \<Rightarrow> (run \<Rightarrow> string res) \<Rightarrow> int \<Rightarrow> int \<Rightarrow> worker_context option act" where
  "worker_start c render now rid =
     bindE (query (\<lambda>d. Inr (pick_run rid d))) (\<lambda>found. case found of
        None \<Rightarrow> return None
      | Some r \<Rightarrow>
          bindE (query (worker_context_of c r)) (\<lambda>ctx.
          bindE (query (\<lambda>_. render (r\<lparr>run_status := STARTED, started_at := Some now\<rparr>))) (\<lambda>url.
          bindE (uow (exec (update_run_row rid (\<lambda>r. r\<lparr>run_status := STARTED, started_at := Some now,
             log_url := Some url, updated_at := now\<rparr>)))) (\<lambda>r'. return (Some (ctx\<lparr>wc_run := r'\<rparr>))))))"

definition worker_finish :: "int \<Rightarrow> int \<Rightarrow> status \<Rightarrow> unit act" where
  "worker_finish now rid st =
     bindE (query (\<lambda>d. Inr (get_row rid (runs d)))) (\<lambda>found. case found of
        None \<Rightarrow> return ()
      | Some _ \<Rightarrow> uow (bindE (exec (update_run_row rid (\<lambda>r. r\<lparr>run_status := st, ended_at := Some now,
          updated_at := now\<rparr>))) (\<lambda>_. return ())))"

definition run_transfer ::
  "fernet \<Rightarrow> (run \<Rightarrow> string res) \<Rightarrow> (worker_context \<Rightarrow> unit res) \<Rightarrow> int \<Rightarrow> int \<Rightarrow> int \<Rightarrow> unit act" where
  "run_transfer c render perform now now' rid =
     bindE (catchE (bindE (worker_start c render now rid) (\<lambda>started. case started of
              None \<Rightarrow> return None
            | Some ctx \<Rightarrow> bindE (query (\<lambda>_. perform ctx)) (\<lambda>_. return (Some (Inr ())))))
          (\<lambda>e. return (Some (Inl e)))) (\<lambda>outcome. case outcome of
       None \<Rightarrow> return ()
     | Some (Inr _) \<Rightarrow> worker_finish now' rid FINISHED
     | Some (Inl e) \<Rightarrow> bindE (worker_finish now' rid FAILED) (\<lambda>_. raise e))"

section \<open>Invariants of run rows\<close>

text \<open>
  A property of every run row, with a bound below the next run id.  Handlers that do not write runs keep
  it whatever the property is.
\<close>

definition run_inv :: "int \<Rightarrow> (run \<Rightarrow> bool) \<Rightarrow> db \<Rightarrow> bool" where
  "run_inv n P d \<longleftrightarrow> (\<forall>r \<in> set (runs d). P r) \<and> n \<le> seq_run d"

named_theorems run_keeps \<open>methods and handlers keep properties of runs\<close>

lemma run_inv_subset:
  "run_inv n P d \<Longrightarrow> set (runs d') \<subseteq> set (runs d) \<and> seq_run d' = seq_run d \<Longrightarrow> run_inv n P d'"
  unfolding run_inv_def by auto

text \<open>Every statement but the two on runs leaves them alone, or loses some to a cascade.\<close>

definition fewer_runs :: "db \<Rightarrow> db \<Rightarrow> bool" where
  "fewer_runs d' d \<longleftrightarrow> set (runs d') \<subseteq> set (runs d) \<and> seq_run d' = seq_run d"

lemma fewer_runs_same: "runs d' = runs d \<Longrightarrow> seq_run d' = seq_run d \<Longrightarrow> fewer_runs d' d"
  by (simp add: fewer_runs_def)

lemma fewer_runs_inv: "fewer_runs d' d \<Longrightarrow> run_inv n P d \<Longrightarrow> run_inv n P d'"
  unfolding fewer_runs_def by (rule run_inv_subset)

lemma row_runs:
  "insert_user mu d = Inr (u, d') \<Longrightarrow> fewer_runs d' d"
  "update_user_row i fu d = Inr (u, d') \<Longrightarrow> fewer_runs d' d"
  "insert_group mg d = Inr (g, d') \<Longrightarrow> fewer_runs d' d"
  "update_group_row i fg d = Inr (g, d') \<Longrightarrow> fewer_runs d' d"
  "insert_user_group x d = Inr (y, d') \<Longrightarrow> fewer_runs d' d"
  "update_user_group_row gi ui role d = Inr (z, d') \<Longrightarrow> fewer_runs d' d"
  "delete_user_group_row gi ui d = Inr (v, d') \<Longrightarrow> fewer_runs d' d"
  "insert_auth_data a d = Inr (b, d') \<Longrightarrow> fewer_runs d' d"
  "update_auth_data_row i w d = Inr (b, d') \<Longrightarrow> fewer_runs d' d"
  "insert_connection mc d = Inr (c, d') \<Longrightarrow> fewer_runs d' d"
  "update_connection_row i fc d = Inr (c, d') \<Longrightarrow> fewer_runs d' d"
  "insert_queue mq d = Inr (q, d') \<Longrightarrow> fewer_runs d' d"
  "update_queue_row i fq d = Inr (q, d') \<Longrightarrow> fewer_runs d' d"
  "insert_transfer mt d = Inr (t, d') \<Longrightarrow> fewer_runs d' d"
  "update_transfer_row i ft d = Inr (t, d') \<Longrightarrow> fewer_runs d' d"
  by (drule row_shape, simp add: fewer_runs_same)+

lemma fewer_runs_trans: "fewer_runs d2 d1 \<Longrightarrow> fewer_runs d1 d \<Longrightarrow> fewer_runs d2 d"
  unfolding fewer_runs_def by auto

lemma cascade_runs:
  "fewer_runs (cascade_transfers P d) d" "fewer_runs (cascade_connections Q d) d"
  "fewer_runs (cascade_queues R d) d" "fewer_runs (cascade_group g d) d"
proof -
  show t: "fewer_runs (cascade_transfers P d) d" for P and d :: db
    by (auto simp: fewer_runs_def cascade_transfers_def Let_def)
  show c: "fewer_runs (cascade_connections Q d) d" for Q and d :: db
    unfolding cascade_connections_def Let_def by (rule fewer_runs_trans [OF t]) (simp add: fewer_runs_same)
  show q: "fewer_runs (cascade_queues R d) d" for R and d :: db
    unfolding cascade_queues_def Let_def by (rule fewer_runs_trans [OF t]) (simp add: fewer_runs_same)
  show "fewer_runs (cascade_group g d) d"
    unfolding cascade_group_def
    by (rule fewer_runs_trans [OF t fewer_runs_trans [OF q fewer_runs_trans [OF c]]]) (simp add: fewer_runs_same)
qed

lemma delete_runs:
  "delete_group_row i d = Inr (g, d') \<Longrightarrow> fewer_runs d' d"
  "delete_connection_row i d = Inr (c, d') \<Longrightarrow> fewer_runs d' d"
  "delete_queue_row i d = Inr (q, d') \<Longrightarrow> fewer_runs d' d"
  "delete_transfer_row i d = Inr (t, d') \<Longrightarrow> fewer_runs d' d"
  by (auto simp: delete_group_row_def delete_connection_row_def delete_queue_row_def delete_transfer_row_def
      cascade_runs split: option.splits)

end
