(* ===== verification/Sync_System.thy ===== *)
theory Sync_System
  imports Sync_Worker
begin

text \<open>
  The running system: requests that have been accepted by the API, jobs the scheduler fires and worker
  processes, over one database and one broker.  The first part says which method writes a run, the
  second is the step relation and its invariant.
\<close>

section \<open>Which operation writes a run\<close>

lemmas run_frame = row_runs [THEN fewer_runs_inv] delete_runs [THEN fewer_runs_inv]

lemma group_repo_run_keeps [run_keeps]:
  "keeps (run_inv n P) (group_repo_create now name desc owner)"
  "keeps (run_inv n P) (group_repo_update now gid name desc owner)"
  "keeps (run_inv n P) (group_repo_delete gid)"
  "keeps (run_inv n P) (group_repo_update_member_role gid uid role)"
  "keeps (run_inv n P) (group_repo_add_user gid uid role)"
  "keeps (run_inv n P) (group_repo_delete_user gid uid)"
  unfolding group_repo_create_def group_repo_update_def group_repo_delete_def group_repo_update_member_role_def
    group_repo_add_user_def group_repo_delete_user_def
  by (intro keeps_intros keeps_exec_rethrow keeps_exec; blast intro: run_frame)+

lemma resource_repo_run_keeps [run_keeps]:
  "keeps (run_inv n P) (credentials_repo_create c rnd cid data)"
  "keeps (run_inv n P) (credentials_repo_update c rnd cid data)"
  "keeps (run_inv n P) (connection_repo_create now gid ct name desc data)"
  "keeps (run_inv n P) (connection_repo_update now cid name ct desc data)"
  "keeps (run_inv n P) (connection_repo_delete cid)"
  "keeps (run_inv n P) (queue_repo_create now name gid desc sl)"
  "keeps (run_inv n P) (queue_repo_update now qid name desc)"
  "keeps (run_inv n P) (queue_repo_delete qid)"
  "keeps (run_inv n P) (transfer_repo_create now tgid v)"
  "keeps (run_inv n P) (transfer_repo_update now tid v)"
  "keeps (run_inv n P) (transfer_repo_delete tid)"
  unfolding credentials_repo_create_def credentials_repo_update_def connection_repo_create_def
    connection_repo_update_def connection_repo_delete_def queue_repo_create_def queue_repo_update_def
    queue_repo_delete_def transfer_repo_create_def transfer_repo_update_def transfer_repo_delete_def
  by (intro keeps_intros keeps_exec_rethrow keeps_exec; blast intro: run_frame)+

text \<open>Copies and user rows are written by statements of the same kind.\<close>

lemma copy_repo_run_keeps [run_keeps]:
  "keeps (run_inv n P) (connection_repo_copy cid gid nm)"
  "keeps (run_inv n P) (transfer_repo_copy tid qid g src tgt nm)"
  unfolding connection_repo_copy_def transfer_repo_copy_def
  by (rule keeps_exec_rethrow keeps_exec; auto intro: run_frame split: option.splits)+

lemma user_repo_run_keeps [run_keeps]:
  "keeps (run_inv n P) (user_repo_create now name ud su)" "keeps (run_inv n P) (user_repo_update uid f)"
  unfolding user_repo_create_def user_repo_update_def
  by (rule keeps_exec_rethrow; blast intro: run_frame)+

lemma read_or_create_run_keeps [run_keeps]: "keeps (run_inv n P) (read_or_create now login ud)"
  unfolding read_or_create_def by (intro keeps_intros run_keeps pure_repo_keeps user_repo_pure [THEN pure_keeps])

lemma group_handlers_run_keeps [run_keeps]:
  "keeps (run_inv n P) (create_group now cgd u)" "keeps (run_inv n P) (update_group now gid gd u)"
  "keeps (run_inv n P) (delete_group gid)" "keeps (run_inv n P) (update_user_role_group gid uid role u)"
  "keeps (run_inv n P) (add_user_to_group gid uid role u)" "keeps (run_inv n P) (delete_user_from_group gid uid u)"
  unfolding create_group_def update_group_def update_group_block_def delete_group_def update_user_role_group_def
    add_user_to_group_def delete_user_from_group_def
  by (intro keeps_intros run_keeps pure_repo_keeps)+

lemma resource_handlers_run_keeps [run_keeps]:
  "keeps (run_inv n P) (create_queue now qd u)" "keeps (run_inv n P) (update_queue now qid uqd u)"
  "keeps (run_inv n P) (delete_queue tst qid u)" "keeps (run_inv n P) (delete_connection cid u)"
  "keeps (run_inv n P) (create_connection lax c rnd now gid cd u)"
  "keeps (run_inv n P) (update_connection lax c rnd now cid ucd u)"
  "keeps (run_inv n P) (copy_connection lax cid ccd u)"
  "keeps (run_inv n P) (create_transfer now td u)" "keeps (run_inv n P) (update_transfer now tid utd u)"
  "keeps (run_inv n P) (copy_transfer tid ctd u)" "keeps (run_inv n P) (delete_transfer tid u)"
  unfolding create_queue_def update_queue_def delete_queue_def delete_connection_def create_connection_def
    update_connection_def update_connection_block_def copy_connection_def copy_connection_block_def
    create_transfer_def update_transfer_def copy_transfer_def copy_transfer_block_def delete_transfer_def
  by (intro keeps_intros run_keeps pure_repo_keeps)+

section \<open>Which operation sends a message\<close>

definition quiet :: "('d, 'e, 'a) action \<Rightarrow> bool" where
  "quiet m \<longleftrightarrow> (\<forall>s r s'. m s = (r, s') \<longrightarrow> broker s' = broker s)"

lemma quietI:
  "(\<And>s e s'. m s = (Inl e, s') \<Longrightarrow> broker s' = broker s) \<Longrightarrow>
   (\<And>s x s'. m s = (Inr x, s') \<Longrightarrow> broker s' = broker s) \<Longrightarrow> quiet m"
  unfolding quiet_def by (metis sum.exhaust)

lemma quietD: "quiet m \<Longrightarrow> m s = (r, s') \<Longrightarrow> broker s' = broker s"
  unfolding quiet_def by blast

named_theorems quiet_intros \<open>actions that send no message\<close>

lemma quiet_uncommitted: "uncommitted m \<Longrightarrow> quiet m"
  by (rule quietI) (auto dest: uncommittedD)

lemma quiet_simple [quiet_intros]: "quiet (return x)" "quiet (raise e)" "quiet (query f)" "quiet (exec g)"
  by (intro quiet_uncommitted uncommitted_intros)+

lemma quiet_uow [quiet_intros]: "quiet m \<Longrightarrow> quiet (uow m)"
  by (rule quietI) (auto simp: run_simps dest: quietD)

lemma quiet_bindE [quiet_intros]: "quiet m \<Longrightarrow> (\<And>x. quiet (f x)) \<Longrightarrow> quiet (bindE m f)"
  by (rule quietI) (simp only: run_simps, metis quietD)+

lemma quiet_catchE [quiet_intros]: "quiet m \<Longrightarrow> (\<And>e. quiet (h e)) \<Longrightarrow> quiet (catchE m h)"
  by (rule quietI) (simp only: run_simps, metis quietD)+

lemma quiet_if [quiet_intros]: "quiet m \<Longrightarrow> quiet n \<Longrightarrow> quiet (if b then m else n)"
  by simp

lemma quiet_let [quiet_intros]: "(\<And>x. quiet (f x)) \<Longrightarrow> quiet (let x = v in f x)"
  by (simp add: Let_def)

lemma quiet_case_list [quiet_intros]:
  "quiet m \<Longrightarrow> (\<And>x xs. quiet (f x xs)) \<Longrightarrow> quiet (case v of [] \<Rightarrow> m | x # xs \<Rightarrow> f x xs)"
  by (cases v) auto

lemma quiet_case_prod [quiet_intros]: "(\<And>a b. quiet (f a b)) \<Longrightarrow> quiet (case p of (a, b) \<Rightarrow> f a b)"
  by (cases p) auto

lemma quiet_case_option [quiet_intros]:
  "quiet m \<Longrightarrow> (\<And>x. quiet (f x)) \<Longrightarrow> quiet (case v of None \<Rightarrow> m | Some x \<Rightarrow> f x)"
  by (cases v) auto

section \<open>Launching a run\<close>

text \<open>The two halves that \<open>start_run\<close> and \<open>send_job_to_celery\<close> share: a run is created and committed, then sent.\<close>

definition create_run_block :: "coercion \<Rightarrow> jdict \<Rightarrow> jdict \<Rightarrow> int \<Rightarrow> int \<Rightarrow> run_type \<Rightarrow> run act" where
  "create_run_block lax credentials_source credentials_target now tid ty =
     uow (bindE (query (\<lambda>_. read_auth_data lax credentials_source)) (\<lambda>source_creds.
          bindE (query (\<lambda>_. read_auth_data lax credentials_target)) (\<lambda>target_creds.
          run_repo_create now tid source_creds target_creds ty)))"

definition enqueue :: "bool \<Rightarrow> int \<Rightarrow> string \<Rightarrow> int \<Rightarrow> unit act" where
  "enqueue available now q rid = catchE (send_task available q rid)
     (\<lambda>e. if e = KombuError then
         bindE (uow (run_repo_update_status now rid FAILED)) (\<lambda>_. raise (CannotConnectToTaskQueueError rid))
       else raise e)"

lemmas launch_folds = create_run_block_def [symmetric] enqueue_def [symmetric]

text \<open>
  The effect on runs: nothing, a fresh run that was sent, or a fresh run marked as failed because the
  broker could not be reached.
\<close>

definition fresh_run :: "run \<Rightarrow> db \<Rightarrow> bool" where
  "fresh_run r d \<longleftrightarrow> pk r = seq_run d \<and> started_at r = None \<and> ended_at r = None"

definition launched :: "db session \<Rightarrow> db session \<Rightarrow> bool" where
  "launched s s' \<longleftrightarrow> committed s' = working s' \<and>
     (committed s' = committed s \<and> broker s' = broker s \<or>
      (\<exists>r q. fresh_run r (committed s) \<and> runs (committed s') = runs (committed s) @ [r] \<and>
         seq_run (committed s') = seq_run (committed s) + 1 \<and>
         (run_status r = CREATED \<and> broker s' = broker s @ [(q, pk r)] \<or>
          run_status r = FAILED \<and> broker s' = broker s)))"

lemma create_run_block_Inr:
  assumes "create_run_block lax c1 c2 now tid ty s = (Inr r, s')"
  shows "\<exists>d. s' = s\<lparr>working := d, committed := d\<rparr> \<and> runs d = runs (working s) @ [r] \<and>
     seq_run d = seq_run (working s) + 1 \<and> fresh_run r (working s) \<and> run_status r = CREATED \<and>
     transfers d = transfers (working s) \<and> has_row (transfer_id r) (transfers (working s))"
proof -
  from assms obtain dump d where
    i: "insert_run (\<lambda>i. \<lparr>pk = i, created_at = now, updated_at = now, transfer_id = tid, started_at = None,
          ended_at = None, run_status = CREATED, run_type = ty, log_url = None, transfer_dump = dump\<rparr>) (working s)
        = Inr (r, d)"
    and s': "s' = s\<lparr>working := d, committed := d\<rparr>"
    by (auto simp: create_run_block_def run_repo_create_def run_simps)
  have "transfers d = transfers (working s) \<and> has_row (transfer_id r) (transfers (working s))"
    using i by (auto simp: insert_run_def Let_def split: if_splits)
  with runs.ins_law [OF i] s' show ?thesis by (auto simp: fresh_run_def)
qed

lemma create_run_block_Inl:
  "create_run_block lax c1 c2 now tid ty s = (Inl e, s') \<Longrightarrow> committed s = working s \<Longrightarrow> s' = s"
  by (auto simp: create_run_block_def run_repo_create_def run_simps)

lemma set_row_last: "\<not> has_row (pk r) xs \<Longrightarrow> pk x = pk r \<Longrightarrow> set_row x (xs @ [r]) = xs @ [x]"
  by (induction xs) (auto simp: set_row_def has_row_def)

lemma enqueue_effect:
  assumes "enqueue available now q (pk r) s = (res, s')" and "committed s = working s"
    and "runs (working s) = rs @ [r]" and "\<not> has_row (pk r) rs" and "has_row (transfer_id r) (transfers (working s))"
  shows "available \<and> res = Inr () \<and> s' = s\<lparr>broker := broker s @ [(q, pk r)]\<rparr> \<or>
     \<not> available \<and> res = Inl (CannotConnectToTaskQueueError (pk r)) \<and>
     (\<exists>d. s' = s\<lparr>working := d, committed := d\<rparr> \<and> runs d = rs @ [r\<lparr>run_status := FAILED, updated_at := now\<rparr>] \<and>
        seq_run d = seq_run (working s))"
proof (cases available)
  case True
  with assms(1) show ?thesis by (auto simp: enqueue_def send_task_def catchE_def)
next
  case False
  have g: "get_row (pk r) (runs (working s)) = Some r"
    using assms(3,4) by (simp add: get_row_append get_row_None get_row_def [of _ "[r]"] split: option.split)
      (metis get_row_Some has_row_iff imageI)
  have "r\<lparr>run_status := FAILED, updated_at := now, pk := pk r\<rparr> = r\<lparr>run_status := FAILED, updated_at := now\<rparr>" by simp
  then have u: "update_run_row (pk r) (\<lambda>r. r\<lparr>run_status := FAILED, updated_at := now\<rparr>) (working s)
      = Inr (r\<lparr>run_status := FAILED, updated_at := now\<rparr>,
          (working s)\<lparr>runs := rs @ [r\<lparr>run_status := FAILED, updated_at := now\<rparr>]\<rparr>)"
    using g assms(3,4,5) by (simp add: update_run_row_def set_row_last Let_def)
  with False assms(1,2) show ?thesis
    by (auto simp: enqueue_def send_task_def catchE_def run_repo_update_status_def bindE_def uow_def exec_def
        rethrow_def raise_def)
qed

lemma launch_effect:
  assumes "create_run_block lax c1 c2 now tid ty s = (Inr r, t)" and "enqueue available now q (pk r) t = (res, s')"
    and "committed s = working s" and "schema_ok (working s)"
  shows "launched s s'"
proof -
  from create_run_block_Inr [OF assms(1)] obtain d where d: "t = s\<lparr>working := d, committed := d\<rparr>"
    "runs d = runs (working s) @ [r]" "seq_run d = seq_run (working s) + 1" "fresh_run r (working s)"
    "run_status r = CREATED" "transfers d = transfers (working s)" "has_row (transfer_id r) (transfers (working s))"
    by blast
  have f: "\<not> has_row (pk r) (runs (working s))"
    using assms(4) d(4) by (simp add: schema_ok_def pk_ok_def fresh_run_def keys_ok_fresh)
  have "s' = t\<lparr>broker := broker t @ [(q, pk r)]\<rparr> \<or>
     (\<exists>d'. s' = t\<lparr>working := d', committed := d'\<rparr> \<and>
        runs d' = runs (working s) @ [r\<lparr>run_status := FAILED, updated_at := now\<rparr>] \<and> seq_run d' = seq_run d)"
    using enqueue_effect [OF assms(2) _ _ f] d by auto
  then show ?thesis
  proof
    assume "s' = t\<lparr>broker := broker t @ [(q, pk r)]\<rparr>"
    then show ?thesis using d assms(3) by (auto simp: launched_def)
  next
    assume "\<exists>d'. s' = t\<lparr>working := d', committed := d'\<rparr> \<and>
        runs d' = runs (working s) @ [r\<lparr>run_status := FAILED, updated_at := now\<rparr>] \<and> seq_run d' = seq_run d"
    then obtain d' where "s' = t\<lparr>working := d', committed := d'\<rparr>"
      "runs d' = runs (working s) @ [r\<lparr>run_status := FAILED, updated_at := now\<rparr>]" "seq_run d' = seq_run d" by blast
    then show ?thesis using d assms(3)
      by (auto simp: launched_def fresh_run_def intro!: exI [of _ "r\<lparr>run_status := FAILED, updated_at := now\<rparr>"])
  qed
qed

lemma launched_same: "committed s = working s \<Longrightarrow> launched s s"
  by (simp add: launched_def)

text \<open>A manual start and a fired job change runs and messages in exactly that way.\<close>

lemma start_run_launched:
  assumes "start_run lax c available now tid u s = (res, s')" and "committed s = working s" and "schema_ok (working s)"
  shows "launched s s'"
proof -
  note ini = launched_same [OF assms(2)]
  consider "s' = s"
    | c1 c2 e where "create_run_block lax c1 c2 now tid MANUAL s = (Inl e, s')"
    | c1 c2 r t q res' where "create_run_block lax c1 c2 now tid MANUAL s = (Inr r, t)"
        "enqueue available now q (pk r) t = (res', s')"
    using assms(1)
    by (cases res)
      (auto simp: start_run_def launch_folds transfer_repo_read_by_id_def queue_repo_read_by_id_def
        credentials_repo_read_def run_simps split: if_splits)
  then show ?thesis
  proof cases
    case 1
    then show ?thesis using ini by simp
  next
    case 2
    then show ?thesis using create_run_block_Inl [OF 2 assms(2)] ini by simp
  next
    case 3
    show ?thesis by (rule launch_effect [OF 3 assms(2,3)])
  qed
qed

lemma send_job_launched:
  assumes "send_job_to_celery lax c available now tid s = (res, s')" and "committed s = working s"
    and "schema_ok (working s)"
  shows "launched s s'"
proof -
  note ini = launched_same [OF assms(2)]
  consider "s' = s"
    | c1 c2 e where "create_run_block lax c1 c2 now tid SCHEDULED s = (Inl e, s')"
    | c1 c2 r t q res' where "create_run_block lax c1 c2 now tid SCHEDULED s = (Inr r, t)"
        "enqueue available now q (pk r) t = (res', s')"
    using assms(1)
    by (cases res)
      (auto simp: send_job_to_celery_def launch_folds transfer_repo_read_by_id_def
        credentials_repo_read_def run_simps split: if_splits option.splits)
  then show ?thesis
  proof cases
    case 1
    then show ?thesis using ini by simp
  next
    case 2
    then show ?thesis using create_run_block_Inl [OF 2 assms(2)] ini by simp
  next
    case 3
    show ?thesis by (rule launch_effect [OF 3 assms(2,3)])
  qed
qed

end
