(* ===== verification/Sync_Api.thy ===== *)
theory Sync_Api
  imports Sync_System
begin

text \<open>
  One request of the API as a whole: the routes of \<open>syncmaster/server/api/v1/router.py\<close> as a datatype, the
  user dependency in front of every handler (\<open>get_user\<close>, with the superuser check where the route asks for
  it), and what all routes have in common.  Responses are dropped here: this theory is about the effect of
  a request, and the properties of responses are stated on the handlers themselves.
\<close>

section \<open>Requests\<close>

record env =
  e_now :: int
  e_rnd :: string
  e_lax :: coercion
  e_fernet :: fernet
  e_broker_available :: bool
  e_groups :: "group text_search"
  e_connections :: "connection text_search"
  e_queues :: "queue text_search"
  e_transfers :: "transfer text_search"
  e_similar :: "string \<Rightarrow> string \<Rightarrow> bool"

datatype provider = Dummy jwt | Keycloak keycloak "string option" | Gateway keycloak

definition current_user_of :: "env \<Rightarrow> provider \<Rightarrow> string option \<Rightarrow> user act" where
  "current_user_of e p = (case p of
      Dummy j \<Rightarrow> dummy_get_current_user j (e_now e)
    | Keycloak kc refresh \<Rightarrow> keycloak_get_current_user kc (e_now e) refresh
    | Gateway kc \<Rightarrow> gateway_get_current_user kc (e_now e))"

datatype request =
    GetUsers int int "string option" | ReadCurrentUser | ReadUser int
  | ReadGroups int int "string option" "string option" | CreateGroup create_group_schema | ReadGroup int
  | UpdateGroup int update_group_schema | DeleteGroup int | ReadGroupUsers int int int
  | UpdateUserRole int int group_member_role | AddUser int int group_member_role | DeleteUser int int
  | ReadConnections int int int "connection_type list option" "string option"
  | CreateConnection int connection_schema | ReadConnectionTypes | ReadConnection int
  | UpdateConnection int connection_schema | DeleteConnection int | CopyConnection int copy_connection_schema
  | ReadTransfers int int int "string option" transfer_filter | CreateTransfer transfer_schema
  | ReadTransfer int | CopyTransfer int copy_transfer_schema | UpdateTransfer int transfer_schema
  | DeleteTransfer int
  | ReadQueues int int int "string option" | ReadQueue int | CreateQueue create_queue_schema
  | UpdateQueue int update_queue_schema | DeleteQueue int
  | ReadRuns int int int run_filter | ReadRun int | StartRun int | StopRun int

text \<open>The role of a membership request has passed \<open>AddUserSchema\<close>.\<close>

fun validated :: "request \<Rightarrow> bool" where
  "validated (UpdateUserRole _ _ role) \<longleftrightarrow> role \<in> set public_roles"
| "validated (AddUser _ _ role) \<longleftrightarrow> role \<in> set public_roles"
| "validated _ \<longleftrightarrow> True"

fun needs_superuser :: "request \<Rightarrow> bool" where
  "needs_superuser (DeleteGroup _) \<longleftrightarrow> True"
| "needs_superuser _ \<longleftrightarrow> False"

definition no_response :: "'a act \<Rightarrow> unit act" where
  "no_response m = bindE m (\<lambda>_. return ())"

fun handle :: "env \<Rightarrow> request \<Rightarrow> user \<Rightarrow> unit act" where
  "handle e (GetUsers p ps q) u = no_response (get_users (collate (e_groups e)) (e_similar e) p ps q u)"
| "handle e ReadCurrentUser u = no_response (read_current_user u)"
| "handle e (ReadUser i) u = no_response (read_user i)"
| "handle e (ReadGroups p ps role q) u = no_response (read_groups (e_groups e) p ps role q u)"
| "handle e (CreateGroup d) u = no_response (create_group (e_now e) d u)"
| "handle e (ReadGroup g) u = no_response (read_group g u)"
| "handle e (UpdateGroup g d) u = no_response (update_group (e_now e) g d u)"
| "handle e (DeleteGroup g) u = no_response (delete_group g)"
| "handle e (ReadGroupUsers g p ps) u = no_response (read_group_users (collate (e_groups e)) g p ps u)"
| "handle e (UpdateUserRole g i role) u = no_response (update_user_role_group g i role u)"
| "handle e (AddUser g i role) u = no_response (add_user_to_group g i role u)"
| "handle e (DeleteUser g i) u = no_response (delete_user_from_group g i u)"
| "handle e (ReadConnections g p ps types q) u =
     no_response (read_connections (e_lax e) (e_fernet e) (e_connections e) g p ps types q u)"
| "handle e (CreateConnection g d) u = no_response (create_connection (e_lax e) (e_fernet e) (e_rnd e) (e_now e) g d u)"
| "handle e ReadConnectionTypes u = no_response read_connection_types"
| "handle e (ReadConnection i) u = no_response (read_connection (e_lax e) (e_fernet e) i u)"
| "handle e (UpdateConnection i d) u = no_response (update_connection (e_lax e) (e_fernet e) (e_rnd e) (e_now e) i d u)"
| "handle e (DeleteConnection i) u = no_response (delete_connection i u)"
| "handle e (CopyConnection i d) u = no_response (copy_connection (e_lax e) i d u)"
| "handle e (ReadTransfers g p ps q f) u = no_response (read_transfers (e_transfers e) g p ps q f u)"
| "handle e (CreateTransfer d) u = no_response (create_transfer (e_now e) d u)"
| "handle e (ReadTransfer i) u = no_response (read_transfer i u)"
| "handle e (CopyTransfer i d) u = no_response (copy_transfer i d u)"
| "handle e (UpdateTransfer i d) u = no_response (update_transfer (e_now e) i d u)"
| "handle e (DeleteTransfer i) u = no_response (delete_transfer i u)"
| "handle e (ReadQueues g p ps q) u = no_response (read_queues (e_queues e) g p ps q u)"
| "handle e (ReadQueue i) u = no_response (read_queue i u)"
| "handle e (CreateQueue d) u = no_response (create_queue (e_now e) d u)"
| "handle e (UpdateQueue i d) u = no_response (update_queue (e_now e) i d u)"
| "handle e (DeleteQueue i) u = no_response (delete_queue (e_transfers e) i u)"
| "handle e (ReadRuns t p ps f) u = no_response (read_runs t p ps f u)"
| "handle e (ReadRun i) u = no_response (read_run i u)"
| "handle e (StartRun t) u = no_response (start_run (e_lax e) (e_fernet e) (e_broker_available e) (e_now e) t u)"
| "handle e (StopRun i) u = no_response (stop_run (e_now e) i u)"

definition call :: "env \<Rightarrow> provider \<Rightarrow> string option \<Rightarrow> request \<Rightarrow> unit act" where
  "call e p token req = bindE (get_user (current_user_of e p) (needs_superuser req) token) (handle e req)"

section \<open>Every request keeps the database coherent\<close>

lemma keeps_no_response [keeps_intros]: "keeps I m \<Longrightarrow> keeps I (no_response m)"
  unfolding no_response_def by (intro keeps_intros)

lemma user_repo_coherent [coherent_keeps]: "keeps coherent (user_repo_create now name ud su)"
proof (rule keeps_coherent [OF user_repo_db(1)])
  show "keeps types_ok (user_repo_create now name ud su)"
    unfolding user_repo_create_def
    by (rule keeps_exec_rethrow, rule types_ok_frame, assumption)
      (auto simp: insert_user_def Let_def split: if_splits)
qed

lemma read_or_create_coherent [coherent_keeps]: "keeps coherent (read_or_create now login ud)"
  unfolding read_or_create_def by (intro keeps_intros coherent_keeps user_repo_pure [THEN pure_keeps])

text \<open>What every provider keeps, given that looking a user up or creating it does.\<close>

lemma current_user_keeps:
  assumes "\<And>now login ud. keeps I (read_or_create now login ud)"
  shows "keeps I (current_user_of e p token)"
proof -
  have c: "keeps I (user_of_claims now info)" for now info
    unfolding user_of_claims_def by (intro keeps_intros assms)
  have "keeps I (dummy_get_current_user j now token)" for j now
    unfolding dummy_get_current_user_def by (intro keeps_intros user_repo_pure [THEN pure_keeps])
  moreover have "keeps I (keycloak_get_current_user kc now refresh token)" for kc now refresh
    unfolding keycloak_get_current_user_def by (intro keeps_intros c)
  moreover have "keeps I (gateway_get_current_user kc now token)" for kc now
    unfolding gateway_get_current_user_def by (intro keeps_intros c)
  ultimately show ?thesis by (cases p) (simp_all add: current_user_of_def)
qed

lemma get_user_dep_keeps:
  "(\<And>now login ud. keeps I (read_or_create now login ud)) \<Longrightarrow> keeps I (get_user (current_user_of e p) su token)"
  unfolding get_user_def by (intro keeps_intros current_user_keeps)

text \<open>The read handlers keep everything, so only the others are listed.\<close>

lemma keeps_handle:
  assumes "\<And>now d. keeps I (create_group now d u)" "\<And>now g d. keeps I (update_group now g d u)"
    "\<And>g. keeps I (delete_group g)"
    "\<And>g i role. role \<in> set public_roles \<Longrightarrow> keeps I (update_user_role_group g i role u)"
    "\<And>g i role. role \<in> set public_roles \<Longrightarrow> keeps I (add_user_to_group g i role u)"
    "\<And>g i. keeps I (delete_user_from_group g i u)"
    "\<And>lax c rnd now g d. keeps I (create_connection lax c rnd now g d u)"
    "\<And>lax c rnd now i d. keeps I (update_connection lax c rnd now i d u)"
    "\<And>i. keeps I (delete_connection i u)" "\<And>lax i d. keeps I (copy_connection lax i d u)"
    "\<And>now d. keeps I (create_transfer now d u)" "\<And>i d. keeps I (copy_transfer i d u)"
    "\<And>now i d. keeps I (update_transfer now i d u)" "\<And>i. keeps I (delete_transfer i u)"
    "\<And>now d. keeps I (create_queue now d u)" "\<And>now i d. keeps I (update_queue now i d u)"
    "\<And>ts i. keeps I (delete_queue ts i u)"
    and "\<And>lax c av now t. req = StartRun t \<Longrightarrow> keeps I (start_run lax c av now t u)"
    and "\<And>now i. req = StopRun i \<Longrightarrow> keeps I (stop_run now i u)"
    and "validated req"
  shows "keeps I (handle e req u)"
  using assms handler_pure [THEN pure_keeps]
  by (cases req) (simp_all add: keeps_no_response read_connection_types_def keeps_return)

lemma handle_coherent: "validated req \<Longrightarrow> keeps coherent (handle e req u)"
  by (rule keeps_handle) (auto intro: coherent_keeps)

lemma call_coherent: "validated req \<Longrightarrow> keeps coherent (call e p token req)"
  unfolding call_def by (intro keeps_intros get_user_dep_keeps coherent_keeps handle_coherent)

lemma handle_run_keeps:
  "validated req \<Longrightarrow> (\<forall>t. req \<noteq> StartRun t) \<Longrightarrow> (\<forall>i. req \<noteq> StopRun i) \<Longrightarrow> keeps (run_inv n P) (handle e req u)"
  by (rule keeps_handle) (auto intro: run_keeps)

lemma get_user_run_keeps: "keeps (run_inv n P) (get_user (current_user_of e p) su token)"
  by (intro get_user_dep_keeps run_keeps)

end
