(* ===== verification/Sync_Machine.thy ===== *)
theory Sync_Machine
  imports Sync_Api
begin

text \<open>
  The whole system as a step relation: API requests, logins, the superuser script, jobs fired by the
  scheduler, and workers that pick messages from the broker, execute and report.  Each step is one
  session of the code; a worker that has started a run is remembered until it reports.  A message is
  delivered once.
\<close>

section \<open>Steps\<close>

record system =
  sess :: "db session"
  executing :: "int list"
  failing :: "int list"

definition initial :: "system \<Rightarrow> bool" where
  "initial \<sigma> \<longleftrightarrow> sess \<sigma> = \<lparr>committed = empty_db, working = empty_db, broker = []\<rparr> \<and>
     executing \<sigma> = [] \<and> failing \<sigma> = []"

definition consume :: "string \<times> int \<Rightarrow> db session \<Rightarrow> db session" where
  "consume m s = s\<lparr>broker := remove1 m (broker s)\<rparr>"

text \<open>
  What workers do.  \<open>finish\<close> is the end of a worker whose transfer was performed or raised, \<open>report\<close> the end of one that
  raised before it had started the run.
\<close>

inductive worker_step :: "system \<Rightarrow> system \<Rightarrow> bool" where
  skip: "m \<in> set (broker (sess \<sigma>)) \<Longrightarrow>
    serve (worker_start c render now (snd m)) (consume m (sess \<sigma>)) = (Inr None, s') \<Longrightarrow>
    worker_step \<sigma> (\<sigma>\<lparr>sess := s'\<rparr>)"
| pick: "m \<in> set (broker (sess \<sigma>)) \<Longrightarrow>
    serve (worker_start c render now (snd m)) (consume m (sess \<sigma>)) = (Inr (Some ctx), s') \<Longrightarrow>
    worker_step \<sigma> (\<sigma>\<lparr>sess := s', executing := snd m # executing \<sigma>\<rparr>)"
| pick_fails: "m \<in> set (broker (sess \<sigma>)) \<Longrightarrow>
    serve (worker_start c render now (snd m)) (consume m (sess \<sigma>)) = (Inl e, s') \<Longrightarrow>
    worker_step \<sigma> (\<sigma>\<lparr>sess := s', failing := snd m # failing \<sigma>\<rparr>)"
| finish: "rid \<in> set (executing \<sigma>) \<Longrightarrow> st \<in> {FINISHED, FAILED} \<Longrightarrow>
    serve (worker_finish now rid st) (sess \<sigma>) = (a, s') \<Longrightarrow>
    worker_step \<sigma> (\<sigma>\<lparr>sess := s', executing := remove1 rid (executing \<sigma>)\<rparr>)"
| report: "rid \<in> set (failing \<sigma>) \<Longrightarrow> serve (worker_finish now rid FAILED) (sess \<sigma>) = (a, s') \<Longrightarrow>
    worker_step \<sigma> (\<sigma>\<lparr>sess := s', failing := remove1 rid (failing \<sigma>)\<rparr>)"

inductive step :: "system \<Rightarrow> system \<Rightarrow> bool" where
  request: "serve (call e p token req) (sess \<sigma>) = (r, s') \<Longrightarrow> validated req \<Longrightarrow> step \<sigma> (\<sigma>\<lparr>sess := s'\<rparr>)"
| login: "serve (dummy_get_token_password_grant j now ex name pw) (sess \<sigma>) = (t, s') \<Longrightarrow> step \<sigma> (\<sigma>\<lparr>sess := s'\<rparr>)"
| add_admins: "serve (add_superusers now names) (sess \<sigma>) = (a, s') \<Longrightarrow> step \<sigma> (\<sigma>\<lparr>sess := s'\<rparr>)"
| remove_admins: "serve (remove_superusers now names) (sess \<sigma>) = (a, s') \<Longrightarrow> step \<sigma> (\<sigma>\<lparr>sess := s'\<rparr>)"
| fire: "serve (send_job_to_celery lax c av now tid) (sess \<sigma>) = (a, s') \<Longrightarrow> step \<sigma> (\<sigma>\<lparr>sess := s'\<rparr>)"
| work: "worker_step \<sigma> \<tau> \<Longrightarrow> step \<sigma> \<tau>"

inductive reachable :: "system \<Rightarrow> bool" where
  init: "initial \<sigma> \<Longrightarrow> reachable \<sigma>"
| next_step: "reachable \<sigma> \<Longrightarrow> step \<sigma> \<tau> \<Longrightarrow> reachable \<tau>"

inductive steps :: "system \<Rightarrow> system \<Rightarrow> bool" where
  none: "steps \<sigma> \<sigma>"
| more: "step \<sigma> \<tau> \<Longrightarrow> steps \<tau> \<upsilon> \<Longrightarrow> steps \<sigma> \<upsilon>"

section \<open>What a step does to runs and messages\<close>

text \<open>
  Runs only disappear or stay; or one fresh run is launched; or one run that is created or started is
  asked to stop.
\<close>

definition frame :: "db session \<Rightarrow> db session \<Rightarrow> bool" where
  "frame s s' \<longleftrightarrow> fewer_runs (committed s') ((committed s)\<lparr>seq_run := seq_run (committed s')\<rparr>) \<and>
     seq_run (committed s) \<le> seq_run (committed s') \<and> broker s' = broker s"

definition stopped :: "db session \<Rightarrow> db session \<Rightarrow> bool" where
  "stopped s s' \<longleftrightarrow> (\<exists>r now. r \<in> set (runs (committed s)) \<and> run_status r \<in> {CREATED, STARTED} \<and>
     runs (committed s') = set_row (r\<lparr>run_status := SEND_STOP_SIGNAL, updated_at := now\<rparr>) (runs (committed s)) \<and>
     seq_run (committed s') = seq_run (committed s) \<and> broker s' = broker s)"

definition effect :: "db session \<Rightarrow> db session \<Rightarrow> bool" where
  "effect s s' \<longleftrightarrow> frame s s' \<or> launched s s' \<or> stopped s s'"

lemma frame_refl: "committed s' = committed s \<Longrightarrow> broker s' = broker s \<Longrightarrow> frame s s'"
  by (simp add: frame_def fewer_runs_def)

lemma frame_of_keeps:
  assumes k: "\<And>n P. keeps (run_inv n P) m" and q: "quiet m"
    and r: "m s = (r, s')" and c: "committed s = working s"
  shows "frame s s'"
proof -
  have "run_inv (seq_run (committed s)) (\<lambda>r. r \<in> set (runs (committed s))) (committed s)"
    by (simp add: run_inv_def)
  with keepsD [OF k r, of "seq_run (committed s)" "\<lambda>r. r \<in> set (runs (committed s))"] c
  have "run_inv (seq_run (committed s)) (\<lambda>r. r \<in> set (runs (committed s))) (committed s')" by simp
  with quietD [OF q r] show ?thesis by (auto simp: run_inv_def frame_def fewer_runs_def)
qed

lemma stop_run_stopped:
  assumes "stop_run now i u s = (r, s')" and "committed s = working s"
  shows "frame s s' \<or> stopped s s'"
proof -
  consider "committed s' = committed s \<and> broker s' = broker s"
    | r0 d x where "get_row i (runs (working s)) = Some r0" "run_status r0 \<in> {CREATED, STARTED}"
      "update_run_row i (\<lambda>r. r\<lparr>run_status := SEND_STOP_SIGNAL, updated_at := now\<rparr>) (working s) = Inr (x, d)"
      "s' = s\<lparr>working := d, committed := d\<rparr>"
    using assms
    by (cases r)
      (auto simp: stop_run_def run_repo_stop_def run_repo_read_by_id_def run_simps split: if_splits option.splits)
  then show ?thesis
  proof cases
    case 1
    then show ?thesis using frame_refl by blast
  next
    case 2
    from get_row_Some [OF 2(1)] have r0: "r0 \<in> set (runs (working s))" "pk r0 = i" by auto
    have "x = r0\<lparr>run_status := SEND_STOP_SIGNAL, updated_at := now, pk := i\<rparr>"
      using runs.upd_law [OF 2(3)] 2(1) by auto
    also have "\<dots> = r0\<lparr>run_status := SEND_STOP_SIGNAL, updated_at := now\<rparr>" using r0(2) by (cases r0) simp
    finally have "runs d = set_row (r0\<lparr>run_status := SEND_STOP_SIGNAL, updated_at := now\<rparr>) (runs (working s)) \<and>
        seq_run d = seq_run (working s)"
      using runs.upd_law [OF 2(3)] by auto
    then have "stopped s s'" using 2(2,4) r0(1) assms(2) by (auto simp: stopped_def)
    then show ?thesis by blast
  qed
qed

lemmas quiet_repo = repo_uncommitted [THEN quiet_uncommitted]

lemma quiet_no_response [quiet_intros]: "quiet m \<Longrightarrow> quiet (no_response m)"
  unfolding no_response_def by (intro quiet_intros)

lemma pure_quiet: "pure m \<Longrightarrow> quiet m"
  by (intro quiet_uncommitted pure_uncommitted)

lemma read_or_create_quiet [quiet_intros]: "quiet (read_or_create now login ud)"
  unfolding read_or_create_def by (intro quiet_intros quiet_repo)

lemma current_user_quiet [quiet_intros]: "quiet (current_user_of e p token)"
proof -
  have "quiet (dummy_get_current_user j now token)" for j now
    unfolding dummy_get_current_user_def by (intro quiet_intros quiet_repo)
  moreover have "quiet (keycloak_get_current_user kc now refresh token)" for kc now refresh
    unfolding keycloak_get_current_user_def user_of_claims_def by (intro quiet_intros)
  moreover have "quiet (gateway_get_current_user kc now token)" for kc now
    unfolding gateway_get_current_user_def user_of_claims_def by (intro quiet_intros)
  ultimately show ?thesis by (cases p) (simp_all add: current_user_of_def)
qed

lemma get_user_quiet [quiet_intros]: "quiet (get_user (current_user_of e p) su token)"
  unfolding get_user_def by (intro quiet_intros)

lemma handlers_quiet:
  "quiet (create_group now cgd u)" "quiet (update_group now gid gd u)"
  "quiet (delete_group gid)" "quiet (update_user_role_group gid uid role u)"
  "quiet (add_user_to_group gid uid role u)" "quiet (delete_user_from_group gid uid u)"
  "quiet (create_queue now qd u)" "quiet (update_queue now qid uqd u)"
  "quiet (delete_queue tst qid u)" "quiet (delete_connection cid u)"
  "quiet (create_connection lax c rnd now gid cd u)"
  "quiet (update_connection lax c rnd now cid ucd u)"
  "quiet (copy_connection lax cid ccd u)"
  "quiet (create_transfer now td u)" "quiet (update_transfer now tid utd u)"
  "quiet (copy_transfer tid ctd u)" "quiet (delete_transfer tid u)" "quiet (stop_run now rid u)"
  unfolding create_group_def update_group_def delete_group_def update_user_role_group_def
      add_user_to_group_def delete_user_from_group_def create_connection_def update_connection_def
      delete_connection_def copy_connection_def create_transfer_def copy_transfer_def update_transfer_def
      delete_transfer_def create_queue_def update_queue_def delete_queue_def stop_run_def
  by (intro quiet_intros quiet_repo)+

lemma handle_quiet: "(\<forall>t. req \<noteq> StartRun t) \<Longrightarrow> quiet (handle e req u)"
  using handler_pure [THEN pure_quiet] handlers_quiet
  by (cases req) (simp_all add: quiet_no_response read_connection_types_def quiet_simple)

lemma current_user_result:
  assumes "get_user (current_user_of e p) su token s = (Inr u, s')" and "db_ok (working s)" and "committed s = working s"
  shows "committed s' = working s' \<and> is_active u \<and> (su \<longrightarrow> is_superuser u) \<and> get_row (pk u) (users (working s')) = Some u"
proof (cases p)
  case (Dummy j)
  then show ?thesis using assms dummy.get_user_active [of j "e_now e" su token s u s'] by (simp add: current_user_of_def)
next
  case (Keycloak kc refresh)
  then show ?thesis
    using assms keycloak.get_user_active [of kc "e_now e" refresh su token s u s'] by (simp add: current_user_of_def)
next
  case (Gateway kc)
  then show ?thesis using assms gateway.get_user_active [of kc "e_now e" su token s u s'] by (simp add: current_user_of_def)
qed

text \<open>A request first identifies its user, which may create a row, and then has one of the effects.\<close>

lemma handle_effect:
  assumes "handle e req u s = (r, s')" and "validated req" and "committed s = working s" and "schema_ok (working s)"
  shows "effect s s'"
proof -
  have nr: "\<exists>r'. m s = (r', s')" if "no_response m s = (r, s')" for m :: "'a act"
    using that by (cases r) (auto simp: no_response_def run_simps)
  show ?thesis
  proof (cases "(\<exists>t. req = StartRun t) \<or> (\<exists>i. req = StopRun i)")
    case True
    then show ?thesis
      using assms(1,3,4) nr start_run_launched stop_run_stopped by (fastforce simp: effect_def)
  next
    case False
    with assms frame_of_keeps [OF handle_run_keeps handle_quiet] show ?thesis by (auto simp: effect_def)
  qed
qed

lemma call_effect:
  assumes "call e p token req s = (r, s')" and "validated req" and "committed s = working s" and "db_ok (committed s)"
  shows "\<exists>t. frame s t \<and> db_ok (committed t) \<and> effect t s'"
proof -
  let ?g = "get_user (current_user_of e p) (needs_superuser req) token"
  from assms(1) consider err where "?g s = (Inl err, s')" | u t where "?g s = (Inr u, t)" "handle e req u t = (r, s')"
    by (cases r) (auto simp: call_def run_simps)
  then show ?thesis
  proof cases
    case 1
    have "frame s s'" by (rule frame_of_keeps [OF get_user_run_keeps get_user_quiet 1 assms(3)])
    with assms(3,4) show ?thesis by (intro exI [of _ s]) (auto simp: effect_def frame_refl)
  next
    case 2
    have k: "keeps db_ok ?g" by (intro get_user_dep_keeps read_or_create_db)
    from keepsD [OF k 2(1)] assms(3,4) have ok: "db_ok (committed t)" "db_ok (working t)" by auto
    have "frame s t" by (rule frame_of_keeps [OF get_user_run_keeps get_user_quiet 2(1) assms(3)])
    moreover have "effect t s'"
      using handle_effect [OF 2(2) assms(2)] current_user_result [OF 2(1)] assms(3,4) db_okD(1) [OF ok(2)] by auto
    ultimately show ?thesis using ok by blast
  qed
qed

section \<open>The invariant of runs\<close>

definition run_ok :: "int set \<Rightarrow> int set \<Rightarrow> run \<Rightarrow> bool" where
  "run_ok es ts r \<longleftrightarrow> (case run_status r of
      CREATED \<Rightarrow> pk r \<in> ts \<and> pk r \<notin> es \<and> started_at r = None \<and> ended_at r = None
    | STARTED \<Rightarrow> pk r \<in> es \<and> started_at r \<noteq> None \<and> ended_at r = None
    | SEND_STOP_SIGNAL \<Rightarrow> ended_at r = None \<and> (pk r \<in> es \<longleftrightarrow> started_at r \<noteq> None)
    | FINISHED \<Rightarrow> pk r \<notin> ts \<and> started_at r \<noteq> None \<and> ended_at r \<noteq> None
    | FAILED \<Rightarrow> pk r \<notin> ts \<and> (ended_at r = None \<longrightarrow> started_at r = None)
    | STOPPED \<Rightarrow> False)"

definition tasks :: "int list \<Rightarrow> int list \<Rightarrow> db session \<Rightarrow> int list" where
  "tasks es fs s = map snd (broker s) @ es @ fs"

definition runs_ok :: "int list \<Rightarrow> int list \<Rightarrow> db session \<Rightarrow> bool" where
  "runs_ok es fs s \<longleftrightarrow> distinct (tasks es fs s) \<and> (\<forall>i \<in> set (tasks es fs s). i < seq_run (committed s)) \<and>
     (\<forall>r \<in> set (runs (committed s)). run_ok (set es) (set (tasks es fs s)) r)"

lemma runs_ok_frame:
  assumes ok: "runs_ok es fs s" and f: "frame s s'"
  shows "runs_ok es fs s'"
proof -
  have t: "tasks es fs s' = tasks es fs s" and sub: "set (runs (committed s')) \<subseteq> set (runs (committed s))"
    and le: "seq_run (committed s) \<le> seq_run (committed s')"
    using f by (auto simp: frame_def tasks_def fewer_runs_def)
  have "i < seq_run (committed s')" if "i \<in> set (tasks es fs s)" for i
    using ok that le by (force simp: runs_ok_def)
  then show ?thesis using ok sub by (auto simp: runs_ok_def t)
qed

lemma keys_lt: "schema_ok d \<Longrightarrow> r \<in> set (runs d) \<Longrightarrow> pk r < seq_run d"
  by (simp add: schema_ok_def pk_ok_def keys_ok_def)

lemma runs_ok_launched:
  assumes ok: "runs_ok es fs s" and sch: "schema_ok (committed s)" and l: "launched s s'"
  shows "runs_ok es fs s'"
  using l unfolding launched_def
proof (elim conjE disjE exE)
  assume "committed s' = committed s" "broker s' = broker s"
  then show ?thesis using ok by (simp add: runs_ok_def tasks_def)
next
  fix r q
  assume r: "fresh_run r (committed s)" "runs (committed s') = runs (committed s) @ [r]"
    "seq_run (committed s') = seq_run (committed s) + 1" "run_status r = CREATED"
    "broker s' = broker s @ [(q, pk r)]"
  have old: "pk r \<notin> set (tasks es fs s)" using ok r(1) by (auto simp: runs_ok_def fresh_run_def)
  have t: "set (tasks es fs s') = insert (pk r) (set (tasks es fs s))" using r(5) by (auto simp: tasks_def)
  have "run_ok (set es) (set (tasks es fs s')) x" if "x \<in> set (runs (committed s))" for x
  proof -
    have "pk x \<noteq> pk r" using keys_lt [OF sch that] r(1) by (simp add: fresh_run_def)
    moreover have "run_ok (set es) (set (tasks es fs s)) x" using ok that by (simp add: runs_ok_def)
    ultimately show ?thesis by (auto simp: run_ok_def t split: status.splits)
  qed
  moreover have "run_ok (set es) (set (tasks es fs s')) r"
    using r(1,4,5) old by (auto simp: run_ok_def fresh_run_def tasks_def)
  moreover have "distinct (tasks es fs s')" using ok old r(5) by (auto simp: runs_ok_def tasks_def)
  moreover have "\<forall>i \<in> set (tasks es fs s'). i < seq_run (committed s')"
    using ok r(1,3) by (auto simp: t runs_ok_def fresh_run_def)
  ultimately show ?thesis using r(2) by (auto simp: runs_ok_def)
next
  fix r q
  assume r: "fresh_run r (committed s)" "runs (committed s') = runs (committed s) @ [r]"
    "seq_run (committed s') = seq_run (committed s) + 1" "run_status r = FAILED" "broker s' = broker s"
  have old: "pk r \<notin> set (tasks es fs s)" using ok r(1) by (auto simp: runs_ok_def fresh_run_def)
  have t: "tasks es fs s' = tasks es fs s" using r(5) by (simp add: tasks_def)
  show ?thesis
    using ok r old by (fastforce simp: runs_ok_def t run_ok_def fresh_run_def)
qed

lemma runs_ok_stopped: "runs_ok es fs s \<Longrightarrow> stopped s s' \<Longrightarrow> runs_ok es fs s'"
  unfolding stopped_def
proof (elim exE conjE)
  fix r now
  assume ok: "runs_ok es fs s" and r: "r \<in> set (runs (committed s))" "run_status r \<in> {CREATED, STARTED}"
    and s': "runs (committed s') = set_row (r\<lparr>run_status := SEND_STOP_SIGNAL, updated_at := now\<rparr>) (runs (committed s))"
      "seq_run (committed s') = seq_run (committed s)" "broker s' = broker s"
  have t: "tasks es fs s' = tasks es fs s" using s'(3) by (simp add: tasks_def)
  have "run_ok (set es) (set (tasks es fs s)) r" using ok r(1) by (simp add: runs_ok_def)
  then have "run_ok (set es) (set (tasks es fs s)) (r\<lparr>run_status := SEND_STOP_SIGNAL, updated_at := now\<rparr>)"
    using r(2) by (auto simp: run_ok_def)
  then show ?thesis
    using ok by (auto simp: runs_ok_def t s'(1,2) dest!: set_set_row)
qed

lemma runs_ok_effect: "runs_ok es fs s \<Longrightarrow> schema_ok (committed s) \<Longrightarrow> effect s s' \<Longrightarrow> runs_ok es fs s'"
  unfolding effect_def using runs_ok_frame runs_ok_launched runs_ok_stopped by blast

section \<open>Workers\<close>

definition same_runs :: "db session \<Rightarrow> db session \<Rightarrow> bool" where
  "same_runs s s' \<longleftrightarrow> committed s' = committed s \<and> broker s' = broker s"

definition run_written :: "run \<Rightarrow> db session \<Rightarrow> db session \<Rightarrow> bool" where
  "run_written r s s' \<longleftrightarrow> runs (committed s') = set_row r (runs (committed s)) \<and>
     seq_run (committed s') = seq_run (committed s) \<and> broker s' = broker s"

lemma update_run_row_Inr:
  assumes "update_run_row i f d = Inr (r, d')" and "\<And>x. pk (f x) = pk x"
  shows "\<exists>r0. get_row i (runs d) = Some r0 \<and> r = f r0 \<and> runs d' = set_row r (runs d) \<and> seq_run d' = seq_run d"
proof -
  from runs.upd_law [OF assms(1)] obtain r0 where r0: "get_row i (runs d) = Some r0" "r = (f r0)\<lparr>pk := i\<rparr>"
    "runs d' = set_row r (runs d)" "seq_run d' = seq_run d" by auto
  have "pk (f r0) = i" using get_row_Some [OF r0(1)] assms(2) by simp
  then have "(f r0)\<lparr>pk := i\<rparr> = f r0" by (cases "f r0") simp
  with r0 show ?thesis by simp
qed

lemma worker_start_effect:
  assumes "worker_start c render now rid s = (res, s')" and "committed s = working s"
  shows "(case res of
      Inr None \<Rightarrow> s' = s \<and> pick_run rid (committed s) = None
    | Inl e \<Rightarrow> s' = s \<and> (\<exists>r. pick_run rid (committed s) = Some r)
    | Inr (Some ctx) \<Rightarrow> \<exists>r url. pick_run rid (committed s) = Some r \<and> get_row rid (runs (committed s)) \<noteq> None \<and>
        run_written (the (get_row rid (runs (committed s)))\<lparr>run_status := STARTED, started_at := Some now,
          log_url := Some url, updated_at := now\<rparr>) s s')"
proof (cases res)
  case (Inl e)
  then show ?thesis using assms
    by (auto simp: worker_start_def run_simps split: option.splits)
next
  case (Inr v)
  show ?thesis
  proof (cases v)
    case None
    with Inr assms show ?thesis by (auto simp: worker_start_def run_simps split: option.splits)
  next
    case (Some ctx)
    with Inr assms obtain r r' url d where "pick_run rid (working s) = Some r"
      and u: "update_run_row rid (\<lambda>r. r\<lparr>run_status := STARTED, started_at := Some now, log_url := Some url,
         updated_at := now\<rparr>) (working s) = Inr (r', d)" and "s' = s\<lparr>working := d, committed := d\<rparr>"
      by (auto simp: worker_start_def run_simps split: option.splits)
    moreover from update_run_row_Inr [OF u] obtain r0 where "get_row rid (runs (working s)) = Some r0"
      "r' = r0\<lparr>run_status := STARTED, started_at := Some now, log_url := Some url, updated_at := now\<rparr>"
      "runs d = set_row r' (runs (working s))" "seq_run d = seq_run (working s)" by auto
    ultimately show ?thesis using Inr Some assms(2) by (auto simp: run_written_def)
  qed
qed

lemma pick_run_Some: "pick_run rid d = Some r \<Longrightarrow> r \<in> set (runs d) \<and> pk r = rid \<and> run_status r = CREATED"
  unfolding pick_run_def by (auto dest!: find_SomeD)

lemma get_row_unique: "schema_ok d \<Longrightarrow> r \<in> set (runs d) \<Longrightarrow> get_row (pk r) (runs d) = Some r"
  using get_row_eq [OF schema_okD(6)] by blast

lemma worker_finish_effect:
  assumes "worker_finish now rid st s = (res, s')" and "committed s = working s" and "schema_ok (committed s)"
  shows "get_row rid (runs (committed s)) = None \<and> s' = s \<or>
     (\<exists>r. get_row rid (runs (committed s)) = Some r \<and>
        run_written (r\<lparr>run_status := st, ended_at := Some now, updated_at := now\<rparr>) s s')"
proof (cases "get_row rid (runs (working s))")
  case None
  then show ?thesis using assms(1,2) by (simp add: worker_finish_def bindE_def query_def return_def)
next
  case (Some r)
  have "has_row (transfer_id r) (transfers (working s))"
    using assms(2,3) get_row_Some [OF Some] by (simp add: schema_ok_def fk_ok_def)
  moreover have "r\<lparr>run_status := st, ended_at := Some now, updated_at := now, pk := rid\<rparr> =
      r\<lparr>run_status := st, ended_at := Some now, updated_at := now\<rparr>"
    using get_row_Some [OF Some] by (cases r) simp
  ultimately show ?thesis
    using Some assms(1,2)
    by (auto simp: worker_finish_def bindE_def query_def return_def uow_def exec_def update_run_row_def Let_def
        run_written_def)
qed

lemma worker_coherent [coherent_keeps]:
  "keeps coherent (worker_start c render now rid)" "keeps coherent (worker_finish now rid st)"
proof -
  have k: "coherent d'" if "coherent d" "update_run_row rid f d = Inr (r, d')" for rid f d r d'
    using row_db(11) [OF that(2)] types_ok_resource_frame(11) [OF _ that(2)] that(1) by (simp add: coherent_def)
  show "keeps coherent (worker_start c render now rid)" "keeps coherent (worker_finish now rid st)"
    unfolding worker_start_def worker_finish_def
    by (intro keeps_intros keeps_exec; erule (1) k)+
qed

lemma user_scripts_coherent [coherent_keeps]:
  "keeps coherent (add_superusers now names)" "keeps coherent (remove_superusers now names)"
  "keeps coherent (dummy_get_token_password_grant j now ex name pw)"
proof -
  have ss: "types_ok d \<Longrightarrow> types_ok (set_superuser now su names d)" for d now su names
    by (simp add: types_ok_def set_superuser_def)
  have au: "types_ok d \<Longrightarrow> add_users now ns d = Inr d' \<Longrightarrow> types_ok d'" for now ns d d'
  proof (induction ns arbitrary: d)
    case (Cons n ns)
    from Cons.prems(2) obtain u e where e: "insert_user (new_user now n no_user_data True) d = Inr (u, e)"
      and r: "add_users now ns e = Inr d'" by (auto split: sum.splits)
    have "types_ok e" using types_ok_frame [OF Cons.prems(1), of e] e
      by (auto simp: insert_user_def Let_def split: if_splits)
    then show ?case using Cons.IH r by blast
  qed simp
  have "keeps types_ok (add_superusers now names)"
    unfolding add_superusers_def Let_def
    by (intro keeps_intros keeps_exec) (auto split: sum.splits intro: au ss)
  then show "keeps coherent (add_superusers now names)" by (rule keeps_coherent [OF superuser_scripts_db(1)])
  have "keeps types_ok (remove_superusers now names)"
    unfolding remove_superusers_def by (intro keeps_intros keeps_exec) (auto intro: ss)
  then show "keeps coherent (remove_superusers now names)" by (rule keeps_coherent [OF superuser_scripts_db(2)])
  show "keeps coherent (dummy_get_token_password_grant j now ex name pw)"
    unfolding dummy_get_token_password_grant_def
    by (auto intro!: keeps_intros coherent_keeps split: option.split prod.split)
qed

lemma user_scripts_frame:
  assumes "committed s = working s"
  shows "add_superusers now names s = (r1, s') \<Longrightarrow> frame s s'" "remove_superusers now names s = (r2, s') \<Longrightarrow> frame s s'"
    "dummy_get_token_password_grant j now ex name pw s = (r3, s') \<Longrightarrow> frame s s'"
proof -
  have au: "run_inv n P d \<Longrightarrow> add_users now ns d = Inr d' \<Longrightarrow> run_inv n P d'" for n P now ns d d'
  proof (induction ns arbitrary: d)
    case (Cons m ns)
    from Cons.prems(2) obtain u e where "insert_user (new_user now m no_user_data True) d = Inr (u, e)"
      and r: "add_users now ns e = Inr d'" by (auto split: sum.splits)
    then have "run_inv n P e" using run_frame(1) Cons.prems(1) by blast
    then show ?case using Cons.IH r by blast
  qed simp
  have ss: "run_inv n P d \<Longrightarrow> run_inv n P (set_superuser now su names d)" for n P now su names d
    by (simp add: run_inv_def set_superuser_def)
  have "keeps (run_inv n P) (add_superusers now names)" for n P
    unfolding add_superusers_def Let_def
    by (intro keeps_intros keeps_exec) (auto split: sum.splits intro: au ss)
  moreover have "keeps (run_inv n P) (remove_superusers now names)" for n P
    unfolding remove_superusers_def by (intro keeps_intros keeps_exec) (auto intro: ss)
  moreover have "keeps (run_inv n P) (dummy_get_token_password_grant j now ex name pw)" for n P
    unfolding dummy_get_token_password_grant_def
    by (auto intro!: keeps_intros run_keeps split: option.split prod.split)
  moreover have "quiet (add_superusers now names)" "quiet (remove_superusers now names)"
    unfolding add_superusers_def remove_superusers_def by (intro quiet_intros)+
  moreover have "quiet (dummy_get_token_password_grant j now ex name pw)"
    unfolding dummy_get_token_password_grant_def
    by (auto intro!: quiet_intros split: option.split prod.split)
  ultimately show "add_superusers now names s = (r1, s') \<Longrightarrow> frame s s'"
    "remove_superusers now names s = (r2, s') \<Longrightarrow> frame s s'"
    "dummy_get_token_password_grant j now ex name pw s = (r3, s') \<Longrightarrow> frame s s'"
    using assms by (blast intro: frame_of_keeps)+
qed

section \<open>Worker steps keep the invariant of runs\<close>

lemma tasks_consume:
  assumes "runs_ok es fs s" and "m \<in> set (broker s)"
  shows "distinct (snd m # tasks es fs (consume m s))" "set (tasks es fs s) = insert (snd m) (set (tasks es fs (consume m s)))"
    "committed (consume m s) = committed s"
proof -
  obtain xs ys where b: "broker s = xs @ m # ys" "m \<notin> set xs" using assms(2) by (meson split_list_first)
  then have "remove1 m (broker s) = xs @ ys" by (simp add: remove1_append)
  with b assms(1) show "distinct (snd m # tasks es fs (consume m s))"
    "set (tasks es fs s) = insert (snd m) (set (tasks es fs (consume m s)))"
    by (auto simp: runs_ok_def tasks_def consume_def)
qed (simp add: consume_def)

lemma run_ok_other:
  "run_ok es (insert i ts) x \<Longrightarrow> pk x \<noteq> i \<Longrightarrow> set es' - {i} = es - {i} \<Longrightarrow> set ts' - {i} = ts - {i} \<Longrightarrow>
     run_ok (set es') (set ts') x"
proof -
  assume a: "run_ok es (insert i ts) x" "pk x \<noteq> i" "set es' - {i} = es - {i}" "set ts' - {i} = ts - {i}"
  then have "pk x \<in> set es' \<longleftrightarrow> pk x \<in> es" "pk x \<in> set ts' \<longleftrightarrow> pk x \<in> ts" by blast+
  with a(1,2) show ?thesis by (auto simp: run_ok_def split: status.splits)
qed

lemma pick_run_None: "pick_run i d = None \<Longrightarrow> x \<in> set (runs d) \<Longrightarrow> run_status x = CREATED \<Longrightarrow> pk x \<noteq> i"
  by (auto simp: pick_run_def find_None_iff)

lemma runs_ok_dropped:
  assumes ok: "runs_ok es fs s" and m: "m \<in> set (broker s)" and n: "pick_run (snd m) (committed s) = None"
  shows "runs_ok es fs (consume m s)"
proof -
  note t = tasks_consume [OF ok m]
  have "run_ok (set es) (set (tasks es fs (consume m s))) x" if "x \<in> set (runs (committed s))" for x
    using ok that t(2) pick_run_None [OF n that] by (auto simp: runs_ok_def run_ok_def split: status.splits)
  moreover have "i < seq_run (committed s)" if "i \<in> set (tasks es fs (consume m s))" for i
    using ok that t(2) by (simp add: runs_ok_def)
  ultimately show ?thesis using t(1,3) by (simp add: runs_ok_def)
qed

lemma runs_ok_failing:
  assumes ok: "runs_ok es fs s" and m: "m \<in> set (broker s)" and r: "pick_run (snd m) (committed s) = Some r"
    and sch: "schema_ok (committed s)"
  shows "runs_ok es (snd m # fs) (consume m s)"
proof -
  note t = tasks_consume [OF ok m]
  have e: "set (tasks es (snd m # fs) (consume m s)) = set (tasks es fs s)"
    by (auto simp: t(2)) (auto simp: tasks_def)
  have "distinct (tasks es (snd m # fs) (consume m s))" using t(1) by (auto simp: tasks_def)
  then show ?thesis using ok t(3) by (simp add: runs_ok_def e)
qed

lemma runs_ok_started:
  assumes ok: "runs_ok es fs s" and m: "m \<in> set (broker s)" and r: "pick_run (snd m) (committed s) = Some r"
    and sch: "schema_ok (committed s)"
    and w: "run_written (r\<lparr>run_status := STARTED, started_at := Some now, log_url := Some url, updated_at := now\<rparr>)
      (consume m s) s'"
  shows "runs_ok (snd m # es) fs s'"
proof -
  note t = tasks_consume [OF ok m]
  let ?r = "r\<lparr>run_status := STARTED, started_at := Some now, log_url := Some url, updated_at := now\<rparr>"
  have r': "r \<in> set (runs (committed s))" "pk r = snd m" "run_status r = CREATED" using pick_run_Some [OF r] by auto
  have b: "broker s' = broker (consume m s)" and rs: "runs (committed s') = set_row ?r (runs (committed s))"
    and sq: "seq_run (committed s') = seq_run (committed s)"
    using w t(3) by (auto simp: run_written_def)
  have e: "set (tasks (snd m # es) fs s') = set (tasks es fs s)"
    using b by (auto simp: t(2)) (auto simp: tasks_def)
  have "run_ok (set (snd m # es)) (set (tasks es fs s)) x" if "x \<in> set (runs (committed s'))" for x
  proof (cases "x = ?r")
    case True
    have "ended_at r = None" using ok r'(1,3) by (force simp: runs_ok_def run_ok_def)
    with True show ?thesis using r'(2) by (simp add: run_ok_def)
  next
    case False
    with that rs have x: "x \<in> set (runs (committed s))" "pk x \<noteq> snd m" using set_set_row r'(2) by fastforce+
    then have "run_ok (set es) (set (tasks es fs s)) x" using ok by (simp add: runs_ok_def)
    with x(2) show ?thesis by (auto simp: run_ok_def split: status.splits)
  qed
  moreover have "distinct (tasks (snd m # es) fs s')" using t(1) b by (auto simp: tasks_def)
  moreover have "\<forall>i \<in> set (tasks (snd m # es) fs s'). i < seq_run (committed s')" using ok by (simp add: e sq runs_ok_def)
  ultimately show ?thesis by (simp add: runs_ok_def e)
qed

text \<open>A worker that reports leaves its list, and its run, if it still exists, is finished or failed.\<close>

lemma runs_ok_ended:
  assumes ok: "runs_ok es fs s" and sub: "set (tasks es fs s) = insert i (set (tasks es' fs' s))"
    and ds: "distinct (tasks es' fs' s)" "i \<notin> set (tasks es' fs' s)" and es: "set es - {i} = set es' - {i}"
    and cs: "get_row i (runs (committed s)) = None \<and> s' = s \<or>
     (\<exists>r. get_row i (runs (committed s)) = Some r \<and> st \<in> {FINISHED, FAILED} \<and> (st = FINISHED \<longrightarrow> started_at r \<noteq> None) \<and>
        run_written (r\<lparr>run_status := st, ended_at := Some now, updated_at := now\<rparr>) s s')"
  shows "runs_ok es' fs' s'"
proof -
  have old: "run_ok (set es') (set (tasks es' fs' s)) x" if "x \<in> set (runs (committed s))" "pk x \<noteq> i" for x
    using ok that es sub by (intro run_ok_other [of "set es" i "set (tasks es' fs' s)"]) (auto simp: runs_ok_def)
  have lt: "\<forall>j \<in> set (tasks es' fs' s). j < seq_run (committed s)" using ok sub by (simp add: runs_ok_def)
  from cs show ?thesis
  proof (elim disjE conjE exE)
    assume "get_row i (runs (committed s)) = None" "s' = s"
    with old lt ds show ?thesis by (auto simp: runs_ok_def get_row_None)
  next
    fix r
    assume r: "get_row i (runs (committed s)) = Some r" "st \<in> {FINISHED, FAILED}" "st = FINISHED \<longrightarrow> started_at r \<noteq> None"
      and w: "run_written (r\<lparr>run_status := st, ended_at := Some now, updated_at := now\<rparr>) s s'"
    let ?r = "r\<lparr>run_status := st, ended_at := Some now, updated_at := now\<rparr>"
    have t: "tasks es' fs' s' = tasks es' fs' s" using w by (simp add: tasks_def run_written_def)
    have "run_ok (set es') (set (tasks es' fs' s)) ?r"
      using r ds(2) get_row_Some [OF r(1)] by (auto simp: run_ok_def)
    moreover have "x = ?r \<or> x \<in> set (runs (committed s)) \<and> pk x \<noteq> i" if "x \<in> set (runs (committed s'))" for x
      using that w set_set_row [of x ?r] get_row_Some [OF r(1)] by (auto simp: run_written_def)
    ultimately show ?thesis using old lt ds w by (auto simp: runs_ok_def t run_written_def)
  qed
qed

section \<open>Every step keeps the invariant\<close>

definition sys_inv :: "system \<Rightarrow> bool" where
  "sys_inv \<sigma> \<longleftrightarrow> committed (sess \<sigma>) = working (sess \<sigma>) \<and> coherent (committed (sess \<sigma>)) \<and>
     runs_ok (executing \<sigma>) (failing \<sigma>) (sess \<sigma>)"

lemma serve_at_rest:
  assumes "serve m s = (r, s')" and "committed s = working s"
  shows "\<exists>t. m s = (r, t) \<and> s' = t\<lparr>working := committed t\<rparr>"
proof -
  have "s\<lparr>working := committed s\<rparr> = s" using assms(2) by simp
  with assms(1) show ?thesis by (auto simp: run_simps)
qed

lemma runs_ok_rest [simp]: "runs_ok es fs (t\<lparr>working := d\<rparr>) = runs_ok es fs t"
  by (simp add: runs_ok_def tasks_def)

lemma sys_invI:
  assumes "serve m s = (r, s')" and "committed s = working s" and "coherent (committed s)" and "keeps coherent m"
    and "\<And>t. m s = (r, t) \<Longrightarrow> runs_ok es fs t"
  shows "committed s' = working s' \<and> coherent (committed s') \<and> runs_ok es fs s'"
proof -
  from serve_at_rest [OF assms(1,2)] obtain t where "m s = (r, t)" "s' = t\<lparr>working := committed t\<rparr>" by blast
  with keeps_serve [OF assms(4,1,3)] assms(5) show ?thesis by auto
qed

lemma executing_started:
  assumes "runs_ok es fs s" and "i \<in> set es" and "get_row i (runs (committed s)) = Some r"
  shows "started_at r \<noteq> None"
proof -
  from get_row_Some [OF assms(3)] have r: "r \<in> set (runs (committed s))" "pk r = i" by auto
  have "pk r \<in> set es" "pk r \<in> set (tasks es fs s)" using assms(2) r(2) by (simp_all add: tasks_def)
  moreover have "run_ok (set es) (set (tasks es fs s)) r" using assms(1) r(1) by (simp add: runs_ok_def)
  ultimately show ?thesis by (cases "run_status r") (auto simp: run_ok_def)
qed

lemma worker_ended:
  assumes ok: "runs_ok es fs s" and sch: "schema_ok (committed s)" and c: "committed s = working s"
    and w: "worker_finish now i st s = (a, t)" and st: "st \<in> {FINISHED, FAILED}"
    and i: "st = FINISHED \<longrightarrow> i \<in> set es"
    and sub: "set (tasks es fs s) = insert i (set (tasks es' fs' s))"
    and ds: "distinct (tasks es' fs' s)" "i \<notin> set (tasks es' fs' s)" and es: "set es - {i} = set es' - {i}"
  shows "runs_ok es' fs' t"
proof (rule runs_ok_ended [OF ok sub ds es])
  show "get_row i (runs (committed s)) = None \<and> t = s \<or>
     (\<exists>r. get_row i (runs (committed s)) = Some r \<and> st \<in> {FINISHED, FAILED} \<and>
        (st = FINISHED \<longrightarrow> started_at r \<noteq> None) \<and>
        run_written (r\<lparr>run_status := st, ended_at := Some now, updated_at := now\<rparr>) s t)"
    using worker_finish_effect [OF w c sch] st i executing_started [OF ok] by blast
qed

lemma sys_invD:
  assumes "sys_inv \<sigma>"
  shows "committed (sess \<sigma>) = working (sess \<sigma>)" "coherent (committed (sess \<sigma>))"
    "runs_ok (executing \<sigma>) (failing \<sigma>) (sess \<sigma>)" "schema_ok (committed (sess \<sigma>))"
  using assms coherentD by (auto simp: sys_inv_def)

lemma worker_step_inv:
  assumes "worker_step \<sigma> \<tau>" and "sys_inv \<sigma>"
  shows "sys_inv \<tau>"
proof -
  note c = sys_invD(1) [OF assms(2)] and coh = sys_invD(2) [OF assms(2)] and ok = sys_invD(3) [OF assms(2)]
    and sch = sys_invD(4) [OF assms(2)]
  have cc: "committed (consume m (sess \<sigma>)) = working (consume m (sess \<sigma>))"
    "coherent (committed (consume m (sess \<sigma>)))" "committed (consume m (sess \<sigma>)) = committed (sess \<sigma>)" for m
    using c coh by (simp_all add: consume_def)
  from assms(1) show ?thesis
  proof cases
    case (skip m c' render now s')
    have "runs_ok (executing \<sigma>) (failing \<sigma>) t"
      if "worker_start c' render now (snd m) (consume m (sess \<sigma>)) = (Inr None, t)" for t
      using worker_start_effect [OF that cc(1)] runs_ok_dropped [OF ok skip(2)] by (simp add: cc(3))
    from sys_invI [OF skip(3) cc(1,2) worker_coherent(1) this] skip(1) show ?thesis
      by (auto simp: sys_inv_def)
  next
    case (pick m c' render now ctx s')
    have "runs_ok (snd m # executing \<sigma>) (failing \<sigma>) t"
      if w: "worker_start c' render now (snd m) (consume m (sess \<sigma>)) = (Inr (Some ctx), t)" for t
    proof -
      from worker_start_effect [OF w cc(1)] obtain r url where r: "pick_run (snd m) (committed (sess \<sigma>)) = Some r"
        and w': "run_written (the (get_row (snd m) (runs (committed (sess \<sigma>))))\<lparr>run_status := STARTED,
          started_at := Some now, log_url := Some url, updated_at := now\<rparr>) (consume m (sess \<sigma>)) t"
        by (auto simp: cc(3))
      have "get_row (snd m) (runs (committed (sess \<sigma>))) = Some r"
        using get_row_unique [OF sch, of r] pick_run_Some [OF r] by simp
      with w' runs_ok_started [OF ok pick(2) r sch] show ?thesis by simp
    qed
    from sys_invI [OF pick(3) cc(1,2) worker_coherent(1) this] pick(1) show ?thesis
      by (auto simp: sys_inv_def)
  next
    case (pick_fails m c' render now e s')
    have "runs_ok (executing \<sigma>) (snd m # failing \<sigma>) t"
      if w: "worker_start c' render now (snd m) (consume m (sess \<sigma>)) = (Inl e, t)" for t
      using worker_start_effect [OF w cc(1)] runs_ok_failing [OF ok pick_fails(2) _ sch] by (auto simp: cc(3))
    from sys_invI [OF pick_fails(3) cc(1,2) worker_coherent(1) this] pick_fails(1) show ?thesis
      by (auto simp: sys_inv_def)
  next
    case (finish rid st now r s')
    have d: "distinct (executing \<sigma>)" "rid \<notin> set (map snd (broker (sess \<sigma>)))" "rid \<notin> set (failing \<sigma>)"
      using ok finish(2) by (auto simp: runs_ok_def tasks_def)
    have "runs_ok (remove1 rid (executing \<sigma>)) (failing \<sigma>) t" if w: "worker_finish now rid st (sess \<sigma>) = (r, t)" for t
      by (rule worker_ended [OF ok sch c w finish(3)])
        (use ok finish(2) d in \<open>auto simp: runs_ok_def tasks_def\<close>)
    from sys_invI [OF finish(4) c coh worker_coherent(2) this] finish(1) show ?thesis
      by (auto simp: sys_inv_def)
  next
    case (report rid now r s')
    have d: "distinct (failing \<sigma>)" "rid \<notin> set (map snd (broker (sess \<sigma>)))" "rid \<notin> set (executing \<sigma>)"
      using ok report(2) by (auto simp: runs_ok_def tasks_def)
    have "runs_ok (executing \<sigma>) (remove1 rid (failing \<sigma>)) t" if w: "worker_finish now rid FAILED (sess \<sigma>) = (r, t)" for t
      by (rule worker_ended [OF ok sch c w])
        (use ok report(2) d in \<open>auto simp: runs_ok_def tasks_def\<close>)
    from sys_invI [OF report(3) c coh worker_coherent(2) this] report(1) show ?thesis
      by (auto simp: sys_inv_def)
  qed
qed

lemma step_inv:
  assumes "step \<sigma> \<tau>" and "sys_inv \<sigma>"
  shows "sys_inv \<tau>"
proof -
  note c = sys_invD(1) [OF assms(2)] and coh = sys_invD(2) [OF assms(2)] and ok = sys_invD(3) [OF assms(2)]
    and sch = sys_invD(4) [OF assms(2)]
  from assms(1) show ?thesis
  proof cases
    case (request e p token req r s')
    have "runs_ok (executing \<sigma>) (failing \<sigma>) t" if "call e p token req (sess \<sigma>) = (r, t)" for t
      using call_effect [OF that request(3) c] coherentD [OF coh] runs_ok_frame [OF ok] runs_ok_effect db_okD(1)
      by metis
    from sys_invI [OF request(2) c coh call_coherent [OF request(3)] this] request(1) show ?thesis
      by (auto simp: sys_inv_def)
  next
    case (login j now ex name pw r s')
    have "runs_ok (executing \<sigma>) (failing \<sigma>) t" if "dummy_get_token_password_grant j now ex name pw (sess \<sigma>) = (r, t)" for t
      using runs_ok_frame [OF ok user_scripts_frame(3) [OF c that]] .
    from sys_invI [OF login(2) c coh user_scripts_coherent(3) this] login(1) show ?thesis
      by (auto simp: sys_inv_def)
  next
    case (add_admins now names r s')
    have "runs_ok (executing \<sigma>) (failing \<sigma>) t" if "add_superusers now names (sess \<sigma>) = (r, t)" for t
      using runs_ok_frame [OF ok user_scripts_frame(1) [OF c that]] .
    from sys_invI [OF add_admins(2) c coh user_scripts_coherent(1) this] add_admins(1) show ?thesis
      by (auto simp: sys_inv_def)
  next
    case (remove_admins now names r s')
    have "runs_ok (executing \<sigma>) (failing \<sigma>) t" if "remove_superusers now names (sess \<sigma>) = (r, t)" for t
      using runs_ok_frame [OF ok user_scripts_frame(2) [OF c that]] .
    from sys_invI [OF remove_admins(2) c coh user_scripts_coherent(2) this] remove_admins(1) show ?thesis
      by (auto simp: sys_inv_def)
  next
    case (fire lax c' av now tid r s')
    have "runs_ok (executing \<sigma>) (failing \<sigma>) t" if "send_job_to_celery lax c' av now tid (sess \<sigma>) = (r, t)" for t
      using runs_ok_launched [OF ok sch send_job_launched [OF that c]] sch c by simp
    from sys_invI [OF fire(2) c coh send_job_to_celery_coherent this] fire(1) show ?thesis
      by (auto simp: sys_inv_def)
  next
    case work
    then show ?thesis using worker_step_inv assms(2) by blast
  qed
qed

lemma initial_inv: "initial \<sigma> \<Longrightarrow> sys_inv \<sigma>"
  by (simp add: initial_def sys_inv_def coherent_empty_db runs_ok_def tasks_def) (simp add: empty_db_def)

lemma reachable_inv: "reachable \<sigma> \<Longrightarrow> sys_inv \<sigma>"
  by (induction rule: reachable.induct) (auto intro: initial_inv step_inv)

lemma steps_inv: "steps \<sigma> \<tau> \<Longrightarrow> sys_inv \<sigma> \<Longrightarrow> sys_inv \<tau>"
  by (induction rule: steps.induct) (auto intro: step_inv)

section \<open>Runs that cannot change any more\<close>

text \<open>
  A run that is neither created nor started, and that no worker holds, keeps its row until it is deleted.
\<close>

definition frozen :: "run \<Rightarrow> system \<Rightarrow> bool" where
  "frozen r \<sigma> \<longleftrightarrow> run_status r \<notin> {CREATED, STARTED} \<and> pk r < seq_run (committed (sess \<sigma>)) \<and>
     (\<forall>x \<in> set (runs (committed (sess \<sigma>))). pk x = pk r \<longrightarrow> x = r) \<and>
     pk r \<notin> set (executing \<sigma>) \<and> pk r \<notin> set (failing \<sigma>)"

definition row_frozen :: "run \<Rightarrow> db session \<Rightarrow> bool" where
  "row_frozen r s \<longleftrightarrow> run_status r \<notin> {CREATED, STARTED} \<and> pk r < seq_run (committed s) \<and>
     (\<forall>x \<in> set (runs (committed s)). pk x = pk r \<longrightarrow> x = r)"

lemma frozen_iff: "frozen r \<sigma> \<longleftrightarrow> row_frozen r (sess \<sigma>) \<and> pk r \<notin> set (executing \<sigma>) \<and> pk r \<notin> set (failing \<sigma>)"
  by (auto simp: frozen_def row_frozen_def)

lemma row_frozen_frame: "row_frozen r s \<Longrightarrow> frame s s' \<Longrightarrow> row_frozen r s'"
  unfolding row_frozen_def frame_def fewer_runs_def by auto

lemma row_frozen_launched: "row_frozen r s \<Longrightarrow> launched s s' \<Longrightarrow> row_frozen r s'"
  unfolding row_frozen_def launched_def fresh_run_def by auto

lemma row_frozen_written:
  "row_frozen r s \<Longrightarrow> run_written x s s' \<Longrightarrow> pk x \<noteq> pk r \<Longrightarrow> row_frozen r s'"
  unfolding row_frozen_def run_written_def by (auto dest!: set_set_row)

lemma row_frozen_stopped: "row_frozen r s \<Longrightarrow> stopped s s' \<Longrightarrow> row_frozen r s'"
  unfolding row_frozen_def stopped_def by (fastforce dest!: set_set_row)

lemma row_frozen_effect: "row_frozen r s \<Longrightarrow> effect s s' \<Longrightarrow> row_frozen r s'"
  unfolding effect_def using row_frozen_frame row_frozen_launched row_frozen_stopped by blast

lemma row_frozen_rest [simp]: "row_frozen r (t\<lparr>working := d\<rparr>) = row_frozen r t"
  by (simp add: row_frozen_def)

lemma row_frozen_consume [simp]: "row_frozen r (consume m s) = row_frozen r s"
  by (simp add: row_frozen_def consume_def)

lemma row_frozen_picked: "row_frozen r s \<Longrightarrow> pick_run i (committed s) = Some x \<Longrightarrow> i \<noteq> pk r"
  using pick_run_Some unfolding row_frozen_def by fastforce

lemma row_frozen_serve:
  "serve m s = (v, s') \<Longrightarrow> committed s = working s \<Longrightarrow> (\<And>t. m s = (v, t) \<Longrightarrow> row_frozen r t) \<Longrightarrow> row_frozen r s'"
  using serve_at_rest by fastforce

lemma worker_finish_frozen:
  assumes "worker_finish now i st s = (a, t)" and "committed s = working s" and "schema_ok (committed s)"
    and "row_frozen r s" and "i \<noteq> pk r"
  shows "row_frozen r t"
  using worker_finish_effect [OF assms(1,2,3)] assms(4,5) row_frozen_written get_row_Some by fastforce

lemma worker_step_frozen:
  assumes st: "worker_step \<sigma> \<tau>" and inv: "sys_inv \<sigma>" and fr: "frozen r \<sigma>"
  shows "frozen r \<tau>"
proof -
  note c = sys_invD(1) [OF inv] and coh = sys_invD(2) [OF inv] and sch = sys_invD(4) [OF inv]
  from fr have f: "row_frozen r (sess \<sigma>)" and e: "pk r \<notin> set (executing \<sigma>)" "pk r \<notin> set (failing \<sigma>)"
    by (auto simp: frozen_iff)
  have cc: "committed (consume m (sess \<sigma>)) = working (consume m (sess \<sigma>))"
    "committed (consume m (sess \<sigma>)) = committed (sess \<sigma>)" for m
    using c by (simp_all add: consume_def)
  from st show ?thesis
  proof cases
    case (skip m c' render now s')
    have "row_frozen r t" if "worker_start c' render now (snd m) (consume m (sess \<sigma>)) = (Inr None, t)" for t
      using worker_start_effect [OF that cc(1)] f by simp
    from row_frozen_serve [OF skip(3) cc(1) this] skip(1) e show ?thesis by (simp add: frozen_iff)
  next
    case (pick m c' render now ctx s')
    have "row_frozen r t \<and> snd m \<noteq> pk r"
      if w: "worker_start c' render now (snd m) (consume m (sess \<sigma>)) = (Inr (Some ctx), t)" for t
    proof -
      from worker_start_effect [OF w cc(1)] obtain x url where x: "pick_run (snd m) (committed (sess \<sigma>)) = Some x"
        and w': "run_written (the (get_row (snd m) (runs (committed (sess \<sigma>))))\<lparr>run_status := STARTED,
          started_at := Some now, log_url := Some url, updated_at := now\<rparr>) (consume m (sess \<sigma>)) t"
        by (auto simp: cc(2))
      have "get_row (snd m) (runs (committed (sess \<sigma>))) = Some x"
        using get_row_unique [OF sch, of x] pick_run_Some [OF x] by simp
      then show ?thesis
        using row_frozen_written [OF _ w'] row_frozen_picked [OF f x] f pick_run_Some [OF x] by simp
    qed
    with serve_at_rest [OF pick(3) cc(1)] pick(1) e show ?thesis by (auto simp: frozen_iff)
  next
    case (pick_fails m c' render now err s')
    have "row_frozen r t \<and> snd m \<noteq> pk r"
      if w: "worker_start c' render now (snd m) (consume m (sess \<sigma>)) = (Inl err, t)" for t
      using worker_start_effect [OF w cc(1)] f row_frozen_picked [OF f] by (auto simp: cc(2))
    with serve_at_rest [OF pick_fails(3) cc(1)] pick_fails(1) e show ?thesis by (auto simp: frozen_iff)
  next
    case (finish rid st' now v s')
    have n: "rid \<noteq> pk r" using finish(2) e(1) by blast
    have "row_frozen r t" if "worker_finish now rid st' (sess \<sigma>) = (v, t)" for t
      by (rule worker_finish_frozen [OF that c sch f n])
    from row_frozen_serve [OF finish(4) c this] finish(1) e show ?thesis
      by (auto simp: frozen_iff dest: notin_set_remove1)
  next
    case (report rid now v s')
    have n: "rid \<noteq> pk r" using report(2) e(2) by blast
    have "row_frozen r t" if "worker_finish now rid FAILED (sess \<sigma>) = (v, t)" for t
      by (rule worker_finish_frozen [OF that c sch f n])
    from row_frozen_serve [OF report(3) c this] report(1) e show ?thesis
      by (auto simp: frozen_iff dest: notin_set_remove1)
  qed
qed

lemma step_frozen:
  assumes st: "step \<sigma> \<tau>" and inv: "sys_inv \<sigma>" and fr: "frozen r \<sigma>"
  shows "frozen r \<tau>"
proof -
  note c = sys_invD(1) [OF inv] and coh = sys_invD(2) [OF inv] and sch = sys_invD(4) [OF inv]
  from fr have f: "row_frozen r (sess \<sigma>)" and e: "pk r \<notin> set (executing \<sigma>)" "pk r \<notin> set (failing \<sigma>)"
    by (auto simp: frozen_iff)
  from st show ?thesis
  proof cases
    case (request ev p token req v s')
    have "row_frozen r t" if "call ev p token req (sess \<sigma>) = (v, t)" for t
      using call_effect [OF that request(3) c] coh row_frozen_frame [OF f] row_frozen_effect by (metis coherent_def)
    from row_frozen_serve [OF request(2) c this] request(1) e show ?thesis by (simp add: frozen_iff)
  next
    case (login j now ex name pw v s')
    have "row_frozen r t" if "dummy_get_token_password_grant j now ex name pw (sess \<sigma>) = (v, t)" for t
      using row_frozen_frame [OF f user_scripts_frame(3) [OF c that]] .
    from row_frozen_serve [OF login(2) c this] login(1) e show ?thesis by (simp add: frozen_iff)
  next
    case (add_admins now names v s')
    have "row_frozen r t" if "add_superusers now names (sess \<sigma>) = (v, t)" for t
      using row_frozen_frame [OF f user_scripts_frame(1) [OF c that]] .
    from row_frozen_serve [OF add_admins(2) c this] add_admins(1) e show ?thesis by (simp add: frozen_iff)
  next
    case (remove_admins now names v s')
    have "row_frozen r t" if "remove_superusers now names (sess \<sigma>) = (v, t)" for t
      using row_frozen_frame [OF f user_scripts_frame(2) [OF c that]] .
    from row_frozen_serve [OF remove_admins(2) c this] remove_admins(1) e show ?thesis by (simp add: frozen_iff)
  next
    case (fire lax c' av now tid v s')
    have "row_frozen r t" if "send_job_to_celery lax c' av now tid (sess \<sigma>) = (v, t)" for t
      using row_frozen_launched [OF f send_job_launched [OF that c]] sch c by simp
    from row_frozen_serve [OF fire(2) c this] fire(1) e show ?thesis by (simp add: frozen_iff)
  next
    case work
    then show ?thesis using worker_step_frozen inv fr by blast
  qed
qed

lemma steps_frozen: "steps \<sigma> \<tau> \<Longrightarrow> sys_inv \<sigma> \<Longrightarrow> frozen r \<sigma> \<Longrightarrow> frozen r \<tau>"
  by (induction rule: steps.induct) (auto intro: step_inv step_frozen)

section \<open>Workers come to rest\<close>

text \<open>
  The work that is left: a message takes at most two steps of a worker, a run that a worker holds takes one.
\<close>

definition pending :: "system \<Rightarrow> nat" where
  "pending \<sigma> = 2 * length (broker (sess \<sigma>)) + length (executing \<sigma>) + length (failing \<sigma>)"

inductive worker_steps :: "nat \<Rightarrow> system \<Rightarrow> system \<Rightarrow> bool" where
  idle: "worker_steps 0 \<sigma> \<sigma>"
| one_more: "worker_step \<sigma> \<tau> \<Longrightarrow> worker_steps n \<tau> \<upsilon> \<Longrightarrow> worker_steps (Suc n) \<sigma> \<upsilon>"

lemma worker_start_broker:
  assumes "serve (worker_start c render now rid) (consume m s) = (res, s')" and "committed s = working s"
    and "m \<in> set (broker s)"
  shows "Suc (length (broker s')) = length (broker s)"
proof -
  have c: "committed (consume m s) = working (consume m s)" using assms(2) by (simp add: consume_def)
  from serve_at_rest [OF assms(1) c] obtain t where t: "worker_start c render now rid (consume m s) = (res, t)"
    "broker s' = broker t" by auto
  have "broker t = broker (consume m s)"
    using worker_start_effect [OF t(1) c] by (auto simp: run_written_def split: sum.splits option.splits)
  moreover have "0 < length (broker s)" using assms(3) by (cases "broker s") simp_all
  ultimately show ?thesis using t(2) assms(3) by (simp add: consume_def length_remove1)
qed

lemma worker_finish_broker:
  assumes "serve (worker_finish now i st) s = (a, s')" and "committed s = working s" and "schema_ok (committed s)"
  shows "broker s' = broker s"
proof -
  from serve_at_rest [OF assms(1,2)] obtain t where t: "worker_finish now i st s = (a, t)" "broker s' = broker t" by auto
  show ?thesis using worker_finish_effect [OF t(1) assms(2,3)] t(2) by (auto simp: run_written_def)
qed

lemma worker_step_pending:
  assumes "worker_step \<sigma> \<tau>" and "sys_inv \<sigma>"
  shows "pending \<tau> < pending \<sigma>"
proof -
  note c = sys_invD(1) [OF assms(2)] and sch = sys_invD(4) [OF assms(2)]
  have r: "rid \<in> set xs \<Longrightarrow> Suc (length (remove1 rid xs)) = length xs" for rid and xs :: "int list"
    using length_pos_if_in_set [of rid xs] by (simp add: length_remove1)
  from assms(1) show ?thesis
  proof cases
    case (skip m c' render now s')
    then show ?thesis using worker_start_broker [OF skip(3) c skip(2)] by (simp add: pending_def)
  next
    case (pick m c' render now ctx s')
    then show ?thesis using worker_start_broker [OF pick(3) c pick(2)] by (simp add: pending_def)
  next
    case (pick_fails m c' render now e s')
    then show ?thesis using worker_start_broker [OF pick_fails(3) c pick_fails(2)] by (simp add: pending_def)
  next
    case (finish rid st now a s')
    then show ?thesis using worker_finish_broker [OF finish(4) c sch] r [OF finish(2)] by (simp add: pending_def)
  next
    case (report rid now a s')
    then show ?thesis using worker_finish_broker [OF report(3) c sch] r [OF report(2)] by (simp add: pending_def)
  qed
qed

lemma worker_steps_bounded: "worker_steps n \<sigma> \<tau> \<Longrightarrow> sys_inv \<sigma> \<Longrightarrow> sys_inv \<tau> \<and> n + pending \<tau> \<le> pending \<sigma>"
proof (induction rule: worker_steps.induct)
  case (one_more \<sigma> \<tau> n \<upsilon>)
  with worker_step_inv [OF one_more(1,4)] worker_step_pending [OF one_more(1,4)] show ?case by simp
qed simp

lemma worker_start_possible:
  assumes "m \<in> set (broker (sess \<sigma>))"
  shows "\<exists>\<tau>. worker_step \<sigma> \<tau>"
proof -
  obtain res s' where r: "serve (worker_start undefined (\<lambda>_. Inr []) 0 (snd m)) (consume m (sess \<sigma>)) = (res, s')"
    by (cases "serve (worker_start undefined (\<lambda>_. Inr []) 0 (snd m)) (consume m (sess \<sigma>))")
  consider e where "res = Inl e" | "res = Inr None" | ctx where "res = Inr (Some ctx)"
    by (cases res) auto
  then show ?thesis using r assms by cases (blast intro: worker_step.intros)+
qed

lemma worker_step_possible:
  assumes "pending \<sigma> \<noteq> 0"
  shows "\<exists>\<tau>. worker_step \<sigma> \<tau>"
proof -
  from assms have "broker (sess \<sigma>) \<noteq> [] \<or> executing \<sigma> \<noteq> [] \<or> failing \<sigma> \<noteq> []" by (auto simp: pending_def)
  then show ?thesis
  proof (elim disjE)
    assume "broker (sess \<sigma>) \<noteq> []"
    then show ?thesis using worker_start_possible hd_in_set by blast
  next
    assume "executing \<sigma> \<noteq> []"
    then show ?thesis using worker_step.finish [OF hd_in_set, of \<sigma> FAILED] by (metis insert_iff prod.collapse)
  next
    assume "failing \<sigma> \<noteq> []"
    then show ?thesis using worker_step.report [OF hd_in_set, of \<sigma>] by (metis prod.collapse)
  qed
qed

lemma worker_steps_to_rest:
  "sys_inv \<sigma> \<Longrightarrow> \<exists>n \<tau>. worker_steps n \<sigma> \<tau> \<and> pending \<tau> = 0"
proof (induction "pending \<sigma>" arbitrary: \<sigma> rule: less_induct)
  case less
  show ?case
  proof (cases "pending \<sigma> = 0")
    case False
    then obtain \<tau> where w: "worker_step \<sigma> \<tau>" using worker_step_possible by blast
    with less(1) [OF worker_step_pending [OF w less(2)] worker_step_inv [OF w less(2)]] show ?thesis
      by (blast intro: one_more)
  qed (blast intro: idle)
qed

lemma runs_at_rest:
  assumes "sys_inv \<sigma>" and "pending \<sigma> = 0" and "r \<in> set (runs (committed (sess \<sigma>)))"
  shows "run_status r \<in> {FINISHED, FAILED} \<or> run_status r = SEND_STOP_SIGNAL \<and> started_at r = None"
proof -
  have "run_ok {} {} r" using sys_invD(3) [OF assms(1)] assms(2,3) by (simp add: pending_def runs_ok_def tasks_def)
  then show ?thesis by (cases "run_status r") (auto simp: run_ok_def)
qed

end
