(* ===== verification/Sync_Examples.thy ===== *)
theory Sync_Examples
  imports Sync_Machine
begin

text \<open>
  A small concrete database and the stand-ins for the third-party parameters, on which the hypotheses of
  the properties are shown to hold: an administrator, the owner of a group with a maintainer, a
  developer, a guest, a stranger with a group of his own, two connections with credentials, a queue, a
  scheduled transfer and a finished run.
\<close>

definition ex_user :: "int \<Rightarrow> string \<Rightarrow> bool \<Rightarrow> user" where
  "ex_user i name su = \<lparr>pk = i, created_at = 0, updated_at = 0, username = name, email = None, first_name = None,
     last_name = None, middle_name = None, is_superuser = su, is_active = True\<rparr>"

definition "ex_admin = ex_user 1 ''admin'' True"
definition "ex_owner = ex_user 2 ''owner'' False"
definition "ex_maintainer = ex_user 3 ''maintainer'' False"
definition "ex_developer = ex_user 4 ''developer'' False"
definition "ex_guest = ex_user 5 ''guest'' False"
definition "ex_stranger = ex_user 6 ''stranger'' False"

definition ex_connection :: "int \<Rightarrow> string \<Rightarrow> connection" where
  "ex_connection i name = \<lparr>pk = i, created_at = 0, updated_at = 0, rname = name, group_id = 1,
     rdescription = [], conn_type = HIVE, conn_data = [(''cluster'', JStr ''c'')]\<rparr>"

definition ex_params :: params where
  "ex_params = \<lparr>ptype = HIVE, pfields = [(''table_name'', JStr ''a.b'')]\<rparr>"

definition ex_transfer :: transfer where
  "ex_transfer = \<lparr>pk = 1, created_at = 0, updated_at = 7, rname = ''t'', group_id = 1, rdescription = [],
     source_connection_id = 1, target_connection_id = 2, strategy_params = JObj [(''type'', JStr ''full'')],
     source_params = ex_params, target_params = ex_params, transformations = [], resources = JObj [],
     is_scheduled = True, schedule = ''0 0 * * *'', queue_id = 1\<rparr>"

definition ex_run :: "int \<Rightarrow> status \<Rightarrow> int option \<Rightarrow> int option \<Rightarrow> run" where
  "ex_run i st started ended = \<lparr>pk = i, created_at = 0, updated_at = 0, transfer_id = 1, started_at = started,
     ended_at = ended, run_status = st, run_type = MANUAL, log_url = None, transfer_dump = JNull\<rparr>"

definition ex_fernet :: fernet where
  "ex_fernet = \<lparr>fernet_encrypt = (\<lambda>rnd t. t), fernet_decrypt = Some\<rparr>"

definition ex_secret :: jdict where
  "ex_secret = [(''type'', JStr ''basic''), (''user'', JStr ''u''), (''password'', JStr ''p'')]"

definition ex_db :: db where
  "ex_db = \<lparr>users = [ex_admin, ex_owner, ex_maintainer, ex_developer, ex_guest, ex_stranger],
     groups = [\<lparr>pk = 1, created_at = 0, updated_at = 0, gname = ''g'', gdescription = [], owner_id = 2\<rparr>,
               \<lparr>pk = 2, created_at = 0, updated_at = 0, gname = ''h'', gdescription = [], owner_id = 6\<rparr>],
     user_groups = [\<lparr>ug_user_id = 3, ug_group_id = 1, ug_role = Maintainer\<rparr>,
                    \<lparr>ug_user_id = 4, ug_group_id = 1, ug_role = Developer\<rparr>,
                    \<lparr>ug_user_id = 5, ug_group_id = 1, ug_role = Guest\<rparr>],
     connections = [ex_connection 1 ''c1'', ex_connection 2 ''c2''],
     auth_datas = [\<lparr>ad_connection_id = 1, ad_value = encrypt_auth_data ex_fernet [] ex_secret\<rparr>,
                   \<lparr>ad_connection_id = 2, ad_value = encrypt_auth_data ex_fernet [] ex_secret\<rparr>],
     queues = [\<lparr>pk = 1, created_at = 0, updated_at = 0, rname = ''q'', group_id = 1, rdescription = [],
                slug = ''1-q''\<rparr>],
     transfers = [ex_transfer], runs = [ex_run 1 FINISHED (Some 1) (Some 2)],
     seq_user = 7, seq_group = 3, seq_connection = 3, seq_queue = 2, seq_transfer = 2, seq_run = 2\<rparr>"

definition ex_session :: "db session" where
  "ex_session = \<lparr>committed = ex_db, working = ex_db, broker = []\<rparr>"

text \<open>No coercion: a value must already be of its field's type.\<close>

definition strict :: coercion where
  "strict t v = None"

lemmas ex_users = ex_user_def ex_admin_def ex_owner_def ex_maintainer_def ex_developer_def ex_guest_def
  ex_stranger_def
lemmas ex_defs = ex_users ex_connection_def ex_params_def ex_transfer_def ex_run_def ex_db_def ex_session_def

lemma ex_db_schema: "schema_ok ex_db"
  by (simp add: schema_defs keys_ok_def has_row_def ex_defs)

lemma ex_db_ok: "db_ok ex_db"
  using ex_db_schema by (simp add: db_ok_def) (simp add: roles_ok_def owner_ok_def public_roles_def ex_defs)

lemma ex_coherent: "coherent ex_db"
  using ex_db_ok by (simp add: coherent_def) (simp add: types_ok_def types_match_def ex_defs)

lemma ex_fernet_ok: "fernet_ok ex_fernet"
  by (simp add: fernet_ok_def ex_fernet_def)

lemma strict_stable: "stable strict"
  by (simp add: stable_def strict_def)

lemmas ex_ok = ex_db_schema db_okD(2) [OF ex_db_ok] db_okD(3) [OF ex_db_ok] ex_db_ok ex_coherent ex_fernet_ok
  strict_stable

text \<open>A job store over an association list, with any text but the empty one as a crontab.\<close>

definition ex_store :: "((string \<times> string job) list, string) job_store" where
  "ex_store = \<lparr>get_job = map_of, get_jobs = map fst, add_job = (\<lambda>s i j. (i, j) # s),
     modify_job = (\<lambda>s i j. (i, j) # filter (\<lambda>x. fst x \<noteq> i) s),
     remove_job = (\<lambda>s i. filter (\<lambda>x. fst x \<noteq> i) s),
     from_crontab = (\<lambda>c. if c = [] then None else Some c)\<rparr>"

lemma map_of_remove: "map_of (filter (\<lambda>x. fst x \<noteq> i) s) k = (if k = i then None else map_of s k)"
  by (induction s) auto

lemma ex_store_ok: "store_ok ex_store"
proof -
  have "i \<in> fst ` set s \<longleftrightarrow> map_of s i \<noteq> None" for s :: "(string \<times> string job) list" and i
    by (simp add: map_of_eq_None_iff)
  then show ?thesis by (simp add: store_ok_def ex_store_def map_of_remove)
qed

text \<open>A system at rest in the example database, and one that has been reached by a login.\<close>

definition ex_system :: system where
  "ex_system = \<lparr>sess = ex_session, executing = [], failing = []\<rparr>"

lemma ex_system_inv: "sys_inv ex_system"
  using ex_coherent by (simp add: sys_inv_def ex_system_def ex_session_def runs_ok_def tasks_def)
    (simp add: run_ok_def ex_defs)

section \<open>A reachable system\<close>

text \<open>
  From the empty database: a login creates a user, who creates a group, two connections, a queue and a
  transfer through the API and starts a run of it, which a worker picks up.
\<close>

definition ex_jwt :: jwt where
  "ex_jwt = \<lparr>jwt_encode = (\<lambda>p. json_print (JObj p)),
     jwt_decode = (\<lambda>now t. case json_loads t of Some (JObj p) \<Rightarrow> Some p | _ \<Rightarrow> None)\<rparr>"

definition ex_token :: string where
  "ex_token = fst (generate_access_token ex_jwt 0 60 1)"

definition ex_search :: "'r text_search" where
  "ex_search = \<lparr>collate = id, to_tsquery_match = (\<lambda>r q. True), plainto_tsquery_match = (\<lambda>r q. True),
     ts_rank = (\<lambda>r q. 0)\<rparr>"

definition ex_env :: env where
  "ex_env = \<lparr>e_now = 5, e_rnd = [], e_lax = strict, e_fernet = ex_fernet, e_broker_available = True,
     e_groups = ex_search, e_connections = ex_search, e_queues = ex_search, e_transfers = ex_search,
     e_similar = (\<lambda>a b. True)\<rparr>"

definition ex_connection_request :: "string \<Rightarrow> request" where
  "ex_connection_request name = CreateConnection 1 \<lparr>cs_name = name, cs_description = [], cs_type = HIVE,
     cs_data = [(''cluster'', JStr ''c'')], cs_auth_type = BasicAuth, cs_auth_data = ex_secret\<rparr>"

definition ex_transfer_request :: request where
  "ex_transfer_request = CreateTransfer \<lparr>tv_name = ''t'', tv_description = [], tv_source_connection_id = 1,
     tv_target_connection_id = 2, tv_source_params = ex_params, tv_target_params = ex_params,
     tv_strategy_params = JObj [(''type'', JStr ''full'')], tv_transformations = [], tv_resources = JObj [],
     tv_queue_id = 1, tv_is_scheduled = False, tv_schedule = None, tv_group_id = 1\<rparr>"

definition ex_requests :: "request list" where
  "ex_requests = [CreateGroup \<lparr>cg_name = ''g'', cg_description = []\<rparr>, ex_connection_request ''a'',
     ex_connection_request ''b'', CreateQueue \<lparr>cq_name = ''q'', cq_group_id = 1, cq_description = []\<rparr>,
     ex_transfer_request, StartRun 1]"

definition ex_start :: system where
  "ex_start = \<lparr>sess = \<lparr>committed = empty_db, working = empty_db, broker = []\<rparr>, executing = [], failing = []\<rparr>"

definition ex_login :: system where
  "ex_login = ex_start\<lparr>sess := snd (serve (dummy_get_token_password_grant ex_jwt 0 60 (Some ''u'') (Some ''p''))
     (sess ex_start))\<rparr>"

definition ex_request :: "request \<Rightarrow> system \<Rightarrow> system" where
  "ex_request req \<sigma> = \<sigma>\<lparr>sess := snd (serve (call ex_env (Dummy ex_jwt) (Some ex_token) req) (sess \<sigma>))\<rparr>"

definition ex_requested :: system where
  "ex_requested = fold ex_request ex_requests ex_login"

text \<open>The state these steps lead to, written out.\<close>

definition ex_new_connection :: "int \<Rightarrow> string \<Rightarrow> connection" where
  "ex_new_connection i name = (ex_connection i name)\<lparr>created_at := 5, updated_at := 5\<rparr>"

definition ex_created_db :: db where
  "ex_created_db = \<lparr>users = [ex_user 1 ''u'' False],
     groups = [\<lparr>pk = 1, created_at = 5, updated_at = 5, gname = ''g'', gdescription = [], owner_id = 1\<rparr>],
     user_groups = [], connections = [ex_new_connection 1 ''a'', ex_new_connection 2 ''b''],
     auth_datas = [\<lparr>ad_connection_id = 1, ad_value = encrypt_auth_data ex_fernet [] ex_secret\<rparr>,
                   \<lparr>ad_connection_id = 2, ad_value = encrypt_auth_data ex_fernet [] ex_secret\<rparr>],
     queues = [\<lparr>pk = 1, created_at = 5, updated_at = 5, rname = ''q'', group_id = 1, rdescription = [],
                slug = ''1-q''\<rparr>],
     transfers = [ex_transfer\<lparr>created_at := 5, updated_at := 5, is_scheduled := False, schedule := []\<rparr>],
     runs = [(ex_run 1 CREATED None None)\<lparr>created_at := 5, updated_at := 5, transfer_dump :=
       JObj [(''id'', JInt 1), (''name'', JStr ''t''), (''group_id'', JInt 1), (''queue_id'', JInt 1),
         (''source_connection_id'', JInt 1), (''target_connection_id'', JInt 2), (''is_scheduled'', JBool False),
         (''description'', JStr []), (''schedule'', JStr []), (''source_params'', params_dump ex_params),
         (''target_params'', params_dump ex_params), (''strategy_params'', JObj [(''type'', JStr ''full'')]),
         (''source_connection'', connection_dump (ex_new_connection 1 ''a'')
            [(''type'', JStr ''basic''), (''user'', JStr ''u'')]),
         (''target_connection'', connection_dump (ex_new_connection 2 ''b'')
            [(''type'', JStr ''basic''), (''user'', JStr ''u'')])]\<rparr>],
     seq_user = 2, seq_group = 2, seq_connection = 3, seq_queue = 2, seq_transfer = 2, seq_run = 2\<rparr>"

definition ex_created :: system where
  "ex_created = \<lparr>sess = \<lparr>committed = ex_created_db, working = ex_created_db, broker = [(''1-q'', 1)]\<rparr>,
     executing = [], failing = []\<rparr>"

definition ex_picked :: system where
  "ex_picked = ex_created\<lparr>sess := snd (serve (worker_start ex_fernet (\<lambda>_. Inr ''url'') 9 1)
       (consume (''1-q'', 1) (sess ex_created))), executing := [1]\<rparr>"

lemma ex_login_reachable: "reachable ex_login"
proof -
  have "reachable ex_start" by (rule reachable.init) (simp add: initial_def ex_start_def)
  moreover have "step ex_start ex_login"
    unfolding ex_login_def by (rule step.login [OF prod.collapse [symmetric]])
  ultimately show ?thesis by (rule next_step)
qed

lemma ex_request_reachable: "reachable \<sigma> \<Longrightarrow> validated req \<Longrightarrow> reachable (ex_request req \<sigma>)"
  unfolding ex_request_def by (erule next_step) (rule step.request [OF prod.collapse [symmetric]])

lemma ex_requested_reachable: "reachable ex_requested"
proof -
  have "reachable (fold ex_request reqs \<sigma>)" if "reachable \<sigma>" "list_all validated reqs" for reqs \<sigma>
    using that by (induction reqs arbitrary: \<sigma>) (auto intro: ex_request_reachable)
  moreover have "list_all validated ex_requests"
    by (simp add: ex_requests_def ex_connection_request_def ex_transfer_request_def)
  ultimately show ?thesis unfolding ex_requested_def using ex_login_reachable by blast
qed

lemma ex_created_requested: "ex_requested = ex_created"
  by code_simp

lemma ex_created_reachable: "reachable ex_created"
  using ex_requested_reachable by (simp add: ex_created_requested)

lemma ex_picked_reachable: "reachable ex_picked"
proof -
  let ?w = "serve (worker_start ex_fernet (\<lambda>_. Inr ''url'') 9 1) (consume (''1-q'', 1) (sess ex_created))"
  have "\<exists>ctx. fst ?w = Inr (Some ctx)"
  proof -
    have "(case fst ?w of Inr (Some ctx) \<Rightarrow> True | _ \<Rightarrow> False)" by code_simp
    then show ?thesis by (auto split: sum.splits option.splits)
  qed
  then obtain ctx where w: "?w = (Inr (Some ctx), snd ?w)" by (metis prod.collapse)
  have "executing ex_created = []" by (simp add: ex_created_def)
  then have e: "ex_picked = ex_created\<lparr>sess := snd ?w, executing := snd (''1-q'', 1 :: int) # executing ex_created\<rparr>"
    by (simp add: ex_picked_def)
  have "step ex_created ex_picked"
    unfolding e by (rule step.work, rule worker_step.pick [of "(''1-q'', 1)"]) (use w in \<open>simp_all add: ex_created_def\<close>)
  with ex_created_reachable show ?thesis by (rule next_step)
qed

lemma ex_picked_runs: "map run_status (runs (committed (sess ex_picked))) = [STARTED]"
  by code_simp

text \<open>Two ways on: the worker reports the run, or the run is stopped before a worker picks it.\<close>

definition ex_finished :: system where
  "ex_finished = ex_picked\<lparr>sess := snd (serve (worker_finish 11 1 FINISHED) (sess ex_picked)),
     executing := remove1 1 (executing ex_picked)\<rparr>"

definition ex_stopped :: system where
  "ex_stopped = ex_request (StopRun 1) ex_created"

lemma ex_finished_reachable: "reachable ex_finished"
proof -
  have "executing ex_picked = [1]" by (simp add: ex_picked_def)
  then have "step ex_picked ex_finished"
    unfolding ex_finished_def by (intro step.work worker_step.finish [OF _ _ prod.collapse [symmetric]]) simp_all
  with ex_picked_reachable show ?thesis by (rule next_step)
qed

lemma ex_stopped_reachable: "reachable ex_stopped"
  unfolding ex_stopped_def by (rule ex_request_reachable [OF ex_created_reachable]) simp

lemma ex_finished_runs: "map (\<lambda>r. (pk r, run_status r)) (runs (committed (sess ex_finished))) = [(1, FINISHED)]"
  by code_simp

lemma ex_after_finished: "map pk (runs (committed (sess (ex_request (StartRun 1) ex_finished)))) = [1, 2]"
  by code_simp

lemma ex_stopped_runs:
  "map (\<lambda>r. (pk r, run_status r, started_at r)) (runs (committed (sess ex_stopped))) = [(1, SEND_STOP_SIGNAL, None)]"
  by code_simp

lemma ex_after_stopped: "map pk (runs (committed (sess (ex_request (StartRun 1) ex_stopped)))) = [1, 2]"
  by code_simp

lemma ex_stopped_failing: "failing ex_stopped = []"
  by (simp add: ex_stopped_def ex_request_def ex_created_def)

lemma ex_request_steps: "validated req \<Longrightarrow> steps \<sigma> (ex_request req \<sigma>)"
  unfolding ex_request_def by (rule steps.more [OF step.request [OF prod.collapse [symmetric]] steps.none])

end
