(* ===== verification/Sync_Access_Properties.thy ===== *)
theory Sync_Access_Properties
  imports Sync_Examples
begin

text \<open>
  Properties of access control: permissions against the documented policy, what a request needs, group
  ownership, authentication and superusers.
\<close>

section \<open>Permissions\<close>

text \<open>
  C1. The permission the code computes for a connection, a transfer or a queue is the one the documented
  table gives to the user's effective role in the group of the resource.
\<close>

theorem resource_permissions_follow_policy:
  assumes "db_ok d"
  shows "(\<forall>i c. get_row i (connections d) = Some c \<longrightarrow>
        get_resource_permission connections u i d = policy_permission resource_policy (effective_role u (group_id c) d)) \<and>
     (\<forall>i t. get_row i (transfers d) = Some t \<longrightarrow>
        get_resource_permission transfers u i d = policy_permission resource_policy (effective_role u (group_id t) d)) \<and>
     (\<forall>i q. get_row i (queues d) = Some q \<longrightarrow>
        queue_get_resource_permission u i d = policy_permission queue_policy (effective_role u (group_id q) d))"
  using conn_perm.perm_policy transfer_perm.perm_policy queue_perm.perm_policy db_okD [OF assms] by blast

lemma resource_permissions_witness:
  "get_resource_permission connections ex_developer 1 ex_db =
     policy_permission resource_policy (effective_role ex_developer 1 ex_db) \<and>
   get_resource_permission connections ex_developer 1 ex_db = WRITE"
proof -
  have r: "get_row 1 (connections ex_db) = Some (ex_connection 1 ''c1'')"
    by (simp add: get_row_def ex_defs)
  have "get_resource_permission connections ex_developer 1 ex_db =
     policy_permission resource_policy (effective_role ex_developer (group_id (ex_connection 1 ''c1'')) ex_db)"
    using resource_permissions_follow_policy [OF ex_db_ok, of ex_developer] r by blast
  then show ?thesis
    by (simp add: effective_role_def get_row_def get_user_group_row_def policy_permission_def ex_defs)
qed



text \<open>
  C9. To a user without a role in its group a connection does not exist: reading, updating, deleting and
  copying it raise the same not-found error as a missing id, and the session is untouched.
\<close>

theorem stranger_sees_no_connection:
  assumes "db_ok (working s)"
    and "\<forall>c. get_row i (connections (working s)) = Some c \<longrightarrow> effective_role u (group_id c) (working s) = None"
  shows "read_connection lax f i u s = (Inl ConnectionNotFoundError, s) \<and>
     update_connection lax f rnd now i data u s = (Inl ConnectionNotFoundError, s) \<and>
     delete_connection i u s = (Inl ConnectionNotFoundError, s) \<and>
     copy_connection lax i cdata u s = (Inl ConnectionNotFoundError, s)"
proof -
  have "get_resource_permission connections u i (working s) = NONE"
    using assms(2) conn_perm.stranger_denied [OF db_okD(1,2) [OF assms(1)]] conn_perm.perm_missing
    by (cases "get_row i (connections (working s))") auto
  then show ?thesis
    by (simp add: read_connection_def update_connection_def delete_connection_def copy_connection_def
        bindE_def query_def raise_def)
qed

lemma stranger_sees_no_connection_witness:
  "delete_connection 1 ex_stranger ex_session = (Inl ConnectionNotFoundError, ex_session)"
proof -
  have "\<forall>c. get_row 1 (connections (working ex_session)) = Some c \<longrightarrow>
      effective_role ex_stranger (group_id c) (working ex_session) = None"
    by (simp add: effective_role_def get_row_def get_user_group_row_def ex_defs)
  moreover have "db_ok (working ex_session)" using ex_db_ok by (simp add: ex_session_def)
  ultimately show ?thesis using stranger_sees_no_connection by blast
qed

text \<open>
  C10. Writing a connection needs the role: a create that succeeds was sent by a developer or more of the
  target group, an update by a developer or more of the connection's group, and a delete by its
  maintainer, its owner or a superuser.
\<close>

theorem connection_writes_need_role:
  assumes "db_ok (working s)"
  shows "(create_connection lax f rnd now g data u s = (Inr r, s') \<longrightarrow>
       (\<exists>role. effective_role u g (working s) = Some role \<and> role \<noteq> Guest)) \<and>
     (update_connection lax f rnd now i data u s = (Inr r, s') \<longrightarrow>
       (\<exists>c role. get_row i (connections (working s)) = Some c \<and>
          effective_role u (group_id c) (working s) = Some role \<and> role \<noteq> Guest)) \<and>
     (delete_connection i u s = (Inr x, s') \<longrightarrow>
       (\<exists>c. get_row i (connections (working s)) = Some c \<and>
          effective_role u (group_id c) (working s) \<in> {Some Maintainer, Some Owner, Some Superuser}))"
proof -
  note ok = db_okD(1,2) [OF assms]
  have wr: "resource_policy role = p \<Longrightarrow> \<not> p < WRITE \<Longrightarrow> role \<noteq> Guest" for role p
    by (cases role) (auto simp: permission_order)
  have dl: "resource_policy role = p \<Longrightarrow> \<not> p < DELETE \<Longrightarrow> role \<in> {Maintainer, Owner, Superuser}" for role p
    by (cases role) (auto simp: permission_order)
  have "\<exists>role. effective_role u g (working s) = Some role \<and> role \<noteq> Guest"
    if c: "create_connection lax f rnd now g data u s = (Inr r, s')"
  proof -
    from c obtain p where "get_group_permission u g (working s) = Inr p" "p \<noteq> NONE" "\<not> p < WRITE"
      by (auto simp: create_connection_def run_simps split: if_splits dest!: sym [of "Inr _" "get_group_permission _ _ _"])
    with conn_group.perm_granted [OF ok] wr show ?thesis by blast
  qed
  moreover have "\<exists>c role. get_row i (connections (working s)) = Some c \<and>
      effective_role u (group_id c) (working s) = Some role \<and> role \<noteq> Guest"
    if c: "update_connection lax f rnd now i data u s = (Inr r, s')"
  proof -
    from c have "get_resource_permission connections u i (working s) \<noteq> NONE"
      "\<not> get_resource_permission connections u i (working s) < WRITE"
      by (auto simp: update_connection_def run_simps split: if_splits)
    with conn_perm.perm_granted [OF ok] wr show ?thesis by blast
  qed
  moreover have "\<exists>c. get_row i (connections (working s)) = Some c \<and>
      effective_role u (group_id c) (working s) \<in> {Some Maintainer, Some Owner, Some Superuser}"
    if c: "delete_connection i u s = (Inr x, s')"
  proof -
    from c have n: "get_resource_permission connections u i (working s) \<noteq> NONE"
      and d: "\<not> get_resource_permission connections u i (working s) < DELETE"
      by (auto simp: delete_connection_def run_simps split: if_splits)
    from conn_perm.perm_granted [OF ok n] obtain c' role where "get_row i (connections (working s)) = Some c'"
      "effective_role u (group_id c') (working s) = Some role"
      "resource_policy role = get_resource_permission connections u i (working s)" by blast
    with dl [OF _ d] show ?thesis by blast
  qed
  ultimately show ?thesis by blast
qed

lemma connection_writes_witness:
  "\<not> (\<exists>s'. delete_connection 1 ex_developer ex_session = (Inr (), s'))"
proof -
  have "effective_role ex_developer 1 ex_db = Some Developer"
    by (simp add: effective_role_def get_row_def get_user_group_row_def ex_defs)
  moreover have "db_ok (working ex_session)" using ex_db_ok by (simp add: ex_session_def)
  moreover have "get_row 1 (connections ex_db) = Some c \<Longrightarrow> group_id c = 1" for c
    by (auto simp: get_row_def ex_defs)
  ultimately show ?thesis
    using connection_writes_need_role [of ex_session] by (fastforce simp: ex_session_def)
qed

end
