(* ===== verification/Sync_Execution_Properties.thy ===== *)
theory Sync_Execution_Properties
  imports Sync_Examples
begin

text \<open>
  Properties of execution: starting and stopping runs, the worker task, the scheduler's rounds, and what
  holds in every reachable state of the whole system.
\<close>

section \<open>Starting a run\<close>

text \<open>An update of an existing run that leaves its keys alone goes through.\<close>

lemma update_run_row_ok:
  assumes "get_row rid (runs d) = Some r" and "schema_ok d" and "pk (f r) = pk r" and "transfer_id (f r) = transfer_id r"
  shows "\<exists>d'. update_run_row rid f d = Inr (f r, d') \<and> get_row rid (runs d') = Some (f r) \<and> schema_ok d'"
proof -
  have r: "r \<in> set (runs d)" "pk r = rid" using get_row_Some [OF assms(1)] by auto
  have "(f r)\<lparr>pk := rid\<rparr> = f r" using r(2) assms(3) by (cases "f r") simp
  moreover have "has_row (transfer_id r) (transfers d)" using assms(2) r(1) by (simp add: schema_ok_def fk_ok_def)
  ultimately have u: "update_run_row rid f d = Inr (f r, d\<lparr>runs := set_row (f r) (runs d)\<rparr>)"
    using assms(1,4) by (simp add: update_run_row_def Let_def)
  have "get_row rid (set_row (f r) (runs d)) = Some (f r)"
    using r(2) assms(3) get_row_has_row [OF assms(1)] by (simp add: get_row_set_row)
  with u update_run_row_schema [OF assms(2) u] show ?thesis by simp
qed

lemma run_row_last: "\<not> has_row (pk r) rs \<Longrightarrow> get_row (pk r) (rs @ [r]) = Some r"
  by (simp add: get_row_append get_row_def [of _ "[_]"] split: option.split) (metis get_row_has_row)

lemma start_run_cases:
  assumes "start_run lax c available now tid u s = (res, s')"
  obtains e where "res = Inl e" "s' = s"
  | sc tc e where "create_run_block lax sc tc now tid MANUAL s = (Inl e, s')" "res = Inl e"
  | sc tc r t q v where "create_run_block lax sc tc now tid MANUAL s = (Inr r, t)"
      "enqueue available now q (pk r) t = (v, s')" "res = (case v of Inl e \<Rightarrow> Inl e | Inr _ \<Rightarrow> Inr (read_run_of r))"
  using assms
  by (cases res)
    (auto simp: start_run_def launch_folds transfer_repo_read_by_id_def queue_repo_read_by_id_def
      credentials_repo_read_def run_simps split: if_splits)

text \<open>
  C5. A manual start ends in one of three ways: the run row is committed as created and its message is
  the last one in the broker; or nothing happened and an error is raised; or the broker could not be
  reached, the error names the run, and its row is committed as failed without a message.
\<close>

theorem start_run_outcome:
  assumes "start_run lax c available now tid u s = (res, s')" and "committed s = working s"
    and "db_ok (committed s)"
  shows "(\<exists>r q. res = Inr (read_run_of r) \<and> get_row (pk r) (runs (committed s')) = Some r \<and>
        get_row (pk r) (runs (committed s)) = None \<and> run_status r = CREATED \<and> transfer_id r = tid \<and>
        run_type r = MANUAL \<and> broker s' = broker s @ [(q, pk r)]) \<or>
     (\<exists>e. res = Inl e \<and> committed s' = committed s \<and> broker s' = broker s) \<or>
     (\<exists>r. res = Inl (CannotConnectToTaskQueueError (pk r)) \<and> \<not> available \<and>
        get_row (pk r) (runs (committed s')) = Some r \<and> get_row (pk r) (runs (committed s)) = None \<and>
        run_status r = FAILED \<and> transfer_id r = tid \<and> broker s' = broker s)"
  using assms(1)
proof (cases rule: start_run_cases)
  case (2 sc tc e)
  then show ?thesis using create_run_block_Inl [OF _ assms(2)] by blast
next
  case (3 sc tc r t q v)
  from create_run_block_Inr [OF 3(1)] obtain d where d: "t = s\<lparr>working := d, committed := d\<rparr>"
    "runs d = runs (working s) @ [r]" "fresh_run r (working s)" "run_status r = CREATED"
    "has_row (transfer_id r) (transfers d)" by auto
  have m: "run_type r = MANUAL \<and> transfer_id r = tid"
    using 3(1) by (auto simp: create_run_block_def run_repo_create_def insert_run_def Let_def run_simps split: if_splits)
  have f: "\<not> has_row (pk r) (runs (working s))"
    using assms(2) db_okD(1) [OF assms(3)] d(3) by (simp add: schema_ok_def pk_ok_def fresh_run_def keys_ok_fresh)
  then have fn: "get_row (pk r) (runs (committed s)) = None" using assms(2) by (simp add: get_row_None has_row_iff)
  let ?f = "r\<lparr>run_status := FAILED, updated_at := now\<rparr>"
  from enqueue_effect [OF 3(2) _ _ f] d
  consider "v = Inr ()" "s' = t\<lparr>broker := broker t @ [(q, pk r)]\<rparr>"
    | d' where "v = Inl (CannotConnectToTaskQueueError (pk r))" "\<not> available"
        "s' = t\<lparr>working := d', committed := d'\<rparr>" "runs d' = runs (working s) @ [?f]" by auto
  then show ?thesis
  proof cases
    case 1
    with 3(3) d m fn run_row_last [OF f] show ?thesis by auto
  next
    case 2
    have "get_row (pk ?f) (runs (committed s')) = Some ?f" using 2(3,4) f run_row_last [of ?f] by simp
    with 2 3(3) d(1) m fn show ?thesis by (intro disjI2) (auto intro!: exI [of _ ?f])
  qed
qed auto

lemma start_run_outcome_witness:
  "\<exists>r q. fst (start_run strict ex_fernet True 5 1 ex_owner ex_session) = Inr (read_run_of r) \<and>
     run_status r = CREATED \<and> broker (snd (start_run strict ex_fernet True 5 1 ex_owner ex_session)) = [(q, pk r)]"
proof -
  let ?m = "start_run strict ex_fernet True 5 1 ex_owner ex_session"
  have "\<not> isl (fst ?m)" by code_simp
  moreover have "committed ex_session = working ex_session" "db_ok (committed ex_session)" "broker ex_session = []"
    using ex_db_ok by (simp_all add: ex_session_def)
  ultimately show ?thesis
    using start_run_outcome [of strict ex_fernet True 5 1 ex_owner ex_session "fst ?m" "snd ?m"] by auto
qed

lemma create_run_block_dump:
  assumes "create_run_block lax sc tc now tid ty s = (Inr r, t)"
  shows "\<exists>s1 s2. read_auth_data lax sc = Inr s1 \<and> read_auth_data lax tc = Inr s2 \<and>
     read_full_serialized_transfer tid s1 s2 (working s) = Inr (transfer_dump r)"
proof -
  from assms obtain s1 s2 dump d where "read_auth_data lax sc = Inr s1" "read_auth_data lax tc = Inr s2"
    "read_full_serialized_transfer tid s1 s2 (working s) = Inr dump"
    and i: "insert_run (\<lambda>i. \<lparr>pk = i, created_at = now, updated_at = now, transfer_id = tid, started_at = None,
          ended_at = None, run_status = CREATED, run_type = ty, log_url = None, transfer_dump = dump\<rparr>) (working s)
        = Inr (r, d)"
    unfolding create_run_block_def run_repo_create_def by (auto simp: run_simps dest!: sym [of "Inr _"])
  moreover have "transfer_dump r = dump" using runs.ins_law [OF i] by simp
  ultimately show ?thesis by blast
qed

text \<open>
  C11. The dump of the transfer that a started run carries is made of the credentials without secrets: no
  field that any credential type declares secret is in it.
\<close>

theorem run_dump_has_no_secret:
  assumes "start_run lax c available now tid u s = (Inr x, s')"
  shows "\<exists>source_creds target_creds. read_full_serialized_transfer tid source_creds target_creds (working s) =
       Inr (sr_transfer_dump x) \<and>
     (\<forall>a. \<forall>k \<in> set (get_secret_fields a). map_of source_creds k = None \<and> map_of target_creds k = None)"
  using assms
proof (cases rule: start_run_cases)
  case (3 sc tc r t q v)
  then have x: "sr_transfer_dump x = transfer_dump r" by (auto simp: read_run_of_def split: sum.splits)
  from create_run_block_dump [OF 3(1)] obtain s1 s2 where "read_auth_data lax sc = Inr s1"
    "read_auth_data lax tc = Inr s2" "read_full_serialized_transfer tid s1 s2 (working s) = Inr (transfer_dump r)"
    by blast
  then show ?thesis using read_auth_data_no_secret x by (intro exI [of _ s1] exI [of _ s2]) simp
qed auto

lemma run_dump_witness:
  "\<exists>x sc tc. fst (start_run strict ex_fernet True 5 1 ex_owner ex_session) = Inr x \<and>
     read_full_serialized_transfer 1 sc tc ex_db = Inr (sr_transfer_dump x) \<and> map_of sc ''password'' = None"
proof -
  let ?m = "start_run strict ex_fernet True 5 1 ex_owner ex_session"
  have "\<not> isl (fst ?m)" by code_simp
  then obtain x where x: "fst ?m = Inr x" by (cases "fst ?m") auto
  have "''password'' \<in> set (get_secret_fields BasicAuth)" by simp
  moreover have "?m = (Inr x, snd ?m)" using x by (simp add: prod_eq_iff)
  note run_dump_has_no_secret [OF this]
  ultimately show ?thesis using x by (fastforce simp: ex_session_def)
qed

text \<open>
  C7. Stopping succeeds only for a run that is created or started; it writes the stop signal and nothing
  else into the row.  Any other status is an error that changes nothing.
\<close>

theorem stop_run_guarded:
  assumes "stop_run now rid u s = (res, s')" and "committed s = working s" and "get_row rid (runs (committed s)) = Some r"
    and "WRITE \<le> get_resource_permission transfers u (transfer_id r) (committed s)" and "schema_ok (committed s)"
  shows "if run_status r \<in> {CREATED, STARTED}
     then get_row rid (runs (committed s')) = Some (r\<lparr>run_status := SEND_STOP_SIGNAL, updated_at := now\<rparr>) \<and>
       res = Inr (read_run_of (r\<lparr>run_status := SEND_STOP_SIGNAL, updated_at := now\<rparr>))
     else res = Inl (CannotStopRunError rid (run_status r)) \<and> s' = s"
proof -
  let ?p = "get_resource_permission transfers u (transfer_id r) (working s)"
  have p: "?p \<noteq> NONE" "\<not> ?p < WRITE"
    using assms(2,4) by (auto simp: permission_order)
  have g: "get_row rid (runs (working s)) = Some r" using assms(2,3) by simp
  show ?thesis
  proof (cases "run_status r \<in> {CREATED, STARTED}")
    case False
    with assms(1,2) g p show ?thesis
      by (auto simp: stop_run_def run_repo_read_by_id_def run_repo_stop_def bindE_def query_def uow_def raise_def)
  next
    case True
    let ?r = "r\<lparr>run_status := SEND_STOP_SIGNAL, updated_at := now\<rparr>"
    from update_run_row_ok [OF g, of "\<lambda>r. r\<lparr>run_status := SEND_STOP_SIGNAL, updated_at := now\<rparr>"] assms(2,5)
    obtain d where "update_run_row rid (\<lambda>r. r\<lparr>run_status := SEND_STOP_SIGNAL, updated_at := now\<rparr>) (working s)
        = Inr (?r, d)" "get_row rid (runs d) = Some ?r" by auto
    with True assms(1) g p show ?thesis
      by (auto simp: stop_run_def run_repo_read_by_id_def run_repo_stop_def bindE_def query_def uow_def exec_def
          return_def)
  qed
qed

lemma stop_run_witness:
  "stop_run 9 1 ex_developer ex_session = (Inl (CannotStopRunError 1 FINISHED), ex_session)"
proof -
  have g: "get_row 1 (runs (committed ex_session)) = Some (ex_run 1 FINISHED (Some 1) (Some 2))"
    by (simp add: get_row_def ex_defs)
  have "WRITE \<le> get_resource_permission transfers ex_developer (transfer_id (ex_run 1 FINISHED (Some 1) (Some 2)))
      (committed ex_session)" by code_simp
  moreover have "committed ex_session = working ex_session" "schema_ok (committed ex_session)"
    using ex_db_schema by (simp_all add: ex_session_def)
  ultimately show ?thesis
    using stop_run_guarded [of 9 1 ex_developer ex_session "fst (stop_run 9 1 ex_developer ex_session)"
        "snd (stop_run 9 1 ex_developer ex_session)"] g
    by (simp add: prod_eq_iff) (simp add: ex_run_def)
qed

section \<open>Reachable states\<close>

text \<open>
  C4. In every reachable state the committed database satisfies its schema (keys, uniqueness and foreign
  keys), memberships have public roles only, no owner is a member of its own group, and the parameters
  of every transfer are of the types of its connections.
\<close>

theorem reachable_database:
  assumes "reachable \<sigma>"
  shows "schema_ok (committed (sess \<sigma>)) \<and>
     (\<forall>x \<in> set (user_groups (committed (sess \<sigma>))). ug_role x \<in> {Maintainer, Developer, Guest} \<and>
        (\<forall>g \<in> set (groups (committed (sess \<sigma>))). pk g = ug_group_id x \<longrightarrow> owner_id g \<noteq> ug_user_id x)) \<and>
     (\<forall>t \<in> set (transfers (committed (sess \<sigma>))). \<forall>c \<in> set (connections (committed (sess \<sigma>))).
        (pk c = source_connection_id t \<longrightarrow> conn_type c = ptype (source_params t)) \<and>
        (pk c = target_connection_id t \<longrightarrow> conn_type c = ptype (target_params t)))"
proof -
  have "coherent (committed (sess \<sigma>))" using reachable_inv [OF assms] unfolding sys_inv_def by blast
  then show ?thesis
    by (auto simp: coherent_def db_ok_def roles_ok_def owner_ok_def types_ok_def types_match_def public_roles_def)
qed

lemma reachable_database_witness:
  "schema_ok (committed (sess ex_picked)) \<and> map run_status (runs (committed (sess ex_picked))) = [STARTED]"
  using reachable_database [OF ex_picked_reachable] ex_picked_runs by blast

text \<open>
  C3. In every reachable state the row of a run agrees with what the workers do: a created run has no
  times, waits in the broker or with a worker that could not start it, and is not executed; a started one has
  a worker and no end; a finished one has both times and nobody holds it; a failed one is held by nobody; the
  status \<open>STOPPED\<close> is never used; and no run is executed by two workers.
\<close>

theorem reachable_runs:
  assumes "reachable \<sigma>" and "r \<in> set (runs (committed (sess \<sigma>)))"
  shows "(run_status r = CREATED \<longrightarrow> started_at r = None \<and> ended_at r = None \<and> pk r \<notin> set (executing \<sigma>) \<and>
        pk r \<in> snd ` set (broker (sess \<sigma>)) \<union> set (failing \<sigma>)) \<and>
     (run_status r = STARTED \<longrightarrow> started_at r \<noteq> None \<and> ended_at r = None \<and> pk r \<in> set (executing \<sigma>)) \<and>
     (run_status r = FINISHED \<longrightarrow> started_at r \<noteq> None \<and> ended_at r \<noteq> None \<and> pk r \<notin> set (executing \<sigma>)) \<and>
     (run_status r = FAILED \<longrightarrow> pk r \<notin> set (executing \<sigma>) \<and> (started_at r \<noteq> None \<longrightarrow> ended_at r \<noteq> None)) \<and>
     (run_status r = SEND_STOP_SIGNAL \<longrightarrow> ended_at r = None) \<and>
     run_status r \<noteq> STOPPED \<and> distinct (executing \<sigma>)"
proof -
  have "runs_ok (executing \<sigma>) (failing \<sigma>) (sess \<sigma>)" using reachable_inv [OF assms(1)] by (simp add: sys_inv_def)
  with assms(2) have "run_ok (set (executing \<sigma>)) (set (tasks (executing \<sigma>) (failing \<sigma>) (sess \<sigma>))) r"
    and "distinct (executing \<sigma>)" by (auto simp: runs_ok_def tasks_def)
  moreover have "set (tasks (executing \<sigma>) (failing \<sigma>) (sess \<sigma>)) =
      snd ` set (broker (sess \<sigma>)) \<union> set (executing \<sigma>) \<union> set (failing \<sigma>)" by (auto simp: tasks_def)
  ultimately show ?thesis by (cases "run_status r") (auto simp: run_ok_def)
qed

lemma reachable_runs_witness: "\<exists>r. runs (committed (sess ex_picked)) = [r] \<and> run_status r = STARTED \<and> started_at r \<noteq> None"
proof -
  from ex_picked_runs obtain r where r: "runs (committed (sess ex_picked)) = [r]" "run_status r = STARTED" by auto
  with reachable_runs [OF ex_picked_reachable, of r] show ?thesis by auto
qed

lemma frozenI:
  assumes "reachable \<sigma>" and "r \<in> set (runs (committed (sess \<sigma>)))" and "run_status r \<notin> {CREATED, STARTED}"
    and "pk r \<notin> set (executing \<sigma>)" and "pk r \<notin> set (failing \<sigma>)"
  shows "frozen r \<sigma>"
proof -
  have sch: "schema_ok (committed (sess \<sigma>))"
    using reachable_inv [OF assms(1)] coherentD(3) unfolding sys_inv_def by blast
  have "y = r" if "y \<in> set (runs (committed (sess \<sigma>)))" "pk y = pk r" for y
    using get_row_unique [OF sch that(1), unfolded that(2)] get_row_unique [OF sch assms(2)] by (metis option.inject)
  then show ?thesis using keys_lt [OF sch assms(2)] assms(3,4,5) unfolding frozen_def by blast
qed

lemma reachable_run_ok:
  "reachable \<sigma> \<Longrightarrow> r \<in> set (runs (committed (sess \<sigma>))) \<Longrightarrow>
     run_ok (set (executing \<sigma>)) (set (tasks (executing \<sigma>) (failing \<sigma>) (sess \<sigma>))) r"
  using reachable_inv unfolding sys_inv_def runs_ok_def by blast

lemma frozen_stays:
  "reachable \<sigma> \<Longrightarrow> frozen r \<sigma> \<Longrightarrow> steps \<sigma> \<tau> \<Longrightarrow> x \<in> set (runs (committed (sess \<tau>))) \<Longrightarrow> pk x = pk r \<Longrightarrow> x = r"
  using steps_frozen [OF _ reachable_inv] unfolding frozen_def by blast

text \<open>
  C8. From any reachable state on, whatever requests, jobs and workers do, the row of a finished run is
  never changed: it stays as it is or is deleted.
\<close>

theorem finished_run_is_final:
  assumes "reachable \<sigma>" and "r \<in> set (runs (committed (sess \<sigma>)))" and "run_status r = FINISHED"
    and "steps \<sigma> \<tau>" and "x \<in> set (runs (committed (sess \<tau>)))" and "pk x = pk r"
  shows "x = r"
proof (rule frozen_stays [OF assms(1) frozenI [OF assms(1,2)] assms(4,5,6)])
  show "pk r \<notin> set (executing \<sigma>)" "pk r \<notin> set (failing \<sigma>)"
    using reachable_run_ok [OF assms(1,2)] assms(3) by (auto simp: run_ok_def tasks_def)
qed (simp add: assms(3))

lemma finished_run_witness:
  "\<exists>r. runs (committed (sess ex_finished)) = [r] \<and> r \<in> set (runs (committed (sess (ex_request (StartRun 1) ex_finished))))"
proof -
  from ex_finished_runs obtain r where r: "runs (committed (sess ex_finished)) = [r]" "run_status r = FINISHED" "pk r = 1"
    by auto
  from ex_after_finished obtain x where "x \<in> set (runs (committed (sess (ex_request (StartRun 1) ex_finished))))" "pk x = 1"
    by (fastforce simp: map_eq_Cons_conv)
  with finished_run_is_final [OF ex_finished_reachable, of r "ex_request (StartRun 1) ex_finished" x]
    ex_request_steps [of "StartRun 1" ex_finished] r show ?thesis by auto
qed

text \<open>
  C16. A run that was asked to stop before a worker had picked it up stays in \<open>SEND_STOP_SIGNAL\<close>, without
  an end time, in every later state: no worker ever reports it.
\<close>

theorem stopped_before_start_is_stuck:
  assumes "reachable \<sigma>" and "r \<in> set (runs (committed (sess \<sigma>)))" and "run_status r = SEND_STOP_SIGNAL"
    and "started_at r = None" and "pk r \<notin> set (failing \<sigma>)"
    and "steps \<sigma> \<tau>" and "x \<in> set (runs (committed (sess \<tau>)))" and "pk x = pk r"
  shows "run_status x = SEND_STOP_SIGNAL \<and> ended_at x = None"
proof -
  note ok = reachable_run_ok [OF assms(1,2)]
  have "pk r \<notin> set (executing \<sigma>)" using ok assms(3,4) by (auto simp: run_ok_def)
  then have "x = r" by (intro frozen_stays [OF assms(1) frozenI [OF assms(1,2)] assms(6,7,8)]) (simp_all add: assms)
  with ok assms(3) show ?thesis by (auto simp: run_ok_def)
qed

lemma stopped_before_start_witness:
  "\<exists>x. x \<in> set (runs (committed (sess (ex_request (StartRun 1) ex_stopped)))) \<and> pk x = 1 \<and>
     run_status x = SEND_STOP_SIGNAL \<and> ended_at x = None"
proof -
  from ex_stopped_runs obtain r where r: "runs (committed (sess ex_stopped)) = [r]"
    "run_status r = SEND_STOP_SIGNAL" "started_at r = None" "pk r = 1" by auto
  from ex_after_stopped obtain x where "x \<in> set (runs (committed (sess (ex_request (StartRun 1) ex_stopped))))" "pk x = 1"
    by (fastforce simp: map_eq_Cons_conv)
  with stopped_before_start_is_stuck [OF ex_stopped_reachable, of r "ex_request (StartRun 1) ex_stopped" x]
    ex_request_steps [of "StartRun 1" ex_stopped] r ex_stopped_failing show ?thesis by auto
qed

text \<open>
  C17. Without new requests and jobs the workers come to rest: from a reachable state they take at most two steps per
  message and one per run that a worker holds, they can go on until nothing is pending, and then every run is finished
  or failed, unless it was stopped before it started.  That the execution of a single transfer ends is part of the
  step relation, as it is up to Spark.
\<close>

theorem workers_come_to_rest:
  assumes "reachable \<sigma>"
  shows "(\<exists>n \<tau>. worker_steps n \<sigma> \<tau> \<and> pending \<tau> = 0) \<and>
     (\<forall>n \<tau>. worker_steps n \<sigma> \<tau> \<longrightarrow> n \<le> pending \<sigma> \<and> (pending \<tau> = 0 \<longleftrightarrow> \<not> (\<exists>\<upsilon>. worker_step \<tau> \<upsilon>)) \<and>
        (pending \<tau> = 0 \<longrightarrow> (\<forall>r \<in> set (runs (committed (sess \<tau>))).
           run_status r \<in> {FINISHED, FAILED} \<or> run_status r = SEND_STOP_SIGNAL \<and> started_at r = None)))"
proof (intro conjI allI impI ballI)
  note inv = reachable_inv [OF assms]
  show "\<exists>n \<tau>. worker_steps n \<sigma> \<tau> \<and> pending \<tau> = 0" by (rule worker_steps_to_rest [OF inv])
  fix n \<tau>
  assume w: "worker_steps n \<sigma> \<tau>"
  note b = worker_steps_bounded [OF w inv]
  then show "n \<le> pending \<sigma>" by simp
  show "pending \<tau> = 0 \<longleftrightarrow> \<not> (\<exists>\<upsilon>. worker_step \<tau> \<upsilon>)" using b worker_step_possible worker_step_pending by fastforce
  fix r
  assume "pending \<tau> = 0" "r \<in> set (runs (committed (sess \<tau>)))"
  with b show "run_status r \<in> {FINISHED, FAILED} \<or> run_status r = SEND_STOP_SIGNAL \<and> started_at r = None"
    by (intro runs_at_rest) simp_all
qed

lemma workers_come_to_rest_witness:
  "pending ex_created = 2 \<and> (\<exists>n \<tau>. n \<le> 2 \<and> worker_steps n ex_created \<tau> \<and> \<not> (\<exists>\<upsilon>. worker_step \<tau> \<upsilon>))"
proof -
  have "pending ex_created = 2" by (simp add: pending_def ex_created_def)
  then show ?thesis using workers_come_to_rest [OF ex_created_reachable] by metis
qed

section \<open>The worker task\<close>

lemma worker_start_picks:
  assumes "pick_run rid (working s) = Some r" and "worker_context_of c r (working s) = Inr ctx"
    and "render (r\<lparr>run_status := STARTED, started_at := Some now\<rparr>) = Inr url" and "schema_ok (working s)"
  defines "r' \<equiv> r\<lparr>run_status := STARTED, started_at := Some now, log_url := Some url, updated_at := now\<rparr>"
  shows "\<exists>d. worker_start c render now rid s = (Inr (Some (ctx\<lparr>wc_run := r'\<rparr>)), s\<lparr>working := d, committed := d\<rparr>) \<and>
     get_row rid (runs d) = Some r' \<and> schema_ok d"
proof -
  let ?f = "\<lambda>r. r\<lparr>run_status := STARTED, started_at := Some now, log_url := Some url, updated_at := now\<rparr> :: run"
  have "get_row rid (runs (working s)) = Some r"
    using get_row_unique [OF assms(4), of r] pick_run_Some [OF assms(1)] by simp
  from update_run_row_ok [OF this assms(4), of ?f]
  obtain d where "update_run_row rid ?f (working s) = Inr (r', d)" "get_row rid (runs d) = Some r'" "schema_ok d"
    by (auto simp: r'_def)
  with assms(1,2,3) show ?thesis
    by (intro exI [of _ d]) (simp add: worker_start_def bindE_def query_def uow_def exec_def return_def)
qed

lemma worker_finish_writes:
  assumes "get_row rid (runs (working s)) = Some r" and "schema_ok (working s)"
  shows "\<exists>d. worker_finish now rid st s = (Inr (), s\<lparr>working := d, committed := d\<rparr>) \<and>
     get_row rid (runs d) = Some (r\<lparr>run_status := st, ended_at := Some now, updated_at := now\<rparr>)"
proof -
  let ?f = "\<lambda>r. r\<lparr>run_status := st, ended_at := Some now, updated_at := now\<rparr> :: run"
  from update_run_row_ok [OF assms(1,2), of ?f]
  obtain d where "update_run_row rid ?f (working s) = Inr (?f r, d)" "get_row rid (runs d) = Some (?f r)" by auto
  with assms(1) show ?thesis
    by (intro exI [of _ d]) (simp add: worker_finish_def bindE_def query_def uow_def exec_def return_def)
qed

text \<open>
  C6. The worker task of a created run whose context can be read: the row ends as finished when the
  transfer was performed, and as failed, with the exception raised again, when it was not; in both cases
  with the start and the end time, and the transfer was performed on the row as it was committed at the
  start.
\<close>

theorem run_transfer_outcome:
  assumes "pick_run rid (working s) = Some r" and "worker_context_of c r (working s) = Inr ctx"
    and "render (r\<lparr>run_status := STARTED, started_at := Some now\<rparr>) = Inr url"
    and "schema_ok (working s)"
  defines "r' \<equiv> r\<lparr>run_status := STARTED, started_at := Some now, log_url := Some url, updated_at := now\<rparr>"
  shows "\<exists>s'. run_transfer c render perform now now' rid s =
       ((case perform (ctx\<lparr>wc_run := r'\<rparr>) of Inl e \<Rightarrow> Inl e | Inr _ \<Rightarrow> Inr ()), s') \<and>
     get_row rid (runs (committed s')) = Some (r'\<lparr>run_status := (case perform (ctx\<lparr>wc_run := r'\<rparr>) of
        Inl _ \<Rightarrow> FAILED | Inr _ \<Rightarrow> FINISHED), ended_at := Some now', updated_at := now'\<rparr>)"
proof -
  from worker_start_picks [where render = render, OF assms(1,2,3,4)] obtain d where
    st: "worker_start c render now rid s = (Inr (Some (ctx\<lparr>wc_run := r'\<rparr>)), s\<lparr>working := d, committed := d\<rparr>)"
    and d: "get_row rid (runs d) = Some r'" "schema_ok d" by (auto simp: r'_def)
  let ?s = "s\<lparr>working := d, committed := d\<rparr>"
  let ?st = "case perform (ctx\<lparr>wc_run := r'\<rparr>) of Inl _ \<Rightarrow> FAILED | Inr _ \<Rightarrow> FINISHED"
  have "get_row rid (runs (working ?s)) = Some r'" "schema_ok (working ?s)" using d by simp_all
  from worker_finish_writes [OF this, of now' ?st] obtain e where
    f: "worker_finish now' rid ?st ?s = (Inr (), ?s\<lparr>working := e, committed := e\<rparr>)"
    and e: "get_row rid (runs e) = Some (r'\<lparr>run_status := ?st, ended_at := Some now', updated_at := now'\<rparr>)"
    by blast
  show ?thesis
  proof (cases "perform (ctx\<lparr>wc_run := r'\<rparr>)")
    case (Inl x)
    with st f e show ?thesis
      by (simp add: run_transfer_def bindE_def catchE_def query_def return_def raise_def)
  next
    case (Inr x)
    with st f e show ?thesis
      by (simp add: run_transfer_def bindE_def catchE_def query_def return_def)
  qed
qed

lemma run_transfer_witness:
  "\<exists>r s'. run_transfer ex_fernet (\<lambda>_. Inr ''url'') (\<lambda>_. Inl KombuError) 9 11 1 (sess ex_created) = (Inl KombuError, s') \<and>
     get_row 1 (runs (committed s')) = Some r \<and> run_status r = FAILED \<and> started_at r = Some 9 \<and> ended_at r = Some 11"
proof -
  let ?d = "working (sess ex_created)"
  have c: "committed (sess ex_created) = ?d" by (simp add: ex_created_def)
  have "schema_ok (committed (sess ex_created))"
    using reachable_inv [OF ex_created_reachable] coherentD(3) unfolding sys_inv_def by blast
  then have sch: "schema_ok ?d" by (simp add: c)
  have "pick_run 1 ?d \<noteq> None" by code_simp
  then obtain r where r: "pick_run 1 ?d = Some r" by blast
  have "\<not> isl (worker_context_of ex_fernet (the (pick_run 1 ?d)) ?d)" by code_simp
  then have "\<not> isl (worker_context_of ex_fernet r ?d)" by (simp add: r)
  then obtain ctx where ctx: "worker_context_of ex_fernet r ?d = Inr ctx"
    by (cases "worker_context_of ex_fernet r ?d") auto
  show ?thesis
    using run_transfer_outcome [OF r ctx _ sch, of "\<lambda>_. Inr ''url''" 9 "''url''" "\<lambda>_. Inl KombuError" 11] by auto
qed

section \<open>The scheduler\<close>





lemma copy_transfer_rows:
  assumes "copy_transfer tid td u s = (Inr x, s')" and ok: "coherent (working s)"
  shows "\<exists>t c1 c2 copy q. get_row tid (transfers (working s)) = Some t \<and> x = read_transfer_of copy \<and>
     copy = transfer_copy_of (ct_new_queue_id td) (Some (ct_new_group_id td)) (Some (pk c1)) (Some (pk c2))
       (ct_new_name td) t (pk copy) \<and>
     copy \<in> set (transfers (committed s')) \<and> pk copy \<noteq> tid \<and>
     has_row tid (transfers (committed s')) = (\<not> ct_remove_source td) \<and>
     c1 \<in> set (connections (committed s')) \<and> c2 \<in> set (connections (committed s')) \<and>
     group_id c1 = ct_new_group_id td \<and> group_id c2 = ct_new_group_id td \<and>
     q \<in> set (queues (committed s')) \<and> pk q = ct_new_queue_id td \<and> group_id q = ct_new_group_id td"
proof -
  from assms(1) obtain t ct s1 q where t: "get_row tid (transfers (working s)) = Some t"
    and b: "copy_transfer_block tid td t s = (Inr ct, s1)" and s': "s' = s1\<lparr>committed := working s1\<rparr>"
    and x: "x = read_transfer_of ct" and q: "get_row (ct_new_queue_id td) (queues (working s)) = Some q"
      "group_id q = ct_new_group_id td"
    by (auto simp: copy_transfer_def transfer_repo_read_by_id_def queue_repo_read_by_id_def run_simps
        split: option.splits if_splits)
  from copy_transfer_block_Inr [OF b] obtain c1 s2 c2 s3 s4 where
    one: "connection_repo_copy (source_connection_id t) (ct_new_group_id td)
        (ct_new_source_connection_name td) s = (Inr c1, s2)"
    and two: "(if source_connection_id t \<noteq> target_connection_id t
      then connection_repo_copy (target_connection_id t) (ct_new_group_id td) (ct_new_target_connection_name td)
      else return c1) s2 = (Inr c2, s3)"
    and copy: "transfer_repo_copy tid (ct_new_queue_id td) (Some (ct_new_group_id td)) (Some (pk c1)) (Some (pk c2))
       (ct_new_name td) s3 = (Inr ct, s4)"
    and del: "if ct_remove_source td then \<exists>x. transfer_repo_delete tid s4 = (Inr x, s1) else s1 = s4"
    by blast
  have tin: "t \<in> set (transfers (working s))" "pk t = tid" using get_row_Some [OF t] by auto
  note cc = copied_connections [OF one two ok tin(1)]
  from transfer_repo_copy_Inr [OF copy] cc t obtain d where s4: "s4 = s3\<lparr>working := d\<rparr>"
    and i: "insert_transfer (transfer_copy_of (ct_new_queue_id td) (Some (ct_new_group_id td)) (Some (pk c1))
       (Some (pk c2)) (ct_new_name td) t) (working s3) = Inr (ct, d)" by auto
  from transfers.ins_law [OF i] have law: "ct = transfer_copy_of (ct_new_queue_id td) (Some (ct_new_group_id td))
       (Some (pk c1)) (Some (pk c2)) (ct_new_name td) t (seq_transfer (working s3))"
    "transfers d = transfers (working s3) @ [ct]" by auto
  have pkct: "pk ct = seq_transfer (working s3)" using law(1) by (simp add: transfer_copy_of_def)
  have "\<not> has_row (pk ct) (transfers (working s3))"
    using cc coherentD(3) [of "working s3"] keys_ok_fresh [of "transfers (working s3)" "seq_transfer (working s3)"]
    by (simp add: pkct schema_ok_def pk_ok_def)
  then have ne: "pk ct \<noteq> tid" using tin cc by (auto simp: has_row_iff)
  have fr: "connections d = connections (working s3)" "queues d = queues (working s3)"
    using i by (auto simp: insert_transfer_def Let_def split: if_splits option.splits)
  have c: "c1 \<in> set (connections d)" "c2 \<in> set (connections d)" using cc fr get_row_Some by fastforce+
  have qd: "q \<in> set (queues d)" "pk q = ct_new_queue_id td" using cc fr q(1) get_row_Some by fastforce+
  have tr: "ct \<in> set (transfers d)" "has_row tid (transfers d)" using law(2) cc tin by (auto simp: has_row_iff)
  have "connections (working s1) = connections d \<and> queues (working s1) = queues d \<and>
     ct \<in> set (transfers (working s1)) \<and> has_row tid (transfers (working s1)) = (\<not> ct_remove_source td)"
  proof (cases "ct_remove_source td")
    case True
    with del s4 obtain y where "delete_transfer_row tid d = Inr (y, working s1)"
      by (auto simp: transfer_repo_delete_def run_simps)
    then have "working s1 = cascade_transfers (\<lambda>t. pk t = tid) d"
      by (auto simp: delete_transfer_row_def split: option.splits)
    with tr ne True show ?thesis by (auto simp: cascade_transfers_def Let_def has_row_iff)
  qed (use del s4 tr in auto)
  then show ?thesis
    using t x law(1) pkct ne c qd cc q(2) s'
    by (intro exI [of _ t] exI [of _ c1] exI [of _ c2] exI [of _ ct] exI [of _ q]) auto
qed


definition ex_copy_request :: copy_transfer_schema where
  "ex_copy_request = \<lparr>ct_new_group_id = 1, ct_new_queue_id = 1,
     ct_new_source_connection_name = Some ''c3'', ct_new_target_connection_name = Some ''c4'',
     ct_new_name = Some ''t2'', ct_remove_source = False\<rparr>"

lemma ex_copy_transfer: "\<exists>x s'. copy_transfer 1 ex_copy_request ex_owner ex_session = (Inr x, s')"
proof -
  have "\<not> isl (fst (copy_transfer 1 ex_copy_request ex_owner ex_session))" by code_simp
  then show ?thesis
    by (cases "copy_transfer 1 ex_copy_request ex_owner ex_session"; cases "fst (copy_transfer 1 ex_copy_request ex_owner ex_session)") auto
qed


text \<open>
  C14. A copied transfer keeps the time stamp of the transfer it was copied from.  When the scheduler has
  already seen that time, it does not fetch the copy, although the copy is scheduled as the original is.
\<close>

theorem copied_transfer_not_fetched:
  assumes "copy_transfer tid td u s = (Inr x, s')" and "coherent (working s)"
    and "get_row tid (transfers (working s)) = Some t" and "updated_at t \<le> l"
  shows "\<exists>copy \<in> set (transfers (committed s')). x = read_transfer_of copy \<and> is_scheduled copy = is_scheduled t \<and>
     schedule copy = schedule t \<and> copy \<notin> set (fetch_updated_jobs (Some l) (committed s'))"
proof -
  from copy_transfer_rows [OF assms(1,2)] obtain t' and c1 c2 :: connection and copy where
    t': "get_row tid (transfers (working s)) = Some t'" and **: "x = read_transfer_of copy"
    "copy = transfer_copy_of (ct_new_queue_id td) (Some (ct_new_group_id td))
       (Some (pk c1)) (Some (pk c2)) (ct_new_name td) t' (pk copy)" "copy \<in> set (transfers (committed s'))" by blast
  have "t' = t" using t' assms(3) by simp
  note * = ** [unfolded this]
  have "is_scheduled copy = is_scheduled t" "schedule copy = schedule t" "updated_at copy = updated_at t"
    by (subst *(2), simp add: transfer_copy_of_def)+
  with * assms(4) show ?thesis by (intro bexI [of _ copy]) (simp_all add: fetch_updated_jobs_def)
qed

lemma copied_transfer_not_fetched_witness:
  "\<exists>x s'. copy_transfer 1 ex_copy_request ex_owner ex_session = (Inr x, s') \<and>
     (\<exists>copy \<in> set (transfers (committed s')). is_scheduled copy \<and> copy \<notin> set (fetch_updated_jobs (Some 7) (committed s')))"
proof -
  from ex_copy_transfer obtain x s' where c: "copy_transfer 1 ex_copy_request ex_owner ex_session = (Inr x, s')" by blast
  have "coherent (working ex_session)" using ex_coherent by (simp add: ex_session_def)
  moreover have "get_row 1 (transfers (working ex_session)) = Some ex_transfer" by (simp add: get_row_def ex_defs)
  moreover have "updated_at ex_transfer \<le> 7" "is_scheduled ex_transfer" by (simp_all add: ex_transfer_def)
  ultimately show ?thesis using copied_transfer_not_fetched [OF c] c by blast
qed

end
