(* ===== verification/Sync_Resource_Properties.thy ===== *)
theory Sync_Resource_Properties
  imports Sync_Examples
begin

text \<open>
  Properties of resources: stored credentials and what responses show of them, the guards of deletion, copies
  of connections, updates of transfers, queue slugs, pages and search queries.
\<close>

section \<open>Credentials\<close>




















text \<open>The shape of a handler that writes in a unit of work and then builds its response.\<close>

lemma commit_then_cases:
  assumes "bindE (uow block) tail s = (res, s')" and "uncommitted block" and "\<And>x. pure (tail x)"
  obtains e where "res = Inl e" "committed s' = committed s" "broker s' = broker s"
  | x t where "block s = (Inr x, t)" "s' = t\<lparr>committed := working t\<rparr>" "tail x s' = (res, s')"
proof -
  from assms(1) consider e t where "res = Inl e" "block s = (Inl e, t)" "s' = t\<lparr>working := committed t\<rparr>"
    | x t where "block s = (Inr x, t)" "tail x (t\<lparr>committed := working t\<rparr>) = (res, s')"
    by (cases res) (auto simp: run_simps)
  then show thesis
  proof cases
    case 1
    with uncommittedD [OF assms(2) 1(2)] that(1) show thesis by simp
  next
    case 2
    with pureD [OF assms(3) 2(2)] that(2) show thesis by simp
  qed
qed

lemma response_pure: "pure (bindE (credentials_repo_read c i) (\<lambda>credentials. query (g credentials)))"
  by (intro pure_intros repo_pure)






lemma update_connection_cases:
  assumes "update_connection lax c rnd now i cd u s = (res, s')"
  obtains e where "res = Inl e" "committed s' = committed s" "broker s' = broker s"
  | conn old ad d a t where "conn_type conn = cs_type cd" "conn_data conn = cs_data cd" "rname conn = cs_name cd"
      "pk conn = i" "fst (credentials_repo_read c i s) = Inr old"
      "keep_secrets old (get_secret_fields (cs_auth_type cd)) (cs_auth_data cd) = Inr ad"
      "credentials_repo_update c rnd i ad (s\<lparr>working := d\<rparr>) = (Inr a, t)"
      "s' = t\<lparr>committed := working t\<rparr>"
      "bindE (credentials_repo_read c i) (\<lambda>credentials.
          query (\<lambda>_. read_connection_of lax conn (Some credentials))) s' = (res, s')"
proof -
  let ?tail = "\<lambda>conn. bindE (credentials_repo_read c i) (\<lambda>credentials.
     query (\<lambda>_. read_connection_of lax conn (Some credentials)))"
  from assms consider e where "res = Inl e" "s' = s"
    | "bindE (uow (update_connection_block c rnd now i cd)) ?tail s = (res, s')"
    by (cases res) (auto simp: update_connection_def run_simps split: if_splits)
  then show thesis
  proof cases
    case 1
    with that(1) show thesis by simp
  next
    case 2
    then show thesis
    proof (cases rule: commit_then_cases [OF _ update_connection_block_uncommitted response_pure, consumes 1])
      case (2 conn t)
      from update_connection_block_Inr [OF 2(1)] obtain old ad d a where
        "fst (credentials_repo_read c i s) = Inr old"
        "keep_secrets old (get_secret_fields (cs_auth_type cd)) (cs_auth_data cd) = Inr ad"
        and u: "update_connection_row i (\<lambda>c. c\<lparr>conn_type := cs_type cd, rname := cs_name cd,
          rdescription := cs_description cd, conn_data := cs_data cd, updated_at := now\<rparr>) (working s) = Inr (conn, d)"
        and "credentials_repo_update c rnd i ad (s\<lparr>working := d\<rparr>) = (Inr a, t)" by blast
      with connections.upd_law [OF u] 2(2,3) show thesis by (intro that(2) [of conn old ad d a t]) auto
    qed (use that(1) in blast)
  qed
qed









section \<open>Deleting and copying connections\<close>


lemma has_row_remove_iff: "has_row j (filter (\<lambda>x. pk x \<noteq> i) rows) \<longleftrightarrow> j \<noteq> i \<and> has_row j rows"
  by (auto simp: has_row_filter has_row_iff)




lemma copy_connection_rows:
  assumes "copy_connection lax i ccd u s = (Inr r, s')" and ok: "schema_ok (working s)"
  shows "\<exists>c d. rc_id r = pk c \<and> rc_group_id r = cc_new_group_id ccd \<and> rc_auth_data r = None \<and> pk c \<noteq> i \<and>
     connections d = connections (working s) @ [c] \<and> auth_datas d = auth_datas (working s) \<and>
     transfers d = transfers (working s) \<and> \<not> has_row (pk c) (connections (working s)) \<and>
     schema_ok d \<and> working s' = committed s' \<and>
     committed s' = (if cc_remove_source ccd then cascade_connections (\<lambda>c. pk c = i) d else d)"
proof -
  from assms(1) obtain c t1 where b: "copy_connection_block i ccd s = (Inr c, t1)"
    and s': "s' = t1\<lparr>committed := working t1\<rparr>" and r: "read_connection_of lax c None = Inr r"
    by (auto simp: copy_connection_def run_simps split: if_splits dest!: sym [of "Inr _" "read_connection_of _ _ _"])
  from b obtain t where cp: "connection_repo_copy i (cc_new_group_id ccd) (cc_new_name ccd) s = (Inr c, t)"
    and del: "if cc_remove_source ccd then \<exists>x. connection_repo_delete i t = (Inr x, t1) else t1 = t"
    by (auto simp: copy_connection_block_def run_simps split: if_splits)
  from connection_repo_copy_Inr [OF cp ok] obtain c0 where c0: "get_row i (connections (working s)) = Some c0"
    and l: "group_id c = cc_new_group_id ccd" "connections (working t) = connections (working s) @ [c]"
      "\<not> has_row (pk c) (connections (working s))" "transfers (working t) = transfers (working s)"
      "schema_ok (working t)" "auth_datas (working t) = auth_datas (working s)" by blast
  have "pk c \<noteq> i" using l(3) get_row_has_row [OF c0] by auto
  moreover have "rc_id r = pk c \<and> rc_group_id r = group_id c \<and> rc_auth_data r = None"
    using r by (auto simp: read_connection_of_def split: option.splits)
  moreover have "working t1 = (if cc_remove_source ccd then cascade_connections (\<lambda>c. pk c = i) (working t) else working t)"
    using del by (auto simp: connection_repo_delete_def delete_connection_row_def run_simps split: option.splits if_splits)
  ultimately show ?thesis using l s' by (intro exI [of _ c] exI [of _ "working t"]) simp
qed

lemma copied_without_credentials:
  assumes "copy_connection lax i ccd u s = (Inr r, s')" and "schema_ok (working s)"
  shows "has_row (rc_id r) (connections (committed s')) \<and> get_auth_row (rc_id r) (committed s') = None \<and>
     (\<exists>e t. update_connection lax' c rnd now (rc_id r) cd u' s' = (Inl e, t) \<and> committed t = committed s')"
proof -
  from copy_connection_rows [OF assms] obtain x and w :: db where x: "rc_id r = pk x" "pk x \<noteq> i"
    "connections w = connections (working s) @ [x]" "auth_datas w = auth_datas (working s)"
    "\<not> has_row (pk x) (connections (working s))" "working s' = committed s'"
    "committed s' = (if cc_remove_source ccd then cascade_connections (\<lambda>c. pk c = i) w else w)"
    by blast
  have "fk_ok (working s)" using assms(2) by (simp add: schema_ok_def)
  then have "\<forall>a \<in> set (auth_datas w). ad_connection_id a \<noteq> pk x"
    using x(4,5) by (auto simp: fk_ok_def)
  moreover have "set (auth_datas (committed s')) \<subseteq> set (auth_datas w)"
    by (auto simp: x(7) cascade_connections_rows)
  ultimately have none: "get_auth_row (pk x) (committed s') = None" by (auto simp: get_auth_row_None)
  have "has_row (pk x) (connections (committed s'))"
    using x(2,3) by (auto simp: x(7) cascade_connections_rows has_row_iff)
  moreover have "\<exists>e t. update_connection lax' c rnd now (pk x) cd u' s' = (Inl e, t) \<and> committed t = committed s'"
  proof -
    obtain res t where m: "update_connection lax' c rnd now (pk x) cd u' s' = (res, t)"
      by (cases "update_connection lax' c rnd now (pk x) cd u' s'")
    then show ?thesis
    proof (cases rule: update_connection_cases)
      case (2 conn old ad d a t')
      with none x(6) show ?thesis by (auto simp: credentials_repo_read_def query_def)
    qed (use m in blast)
  qed
  ultimately show ?thesis using none x(1) by simp
qed

definition ex_copy_connection :: "bool \<Rightarrow> copy_connection_schema" where
  "ex_copy_connection b = \<lparr>cc_new_group_id = 1, cc_new_name = Some ''copy'', cc_remove_source = b\<rparr>"

lemma ex_copied:
  "\<exists>r s'. copy_connection strict 1 (ex_copy_connection b) ex_owner ex_session = (Inr r, s')"
proof -
  have "\<not> isl (fst (copy_connection strict 1 (ex_copy_connection True) ex_owner ex_session))"
    "\<not> isl (fst (copy_connection strict 1 (ex_copy_connection False) ex_owner ex_session))" by code_simp+
  then have "\<not> isl (fst (copy_connection strict 1 (ex_copy_connection b) ex_owner ex_session))" by (cases b) simp_all
  then obtain r where "fst (copy_connection strict 1 (ex_copy_connection b) ex_owner ex_session) = Inr r"
    by (cases "fst (copy_connection strict 1 (ex_copy_connection b) ex_owner ex_session)") auto
  then show ?thesis by (metis prod.collapse)
qed

lemma ex_session_schema: "schema_ok (working ex_session)"
  using ex_db_schema by (simp add: ex_session_def)

lemma removal_drops_transfers:
  assumes "copy_connection lax i ccd u s = (Inr r, s')" and "schema_ok (working s)" and "cc_remove_source ccd"
    and "t \<in> set (list_by_connection_id i (working s))"
  shows "\<not> has_row (pk t) (transfers (committed s')) \<and> (\<forall>x \<in> set (runs (committed s')). transfer_id x \<noteq> pk t)"
proof -
  from copy_connection_rows [OF assms(1,2)] assms(3) obtain w :: db where w: "transfers w = transfers (working s)"
    "schema_ok w" "committed s' = cascade_connections (\<lambda>c. pk c = i) w" by auto
  have t: "t \<in> set (transfers (working s))" "source_connection_id t = i \<or> target_connection_id t = i"
    using assms(4) by (auto simp: list_by_connection_id_def)
  have d: "distinct (map pk (transfers (working s)))" using w(1,2) schema_okD by metis
  have "x = t" if "x \<in> set (transfers (working s))" "pk x = pk t" for x
    using d that t(1) by (metis distinct_map inj_onD)
  then have n: "\<not> has_row (pk t) (transfers (committed s'))"
    using t(2) by (auto simp: w(1,3) cascade_connections_rows has_row_iff has_row_remove_iff)
  have "fk_ok (committed s')" using w(2) by (simp add: w(3) schema_ok_def cascade_connections_fk)
  then have "\<forall>x \<in> set (runs (committed s')). has_row (transfer_id x) (transfers (committed s'))" by (simp add: fk_ok_def)
  with n show ?thesis by metis
qed

text \<open>
  C22. What copying a connection leaves behind.  The copy has no credentials, and none can be given to it: every update
  of it fails, whoever sends it and whatever it contains.  With removal of the source, every transfer that reads from or
  writes to the source is deleted without a check, together with its runs, although deleting the connection would be
  refused for that reason.
\<close>

theorem copied_connection_outcome:
  assumes "copy_connection lax i ccd u s = (Inr r, s')" and "schema_ok (working s)"
  shows "has_row (rc_id r) (connections (committed s')) \<and> get_auth_row (rc_id r) (committed s') = None \<and>
     (\<exists>e t. update_connection lax' c rnd now (rc_id r) cd u' s' = (Inl e, t) \<and> committed t = committed s') \<and>
     (cc_remove_source ccd \<longrightarrow> (\<forall>t \<in> set (list_by_connection_id i (working s)).
        \<not> has_row (pk t) (transfers (committed s')) \<and> (\<forall>x \<in> set (runs (committed s')). transfer_id x \<noteq> pk t)))"
  using copied_without_credentials [OF assms, of lax' c rnd now cd u'] removal_drops_transfers [OF assms] by blast

lemma copied_connection_witness:
  "\<exists>r s'. copy_connection strict 1 (ex_copy_connection True) ex_owner ex_session = (Inr r, s') \<and>
     get_auth_row (rc_id r) (committed s') = None \<and> has_row 1 (transfers (committed ex_session)) \<and> \<not> has_row 1 (transfers (committed s'))"
proof -
  from ex_copied obtain r s' where c: "copy_connection strict 1 (ex_copy_connection True) ex_owner ex_session = (Inr r, s')"
    by blast
  have "ex_transfer \<in> set (list_by_connection_id 1 (working ex_session))" "has_row 1 (transfers (committed ex_session))"
    by (simp_all add: list_by_connection_id_def has_row_def ex_defs)
  moreover have "cc_remove_source (ex_copy_connection True)" "pk ex_transfer = 1"
    by (simp_all add: ex_copy_connection_def ex_transfer_def)
  ultimately show ?thesis using copied_connection_outcome [OF c ex_session_schema] c by metis
qed

end
