(* ===== verification/Sync_Request_Properties.thy ===== *)
theory Sync_Request_Properties
  imports Sync_Examples
begin

text \<open>
  Properties of requests on transfers and queues, of pages, slugs and search queries, and of all requests at
  once: a request that only reads changes nothing, and a request that fails commits nothing.
\<close>

section \<open>Transfers and queues\<close>












section \<open>All requests\<close>













section \<open>Slugs, pages and search queries\<close>

lemma no_double_append: "no_double (a @ b) \<Longrightarrow> no_double a \<and> no_double b"
  by (induction a rule: no_double.induct) (auto simp: no_double_Cons)

lemma no_double_strip: "no_double s \<Longrightarrow> no_double (strip_char x s)"
proof -
  let ?u = "dropWhile (\<lambda>c. c = x) s"
  assume "no_double s"
  then have "no_double ?u"
    using no_double_append [of "takeWhile (\<lambda>c. c = x) s" ?u] by simp
  moreover have "?u = strip_char x s @ rev (takeWhile (\<lambda>c. c = x) (rev ?u))"
    unfolding strip_char_def by (metis rev_append rev_rev_ident takeWhile_dropWhile_id)
  ultimately show ?thesis using no_double_append [of "strip_char x s"] by metis
qed

text \<open>
  C27. The slug names the Celery queue: it is made of the group id, a dash, and lower-case letters, digits and
  single inner underscores, and two queues have the same slug exactly when they are of the same group and their
  names have the same normal form.
\<close>

theorem queue_slug_identifies:
  "list_all slug_char (short_name n) \<and> no_double (short_name n) \<and>
   short_name n \<noteq> CHR ''_'' # tl (short_name n) \<and> short_name n \<noteq> butlast (short_name n) @ ''_'' \<and>
   queue_slug g n = str_int g @ ''-'' @ short_name n \<and>
   (queue_slug g n = queue_slug g' n') = (g = g' \<and> short_name n = short_name n')"
proof -
  have "hd (short_name n) \<noteq> CHR ''_'' \<and> last (short_name n) \<noteq> CHR ''_''" if "short_name n \<noteq> []"
    using strip_char_ends [OF short_name_def [symmetric] that] by simp
  then have "short_name n \<noteq> CHR ''_'' # tl (short_name n) \<and> short_name n \<noteq> butlast (short_name n) @ ''_''"
    by (metis last_snoc list.discI list.sel(1) snoc_eq_iff_butlast)
  moreover have "list_all slug_char (short_name n)" using short_name_chars by (auto simp: list_all_iff)
  moreover have "no_double (short_name n)"
    unfolding short_name_def by (rule no_double_strip) (rule sub_restricted_no_double)
  ultimately show ?thesis using queue_slug_inject [of g n g' n'] by (simp add: queue_slug_def)
qed

text \<open>
  C28. Pages partition the rows: the items of the pages from the first to the last, put together, are the rows of
  the query in their order; no page is longer than the page size; and a page has a next one exactly when it is
  not the last.
\<close>

theorem pages_partition_rows:
  assumes "0 < ps"
  shows "concat (map (\<lambda>p. pg_items (paginate_result rows p ps))
       (map int [1..<Suc (nat (page_count (int (length rows)) ps))])) = rows \<and>
     (1 \<le> p \<longrightarrow> int (length (pg_items (paginate_result rows p ps))) \<le> ps \<and>
        pg_has_next (paginate_result rows p ps) = (p < pg_pages (paginate_result rows p ps)) \<and>
        pg_has_previous (paginate_result rows p ps) = (1 < p))"
proof -
  have "int (length (pg_items (paginate_result rows p ps))) \<le> ps" if "1 \<le> p"
    using page_slice_length [OF that assms, of rows] assms by (simp add: paginate_result_def Pagination_def Let_def)
  moreover have "pg_has_previous (paginate_result rows p ps) = (1 < p)"
    by (simp add: paginate_result_def Pagination_def Let_def)
  ultimately show ?thesis using pages_cover [OF assms, of rows] paginate_has_next [OF _ assms, of p rows] by blast
qed

lemma pages_partition_rows_witness:
  "concat (map (\<lambda>p. pg_items (paginate_result [10, 20, 30 :: int] p 2)) [1, 2]) = [10, 20, 30] \<and>
   pg_has_next (paginate_result [10, 20, 30 :: int] 1 2)"
proof -
  have "page_count 3 2 = 2" by code_simp
  moreover have "[1..<Suc (nat 2)] = [1, 2]" by code_simp
  moreover have "pg_pages (paginate_result [10, 20, 30 :: int] 1 2) = 2" by code_simp
  ultimately show ?thesis using pages_partition_rows [of 2 "[10, 20, 30 :: int]" 1] by simp
qed

text \<open>What stands outside the quotes of a query text.\<close>

fun outside :: "bool \<Rightarrow> string \<Rightarrow> string" where
  "outside inside [] = []"
| "outside inside (c # cs) =
     (if c = quote_char then outside (\<not> inside) cs else if inside then outside inside cs else c # outside inside cs)"

lemma outside_plain: "quote_char \<notin> set m \<Longrightarrow> outside False (m @ rest) = m @ outside False rest"
  by (induction m) auto

lemma outside_inner: "quote_char \<notin> set w \<Longrightarrow> outside True (w @ quote_char # rest) = outside False rest"
  by (induction w) auto

lemma outside_word:
  "quote_char \<notin> set w \<Longrightarrow> outside False (quote_char # w @ quote_char # rest) = outside False rest"
  by (simp add: outside_inner)

definition operators :: string where
  "operators = ''|&():* ''"

lemma outside_combine_words:
  assumes "\<forall>w \<in> set ws. quote_char \<notin> set w"
  shows "\<exists>m. set m \<subseteq> set operators \<and> (\<forall>rest. outside False (combine_words ws p @ rest) = m @ outside False rest)"
proof -
  let ?m = "if p then '':*'' else []"
  have m: "quote_char \<notin> set ?m" "set ?m \<subseteq> set operators" by (auto simp: operators_def)
  have sep: "quote_char \<notin> set '' & ''" "set '' & '' \<subseteq> set operators" by (auto simp: operators_def)
  have "\<exists>y. set y \<subseteq> set operators \<and>
      (\<forall>rest. outside False (join '' & '' (map (\<lambda>w. quote_char # w @ quote_char # ?m) xs) @ rest) = y @ outside False rest)"
    if "\<forall>w \<in> set xs. quote_char \<notin> set w" for xs
    using that
  proof (induction xs rule: induct_list012)
    case 1
    then show ?case by (intro exI [of _ "[]"]) simp
  next
    case (2 w)
    then show ?case using m by (intro exI [of _ ?m]) (simp only: list.map join.simps, simp add: outside_inner)
  next
    case (3 w v xs)
    then obtain y where y: "set y \<subseteq> set operators"
      "\<And>rest. outside False (join '' & '' (map (\<lambda>w. quote_char # w @ quote_char # ?m) (v # xs)) @ rest) = y @ outside False rest"
      by auto
    have w: "quote_char \<notin> set w" using 3 by simp
    have "outside False (join '' & '' (map (\<lambda>w. quote_char # w @ quote_char # ?m) (w # v # xs)) @ rest) =
        (?m @ '' & '' @ y) @ outside False rest" for rest
    proof -
      have "join '' & '' (map (\<lambda>w. quote_char # w @ quote_char # ?m) (w # v # xs)) @ rest =
        quote_char # w @ quote_char # (?m @ '' & '' @ join '' & '' (map (\<lambda>w. quote_char # w @ quote_char # ?m) (v # xs)) @ rest)"
        by simp
      then show ?thesis using outside_word [OF w] outside_plain [OF m(1)] outside_plain [OF sep(1)] y(2) by simp
    qed
    then show ?case using y(1) m(2) sep(2) by (intro exI [of _ "?m @ '' & '' @ y"]) auto
  qed
  from this [of "filter (\<lambda>w. w \<noteq> []) ws"] assms show ?thesis
    unfolding combine_words_def Let_def by simp
qed

lemma outside_combine_queries:
  assumes "\<forall>q \<in> set qs. \<exists>m. set m \<subseteq> set operators \<and> (\<forall>rest. outside False (q @ rest) = m @ outside False rest)"
  shows "set (outside False (combine_queries qs)) \<subseteq> set operators"
proof -
  have "\<exists>m. set m \<subseteq> set operators \<and> (\<forall>rest. outside False (join '' | '' (map (\<lambda>q. ''('' @ q @ '')'') xs) @ rest)
      = m @ outside False rest)" if "set xs \<subseteq> set qs" for xs
    using that
  proof (induction xs rule: induct_list012)
    case 1
    then show ?case by (intro exI [of _ "[]"]) simp
  next
    case (2 q)
    then obtain m where "set m \<subseteq> set operators" "\<And>rest. outside False (q @ rest) = m @ outside False rest"
      using assms by auto
    then show ?case by (intro exI [of _ "''('' @ m @ '')''"]) (simp add: operators_def)
  next
    case (3 q q' xs)
    then obtain m where "set m \<subseteq> set operators" "\<And>rest. outside False (q @ rest) = m @ outside False rest"
      using assms by auto
    moreover from 3 obtain y where "set y \<subseteq> set operators"
      "\<And>rest. outside False (join '' | '' (map (\<lambda>q. ''('' @ q @ '')'') (q' # xs)) @ rest) = y @ outside False rest"
      by auto
    ultimately show ?case by (intro exI [of _ "''('' @ m @ '') | '' @ y"]) (simp add: operators_def)
  qed
  from this [of "filter (\<lambda>q. q \<noteq> []) qs"] obtain m where "set m \<subseteq> set operators"
    "\<And>rest. outside False (combine_queries qs @ rest) = m @ outside False rest"
    by (auto simp: combine_queries_def)
  from this(1) this(2) [of "[]"] show ?thesis by simp
qed

definition safe_word :: "string \<Rightarrow> bool" where
  "safe_word w \<longleftrightarrow> w \<noteq> [] \<and> list_all (\<lambda>c. c \<notin> set TSQUERY_UNSUPPORTED_CHARS \<and> \<not> is_space c) w"

text \<open>
  C29. No text of a user escapes its quotes in a search query: outside the quoted words the query has only the
  operators \<open>& | ( ) : *\<close> and blanks, and the quoted words are the user's words, none of them empty and none with a
  character \<open>to_tsquery\<close> does not support, the quote and the backslash among them.
\<close>

theorem search_query_is_quoted:
  "set (outside False (build_tsquery q)) \<subseteq> set operators \<and> list_all safe_word (quoted (build_tsquery q)) \<and>
   quoted (build_tsquery q) = words_with_supported_punctuation q @ words_with_supported_punctuation q @
     (if words_without_any_punctuation q \<noteq> words_with_supported_punctuation q
      then words_without_any_punctuation q else [])"
proof -
  let ?o = "words_with_supported_punctuation q" and ?w = "words_without_any_punctuation q"
  have o: "\<forall>w \<in> set ?o. quote_char \<notin> set w" using supported_words_safe quote_unsupported by blast
  have w: "\<forall>w \<in> set ?w. quote_char \<notin> set w" using only_words_safe quote_unsupported by blast
  have e: "\<exists>m. set m \<subseteq> set operators \<and> (\<forall>rest. outside False ([] @ rest) = m @ outside False rest)"
    by (intro exI [of _ "[]"]) simp
  have "set (outside False (build_tsquery q)) \<subseteq> set operators"
    unfolding build_tsquery_def Let_def
    by (rule outside_combine_queries) (use outside_combine_words [OF o] outside_combine_words [OF w] e in \<open>simp split: if_splits\<close>)
  moreover have "set TSQUERY_UNSUPPORTED_CHARS \<subseteq> set punctuation" by (auto simp: TSQUERY_UNSUPPORTED_CHARS_def)
  then have "list_all safe_word (quoted (build_tsquery q))"
    using supported_words_safe [of _ q] only_words_safe [of _ q]
    by (auto simp: quoted_build_tsquery list_all_iff safe_word_def)
  ultimately show ?thesis using quoted_build_tsquery by blast
qed

end
