(* ===== verification/Sync_Auth.thy ===== *)
theory Sync_Auth
  imports Sync_Users
begin

text \<open>
  Sessions of browsers: the routes of \<open>syncmaster/server/api/v1/auth.py\<close> and the part of \<open>KeycloakAuthProvider\<close> that has
  state of its own, the tokens in the session cookie and the cached certificates (\<open>_get_key\<close>).  \<open>Sync_Users\<close> has the same
  provider with one refresh token and without a cache; the last section shows that this is what the cookie and the
  cache amount to within one request.

  \<open>KeycloakOpenID\<close> is a parameter.  A call that raises \<open>KeycloakOperationError\<close> or \<open>JWException\<close>, which the provider
  catches, is \<open>None\<close>; certificates may differ from one time to another.
\<close>

section \<open>The provider\<close>

type_synonym cookie = "(string \<times> string) list"

definition cookie_set :: "string \<Rightarrow> string \<Rightarrow> cookie \<Rightarrow> cookie" where
  "cookie_set k v c = (k, v) # filter (\<lambda>(k', _). k' \<noteq> k) c"

record 'k keycloak_client =
  kcl_auth_url :: string
  kcl_certs :: "int \<Rightarrow> 'k option"
  kcl_decode :: "'k \<Rightarrow> string \<Rightarrow> jdict option"
  kcl_refresh :: "string \<Rightarrow> (string \<times> string) option"
  kcl_token :: "string \<Rightarrow> (string \<times> string) option"
  kcl_logout :: "string \<Rightarrow> bool"
  kcl_cert_cache_ttl :: int

text \<open>The provider object has the cached keys, the request its session.\<close>

record 'k keycloak_state =
  ks_key :: "'k option"
  ks_key_expiration :: int
  ks_session :: cookie

definition get_key :: "'k keycloak_client \<Rightarrow> int \<Rightarrow> 'k keycloak_state \<Rightarrow> 'k option \<times> 'k keycloak_state" where
  "get_key kc now st =
     (if ks_key st \<noteq> None \<and> now < ks_key_expiration st then (ks_key st, st)
      else (case kcl_certs kc now of
          None \<Rightarrow> (None, st)
        | Some key \<Rightarrow> (Some key, st\<lparr>ks_key := Some key, ks_key_expiration := now + kcl_cert_cache_ttl kc\<rparr>)))"

definition decode_token ::
  "'k keycloak_client \<Rightarrow> int \<Rightarrow> string \<Rightarrow> 'k keycloak_state \<Rightarrow> jdict option \<times> 'k keycloak_state" where
  "decode_token kc now t st = (case get_key kc now st of
      (None, st') \<Rightarrow> (None, st')
    | (Some key, st') \<Rightarrow> (kcl_decode kc key t, st'))"

definition set_tokens :: "string \<times> string \<Rightarrow> 'k keycloak_state \<Rightarrow> 'k keycloak_state" where
  "set_tokens ts st = st\<lparr>ks_session := cookie_set ''refresh_token'' (snd ts) (cookie_set ''access_token'' (fst ts) (ks_session st))\<rparr>"

text \<open>A step that touches the database only.\<close>

definition on_db :: "'a act \<Rightarrow> 'k keycloak_state \<Rightarrow> db session \<Rightarrow> 'a res \<times> 'k keycloak_state \<times> db session" where
  "on_db m st s = (case m s of (r, s') \<Rightarrow> (r, st, s'))"

definition session_get_current_user ::
  "'k keycloak_client \<Rightarrow> int \<Rightarrow> string option \<Rightarrow> 'k keycloak_state \<Rightarrow> db session \<Rightarrow>
    user res \<times> 'k keycloak_state \<times> db session" where
  "session_get_current_user kc now token st s =
     (let redirect_to_auth = (\<lambda>st. (Inl (RedirectError (kcl_auth_url kc)), st, s));
          invalid = (\<lambda>st. (Inl (AuthorizationError ''Invalid token payload''), st, s))
      in case token of
        None \<Rightarrow> redirect_to_auth st
      | Some t \<Rightarrow>
          if t = [] then redirect_to_auth st
          else (case decode_token kc now t st of
              (Some (c # cs), st1) \<Rightarrow> on_db (user_of_claims now (c # cs)) st1 s
            | (_, st1) \<Rightarrow> (case map_of (ks_session st) ''refresh_token'' of
                None \<Rightarrow> invalid st1
              | Some rt \<Rightarrow>
                  if rt = [] then invalid st1
                  else (case kcl_refresh kc rt of
                      None \<Rightarrow> redirect_to_auth st1
                    | Some new_tokens \<Rightarrow> (case decode_token kc now (fst new_tokens) (set_tokens new_tokens st1) of
                        (None, st2) \<Rightarrow> redirect_to_auth st2
                      | (Some [], st2) \<Rightarrow> invalid st2
                      | (Some info, st2) \<Rightarrow> on_db (user_of_claims now info) st2 s)))))"

definition keycloak_logout :: "'k keycloak_client \<Rightarrow> string \<Rightarrow> string option \<Rightarrow> unit res" where
  "keycloak_logout kc name refresh = (case refresh of
      None \<Rightarrow> Inr ()
    | Some rt \<Rightarrow>
        if rt = [] \<or> kcl_logout kc rt then Inr ()
        else Inl (LogoutError (''Can't logout user: '' @ name)))"

definition keycloak_get_token_authorization_code_grant :: "'k keycloak_client \<Rightarrow> string \<Rightarrow> (string \<times> string) res" where
  "keycloak_get_token_authorization_code_grant kc auth_code = (case kcl_token kc auth_code of
      None \<Rightarrow> Inl (AuthorizationError ''Failed to get token'')
    | Some ts \<Rightarrow> Inr ts)"

text \<open>What the providers do not support.\<close>

definition not_supported :: "string \<Rightarrow> string \<Rightarrow> 'a act" where
  "not_supported what cls = raise (NotImplementedError (what @ '' is not supported by '' @ cls @ ''.''))"

definition keycloak_get_token_password_grant :: "auth_token act" where
  "keycloak_get_token_password_grant = not_supported ''Password grant'' ''KeycloakAuthProvider''"

definition gateway_get_token_password_grant :: "auth_token act" where
  "gateway_get_token_password_grant = not_supported ''Password grant'' ''OAuth2GatewayProvider''"

definition gateway_get_token_authorization_code_grant :: "(string \<times> string) act" where
  "gateway_get_token_authorization_code_grant = not_supported ''Authorization code grant'' ''OAuth2GatewayProvider''"

definition gateway_logout :: "unit act" where
  "gateway_logout = not_supported ''Logout'' ''OAuth2GatewayProvider''"

definition dummy_get_token_authorization_code_grant :: "(string \<times> string) act" where
  "dummy_get_token_authorization_code_grant = not_supported ''Authorization code grant'' ''DummyAuthProvider''"

definition dummy_logout :: "unit act" where
  "dummy_logout = not_supported ''Logout'' ''DummyAuthProvider''"

section \<open>Routes\<close>

text \<open>\<open>get_user\<close> behind this provider: the token is the explicit one or the one of the cookie.\<close>

definition session_user ::
  "'k keycloak_client \<Rightarrow> int \<Rightarrow> string option \<Rightarrow> string option \<Rightarrow> 'k keycloak_state \<Rightarrow> db session \<Rightarrow>
    user res \<times> 'k keycloak_state \<times> db session" where
  "session_user kc now bearer oauth st s =
     (case session_get_current_user kc now (request_token bearer oauth (map_of (ks_session st) ''access_token'')) st s of
        (Inl e, st', s') \<Rightarrow> (Inl e, st', s')
      | (Inr u, st', s') \<Rightarrow> if is_active u then (Inr u, st', s') else (Inl ActionNotAllowedError, st', s'))"

definition auth_callback :: "'k keycloak_client \<Rightarrow> string \<Rightarrow> 'k keycloak_state \<Rightarrow> unit res \<times> 'k keycloak_state" where
  "auth_callback kc auth_code st = (case keycloak_get_token_authorization_code_grant kc auth_code of
      Inl e \<Rightarrow> (Inl e, st)
    | Inr ts \<Rightarrow> (Inr (), set_tokens ts st))"

definition logout ::
  "'k keycloak_client \<Rightarrow> int \<Rightarrow> string option \<Rightarrow> string option \<Rightarrow> 'k keycloak_state \<Rightarrow> db session \<Rightarrow>
    unit res \<times> 'k keycloak_state \<times> db session" where
  "logout kc now bearer oauth st s = (case session_user kc now bearer oauth st s of
      (Inl e, st', s') \<Rightarrow> (Inl e, st', s')
    | (Inr u, st', s') \<Rightarrow>
        (keycloak_logout kc (username u) (map_of (ks_session st') ''refresh_token''), st'\<lparr>ks_session := []\<rparr>, s'))"

section \<open>Refinement\<close>

text \<open>Within one request the key is fetched at most once, or cannot be fetched at all.\<close>

lemma get_key_again: "get_key kc now (snd (get_key kc now st)) = (fst (get_key kc now st), snd (get_key kc now st))"
  by (auto simp: get_key_def split: option.splits)

lemma get_key_session:
  "fst (get_key kc now (st\<lparr>ks_session := c\<rparr>)) = fst (get_key kc now st)"
  "ks_session (snd (get_key kc now st)) = ks_session st"
  by (auto simp: get_key_def split: option.splits)

text \<open>A cached key is never older than the time to live of the cache.\<close>

definition cache_ok :: "'k keycloak_client \<Rightarrow> 'k keycloak_state \<Rightarrow> bool" where
  "cache_ok kc st \<longleftrightarrow> (\<forall>key. ks_key st = Some key \<longrightarrow>
     kcl_certs kc (ks_key_expiration st - kcl_cert_cache_ttl kc) = Some key)"

lemma get_key_fresh:
  assumes "cache_ok kc st" and "get_key kc now st = (Some key, st')"
  shows "cache_ok kc st'" and "\<exists>t. kcl_certs kc t = Some key \<and> (t = now \<or> now < t + kcl_cert_cache_ttl kc)"
  using assms by (auto simp: cache_ok_def get_key_def split: if_splits option.splits)

text \<open>The stateless client one request sees.\<close>

definition as_seen :: "'k keycloak_client \<Rightarrow> int \<Rightarrow> 'k keycloak_state \<Rightarrow> keycloak" where
  "as_seen kc now st = \<lparr>
     kc_decode_token = (\<lambda>t. case fst (get_key kc now st) of None \<Rightarrow> None | Some key \<Rightarrow> kcl_decode kc key t),
     kc_refresh_token = kcl_refresh kc, kc_auth_url = kcl_auth_url kc, kc_introspect = (\<lambda>_. None)\<rparr>"

lemma decode_token_seen:
  "fst (decode_token kc now t st) = kc_decode_token (as_seen kc now st) t"
  "snd (decode_token kc now t st) = snd (get_key kc now st)"
  by (auto simp: decode_token_def as_seen_def split: option.splits prod.splits)

lemma decode_token_again:
  "fst (decode_token kc now t (set_tokens ts (snd (get_key kc now st)))) = kc_decode_token (as_seen kc now st) t"
  by (simp add: decode_token_seen as_seen_def set_tokens_def get_key_session(1) get_key_again)

lemma session_refines:
  assumes "session_get_current_user kc now token st s = (r, st', s')"
  shows "keycloak_get_current_user (as_seen kc now st) now (map_of (ks_session st) ''refresh_token'') token s = (r, s')"
proof (cases "token = None \<or> token = Some []")
  case True
  then show ?thesis using assms by (auto simp: session_get_current_user_def keycloak_get_current_user_def as_seen_def raise_def)
next
  case False
  then obtain t where t: "token = Some t" "t \<noteq> []" by auto
  let ?kc = "as_seen kc now st" and ?st = "snd (get_key kc now st)"
  have d: "decode_token kc now t st = (kc_decode_token ?kc t, ?st)" by (simp add: prod_eq_iff decode_token_seen)
  define g where "g a ts = snd (decode_token kc now a (set_tokens ts ?st))" for a ts
  have d2: "decode_token kc now a (set_tokens ts ?st) = (kc_decode_token ?kc a, g a ts)" for a ts
    by (simp add: prod_eq_iff decode_token_again g_def)
  have k: "kc_refresh_token ?kc = kcl_refresh kc" "kc_auth_url ?kc = kcl_auth_url kc" by (simp_all add: as_seen_def)
  show ?thesis
    using assms
    by (auto simp: session_get_current_user_def keycloak_get_current_user_def t d d2 k on_db_def raise_def Let_def
        split: option.splits list.splits if_splits prod.splits)
qed

lemma read_or_create_total:
  assumes "db_ok (working s)"
  shows "\<exists>u s'. read_or_create now login ud s = (Inr u, s')"
proof (cases "List.find (\<lambda>u. username u = login) (users (working s))")
  case None
  then have n: "\<not> list_ex (\<lambda>u. username u = login) (users (working s))"
    by (auto simp: find_None_iff_set list_ex_iff)
  then have "\<exists>r. insert_user (new_user now login ud False) (working s) = Inr r"
    by (simp add: insert_user_def Let_def new_user_def)
  with None show ?thesis
    by (auto simp: read_or_create_def user_repo_read_by_username_def user_repo_create_def uow_def catchE_def query_def
        is_EntityNotFoundError_def exec_def rethrow_def)
next
  case (Some u)
  then show ?thesis by (auto simp: read_or_create_def user_repo_read_by_username_def uow_def catchE_def query_def)
qed

text \<open>The token of the cookie, as long as it can be decoded, is the user's.\<close>

lemma session_token_user:
  assumes "fst (get_key kc now st) = Some key" and "kcl_decode kc key t = Some info" and "t \<noteq> []"
    and "claim info ''preferred_username'' = Some login" and "login \<noteq> []" and "db_ok (working s)"
  shows "\<exists>u s'. session_get_current_user kc now (Some t) st s = (Inr u, snd (get_key kc now st), s') \<and> username u = login \<and>
     get_row (pk u) (users (committed s')) = Some u"
proof -
  obtain c cs where i: "info = c # cs" using assms(4) by (cases info) (simp_all add: claim_def)
  from read_or_create_total [OF assms(6)] obtain u s' where u: "read_or_create now login (claims_data info) s = (Inr u, s')"
    by blast
  have "decode_token kc now t st = (Some (c # cs), snd (get_key kc now st))"
    using assms(1,2) i by (simp add: prod_eq_iff decode_token_seen as_seen_def)
  then have "session_get_current_user kc now (Some t) st s = (Inr u, snd (get_key kc now st), s')"
    using assms(3,4,5) u i by (simp add: session_get_current_user_def on_db_def user_of_claims_def Let_def)
  with read_or_create_row [OF u assms(6)] show ?thesis by simp
qed

text \<open>
  A token that cannot be decoded, also an explicit one of another user, is replaced by the tokens the refresh token of
  the cookie gives, and the request runs as their user.
\<close>

lemma refreshed_token_user:
  assumes "fst (get_key kc now st) = Some key" and "kcl_decode kc key t = None" and "t \<noteq> []"
    and "map_of (ks_session st) ''refresh_token'' = Some rt" and "rt \<noteq> []" and "kcl_refresh kc rt = Some (a, r)"
    and "kcl_decode kc key a = Some info" and "claim info ''preferred_username'' = Some login" and "login \<noteq> []"
    and "db_ok (working s)"
  shows "\<exists>u st' s'. session_get_current_user kc now (Some t) st s = (Inr u, st', s') \<and> username u = login \<and>
     map_of (ks_session st') ''access_token'' = Some a \<and> map_of (ks_session st') ''refresh_token'' = Some r"
proof -
  obtain c cs where i: "info = c # cs" using assms(8) by (cases info) (simp_all add: claim_def)
  let ?st = "set_tokens (a, r) (snd (get_key kc now st))"
  from read_or_create_total [OF assms(10)] obtain u s' where u: "read_or_create now login (claims_data info) s = (Inr u, s')"
    by blast
  have "decode_token kc now t st = (None, snd (get_key kc now st))"
    using assms(1,2) by (simp add: prod_eq_iff decode_token_seen as_seen_def)
  moreover have "decode_token kc now a ?st = (Some (c # cs), snd (get_key kc now ?st))"
    using assms(1,7) i by (simp add: prod_eq_iff decode_token_again decode_token_seen(2)) (simp add: as_seen_def)
  ultimately have "session_get_current_user kc now (Some t) st s = (Inr u, snd (get_key kc now ?st), s')"
    using assms(3-6,8,9) u i by (simp add: session_get_current_user_def on_db_def user_of_claims_def Let_def)
  with read_or_create_row [OF u assms(10)] show ?thesis
    by (simp add: get_key_session(2) set_tokens_def cookie_set_def)
qed

end
