(* ===== verification/Sync_Group_Properties.thy ===== *)
theory Sync_Group_Properties
  imports Sync_Examples Sync_Auth
begin

text \<open>
  Properties of groups and users: change of owner, membership, what a user's list of groups holds, who a request
  is authenticated as, the token of a login, and the life of a browser session.
\<close>

section \<open>Groups\<close>

lemma update_group_rows:
  assumes "update_group now g gd u s = (Inr r, s')" and "db_ok (working s)"
    and "get_row g (groups (working s)) = Some g0" and "owner_id g0 \<noteq> cg_owner_id gd"
  shows "\<exists>x. groups (committed s') = set_row x (groups (working s)) \<and> pk x = g \<and> owner_id x = cg_owner_id gd \<and>
     r = read_group_of x \<and> users (committed s') = users (working s) \<and>
     user_groups (committed s') = filter (\<lambda>x. \<not> (ug_group_id x = g \<and> ug_user_id x = cg_owner_id gd))
       (user_groups (working s)) @ [\<lparr>ug_user_id = owner_id g0, ug_group_id = g, ug_role = Guest\<rparr>]"
proof -
  from assms(1) obtain x t where b: "update_group_block now g gd s = (Inr x, t)"
    and s': "s' = t\<lparr>committed := working t\<rparr>" "r = read_group_of x"
    by (auto simp: update_group_def run_simps split: if_splits)
  from update_group_block_Inr [OF b] assms(3,4) obtain d1 y d3 where
    u: "update_group_row g (group_update_of now gd) (working s) = Inr (x, d1)"
    and i: "insert_user_group \<lparr>ug_user_id = owner_id g0, ug_group_id = g, ug_role = Guest\<rparr>
       (d1\<lparr>user_groups := filter (\<lambda>x. ug_group_id x = g \<longrightarrow> ug_user_id x \<noteq> cg_owner_id gd) (user_groups d1)\<rparr>) = Inr (y, d3)"
    and t: "t = s\<lparr>working := d3\<rparr>" by auto
  have "owner_id x = cg_owner_id gd" using groups.upd_law [OF u] by auto
  with update_group_row_shape [OF u] insert_user_group_shape [OF i] show ?thesis using s' t by (intro exI [of _ x]) auto
qed

text \<open>
  C30. Handing a group over: when an update names another owner, that user becomes the owner and loses any
  membership, the previous owner becomes a guest, and the role of every other user, in this group and in all
  others, is what it was.
\<close>

theorem update_group_hands_over:
  assumes "update_group now g gd u s = (Inr r, s')" and "db_ok (working s)"
    and "get_row g (groups (working s)) = Some g0" and "owner_id g0 \<noteq> cg_owner_id gd" and "\<not> is_superuser x"
  shows "effective_role x h (committed s') =
     (if h = g \<and> pk x = cg_owner_id gd then Some Owner
      else if h = g \<and> pk x = owner_id g0 then Some Guest
      else effective_role x h (working s))"
proof -
  from update_group_rows [OF assms(1-4)] obtain y where
    gr: "groups (committed s') = set_row y (groups (working s))" "pk y = g" "owner_id y = cg_owner_id gd"
    and ug: "user_groups (committed s') = filter (\<lambda>x. \<not> (ug_group_id x = g \<and> ug_user_id x = cg_owner_id gd))
       (user_groups (working s)) @ [\<lparr>ug_user_id = owner_id g0, ug_group_id = g, ug_role = Guest\<rparr>]" by blast
  have g: "get_row h (groups (committed s')) = (if h = g then Some y else get_row h (groups (working s)))"
    using gr get_row_has_row [OF assms(3)] by (auto simp: get_row_set_row)
  have own: "get_user_group_row g (owner_id g0) (working s) = None"
    using db_okD(3) [OF assms(2)] get_row_Some [OF assms(3)]
    by (auto simp: get_user_group_row_None owner_ok_def)
  have find: "List.find P (filter Q xs) = List.find P xs" if "\<And>z. P z \<Longrightarrow> Q z" for P Q and xs :: "user_group list"
    using that by (induction xs) auto
  have none: "List.find P xs = None" if "\<And>z. z \<in> set xs \<Longrightarrow> \<not> P z" for P and xs :: "user_group list"
    using that by (simp add: find_None_iff_set)
  have m: "get_user_group_row h i (committed s') =
      (if h = g \<and> i = owner_id g0 then Some \<lparr>ug_user_id = owner_id g0, ug_group_id = g, ug_role = Guest\<rparr>
       else get_user_group_row h i (working s))" if "\<not> (h = g \<and> i = cg_owner_id gd)" for i
  proof -
    have "get_user_group_row h i (committed s') =
        (case get_user_group_row h i (working s) of
           None \<Rightarrow> List.find (\<lambda>z. ug_group_id z = h \<and> ug_user_id z = i) [\<lparr>ug_user_id = owner_id g0, ug_group_id = g, ug_role = Guest\<rparr>]
         | Some z \<Rightarrow> Some z)"
      using that by (auto simp: get_user_group_row_def ug find_append intro!: arg_cong [where f = "\<lambda>z. case_option _ Some z"] find)
    then show ?thesis using own by (auto split: option.splits)
  qed
  show ?thesis
    using assms(3,4,5) g gr m [of "pk x"] by (auto simp: effective_role_def split: option.splits)
qed

lemma update_group_witness:
  "\<exists>r s'. update_group 9 1 \<lparr>cg_name = ''g'', cg_description = [], cg_owner_id = 3\<rparr> ex_owner ex_session = (Inr r, s') \<and>
     effective_role ex_maintainer 1 (committed s') = Some Owner \<and> effective_role ex_owner 1 (committed s') = Some Guest \<and>
     effective_role ex_developer 1 (committed s') = Some Developer"
proof -
  let ?gd = "\<lparr>cg_name = ''g'', cg_description = [], cg_owner_id = 3\<rparr>"
  let ?m = "update_group 9 1 ?gd ex_owner ex_session"
  have "\<not> isl (fst ?m)" by code_simp
  then obtain r where m: "?m = (Inr r, snd ?m)" by (cases "fst ?m") (auto simp: prod_eq_iff)
  have "db_ok (working ex_session)" using ex_db_ok by (simp add: ex_session_def)
  moreover have "get_row 1 (groups (working ex_session)) = Some \<lparr>pk = 1, created_at = 0, updated_at = 0, gname = ''g'',
      gdescription = [], owner_id = 2\<rparr>"
    by (simp add: get_row_def ex_defs)
  ultimately have role: "effective_role x 1 (committed (snd ?m)) = (if pk x = 3 then Some Owner else if pk x = 2 then Some Guest
      else effective_role x 1 (working ex_session))" if "\<not> is_superuser x" for x
    using update_group_hands_over [OF m _ _ _ that, of _ 1] by simp
  have "effective_role ex_developer 1 (working ex_session) = Some Developer"
    by (simp add: effective_role_def get_row_def get_user_group_row_def ex_defs)
  with role [of ex_maintainer] role [of ex_owner] role [of ex_developer] m show ?thesis
    by (intro exI [of _ r] exI [of _ "snd ?m"]) (simp add: ex_users)
qed

lemma add_user_cases:
  assumes "add_user_to_group g i role u s = (res, s')"
  obtains e where "res = Inl e" "committed s' = committed s"
  | x d where "res = Inr ()" "group_get_group_permission u g (working s) = Inr DELETE"
      "get_row g (groups (working s)) = Some x" "owner_id x \<noteq> i"
      "insert_user_group \<lparr>ug_user_id = i, ug_group_id = g, ug_role = role\<rparr> (working s) =
         Inr (\<lparr>ug_user_id = i, ug_group_id = g, ug_role = role\<rparr>, d)" "committed s' = d" "working s' = d"
proof (cases res)
  case (Inl e)
  with atomicD [OF group_handlers_atomic(5)] assms that(1) show thesis by blast
next
  case (Inr x)
  have perm: "\<not> p < DELETE \<Longrightarrow> p = DELETE" for p by (cases p) (simp_all add: permission_order)
  from Inr assms obtain p y r d where p: "group_get_group_permission u g (working s) = Inr p" "\<not> p < DELETE"
    and y: "get_row g (groups (working s)) = Some y" "owner_id y \<noteq> i"
    and i: "insert_user_group \<lparr>ug_user_id = i, ug_group_id = g, ug_role = role\<rparr> (working s) = Inr (r, d)"
    and s': "s' = s\<lparr>working := d, committed := d\<rparr>"
    by (auto simp: add_user_to_group_def group_repo_read_by_id_def group_repo_add_user_def run_simps
        split: if_splits option.splits dest!: sym [of "Inr _" "group_get_group_permission _ _ _"])
  from p perm have "group_get_group_permission u g (working s) = Inr DELETE" by blast
  moreover have "r = \<lparr>ug_user_id = i, ug_group_id = g, ug_role = role\<rparr>" using insert_user_group_shape [OF i] by simp
  ultimately show thesis using that(2) [of y d] y i s' Inr by simp
qed

text \<open>
  C31. Adding a member: only an owner of the group or a superuser can, only to somebody who has no role in the group
  yet; the new member gets exactly the role of the request and nobody else's role changes.  When the request fails,
  nothing changes.
\<close>

theorem add_user_gives_role:
  assumes "add_user_to_group g i role u s = (res, s')" and "db_ok (working s)" and "\<not> is_superuser x"
  shows "case res of
      Inl e \<Rightarrow> committed s' = committed s
    | Inr _ \<Rightarrow> effective_role u g (working s) \<in> {Some Owner, Some Superuser} \<and>
        (pk x = i \<longrightarrow> effective_role x g (working s) = None) \<and>
        effective_role x h (committed s') = (if h = g \<and> pk x = i then Some role else effective_role x h (working s))"
  using assms(1)
proof (cases rule: add_user_cases)
  case (2 y d)
  note sh = insert_user_group_shape [OF 2(5)]
  have none: "get_user_group_row g i (working s) = None" using sh by (simp add: get_user_group_row_None)
  from group_group.perm_granted [OF db_okD(1,2) [OF assms(2)] 2(2)] obtain r where
    "effective_role u g (working s) = Some r" "group_policy r = DELETE" by auto
  then have "effective_role u g (working s) \<in> {Some Owner, Some Superuser}" by (cases r) auto
  moreover have "get_user_group_row h k d = (if h = g \<and> k = i then Some \<lparr>ug_user_id = i, ug_group_id = g, ug_role = role\<rparr>
      else get_user_group_row h k (working s))" for k
    using sh none by (auto simp: get_user_group_row_def find_append split: option.splits)
  moreover have "groups d = groups (working s)" using sh by simp
  ultimately show ?thesis
    using 2 none assms(3) by (auto simp: effective_role_def split: option.splits)
qed auto

lemma add_user_witness:
  "\<exists>s'. add_user_to_group 1 6 Developer ex_owner ex_session = (Inr (), s') \<and>
     effective_role ex_stranger 1 ex_db = None \<and> effective_role ex_stranger 1 (committed s') = Some Developer"
proof -
  let ?m = "add_user_to_group 1 6 Developer ex_owner ex_session"
  have "\<not> isl (fst ?m)" by code_simp
  then have m: "?m = (Inr (), snd ?m)" by (cases "fst ?m") (auto simp: prod_eq_iff)
  have "db_ok (working ex_session)" "\<not> is_superuser ex_stranger" "pk ex_stranger = 6"
    using ex_db_ok by (simp_all add: ex_session_def ex_users)
  with add_user_gives_role [OF m, of ex_stranger 1] m show ?thesis
    by (intro exI [of _ "snd ?m"]) (simp add: ex_session_def)
qed

lemma in_some_page:
  assumes "0 < ps"
  shows "(\<exists>p \<ge> 1. x \<in> set (page_slice rows p ps)) \<longleftrightarrow> x \<in> set rows"
proof
  assume "x \<in> set rows"
  with pages_cover [OF assms, of rows] have "x \<in> set (concat (map (\<lambda>p. pg_items (paginate_result rows p ps))
      (map int [1..<Suc (nat (page_count (int (length rows)) ps))])))" by simp
  then obtain n where "1 \<le> n" "x \<in> set (page_slice rows (int n) ps)"
    by (auto simp: paginate_result_def Pagination_def Let_def)
  then show "\<exists>p \<ge> 1. x \<in> set (page_slice rows p ps)" by (intro exI [of _ "int n"]) simp
next
  assume "\<exists>p \<ge> 1. x \<in> set (page_slice rows p ps)"
  then show "x \<in> set rows" unfolding page_slice_def by (meson in_set_dropD in_set_takeD)
qed

lemma set_owned_groups: "set (owned_groups ts i None d) = (\<lambda>g. (g, Owner)) ` {g \<in> set (groups d). owner_id g = i}"
  by (simp add: owned_groups_def order_by_def)

lemma set_member_groups:
  "(g, role) \<in> set (member_groups ts i roles None d) \<longleftrightarrow> g \<in> set (groups d) \<and>
     (case roles of None \<Rightarrow> True | Some rs \<Rightarrow> rs = [] \<or> role \<in> set rs) \<and>
     (\<exists>ug \<in> set (user_groups d). ug_user_id ug = i \<and> ug_group_id ug = pk g \<and> ug_role ug = role)"
  by (auto simp: member_groups_def order_by_def)

lemma member_row:
  assumes "schema_ok d"
  shows "(\<exists>ug \<in> set (user_groups d). ug_user_id ug = i \<and> ug_group_id ug = g \<and> ug_role ug = role) \<longleftrightarrow>
     map_option ug_role (get_user_group_row g i d) = Some role"
proof
  assume "\<exists>ug \<in> set (user_groups d). ug_user_id ug = i \<and> ug_group_id ug = g \<and> ug_role ug = role"
  then obtain ug where ug: "ug \<in> set (user_groups d)" "ug_user_id ug = i" "ug_group_id ug = g" "ug_role ug = role" by blast
  then obtain x where x: "get_user_group_row g i d = Some x"
    by (cases "get_user_group_row g i d") (force simp: get_user_group_row_None)+
  from get_user_group_rowD [OF x] ug assms have "x = ug"
    by (auto simp: schema_ok_def pk_ok_def distinct_map dest: inj_onD)
  with x ug show "map_option ug_role (get_user_group_row g i d) = Some role" by simp
qed (auto dest: get_user_group_rowD)

lemma listed_role:
  assumes "db_ok d" and "\<not> is_superuser u" and "g \<in> set (groups d)"
  shows "effective_role u (pk g) d = Some role \<longleftrightarrow>
     owner_id g = pk u \<and> role = Owner \<or>
     (\<exists>ug \<in> set (user_groups d). ug_user_id ug = pk u \<and> ug_group_id ug = pk g \<and> ug_role ug = role)"
proof -
  have g: "get_row (pk g) (groups d) = Some g"
    using get_row_eq [OF schema_okD(1) [OF db_okD(1) [OF assms(1)]] assms(3)] .
  have "get_user_group_row (pk g) (owner_id g) d = None"
    using db_okD(3) [OF assms(1)] assms(3) by (auto simp: get_user_group_row_None owner_ok_def)
  with g assms(2) show ?thesis
    unfolding member_row [OF db_okD(1) [OF assms(1)]] by (auto simp: effective_role_def)
qed

text \<open>
  C32. The list of groups of a user who is not a superuser is complete and correct: going through the pages, a group
  appears with a role exactly when that is the user's effective role in it and, if a role was asked for, it is at
  least that one.
\<close>

theorem listed_groups_are_the_users:
  assumes "db_ok d" and "\<not> is_superuser u" and "0 < ps"
  shows "(\<exists>p page. 1 \<le> p \<and> group_repo_paginate_for_user ts p ps (pk u) (map_option role_value least) None d = Inr page \<and>
       (g, role) \<in> set (pg_items page)) =
     (g \<in> set (groups d) \<and> effective_role u (pk g) d = Some role \<and>
       (case least of None \<Rightarrow> True | Some m \<Rightarrow> role_level m \<le> role_level role))"
proof -
  have items: "(\<exists>p \<ge> 1. x \<in> set (pg_items (Pagination (page_slice (ys @ zs) p ps) p ps n))) \<longleftrightarrow> x \<in> set (ys @ zs)"
    for x and ys zs :: "(group \<times> group_member_role) list" and n
    using in_some_page [OF assms(3), of x "ys @ zs"] by (simp add: Pagination_def Let_def)
  have rv: "role_value m \<noteq> []" for m by (cases m) simp_all
  show ?thesis
  proof (cases least)
    case None
    then have "(\<exists>p page. 1 \<le> p \<and> group_repo_paginate_for_user ts p ps (pk u) (map_option role_value least) None d = Inr page \<and>
        (g, role) \<in> set (pg_items page)) \<longleftrightarrow>
        (g, role) \<in> set (owned_groups ts (pk u) None d @ member_groups ts (pk u) None None d)"
      using items by (simp add: group_repo_paginate_for_user_def Let_def)
    with None listed_role [OF assms(1,2)] show ?thesis
      by (auto simp: set_owned_groups set_member_groups)
  next
    case (Some m)
    from roles_at_least_iff [of m] obtain rs where rs: "roles_at_least (role_value m) = Inr rs"
      "\<And>q. q \<in> set rs \<longleftrightarrow> role_level m \<le> role_level q"
      by (auto simp: roles_at_least_def)
    have "role_level m \<le> role_level Superuser" by (cases m) (simp_all add: role_level_def role_hierarchy_def)
    then have "rs \<noteq> []" using rs(2) by fastforce
    have "(\<exists>p page. 1 \<le> p \<and> group_repo_paginate_for_user ts p ps (pk u) (map_option role_value least) None d = Inr page \<and>
        (g, role) \<in> set (pg_items page)) \<longleftrightarrow>
        (g, role) \<in> set ((if role_level m \<le> role_level Owner then owned_groups ts (pk u) None d else []) @
           member_groups ts (pk u) (Some rs) None d)"
      using items [of "(g, role)"] rv rs(1) Some
      by (simp add: group_repo_paginate_for_user_def is_at_least_privilege_level_def Let_def)
    with Some \<open>rs \<noteq> []\<close> rs(2) listed_role [OF assms(1,2)] show ?thesis
      by (auto simp: set_owned_groups set_member_groups split: if_splits)
  qed
qed

lemma listed_groups_witness:
  "(\<exists>p page. 1 \<le> p \<and> group_repo_paginate_for_user ex_search p 1 4 (Some (role_value Guest)) None ex_db = Inr page \<and>
     (\<lparr>pk = 1, created_at = 0, updated_at = 0, gname = ''g'', gdescription = [], owner_id = 2\<rparr>, Developer) \<in> set (pg_items page))"
proof -
  have "pk ex_developer = 4" "\<not> is_superuser ex_developer" by (simp_all add: ex_users)
  moreover have "effective_role ex_developer 1 ex_db = Some Developer"
    by (simp add: effective_role_def get_row_def get_user_group_row_def ex_defs)
  moreover have "\<lparr>pk = 1, created_at = 0, updated_at = 0, gname = ''g'', gdescription = [], owner_id = 2\<rparr> \<in> set (groups ex_db)"
    by (simp add: ex_db_def)
  moreover have "role_level Guest \<le> role_level Developer" by code_simp
  ultimately show ?thesis
    using listed_groups_are_the_users [OF ex_db_ok, of ex_developer 1 ex_search "Some Guest"
        "\<lparr>pk = 1, created_at = 0, updated_at = 0, gname = ''g'', gdescription = [], owner_id = 2\<rparr>" Developer]
    by simp
qed

section \<open>Authentication\<close>

text \<open>
  C33. Who a request runs as: with any of the three providers, \<open>get_user\<close> only returns the committed row of an active
  user, a superuser where the route asks for one, and a request without a token is refused without a trace.
\<close>

theorem request_user_is_active:
  assumes "get_user (current_user_of e p) su token s = (res, s')" and "db_ok (working s)" and "committed s = working s"
  shows "(\<forall>u. res = Inr u \<longrightarrow> token \<noteq> None \<and> is_active u \<and> (su \<longrightarrow> is_superuser u) \<and>
       get_row (pk u) (users (committed s')) = Some u) \<and>
     (token = None \<longrightarrow> (\<exists>err. res = Inl err) \<and> s' = s)"
proof -
  have none: "\<exists>err. get_user (current_user_of e p) su None s = (Inl err, s)"
    using dummy.get_user_needs_token keycloak.get_user_needs_token gateway.get_user_needs_token
    by (cases p) (simp_all add: current_user_of_def)
  then have "token \<noteq> None" if "res = Inr u" for u using assms(1) that by (cases token) auto
  with none assms(1) current_user_result [OF _ assms(2,3)] show ?thesis by fastforce
qed

lemma request_user_witness:
  "get_user (current_user_of ex_env (Dummy ex_jwt)) True (Some ex_token) ex_session = (Inr ex_admin, ex_session) \<and>
   is_active ex_admin"
proof -
  let ?m = "get_user (current_user_of ex_env (Dummy ex_jwt)) True (Some ex_token) ex_session"
  have "\<not> isl (fst ?m)" by code_simp
  then obtain u where m: "?m = (Inr u, snd ?m)" by (cases "fst ?m") (auto simp: prod_eq_iff)
  have "map_sum (\<lambda>_. ()) pk (fst ?m) = Inr 1" by code_simp
  with m have "pk u = 1" by (metis fst_conv map_sum.simps(2) sum.inject(2))
  have "pure (get_user (current_user_of ex_env (Dummy ex_jwt)) True (Some ex_token))"
    unfolding get_user_def current_user_of_def provider.case dummy_get_current_user_def
    by (intro pure_intros repo_pure)
  with m have s: "snd ?m = ex_session" by (metis pureD)
  have "db_ok (working ex_session)" "committed ex_session = working ex_session"
    using ex_db_ok by (simp_all add: ex_session_def)
  with request_user_is_active [OF m] have u: "is_active u" "get_row (pk u) (users (committed (snd ?m))) = Some u" by blast+
  with s \<open>pk u = 1\<close> have "u = ex_admin" by (simp add: get_row_def ex_session_def ex_db_def ex_users)
  with m s u show ?thesis by simp
qed

text \<open>
  What PyJWT documents: an encoded payload is not empty and decodes to itself until the time in \<open>exp\<close>, and not
  from then on.
\<close>

definition jwt_ok :: "jwt \<Rightarrow> bool" where
  "jwt_ok j \<longleftrightarrow> (\<forall>p now t. map_of p ''exp'' = Some (JInt t) \<longrightarrow>
     jwt_encode j p \<noteq> [] \<and> jwt_decode j now (jwt_encode j p) = (if now < t then Some p else None))"

lemma token_user:
  assumes "jwt_ok j"
  shows "get_user_id_from_token j later (fst (generate_access_token j now ttl i)) =
     (if later < now + ttl then Inr i else Inl (AuthorizationError ''Invalid token''))"
proof -
  let ?p = "[(''user_id'', JInt i), (''exp'', JInt (now + ttl))]"
  have "map_of ?p ''exp'' = Some (JInt (now + ttl))" by simp
  with assms have "jwt_decode j later (jwt_encode j ?p) = (if later < now + ttl then Some ?p else None)"
    unfolding jwt_ok_def by blast
  then show ?thesis
    by (simp add: get_user_id_from_token_def decode_jwt_def generate_access_token_def sign_jwt_def Let_def)
qed

lemma login_cases:
  assumes "dummy_get_token_password_grant j now ttl (Some l) (Some p) s = (Inr tok, s')"
  obtains u where "read_or_create now l no_user_data s = (Inr u, s')" "is_active u"
    "access_token tok = fst (generate_access_token j now ttl (pk u))" "expires_at tok = now + ttl"
  using assms
  by (auto simp: dummy_get_token_password_grant_def run_simps generate_access_token_def Let_def split: if_splits)

text \<open>
  C34. The token of a login names the user who logged in: until it expires, a request that carries it runs as the
  active user of the login name, found or created by the login; from then on it is refused.
\<close>

theorem login_token_round_trip:
  assumes "jwt_ok j" and "dummy_get_token_password_grant j now ttl (Some l) (Some p) s = (Inr tok, s')"
    and "db_ok (working s)"
  shows "expires_at tok = now + ttl \<and>
     (if later < now + ttl
      then \<exists>u. dummy_get_current_user j later (Some (access_token tok)) s' = (Inr u, s') \<and> username u = l \<and> is_active u \<and>
        u \<in> set (users (committed s'))
      else dummy_get_current_user j later (Some (access_token tok)) s' = (Inl (AuthorizationError ''Invalid token''), s'))"
proof -
  from login_cases [OF assms(2)] obtain u where u: "read_or_create now l no_user_data s = (Inr u, s')" "is_active u"
    "access_token tok = fst (generate_access_token j now ttl (pk u))" "expires_at tok = now + ttl" by blast
  from read_or_create_row [OF u(1) assms(3)] have row: "get_row (pk u) (users (working s')) = Some u"
    "committed s' = working s'" "username u = l" by auto
  have "map_of [(''user_id'', JInt (pk u)), (''exp'', JInt (now + ttl))] ''exp'' = Some (JInt (now + ttl))" by simp
  then have "access_token tok \<noteq> []"
    using assms(1) unfolding u(3) jwt_ok_def generate_access_token_def sign_jwt_def Let_def fst_conv by blast
  with u row token_user [OF assms(1), of later now ttl "pk u"] get_row_Some [OF row(1)] show ?thesis
    by (simp add: dummy_get_current_user_def user_repo_read_by_id_def bindE_def query_def)
qed

definition timed_jwt :: jwt where
  "timed_jwt = \<lparr>jwt_encode = (\<lambda>p. json_print (JObj p)),
     jwt_decode = (\<lambda>now t. case json_loads t of
        Some (JObj p) \<Rightarrow> (case map_of p ''exp'' of Some (JInt x) \<Rightarrow> if now < x then Some p else None | _ \<Rightarrow> None)
      | _ \<Rightarrow> None)\<rparr>"

lemma timed_jwt_ok: "jwt_ok timed_jwt"
  using json_loads_print [of "JObj p" for p]
  by (simp add: jwt_ok_def timed_jwt_def del: json_print.simps) simp

lemma login_witness:
  "\<exists>tok s' u. dummy_get_token_password_grant timed_jwt 0 60 (Some ''new'') (Some ''p'') ex_session = (Inr tok, s') \<and>
     dummy_get_current_user timed_jwt 59 (Some (access_token tok)) s' = (Inr u, s') \<and> username u = ''new''"
proof -
  let ?m = "dummy_get_token_password_grant timed_jwt 0 60 (Some ''new'') (Some ''p'') ex_session"
  have "\<not> isl (fst ?m)" by code_simp
  then obtain tok where m: "?m = (Inr tok, snd ?m)" by (cases "fst ?m") (auto simp: prod_eq_iff)
  have "db_ok (working ex_session)" using ex_db_ok by (simp add: ex_session_def)
  from login_token_round_trip [OF timed_jwt_ok m this, of 59] m show ?thesis by auto
qed

section \<open>Browser sessions\<close>





end
