(* ===== verification/Sync_Format.thy ===== *)
theory Sync_Format
  imports Sync_Text
begin

text \<open>
  Python's \<open>str.format\<close> on the templates of file names, the validator of those templates
  (\<open>FileTransferTarget._validate_file_name_template\<close> in \<open>syncmaster/schemas/v1/transfers/file/base.py\<close>) and the
  names the worker makes of them (\<open>_get_file_name\<close> and \<open>_rename_files\<close> of \<open>syncmaster/worker/handlers/file\<close>).

  The template language is the one left by the character class of the validator: letters, digits, \<open>_ . - { }\<close>.
  Conversions, format specifications and subscripts need a \<open>!\<close>, \<open>:\<close> or \<open>[\<close> and cannot occur.  Attribute look-up
  can; what attributes Python's objects have is a parameter.
\<close>

section \<open>Characters and substrings\<close>

text \<open>\<open>\w\<close>: letters, digits and the underscore; of the upper half of the 8-bit characters those Python takes as alphanumeric.\<close>

definition word_char :: "char \<Rightarrow> bool" where
  "word_char c \<longleftrightarrow> (let k = of_char c :: nat in
     (48 \<le> k \<and> k \<le> 57) \<or> (65 \<le> k \<and> k \<le> 90) \<or> (97 \<le> k \<and> k \<le> 122) \<or> k = 95 \<or>
     k \<in> set [0xAA, 0xB2, 0xB3, 0xB5, 0xB9, 0xBA, 0xBC, 0xBD, 0xBE] \<or> (0xC0 \<le> k \<and> k \<noteq> 0xD7 \<and> k \<noteq> 0xF7))"

text \<open>The end of a pattern, \<open>$\<close>: the text, or the text before a final newline.\<close>

definition before_newline :: "string \<Rightarrow> string" where
  "before_newline s = (if s \<noteq> [] \<and> last s = CHR 0x0A then butlast s else s)"

fun split_on :: "char \<Rightarrow> string \<Rightarrow> string list" where
  "split_on x [] = [[]]"
| "split_on x (c # cs) =
     (if c = x then [] # split_on x cs else (case split_on x cs of [] \<Rightarrow> [[c]] | w # ws \<Rightarrow> (c # w) # ws))"

text \<open>\<open>w in s\<close>.\<close>

fun occurs_in :: "string \<Rightarrow> string \<Rightarrow> bool" where
  "occurs_in w [] = (w = [])"
| "occurs_in w (c # cs) = (take (length w) (c # cs) = w \<or> occurs_in w cs)"

lemma split_on_nonempty [simp]: "split_on x s \<noteq> []"
  by (induction s) (auto split: list.splits)

lemma split_on_none: "x \<notin> set s \<Longrightarrow> split_on x s = [s]"
  by (induction s) auto

lemma split_on_single: "split_on x s = [w] \<Longrightarrow> w = s \<and> x \<notin> set s"
  by (induction s arbitrary: w) (auto split: if_splits list.splits)

lemma split_on_words: "w \<in> set (split_on x s) \<Longrightarrow> x \<notin> set w"
  by (induction s arbitrary: w) (fastforce split: if_splits list.splits)+

lemma occurs_in_iff: "occurs_in w s \<longleftrightarrow> (\<exists>a b. s = a @ w @ b)"
proof (induction s)
  case (Cons c cs)
  have "take (length w) (c # cs) = w \<longleftrightarrow> (\<exists>b. c # cs = w @ b)"
    by (metis append_eq_conv_conj)
  moreover have "(\<exists>a b. c # cs = a @ w @ b) \<longleftrightarrow> (\<exists>b. c # cs = w @ b) \<or> (\<exists>a b. cs = a @ w @ b)"
    by (metis append_Cons append_Nil list.inject neq_Nil_conv)
  ultimately show ?case using Cons by simp
qed simp

section \<open>str.format\<close>

datatype fmt_error = FmtValueError | FmtKeyError string | FmtIndexError | FmtAttributeError

text \<open>The objects handed to a template, and the text \<open>format\<close> gives them; \<open>PObj\<close> is any other object, by its text.\<close>

datatype pyval = PStr string | PInt int | PObj string

type_synonym attributes = "pyval \<Rightarrow> string \<Rightarrow> pyval option"

fun pytext :: "pyval \<Rightarrow> string" where
  "pytext (PStr s) = s"
| "pytext (PInt i) = str_int i"
| "pytext (PObj t) = t"

text \<open>CPython's \<open>get_integer\<close>: the number a field name is, if it is one; more digits than fit are an error.\<close>

fun get_integer :: "nat \<Rightarrow> string \<Rightarrow> fmt_error + nat option" where
  "get_integer acc [] = Inr (Some acc)"
| "get_integer acc (c # cs) = (case char_digit c of
      None \<Rightarrow> Inr None
    | Some d \<Rightarrow> if acc > (2 ^ 63 - 1) div 10 then Inl FmtValueError else get_integer (10 * acc + d) cs)"

fun follow_attrs :: "attributes \<Rightarrow> pyval \<Rightarrow> string list \<Rightarrow> fmt_error + string" where
  "follow_attrs ga v [] = Inr (pytext v)"
| "follow_attrs ga v (a # as) =
     (if a = [] then Inl FmtValueError
      else (case ga v a of None \<Rightarrow> Inl FmtAttributeError | Some w \<Rightarrow> follow_attrs ga w as))"

text \<open>
  One replacement field, with keyword arguments only: a number or an empty name asks for a positional argument,
  of which there are none.
\<close>

definition format_field :: "attributes \<Rightarrow> (string \<times> pyval) list \<Rightarrow> string \<Rightarrow> fmt_error + string" where
  "format_field ga kwargs name =
     (let parts = split_on (CHR ''.'') name; first = hd parts in
      case get_integer 0 first of
        Inl e \<Rightarrow> Inl e
      | Inr (Some _) \<Rightarrow> Inl FmtIndexError
      | Inr None \<Rightarrow> (case map_of kwargs first of
          None \<Rightarrow> Inl (FmtKeyError first)
        | Some v \<Rightarrow> follow_attrs ga v (tl parts)))"

text \<open>The rest of a field after its opening brace: the name and what follows the closing brace.\<close>

fun scan_field :: "string \<Rightarrow> (string \<times> string) option" where
  "scan_field [] = None"
| "scan_field (c # cs) =
     (if c = CHR ''}'' then Some ([], cs)
      else if c = CHR ''{'' then None
      else map_option (\<lambda>(n, r). (c # n, r)) (scan_field cs))"

lemma scan_field_shorter: "scan_field s = Some (n, r) \<Longrightarrow> length r < length s"
  by (induction s arbitrary: n) (fastforce split: if_splits)+

datatype piece = Lit char | Fld string

text \<open>CPython's \<open>MarkupIterator_next\<close>, a character at a time: a literal, an escaped brace, or a field; \<open>None\<close> for a brace out of place.\<close>

fun next_piece :: "string \<Rightarrow> (piece \<times> string) option" where
  "next_piece [] = None"
| "next_piece [c] = (if c = CHR ''{'' \<or> c = CHR ''}'' then None else Some (Lit c, []))"
| "next_piece (c # d # ds) =
     (if c = CHR ''{'' then
        (if d = CHR ''{'' then Some (Lit c, ds) else map_option (\<lambda>(n, r). (Fld n, r)) (scan_field (d # ds)))
      else if c = CHR ''}'' then (if d = CHR ''}'' then Some (Lit c, ds) else None)
      else Some (Lit c, d # ds))"

lemma next_piece_shorter: "next_piece s = Some (p, r) \<Longrightarrow> length r < length s"
proof (induction s rule: next_piece.induct)
  case (3 c d ds)
  show ?case
  proof (cases "c = CHR ''{'' \<and> d \<noteq> CHR ''{''")
    case True
    with 3 obtain n where "scan_field (d # ds) = Some (n, r)" by (auto simp del: scan_field.simps)
    then show ?thesis using scan_field_shorter by fastforce
  next
    case False
    with 3 show ?thesis by (auto split: if_splits)
  qed
qed (auto split: if_splits)

definition cat :: "string \<Rightarrow> fmt_error + string \<Rightarrow> fmt_error + string" where
  "cat v r = (case r of Inl e \<Rightarrow> Inl e | Inr s \<Rightarrow> Inr (v @ s))"

function (sequential) str_format :: "(string \<Rightarrow> fmt_error + string) \<Rightarrow> string \<Rightarrow> fmt_error + string" where
  "str_format look [] = Inr []"
| "str_format look (c # cs) = (case next_piece (c # cs) of
      None \<Rightarrow> Inl FmtValueError
    | Some (Lit d, rest) \<Rightarrow> cat [d] (str_format look rest)
    | Some (Fld name, rest) \<Rightarrow> (case look name of
        Inl e \<Rightarrow> Inl e
      | Inr v \<Rightarrow> cat v (str_format look rest)))"
  by pat_completeness auto

termination
  by (relation "measure (\<lambda>(_, s). length s)") (auto dest!: next_piece_shorter)

section \<open>Templates of file names\<close>

definition file_name_chars :: "string \<Rightarrow> bool" where
  "file_name_chars s \<longleftrightarrow> before_newline s \<noteq> [] \<and> list_all (\<lambda>c. word_char c \<or> c \<in> set ''.{}-'') (before_newline s)"

definition braced :: "string \<Rightarrow> string" where
  "braced key = ''{'' @ key @ ''}''"

text \<open>A \<open>ValueError\<close> is pydantic's validation error; every other exception leaves the validator as it is.\<close>

definition validate_file_name_template :: "attributes \<Rightarrow> string \<Rightarrow> fmt_error + string" where
  "validate_file_name_template ga value =
     (if \<not> file_name_chars value then Inl FmtValueError
      else if \<not> list_all (\<lambda>key. occurs_in (braced key) value) [''index'', ''extension''] then Inl FmtValueError
      else if \<not> occurs_in (braced ''run_id'') value \<and> \<not> occurs_in (braced ''run_created_at'') value
      then Inl FmtValueError
      else (case str_format (format_field ga [(''index'', PStr []), (''extension'', PStr []),
                (''run_created_at'', PStr []), (''run_id'', PStr [])]) value of
          Inl (FmtKeyError k) \<Rightarrow> Inl FmtValueError
        | Inl e \<Rightarrow> Inl e
        | Inr _ \<Rightarrow> Inr value))"

definition default_file_name_template :: string where
  "default_file_name_template = ''{run_created_at}-{index}.{extension}''"

text \<open>What a handler knows of its run: the id and \<open>created_at\<close> as \<open>strftime\<close> prints it.\<close>

record run_dto =
  rd_id :: int
  rd_created_at :: string

definition get_file_name :: "attributes \<Rightarrow> run_dto \<Rightarrow> string \<Rightarrow> int \<Rightarrow> string \<Rightarrow> fmt_error + string" where
  "get_file_name ga rd template index extension =
     str_format (format_field ga [(''index'', PInt index), (''extension'', PStr extension),
       (''run_id'', PInt (rd_id rd)), (''run_created_at'', PStr (rd_created_at rd))]) template"

text \<open>
  \<open>_rename_files\<close>: the files of the directory in the order it lists them, each with its new name; the first name
  that cannot be made ends the loop.
\<close>

fun rename_files :: "(int \<Rightarrow> fmt_error + string) \<Rightarrow> int \<Rightarrow> string list \<Rightarrow> fmt_error + (string \<times> string) list" where
  "rename_files name i [] = Inr []"
| "rename_files name i (old # files) = (case name i of
      Inl e \<Rightarrow> Inl e
    | Inr new \<Rightarrow> (case rename_files name (i + 1) files of
        Inl e \<Rightarrow> Inl e
      | Inr rest \<Rightarrow> Inr ((old, new) # rest)))"

section \<open>Templates as sequences of pieces\<close>

text \<open>A well-formed template; \<open>None\<close> where \<open>format\<close> would find a brace out of place.\<close>

function (sequential) pieces :: "string \<Rightarrow> piece list option" where
  "pieces [] = Some []"
| "pieces (c # cs) = (case next_piece (c # cs) of
      None \<Rightarrow> None
    | Some (p, rest) \<Rightarrow> map_option (Cons p) (pieces rest))"
  by pat_completeness auto

termination
  by (relation "measure length") (auto dest!: next_piece_shorter)

fun piece_text :: "(string \<Rightarrow> string) \<Rightarrow> piece \<Rightarrow> string" where
  "piece_text f (Lit c) = [c]"
| "piece_text f (Fld n) = f n"

lemma cat_Inr [simp]: "cat v r = Inr s \<longleftrightarrow> (\<exists>t. r = Inr t \<and> s = v @ t)"
  by (auto simp: cat_def split: sum.splits)

lemma cat_InrI [simp]: "cat v (Inr t) = Inr (v @ t)"
  by (simp add: cat_def)

text \<open>A template that has been formatted once is well-formed, and all its fields were found.\<close>

lemma str_format_pieces:
  "str_format look t = Inr s \<Longrightarrow> \<exists>ps. pieces t = Some ps \<and> (\<forall>n. Fld n \<in> set ps \<longrightarrow> \<not> isl (look n))"
proof (induction look t arbitrary: s rule: str_format.induct)
  case (2 look c cs)
  from "2.prems" obtain p rest where n: "next_piece (c # cs) = Some (p, rest)"
    by (auto split: option.splits)
  show ?case
  proof (cases p)
    case (Lit d)
    with n "2.prems" obtain u where "str_format look rest = Inr u" by auto
    from "2.IH"(1) [OF n refl Lit this] n Lit show ?thesis by auto
  next
    case (Fld name)
    with n "2.prems" obtain v u where v: "look name = Inr v" and "str_format look rest = Inr u"
      by (auto split: sum.splits)
    from "2.IH"(2) [OF n refl Fld v this(2)] n Fld v show ?thesis by auto
  qed
qed simp

text \<open>A well-formed template is formatted piece by piece.\<close>

lemma str_format_of_pieces:
  "pieces t = Some ps \<Longrightarrow> (\<And>n. Fld n \<in> set ps \<Longrightarrow> look n = Inr (f n)) \<Longrightarrow>
     str_format look t = Inr (concat (map (piece_text f) ps))"
proof (induction t arbitrary: ps rule: pieces.induct)
  case (2 c cs)
  from "2.prems"(1) obtain p rest qs where n: "next_piece (c # cs) = Some (p, rest)"
    and qs: "pieces rest = Some qs" and ps: "ps = p # qs" by (auto split: option.splits)
  have "str_format look rest = Inr (concat (map (piece_text f) qs))"
    using "2.IH" [OF n refl qs] "2.prems"(2) ps by simp
  with n ps "2.prems"(2) show ?case by (cases p) auto
qed simp

text \<open>Substituting for a piece that occurs is injective: the texts differ in length, or piece by piece.\<close>

lemma concat_substitution_length:
  "length (concat (map (\<lambda>p. if p = x then s else k p) ps)) =
     count_list ps x * length s + length (concat (map (\<lambda>p. if p = x then [] else k p) ps))"
  by (induction ps) auto

lemma concat_substitution_inject:
  assumes "x \<in> set ps"
    and "concat (map (\<lambda>p. if p = x then s else k p) ps) = concat (map (\<lambda>p. if p = x then s' else k p) ps)"
  shows "s = s'"
proof -
  have "count_list ps x \<noteq> 0" using assms(1) by (induction ps) auto
  moreover have "count_list ps x * length s = count_list ps x * length s'"
    using arg_cong [OF assms(2), of length] concat_substitution_length [of x s k ps]
      concat_substitution_length [of x s' k ps] by linarith
  ultimately have l: "length s = length s'" by simp
  show ?thesis using assms
  proof (induction ps)
    case (Cons p ps)
    show ?case
    proof (cases "p = x")
      case True
      with Cons.prems(2) l show ?thesis by (simp add: append_eq_append_conv)
    next
      case False
      with Cons show ?thesis by simp
    qed
  qed simp
qed

end
