(* ===== verification/Sync_Transfer_Schemas.thy ===== *)
theory Sync_Transfer_Schemas
  imports Sync_Connections Sync_Transfers Sync_Format
begin

text \<open>
  The schemas of a transfer's parameters, \<open>syncmaster/schemas/v1/transfers\<close>: source and target parameters of
  databases and file storages, file formats, and the transformations, each with the validators it adds.  An invalid
  request is pydantic's \<open>ValidationError\<close>, a \<open>ValueError\<close>; any other exception of a validator leaves pydantic at once.
  As in \<open>Sync_Schemas\<close>, what pydantic makes of a value of another JSON type is a parameter, and so are the
  attributes of Python objects and the syntax of regular expressions.
\<close>

section \<open>Results\<close>

definition bindR :: "'a res \<Rightarrow> ('a \<Rightarrow> 'b res) \<Rightarrow> 'b res" where
  "bindR r f = (case r of Inl e \<Rightarrow> Inl e | Inr x \<Rightarrow> f x)"

fun mapR :: "('a \<Rightarrow> 'b res) \<Rightarrow> 'a list \<Rightarrow> 'b list res" where
  "mapR f [] = Inr []"
| "mapR f (x # xs) = bindR (f x) (\<lambda>y. bindR (mapR f xs) (\<lambda>ys. Inr (y # ys)))"

lemma bindR_simps [simp]: "bindR (Inr x) f = f x" "bindR (Inl e) f = Inl e"
  by (simp_all add: bindR_def)

lemma bindR_Inr: "bindR r f = Inr y \<longleftrightarrow> (\<exists>x. r = Inr x \<and> f x = Inr y)"
  by (cases r) auto

lemma mapR_Inr: "(\<And>x. x \<in> set xs \<Longrightarrow> f x = Inr (g x)) \<Longrightarrow> mapR f xs = Inr (map g xs)"
  by (induction xs) auto

text \<open>An item of a dict that the program uses as text: a \<open>KeyError\<close> if it is missing.\<close>

definition str_item :: "jdict \<Rightarrow> string \<Rightarrow> string res" where
  "str_item d k = bindR (dict_get d k) (\<lambda>v. case v of JStr s \<Rightarrow> Inr s | _ \<Rightarrow> Inl (TypeError k))"

section \<open>Collecting the outcomes of fields\<close>

text \<open>
  pydantic validates all fields of a model and all items of a list, and reports their errors together; an exception
  that is no \<open>ValueError\<close> is raised at once.
\<close>

fun internal :: "'a res \<Rightarrow> exn option" where
  "internal (Inl (ValueError m)) = None"
| "internal (Inl e) = Some e"
| "internal (Inr v) = None"

fun first_internal :: "'a res list \<Rightarrow> exn option" where
  "first_internal [] = None"
| "first_internal (r # rs) = (case internal r of Some e \<Rightarrow> Some e | None \<Rightarrow> first_internal rs)"

fun all_values :: "'a res list \<Rightarrow> 'a list option" where
  "all_values [] = Some []"
| "all_values (Inl e # rs) = None"
| "all_values (Inr v # rs) = map_option (Cons v) (all_values rs)"

definition invalid :: "'a res" where
  "invalid = Inl (ValueError ''validation error'')"

definition collect :: "'a res list \<Rightarrow> 'a list res" where
  "collect rs = (case first_internal rs of
      Some e \<Rightarrow> Inl e
    | None \<Rightarrow> (case all_values rs of None \<Rightarrow> invalid | Some vs \<Rightarrow> Inr vs))"

definition keyed :: "string \<Rightarrow> 'a res \<Rightarrow> (string \<times> 'a) res" where
  "keyed k r = (case r of Inl e \<Rightarrow> Inl e | Inr v \<Rightarrow> Inr (k, v))"

lemma collect_Inr: "collect rs = Inr vs \<longleftrightarrow> rs = map Inr vs"
proof -
  have v: "all_values rs = Some vs \<longleftrightarrow> rs = map Inr vs" for vs
    by (induction rs arbitrary: vs rule: all_values.induct) (auto simp: Cons_eq_map_conv)
  have "first_internal (map Inr vs) = None" by (induction vs) auto
  moreover have "all_values (map Inr vs) = Some vs" for vs :: "'a list" by (induction vs) auto
  ultimately show ?thesis using v by (auto simp: collect_def invalid_def split: option.splits)
qed

lemma collect_map_Inr [simp]: "collect (map (\<lambda>x. Inr (f x)) xs) = Inr (map f xs)"
  by (simp add: collect_Inr)

lemma keyed_Inr [simp]: "keyed k r = Inr p \<longleftrightarrow> (\<exists>v. r = Inr v \<and> p = (k, v))"
  by (auto simp: keyed_def split: sum.splits)

text \<open>A field of a plain type.\<close>

definition valid_or :: "'a option \<Rightarrow> 'a res" where
  "valid_or v = (case v of None \<Rightarrow> invalid | Some x \<Rightarrow> Inr x)"

lemma valid_or_Inr [simp]: "valid_or v = Inr x \<longleftrightarrow> v = Some x"
  by (auto simp: valid_or_def invalid_def split: option.splits)

text \<open>A field with a validator that sees the raw value; a required field that is missing never reaches it.\<close>

definition before_field :: "coercion \<Rightarrow> (json \<Rightarrow> unit res) \<Rightarrow> string \<Rightarrow> ftype \<Rightarrow> jdict \<Rightarrow> (string \<times> json) res" where
  "before_field lax check name t input = keyed name (case map_of input name of
      None \<Rightarrow> invalid
    | Some v \<Rightarrow> (case check v of Inl e \<Rightarrow> Inl e | Inr _ \<Rightarrow> valid_or (validate_value lax t v)))"

section \<open>Database parameters\<close>

text \<open>\<open>^[\w\d]+\.[\w\d]+$\<close>, and \<open>^[\w\d]+(\.[\w\d]+)+$\<close> for Iceberg.\<close>

definition TABLE_NAME_PATTERN :: "string \<Rightarrow> bool" where
  "TABLE_NAME_PATTERN s \<longleftrightarrow> (let ws = split_on (CHR ''.'') (before_newline s) in
     length ws = 2 \<and> list_all (\<lambda>w. w \<noteq> [] \<and> list_all word_char w) ws)"

definition iceberg_TABLE_NAME_PATTERN :: "string \<Rightarrow> bool" where
  "iceberg_TABLE_NAME_PATTERN s \<longleftrightarrow> (let ws = split_on (CHR ''.'') (before_newline s) in
     2 \<le> length ws \<and> list_all (\<lambda>w. w \<noteq> [] \<and> list_all word_char w) ws)"

text \<open>\<open>re.match\<close> on a value that is not a string is a \<open>TypeError\<close>.\<close>

definition table_name_is_qualified :: "(string \<Rightarrow> bool) \<Rightarrow> json \<Rightarrow> unit res" where
  "table_name_is_qualified pattern value = (case value of
      JStr s \<Rightarrow> if pattern s then Inr () else Inl (ValueError ''Table name should be in format myschema.mytable'')
    | _ \<Rightarrow> Inl (TypeError ''expected string or bytes-like object''))"

definition DBTransfer :: "coercion \<Rightarrow> (string \<Rightarrow> bool) \<Rightarrow> jdict \<Rightarrow> jdict res" where
  "DBTransfer lax pattern input =
     collect [before_field lax (table_name_is_qualified pattern) ''table_name'' TStr input]"

section \<open>File formats\<close>

definition ORCCompression :: "string list" where "ORCCompression = [''none'', ''snappy'', ''zlib'', ''lz4'']"
definition ParquetCompression :: "string list" where "ParquetCompression = [''none'', ''snappy'', ''gzip'', ''lz4'']"
definition JSONCompression :: "string list" where
  "JSONCompression = [''none'', ''bzip2'', ''gzip'', ''lz4'', ''snappy'', ''deflate'']"
definition CSVCompression :: "string list" where
  "CSVCompression = [''none'', ''bzip2'', ''gzip'', ''lz4'', ''snappy'', ''deflate'']"
definition XMLCompression :: "string list" where
  "XMLCompression = [''none'', ''bzip2'', ''gzip'', ''lz4'', ''snappy'']"

definition compression_field :: "string list \<Rightarrow> string \<Rightarrow> field_spec" where
  "compression_field allowed d = field_default ''compression'' (TLiteral allowed) (JStr d)"

definition line_sep_field :: field_spec where
  "line_sep_field = field_default ''line_sep'' TStr (JStr [CHR 0x0A])"

definition encoding_field :: field_spec where
  "encoding_field = field_default ''encoding'' TStr (JStr ''utf-8'')"

definition CSV :: schema where
  "CSV = [type_field ''csv'', field_default ''delimiter'' TStr (JStr '',''), encoding_field,
     field_default ''quote'' TStr (JStr [CHR 0x22]), field_default ''escape'' TStr (JStr [CHR 0x5C]),
     field_default ''include_header'' TBool (JBool False), line_sep_field, compression_field CSVCompression ''gzip'']"

definition JSONLine :: schema where
  "JSONLine = [type_field ''jsonline'', encoding_field, line_sep_field, compression_field JSONCompression ''gzip'']"

definition JSON :: schema where
  "JSON = [type_field ''json'', encoding_field, line_sep_field, compression_field JSONCompression ''gzip'']"

definition Excel :: schema where
  "Excel = [type_field ''excel'', field_default ''include_header'' TBool (JBool False),
     field_default ''start_cell'' (TOpt TStr) JNull]"

definition XML :: schema where
  "XML = [type_field ''xml'', field ''root_tag'' TStr, field ''row_tag'' TStr, compression_field XMLCompression ''gzip'']"

definition ORC :: schema where
  "ORC = [type_field ''orc'', compression_field ORCCompression ''zlib'']"

definition Parquet :: schema where
  "Parquet = [type_field ''parquet'', compression_field ParquetCompression ''snappy'']"

definition TARGET_FILE_FORMAT :: "(string \<times> schema) list" where
  "TARGET_FILE_FORMAT = [(''csv'', CSV), (''jsonline'', JSONLine), (''excel'', Excel), (''xml'', XML), (''orc'', ORC),
     (''parquet'', Parquet)]"

definition SOURCE_FILE_FORMAT :: "(string \<times> schema) list" where
  "SOURCE_FILE_FORMAT = TARGET_FILE_FORMAT @ [(''json'', JSON)]"

text \<open>A union discriminated by \<open>type\<close>: the tag has to be there and to name one of the models.\<close>

definition tagged_union :: "coercion \<Rightarrow> (string \<times> schema) list \<Rightarrow> json \<Rightarrow> json option" where
  "tagged_union lax models v = (case v of
      JObj d \<Rightarrow> (case map_of d ''type'' of
          Some (JStr t) \<Rightarrow> (case map_of models t of
              Some sc \<Rightarrow> map_option JObj (validate_model lax sc d)
            | None \<Rightarrow> None)
        | _ \<Rightarrow> None)
    | _ \<Rightarrow> None)"

definition file_format_field :: "coercion \<Rightarrow> (string \<times> schema) list \<Rightarrow> jdict \<Rightarrow> (string \<times> json) res" where
  "file_format_field lax models input = keyed ''file_format'' (case map_of input ''file_format'' of
      None \<Rightarrow> invalid
    | Some v \<Rightarrow> valid_or (tagged_union lax models v))"

section \<open>File parameters\<close>

text \<open>\<open>PurePosixPath(value).is_absolute()\<close>; a value that is not a string is a \<open>TypeError\<close>.\<close>

definition directory_path_is_valid_path :: "json \<Rightarrow> unit res" where
  "directory_path_is_valid_path value = (case value of
      JStr s \<Rightarrow> if s \<noteq> [] \<and> hd s = CHR ''/'' then Inr () else Inl (ValueError ''Directory path must be absolute'')
    | _ \<Rightarrow> Inl (TypeError ''argument should be a str''))"

definition options_field :: "coercion \<Rightarrow> jdict \<Rightarrow> (string \<times> json) res" where
  "options_field lax input =
     keyed ''options'' (valid_or (validate_field lax (field_default ''options'' TDict (JObj [])) input))"

definition FileTransferSource :: "coercion \<Rightarrow> jdict \<Rightarrow> jdict res" where
  "FileTransferSource lax input =
     collect [before_field lax directory_path_is_valid_path ''directory_path'' TStr input,
       file_format_field lax SOURCE_FILE_FORMAT input, options_field lax input]"

fun fmt_exn :: "fmt_error \<Rightarrow> exn" where
  "fmt_exn FmtValueError = ValueError ''format''"
| "fmt_exn (FmtKeyError k) = KeyError k"
| "fmt_exn FmtIndexError = IndexError ''format''"
| "fmt_exn FmtAttributeError = AttributeError ''format''"

text \<open>The template is validated after its type; a default is taken as it is.\<close>

definition file_name_template_field :: "coercion \<Rightarrow> attributes \<Rightarrow> jdict \<Rightarrow> (string \<times> json) res" where
  "file_name_template_field lax ga input = keyed ''file_name_template'' (case map_of input ''file_name_template'' of
      None \<Rightarrow> Inr (JStr default_file_name_template)
    | Some v \<Rightarrow> (case validate_value lax TStr v of
        Some (JStr s) \<Rightarrow> (case validate_file_name_template ga s of
            Inl e \<Rightarrow> Inl (fmt_exn e)
          | Inr t \<Rightarrow> Inr (JStr t))
      | _ \<Rightarrow> invalid))"

definition FileTransferTarget :: "coercion \<Rightarrow> attributes \<Rightarrow> jdict \<Rightarrow> jdict res" where
  "FileTransferTarget lax ga input =
     collect [before_field lax directory_path_is_valid_path ''directory_path'' TStr input,
       file_format_field lax TARGET_FILE_FORMAT input, file_name_template_field lax ga input, options_field lax input]"

section \<open>Source and target parameters\<close>

definition connection_type_of :: "jdict \<Rightarrow> connection_type option" where
  "connection_type_of input =
     List.find (\<lambda>ct. map_of input ''type'' = Some (JStr (connection_type_value ct))) CONNECTION_TYPES"

definition db_params :: "coercion \<Rightarrow> connection_type \<Rightarrow> jdict \<Rightarrow> jdict res" where
  "db_params lax ct input =
     DBTransfer lax (if ct = ICEBERG then iceberg_TABLE_NAME_PATTERN else TABLE_NAME_PATTERN) input"

definition typed :: "connection_type \<Rightarrow> jdict res \<Rightarrow> params res" where
  "typed ct r = (case r of Inl e \<Rightarrow> Inl e | Inr fs \<Rightarrow> Inr \<lparr>ptype = ct, pfields = fs\<rparr>)"

definition TransferSchemaSource :: "coercion \<Rightarrow> jdict \<Rightarrow> params res" where
  "TransferSchemaSource lax input = (case connection_type_of input of
      None \<Rightarrow> invalid
    | Some ct \<Rightarrow> typed ct
        (if ct \<in> set DB_CONNECTION_TYPES then db_params lax ct input else FileTransferSource lax input))"

definition TransferSchemaTarget :: "coercion \<Rightarrow> attributes \<Rightarrow> jdict \<Rightarrow> params res" where
  "TransferSchemaTarget lax ga input = (case connection_type_of input of
      None \<Rightarrow> invalid
    | Some ct \<Rightarrow> typed ct
        (if ct \<in> set DB_CONNECTION_TYPES then db_params lax ct input else FileTransferTarget lax ga input))"

text \<open>\<open>Strategy\<close> and \<open>Resources\<close>; a transfer without them has the full strategy and the default resources.\<close>

definition validate_strategy_params :: "coercion \<Rightarrow> jdict \<Rightarrow> strategy option" where
  "validate_strategy_params lax d =
     (if map_of d ''type'' = Some (JStr ''full'') then Some FullStrategy
      else if map_of d ''type'' = Some (JStr ''incremental'') then
        (case validate_field lax (field ''increment_by'' TStr) d of
           Some (JStr s) \<Rightarrow> Some (IncrementalStrategy s) | _ \<Rightarrow> None)
      else None)"

definition resources_fields :: schema where
  "resources_fields =
     [field_default ''max_parallel_tasks'' (TInt (Some 1) (Some 100)) (JInt 1),
      field_default ''cpu_cores_per_task'' (TInt (Some 1) (Some 32)) (JInt 1),
      field_default ''ram_bytes_per_task'' (TInt (Some (512 * ONE_MB)) (Some (64 * ONE_GB))) (JInt ONE_GB)]"

section \<open>What validation gives\<close>

lemma before_field_Inr:
  "before_field lax check n t input = Inr p \<longleftrightarrow>
     (\<exists>v w. map_of input n = Some v \<and> check v = Inr () \<and> validate_value lax t v = Some w \<and> p = (n, w))"
  by (auto simp: before_field_def invalid_def split: option.splits sum.splits)

lemma table_name_is_qualified_Inr: "table_name_is_qualified p v = Inr () \<longleftrightarrow> (\<exists>s. v = JStr s \<and> p s)"
  by (cases v) (auto simp: table_name_is_qualified_def)

lemma directory_path_Inr: "directory_path_is_valid_path v = Inr () \<longleftrightarrow> (\<exists>s. v = JStr s \<and> s \<noteq> [] \<and> hd s = CHR ''/'')"
  by (cases v) (auto simp: directory_path_is_valid_path_def)

lemma file_format_field_Inr:
  "file_format_field lax models input = Inr p \<longleftrightarrow>
     (\<exists>v f. map_of input ''file_format'' = Some v \<and> tagged_union lax models v = Some f \<and> p = (''file_format'', f))"
  by (auto simp: file_format_field_def invalid_def split: option.splits)

lemma options_field_Inr:
  "options_field lax input = Inr p \<longleftrightarrow>
     (\<exists>v. validate_field lax (field_default ''options'' TDict (JObj [])) input = Some v \<and> p = (''options'', v))"
  by (auto simp: options_field_def)

lemma DBTransfer_Inr:
  "DBTransfer lax pattern input = Inr fs \<Longrightarrow> \<exists>s. fs = [(''table_name'', JStr s)] \<and> pattern s"
  by (auto simp: DBTransfer_def collect_Inr Cons_eq_map_conv before_field_Inr table_name_is_qualified_Inr
      validate_value_def)

lemma FileTransferSource_Inr:
  assumes "FileTransferSource lax input = Inr fs"
  shows "\<exists>s v f opts. fs = [(''directory_path'', JStr s), (''file_format'', f), (''options'', opts)] \<and>
     s \<noteq> [] \<and> hd s = CHR ''/'' \<and> map_of input ''file_format'' = Some v \<and>
     tagged_union lax SOURCE_FILE_FORMAT v = Some f \<and>
     validate_field lax (field_default ''options'' TDict (JObj [])) input = Some opts"
proof -
  from assms obtain a b d where fs: "fs = [a, b, d]"
    and a: "before_field lax directory_path_is_valid_path ''directory_path'' TStr input = Inr a"
    and b: "file_format_field lax SOURCE_FILE_FORMAT input = Inr b" and d: "options_field lax input = Inr d"
    by (auto simp: FileTransferSource_def collect_Inr Cons_eq_map_conv simp del: split_paired_Ex)
  from a b d show ?thesis unfolding fs
    by (auto simp: before_field_Inr directory_path_Inr file_format_field_Inr options_field_Inr validate_value_def)
qed

lemma validate_template_same: "validate_file_name_template ga s = Inr t \<Longrightarrow> t = s"
  by (auto simp: validate_file_name_template_def split: if_splits sum.splits fmt_error.splits)

lemma file_name_template_field_Inr:
  assumes "file_name_template_field lax ga input = Inr p"
  shows "\<exists>t. p = (''file_name_template'', JStr t) \<and>
       (t = default_file_name_template \<or> validate_file_name_template ga t = Inr t)"
proof (cases "map_of input ''file_name_template''")
  case None
  with assms show ?thesis by (simp add: file_name_template_field_def)
next
  case (Some v)
  with assms obtain s t where "validate_file_name_template ga s = Inr t" and "p = (''file_name_template'', JStr t)"
    by (auto simp: file_name_template_field_def invalid_def split: option.split_asm json.split_asm sum.split_asm)
  with validate_template_same show ?thesis by blast
qed

lemma FileTransferTarget_Inr:
  assumes "FileTransferTarget lax ga input = Inr fs"
  shows "\<exists>s v f t opts. fs = [(''directory_path'', JStr s), (''file_format'', f), (''file_name_template'', JStr t),
       (''options'', opts)] \<and> s \<noteq> [] \<and> hd s = CHR ''/'' \<and>
     map_of input ''file_format'' = Some v \<and> tagged_union lax TARGET_FILE_FORMAT v = Some f \<and>
     (t = default_file_name_template \<or> validate_file_name_template ga t = Inr t) \<and>
     validate_field lax (field_default ''options'' TDict (JObj [])) input = Some opts"
proof -
  from assms obtain a b c d where fs: "fs = [a, b, c, d]"
    and a: "before_field lax directory_path_is_valid_path ''directory_path'' TStr input = Inr a"
    and b: "file_format_field lax TARGET_FILE_FORMAT input = Inr b"
    and c: "file_name_template_field lax ga input = Inr c" and d: "options_field lax input = Inr d"
    by (auto simp: FileTransferTarget_def collect_Inr Cons_eq_map_conv simp del: split_paired_Ex)
  from file_name_template_field_Inr [OF c] a b d show ?thesis unfolding fs
    by (auto simp: before_field_Inr directory_path_Inr file_format_field_Inr options_field_Inr validate_value_def)
qed

end
