(* ===== verification/Sync_Transformations.thy ===== *)
theory Sync_Transformations
  imports Sync_Transfer_Schemas
begin

text \<open>
  The transformations of a transfer, \<open>syncmaster/schemas/v1/transfers/transformations\<close>: filters of rows, columns and
  files and the SQL query as datatypes with the constructors of the models, their validation from JSON, their dumps,
  and that the dump of a valid transformation is read back as it was.
\<close>

section \<open>Schemas\<close>

datatype rows_filter =
    IsNullFilter string
  | IsNotNullFilter string
  | EqualFilter string string
  | NotEqualFilter string string
  | GreaterThanFilter string string
  | GreaterOrEqualFilter string string
  | LessThanFilter string string
  | LessOrEqualFilter string string
  | LikeFilter string string
  | ILikeFilter string string
  | NotLikeFilter string string
  | NotILikeFilter string string
  | RegexpFilter string string

definition null_filters :: "(string \<times> (string \<Rightarrow> rows_filter)) list" where
  "null_filters = [(''is_null'', IsNullFilter), (''is_not_null'', IsNotNullFilter)]"

definition value_filters :: "(string \<times> (string \<Rightarrow> string \<Rightarrow> rows_filter)) list" where
  "value_filters =
     [(''equal'', EqualFilter), (''not_equal'', NotEqualFilter), (''greater_than'', GreaterThanFilter),
      (''greater_or_equal'', GreaterOrEqualFilter), (''less_than'', LessThanFilter),
      (''less_or_equal'', LessOrEqualFilter), (''like'', LikeFilter), (''ilike'', ILikeFilter),
      (''not_like'', NotLikeFilter), (''not_ilike'', NotILikeFilter), (''regexp'', RegexpFilter)]"

fun filter_type :: "rows_filter \<Rightarrow> string" where
  "filter_type (IsNullFilter f) = ''is_null''"
| "filter_type (IsNotNullFilter f) = ''is_not_null''"
| "filter_type (EqualFilter f v) = ''equal''"
| "filter_type (NotEqualFilter f v) = ''not_equal''"
| "filter_type (GreaterThanFilter f v) = ''greater_than''"
| "filter_type (GreaterOrEqualFilter f v) = ''greater_or_equal''"
| "filter_type (LessThanFilter f v) = ''less_than''"
| "filter_type (LessOrEqualFilter f v) = ''less_or_equal''"
| "filter_type (LikeFilter f v) = ''like''"
| "filter_type (ILikeFilter f v) = ''ilike''"
| "filter_type (NotLikeFilter f v) = ''not_like''"
| "filter_type (NotILikeFilter f v) = ''not_ilike''"
| "filter_type (RegexpFilter f v) = ''regexp''"

fun filter_field :: "rows_filter \<Rightarrow> string" where
  "filter_field (IsNullFilter f) = f"
| "filter_field (IsNotNullFilter f) = f"
| "filter_field (EqualFilter f v) = f"
| "filter_field (NotEqualFilter f v) = f"
| "filter_field (GreaterThanFilter f v) = f"
| "filter_field (GreaterOrEqualFilter f v) = f"
| "filter_field (LessThanFilter f v) = f"
| "filter_field (LessOrEqualFilter f v) = f"
| "filter_field (LikeFilter f v) = f"
| "filter_field (ILikeFilter f v) = f"
| "filter_field (NotLikeFilter f v) = f"
| "filter_field (NotILikeFilter f v) = f"
| "filter_field (RegexpFilter f v) = f"

fun filter_value :: "rows_filter \<Rightarrow> string option" where
  "filter_value (IsNullFilter f) = None"
| "filter_value (IsNotNullFilter f) = None"
| "filter_value (EqualFilter f v) = Some v"
| "filter_value (NotEqualFilter f v) = Some v"
| "filter_value (GreaterThanFilter f v) = Some v"
| "filter_value (GreaterOrEqualFilter f v) = Some v"
| "filter_value (LessThanFilter f v) = Some v"
| "filter_value (LessOrEqualFilter f v) = Some v"
| "filter_value (LikeFilter f v) = Some v"
| "filter_value (ILikeFilter f v) = Some v"
| "filter_value (NotLikeFilter f v) = Some v"
| "filter_value (NotILikeFilter f v) = Some v"
| "filter_value (RegexpFilter f v) = Some v"

text \<open>\<open>model_dump\<close>: the field of the base class first, then the type and the value.\<close>

definition rows_filter_dump :: "rows_filter \<Rightarrow> jdict" where
  "rows_filter_dump f = [(''field'', JStr (filter_field f)), (''type'', JStr (filter_type f))] @
     (case filter_value f of None \<Rightarrow> [] | Some v \<Rightarrow> [(''value'', JStr v)])"

definition str_field :: "coercion \<Rightarrow> string \<Rightarrow> jdict \<Rightarrow> string option" where
  "str_field lax k d = (case validate_field lax (field k TStr) d of Some (JStr s) \<Rightarrow> Some s | _ \<Rightarrow> None)"

definition tag_of :: "json \<Rightarrow> (jdict \<times> string) option" where
  "tag_of j = (case j of
      JObj d \<Rightarrow> (case map_of d ''type'' of Some (JStr t) \<Rightarrow> Some (d, t) | _ \<Rightarrow> None)
    | _ \<Rightarrow> None)"

definition validate_rows_filter :: "coercion \<Rightarrow> json \<Rightarrow> rows_filter res" where
  "validate_rows_filter lax j = (case tag_of j of
      None \<Rightarrow> invalid
    | Some (d, t) \<Rightarrow> (case map_of null_filters t of
        Some mk \<Rightarrow> valid_or (map_option mk (str_field lax ''field'' d))
      | None \<Rightarrow> (case map_of value_filters t of
          Some mk \<Rightarrow> (case (str_field lax ''field'' d, str_field lax ''value'' d) of
              (Some f, Some v) \<Rightarrow> Inr (mk f v)
            | _ \<Rightarrow> invalid)
        | None \<Rightarrow> invalid)))"

datatype columns_filter =
    IncludeFilter string
  | RenameFilter string string
  | CastFilter string string

fun columns_filter_dump :: "columns_filter \<Rightarrow> jdict" where
  "columns_filter_dump (IncludeFilter f) = [(''field'', JStr f), (''type'', JStr ''include'')]"
| "columns_filter_dump (RenameFilter f new_name) = [(''field'', JStr f), (''type'', JStr ''rename''), (''to'', JStr new_name)]"
| "columns_filter_dump (CastFilter f as_type) = [(''field'', JStr f), (''type'', JStr ''cast''), (''as_type'', JStr as_type)]"

definition validate_columns_filter :: "coercion \<Rightarrow> json \<Rightarrow> columns_filter res" where
  "validate_columns_filter lax j = (case tag_of j of
      None \<Rightarrow> invalid
    | Some (d, t) \<Rightarrow>
        if t = ''include'' then valid_or (map_option IncludeFilter (str_field lax ''field'' d))
        else if t = ''rename'' then (case (str_field lax ''field'' d, str_field lax ''to'' d) of
            (Some f, Some n) \<Rightarrow> Inr (RenameFilter f n) | _ \<Rightarrow> invalid)
        else if t = ''cast'' then (case (str_field lax ''field'' d, str_field lax ''as_type'' d) of
            (Some f, Some n) \<Rightarrow> Inr (CastFilter f n) | _ \<Rightarrow> invalid)
        else invalid)"

datatype metadata_filter =
    NameGlobFilter string
  | NameRegexpFilter string
  | FileSizeMinFilter int
  | FileSizeMaxFilter int

fun metadata_filter_dump :: "metadata_filter \<Rightarrow> jdict" where
  "metadata_filter_dump (NameGlobFilter v) = [(''type'', JStr ''name_glob''), (''value'', JStr v)]"
| "metadata_filter_dump (NameRegexpFilter v) = [(''type'', JStr ''name_regexp''), (''value'', JStr v)]"
| "metadata_filter_dump (FileSizeMinFilter n) = [(''type'', JStr ''file_size_min''), (''value'', JInt n)]"
| "metadata_filter_dump (FileSizeMaxFilter n) = [(''type'', JStr ''file_size_max''), (''value'', JInt n)]"

text \<open>\<open>glob.has_magic\<close> and \<open>re.compile\<close>; on a value that is not a string both raise a \<open>TypeError\<close>.\<close>

definition has_magic :: "string \<Rightarrow> bool" where
  "has_magic s \<longleftrightarrow> list_ex (\<lambda>c. c \<in> set ''*?['') s"

definition validate_pattern :: "(string \<Rightarrow> bool) \<Rightarrow> json \<Rightarrow> unit res" where
  "validate_pattern ok v = (case v of
      JStr s \<Rightarrow> if ok s then Inr () else Inl (ValueError ''Invalid pattern'')
    | _ \<Rightarrow> Inl (TypeError ''expected string''))"

definition pattern_filter :: "coercion \<Rightarrow> (string \<Rightarrow> bool) \<Rightarrow> (string \<Rightarrow> metadata_filter) \<Rightarrow> jdict \<Rightarrow> metadata_filter res" where
  "pattern_filter lax ok mk d = bindR (before_field lax (validate_pattern ok) ''value'' TStr d)
     (\<lambda>(_, v). case v of JStr s \<Rightarrow> Inr (mk s) | _ \<Rightarrow> invalid)"

definition size_filter :: "coercion \<Rightarrow> (int \<Rightarrow> metadata_filter) \<Rightarrow> jdict \<Rightarrow> metadata_filter res" where
  "size_filter lax mk d = (case validate_field lax (field ''value'' (TInt None None)) d of
      Some (JInt n) \<Rightarrow> Inr (mk n) | _ \<Rightarrow> invalid)"

definition validate_metadata_filter :: "coercion \<Rightarrow> (string \<Rightarrow> bool) \<Rightarrow> json \<Rightarrow> metadata_filter res" where
  "validate_metadata_filter lax regexp_ok j = (case tag_of j of
      None \<Rightarrow> invalid
    | Some (d, t) \<Rightarrow>
        if t = ''name_glob'' then pattern_filter lax has_magic NameGlobFilter d
        else if t = ''name_regexp'' then pattern_filter lax regexp_ok NameRegexpFilter d
        else if t = ''file_size_min'' then size_filter lax FileSizeMinFilter d
        else if t = ''file_size_max'' then size_filter lax FileSizeMaxFilter d
        else invalid)"

subsection \<open>SQL\<close>

definition starts_word :: "string \<Rightarrow> string \<Rightarrow> bool" where
  "starts_word w s \<longleftrightarrow> lower (take (length w) s) = w \<and>
     (case drop (length w) s of [] \<Rightarrow> True | c # _ \<Rightarrow> \<not> word_char c)"

text \<open>\<open>^\s*(SELECT|WITH)\b\<close>, ignoring case.\<close>

definition ALLOWED_QUERY_TYPE :: "string \<Rightarrow> bool" where
  "ALLOWED_QUERY_TYPE s \<longleftrightarrow> (let r = dropWhile is_space s in starts_word ''select'' r \<or> starts_word ''with'' r)"

text \<open>\<open>\bFROM\s+source\b\<close> anywhere; the flag says whether the character before is a word character.\<close>

definition from_source_here :: "string \<Rightarrow> bool" where
  "from_source_here s \<longleftrightarrow> lower (take 4 s) = ''from'' \<and>
     (case drop 4 s of [] \<Rightarrow> False | c # r \<Rightarrow> is_space c \<and> starts_word ''source'' (dropWhile is_space r))"

fun contains_from_source :: "bool \<Rightarrow> string \<Rightarrow> bool" where
  "contains_from_source inside [] = False"
| "contains_from_source inside (c # cs) =
     ((\<not> inside \<and> from_source_here (c # cs)) \<or> contains_from_source (word_char c) cs)"

definition validate_query :: "string \<Rightarrow> string res" where
  "validate_query value =
     (if \<not> ALLOWED_QUERY_TYPE value then Inl (ValueError ''Query must be a SELECT statement'')
      else if \<not> contains_from_source False value then Inl (ValueError ''Query must contain `FROM source` clause'')
      else Inr value)"

subsection \<open>Transformations\<close>

datatype transformation =
    DataframeRowsFilter "rows_filter list"
  | DataframeColumnsFilter "columns_filter list"
  | FileMetadataFilter "metadata_filter list"
  | Sql string

fun transformation_dump :: "transformation \<Rightarrow> json" where
  "transformation_dump (DataframeRowsFilter fs) =
     JObj [(''type'', JStr ''dataframe_rows_filter''), (''filters'', JList (map (JObj \<circ> rows_filter_dump) fs))]"
| "transformation_dump (DataframeColumnsFilter fs) =
     JObj [(''type'', JStr ''dataframe_columns_filter''), (''filters'', JList (map (JObj \<circ> columns_filter_dump) fs))]"
| "transformation_dump (FileMetadataFilter fs) =
     JObj [(''type'', JStr ''file_metadata_filter''), (''filters'', JList (map (JObj \<circ> metadata_filter_dump) fs))]"
| "transformation_dump (Sql q) = JObj [(''type'', JStr ''sql''), (''query'', JStr q), (''dialect'', JStr ''spark'')]"

definition filters_field :: "(json \<Rightarrow> 'f res) \<Rightarrow> jdict \<Rightarrow> 'f list res" where
  "filters_field item d = (case map_of d ''filters'' of
      None \<Rightarrow> Inr []
    | Some (JList js) \<Rightarrow> collect (map item js)
    | Some _ \<Rightarrow> invalid)"

definition TransformationSchema :: "coercion \<Rightarrow> (string \<Rightarrow> bool) \<Rightarrow> json \<Rightarrow> transformation res" where
  "TransformationSchema lax regexp_ok j = (case tag_of j of
      None \<Rightarrow> invalid
    | Some (d, t) \<Rightarrow>
        if t = ''dataframe_rows_filter''
        then bindR (filters_field (validate_rows_filter lax) d) (\<lambda>fs. Inr (DataframeRowsFilter fs))
        else if t = ''dataframe_columns_filter''
        then bindR (filters_field (validate_columns_filter lax) d) (\<lambda>fs. Inr (DataframeColumnsFilter fs))
        else if t = ''file_metadata_filter''
        then bindR (filters_field (validate_metadata_filter lax regexp_ok) d) (\<lambda>fs. Inr (FileMetadataFilter fs))
        else if t = ''sql'' then (case str_field lax ''query'' d of
            None \<Rightarrow> invalid
          | Some q \<Rightarrow> (case validate_query q of
              Inl e \<Rightarrow> Inl e
            | Inr q' \<Rightarrow> if validate_field lax (field_default ''dialect'' (TLiteral [''spark'']) (JStr ''spark'')) d = None
                then invalid else Inr (Sql q')))
        else invalid)"

text \<open>What the validators demand beyond types.\<close>

fun metadata_ok :: "(string \<Rightarrow> bool) \<Rightarrow> metadata_filter \<Rightarrow> bool" where
  "metadata_ok regexp_ok (NameGlobFilter v) = has_magic v"
| "metadata_ok regexp_ok (NameRegexpFilter v) = regexp_ok v"
| "metadata_ok regexp_ok _ = True"

fun transformation_ok :: "(string \<Rightarrow> bool) \<Rightarrow> transformation \<Rightarrow> bool" where
  "transformation_ok regexp_ok (FileMetadataFilter fs) = list_all (metadata_ok regexp_ok) fs"
| "transformation_ok regexp_ok (Sql q) = (validate_query q = Inr q)"
| "transformation_ok regexp_ok _ = True"

lemma str_field_Some [simp]: "map_of d k = Some (JStr s) \<Longrightarrow> str_field lax k d = Some s"
  by (simp add: str_field_def validate_field_def field_def validate_value_def)

lemma validate_rows_filter_dump [simp]: "validate_rows_filter lax (JObj (rows_filter_dump f)) = Inr f"
  by (cases f) (simp_all add: validate_rows_filter_def tag_of_def rows_filter_dump_def null_filters_def value_filters_def)

lemma validate_columns_filter_dump [simp]: "validate_columns_filter lax (JObj (columns_filter_dump f)) = Inr f"
  by (cases f) (simp_all add: validate_columns_filter_def tag_of_def)

lemma validate_metadata_filter_dump:
  "metadata_ok rx f \<Longrightarrow> validate_metadata_filter lax rx (JObj (metadata_filter_dump f)) = Inr f"
  by (cases f) (simp_all add: validate_metadata_filter_def tag_of_def pattern_filter_def size_filter_def
      before_field_def validate_pattern_def keyed_def validate_value_def validate_field_def field_def valid_or_def)

lemma filters_field_dump:
  assumes "\<And>f. f \<in> set fs \<Longrightarrow> item (JObj (dump f)) = Inr f"
    and "map_of d ''filters'' = Some (JList (map (JObj \<circ> dump) fs))"
  shows "filters_field item d = Inr fs"
proof -
  have "map item (map (JObj \<circ> dump) fs) = map Inr fs" using assms(1) by simp
  then have "collect (map item (map (JObj \<circ> dump) fs)) = Inr fs" by (simp only: collect_Inr)
  with assms(2) show ?thesis by (simp add: filters_field_def)
qed

text \<open>The stored dump of a valid transformation is valid and stands for the same transformation.\<close>

lemma transformation_dump_valid:
  assumes "transformation_ok rx t"
  shows "TransformationSchema lax rx (transformation_dump t) = Inr t"
proof (cases t)
  case (DataframeRowsFilter fs)
  let ?d = "[(''type'', JStr ''dataframe_rows_filter''), (''filters'', JList (map (JObj \<circ> rows_filter_dump) fs))]"
  have "filters_field (validate_rows_filter lax) ?d = Inr fs"
    by (rule filters_field_dump [where dump = rows_filter_dump]) simp_all
  with DataframeRowsFilter show ?thesis by (simp add: TransformationSchema_def tag_of_def)
next
  case (DataframeColumnsFilter fs)
  let ?d = "[(''type'', JStr ''dataframe_columns_filter''), (''filters'', JList (map (JObj \<circ> columns_filter_dump) fs))]"
  have "filters_field (validate_columns_filter lax) ?d = Inr fs"
    by (rule filters_field_dump [where dump = columns_filter_dump]) simp_all
  with DataframeColumnsFilter show ?thesis by (simp add: TransformationSchema_def tag_of_def)
next
  case (FileMetadataFilter fs)
  let ?d = "[(''type'', JStr ''file_metadata_filter''), (''filters'', JList (map (JObj \<circ> metadata_filter_dump) fs))]"
  have "filters_field (validate_metadata_filter lax rx) ?d = Inr fs"
    using assms FileMetadataFilter
    by (intro filters_field_dump [where dump = metadata_filter_dump]) (simp_all add: list_all_iff validate_metadata_filter_dump)
  with FileMetadataFilter show ?thesis by (simp add: TransformationSchema_def tag_of_def)
next
  case (Sql q)
  with assms show ?thesis
    by (simp add: TransformationSchema_def tag_of_def validate_field_def field_default_def validate_value_def)
qed

end
