(* ===== verification/Sync_Filters.thy ===== *)
theory Sync_Filters
  imports Sync_Transformations
begin

text \<open>
  The SQL the worker makes of a transfer's transformations: \<open>DBHandler\<close> and its seven subclasses in
  \<open>syncmaster/worker/handlers/db\<close>, \<open>FileHandler\<close> in \<open>syncmaster/worker/handlers/file/base.py\<close>.  The handlers work on the
  stored dicts, the JSON dumps of validated filters.

  The contract of a handler is the locale \<open>row_conditions\<close>: the text of one condition, read by a lexer that knows quoted
  identifiers and string literals, has the field and the value of the filter between its quotes, and outside them a
  skeleton that depends on the type of the filter only.  What follows for a whole \<open>WHERE\<close> clause is proved once in the
  locale, which is interpreted for all seven database handlers.
\<close>

section \<open>Operators\<close>

definition DBHandler_operators :: "(string \<times> string) list" where
  "DBHandler_operators =
     [(''is_null'', ''IS NULL''), (''is_not_null'', ''IS NOT NULL''), (''equal'', ''=''), (''not_equal'', ''!=''),
      (''greater_than'', ''>''), (''greater_or_equal'', ''>=''), (''less_than'', ''<''), (''less_or_equal'', ''<=''),
      (''like'', ''LIKE''), (''ilike'', ''ILIKE''), (''not_like'', ''NOT LIKE''), (''not_ilike'', ''NOT ILIKE'')]"

definition ClickhouseHandler_operators :: "(string \<times> string) list" where
  "ClickhouseHandler_operators = (''regexp'', ''REGEXP'') # DBHandler_operators"

definition HiveHandler_operators :: "(string \<times> string) list" where
  "HiveHandler_operators = (''regexp'', ''RLIKE'') # DBHandler_operators"

definition IcebergHandler_operators :: "(string \<times> string) list" where
  "IcebergHandler_operators = (''regexp'', ''RLIKE'') # DBHandler_operators"

definition MSSQLHandler_operators :: "(string \<times> string) list" where
  "MSSQLHandler_operators = (''regexp'', ''LIKE'') # DBHandler_operators"

definition MySQLHandler_operators :: "(string \<times> string) list" where
  "MySQLHandler_operators = (''regexp'', ''RLIKE'') # DBHandler_operators"

definition OracleHandler_operators :: "(string \<times> string) list" where
  "OracleHandler_operators = (''regexp'', ''REGEXP_LIKE'') # DBHandler_operators"

definition PostgresHandler_operators :: "(string \<times> string) list" where
  "PostgresHandler_operators = (''regexp'', ''~'') # DBHandler_operators"

definition FileHandler_operators :: "(string \<times> string) list" where
  "FileHandler_operators =
     [(''is_null'', ''IS NULL''), (''is_not_null'', ''IS NOT NULL''), (''equal'', ''=''), (''not_equal'', ''!=''),
      (''greater_than'', ''>''), (''greater_or_equal'', ''>=''), (''less_than'', ''<''), (''less_or_equal'', ''<=''),
      (''like'', ''LIKE''), (''ilike'', ''ILIKE''), (''not_like'', ''NOT LIKE''), (''not_ilike'', ''NOT ILIKE''),
      (''regexp'', ''RLIKE'')]"

lemmas operator_tables = DBHandler_operators_def ClickhouseHandler_operators_def HiveHandler_operators_def
  IcebergHandler_operators_def MSSQLHandler_operators_def MySQLHandler_operators_def OracleHandler_operators_def
  PostgresHandler_operators_def FileHandler_operators_def

section \<open>Conditions on rows\<close>

abbreviation squote :: char where "squote \<equiv> CHR 0x27"

definition quote_field :: "char \<Rightarrow> string \<Rightarrow> string" where
  "quote_field q f = q # f @ [q]"

definition literal :: "string \<Rightarrow> string" where
  "literal v = squote # v @ [squote]"

definition filter_op :: "(string \<times> string) list \<Rightarrow> jdict \<Rightarrow> string res" where
  "filter_op operators f = bindR (str_item f ''type'') (\<lambda>t.
     case map_of operators t of None \<Rightarrow> Inl (KeyError t) | Some op \<Rightarrow> Inr op)"

text \<open>\<open>filter_.get("value")\<close>.\<close>

definition filter_get_value :: "jdict \<Rightarrow> string option res" where
  "filter_get_value f = (case map_of f ''value'' of
      None \<Rightarrow> Inr None
    | Some JNull \<Rightarrow> Inr None
    | Some v \<Rightarrow> (case v of JStr s \<Rightarrow> Inr (Some s) | _ \<Rightarrow> Inl (TypeError ''value'')))"

text \<open>Postgres, Clickhouse and files: the operator as it is in the table.\<close>

definition plain_condition :: "(string \<times> string) list \<Rightarrow> (string \<Rightarrow> string) \<Rightarrow> jdict \<Rightarrow> string res" where
  "plain_condition operators quote filt =
     bindR (str_item filt ''field'') (\<lambda>f.
     bindR (filter_op operators filt) (\<lambda>op.
     bindR (filter_get_value filt) (\<lambda>value.
       Inr (case value of
           Some v \<Rightarrow> quote f @ '' '' @ op @ '' '' @ literal v
         | None \<Rightarrow> quote f @ '' '' @ op))))"

text \<open>Hive, Iceberg, MSSQL and MySQL have no \<open>ILIKE\<close>.\<close>

definition lower_condition :: "(string \<times> string) list \<Rightarrow> (string \<Rightarrow> string) \<Rightarrow> jdict \<Rightarrow> string res" where
  "lower_condition operators quote filt =
     bindR (filter_op operators filt) (\<lambda>op.
     bindR (str_item filt ''field'') (\<lambda>f.
     bindR (filter_get_value filt) (\<lambda>value.
       Inr (case value of
           None \<Rightarrow> quote f @ '' '' @ op
         | Some v \<Rightarrow>
             if op = ''ILIKE'' then ''LOWER('' @ quote f @ '') LIKE LOWER('' @ literal v @ '')''
             else if op = ''NOT ILIKE'' then ''NOT LOWER('' @ quote f @ '') LIKE LOWER('' @ literal v @ '')''
             else quote f @ '' '' @ op @ '' '' @ literal v))))"

definition oracle_condition :: "(string \<times> string) list \<Rightarrow> (string \<Rightarrow> string) \<Rightarrow> jdict \<Rightarrow> string res" where
  "oracle_condition operators quote filt =
     bindR (str_item filt ''field'') (\<lambda>f.
     bindR (filter_op operators filt) (\<lambda>op.
     bindR (filter_get_value filt) (\<lambda>value.
       Inr (case value of
           None \<Rightarrow> quote f @ '' '' @ op
         | Some v \<Rightarrow>
             if op = ''REGEXP_LIKE'' then ''REGEXP_LIKE('' @ quote f @ '', '' @ literal v @ '')''
             else if op = ''ILIKE'' then ''LOWER('' @ quote f @ '') LIKE LOWER('' @ literal v @ '')''
             else if op = ''NOT ILIKE'' then ''NOT LOWER('' @ quote f @ '') LIKE LOWER('' @ literal v @ '')''
             else quote f @ '' '' @ op @ '' '' @ literal v))))"

text \<open>\<open>" AND ".join(expressions) or None\<close>.\<close>

definition where_clause :: "(jdict \<Rightarrow> string res) \<Rightarrow> jdict list \<Rightarrow> string option res" where
  "where_clause condition filters = bindR (mapR condition filters) (\<lambda>expressions.
     let w = join '' AND '' expressions in Inr (if w = [] then None else Some w))"

abbreviation dquoted :: "string \<Rightarrow> string" where "dquoted \<equiv> quote_field CHR 0x22"
abbreviation backquoted :: "string \<Rightarrow> string" where "backquoted \<equiv> quote_field CHR 0x60"

definition clickhouse_make_rows_filter_expression :: "jdict list \<Rightarrow> string option res" where
  "clickhouse_make_rows_filter_expression = where_clause (plain_condition ClickhouseHandler_operators dquoted)"

definition hive_make_rows_filter_expression :: "jdict list \<Rightarrow> string option res" where
  "hive_make_rows_filter_expression = where_clause (lower_condition HiveHandler_operators backquoted)"

definition iceberg_make_rows_filter_expression :: "jdict list \<Rightarrow> string option res" where
  "iceberg_make_rows_filter_expression = where_clause (lower_condition IcebergHandler_operators backquoted)"

definition mssql_make_rows_filter_expression :: "jdict list \<Rightarrow> string option res" where
  "mssql_make_rows_filter_expression = where_clause (lower_condition MSSQLHandler_operators dquoted)"

definition mysql_make_rows_filter_expression :: "jdict list \<Rightarrow> string option res" where
  "mysql_make_rows_filter_expression = where_clause (lower_condition MySQLHandler_operators backquoted)"

definition oracle_make_rows_filter_expression :: "jdict list \<Rightarrow> string option res" where
  "oracle_make_rows_filter_expression = where_clause (oracle_condition OracleHandler_operators dquoted)"

definition postgres_make_rows_filter_expression :: "jdict list \<Rightarrow> string option res" where
  "postgres_make_rows_filter_expression = where_clause (plain_condition PostgresHandler_operators dquoted)"

definition file_make_rows_filter_expression :: "jdict list \<Rightarrow> string option res" where
  "file_make_rows_filter_expression = where_clause (plain_condition FileHandler_operators (\<lambda>f. f))"

text \<open>The method of the handler class a connection type has.\<close>

fun make_rows_filter_expression :: "connection_type \<Rightarrow> jdict list \<Rightarrow> string option res" where
  "make_rows_filter_expression CLICKHOUSE = clickhouse_make_rows_filter_expression"
| "make_rows_filter_expression HIVE = hive_make_rows_filter_expression"
| "make_rows_filter_expression ICEBERG = iceberg_make_rows_filter_expression"
| "make_rows_filter_expression MSSQL = mssql_make_rows_filter_expression"
| "make_rows_filter_expression MYSQL = mysql_make_rows_filter_expression"
| "make_rows_filter_expression ORACLE = oracle_make_rows_filter_expression"
| "make_rows_filter_expression POSTGRES = postgres_make_rows_filter_expression"
| "make_rows_filter_expression _ = file_make_rows_filter_expression"

text \<open>\<open>_quote_field\<close>; file handlers do not quote.\<close>

definition field_quote :: "connection_type \<Rightarrow> char" where
  "field_quote ct = (if ct \<in> set [HIVE, ICEBERG, MYSQL] then CHR 0x60 else CHR 0x22)"

definition handler_quote_field :: "connection_type \<Rightarrow> string \<Rightarrow> string" where
  "handler_quote_field ct f = (if ct \<in> set DB_CONNECTION_TYPES then quote_field (field_quote ct) f else f)"

section \<open>Columns, SQL, and the transformations of a transfer\<close>

text \<open>One expression per filter; a filter of another type adds none.\<close>

definition columns_expression :: "(string \<Rightarrow> string) \<Rightarrow> jdict \<Rightarrow> string list res" where
  "columns_expression quote filt =
     bindR (str_item filt ''type'') (\<lambda>t.
     bindR (str_item filt ''field'') (\<lambda>f.
       if t = ''include'' then Inr [quote f]
       else if t = ''rename'' then bindR (str_item filt ''to'') (\<lambda>n. Inr [quote f @ '' AS '' @ quote n])
       else if t = ''cast'' then bindR (str_item filt ''as_type'') (\<lambda>c.
         Inr [''CAST('' @ quote f @ '' AS '' @ c @ '') AS '' @ quote f])
       else Inr []))"

definition make_columns_filter_expressions :: "connection_type \<Rightarrow> jdict list \<Rightarrow> string list option res" where
  "make_columns_filter_expressions ct filters = bindR (mapR (columns_expression (handler_quote_field ct)) filters)
     (\<lambda>ess. let es = concat ess in Inr (if es = [] then None else Some es))"

definition as_dict :: "json \<Rightarrow> jdict res" where
  "as_dict j = (case j of JObj d \<Rightarrow> Inr d | _ \<Rightarrow> Inl (TypeError ''dict''))"

definition as_list :: "json \<Rightarrow> json list res" where
  "as_list j = (case j of JList js \<Rightarrow> Inr js | _ \<Rightarrow> Inl (TypeError ''list''))"

text \<open>\<open>expressions.extend(transformation["filters"])\<close> over the transformations of one type.\<close>

definition transformation_filters :: "string \<Rightarrow> json list \<Rightarrow> jdict list res" where
  "transformation_filters kind trs =
     bindR (mapR (\<lambda>j. bindR (as_dict j) (\<lambda>d. bindR (str_item d ''type'') (\<lambda>t.
        if t = kind then bindR (dict_get d ''filters'') (\<lambda>v. bindR (as_list v) (mapR as_dict)) else Inr [])))
       trs) (\<lambda>fss. Inr (concat fss))"

definition get_rows_filter_expression :: "connection_type \<Rightarrow> json list \<Rightarrow> string option res" where
  "get_rows_filter_expression ct trs =
     bindR (transformation_filters ''dataframe_rows_filter'' trs) (make_rows_filter_expression ct)"

definition get_columns_filter_expressions :: "connection_type \<Rightarrow> json list \<Rightarrow> string list option res" where
  "get_columns_filter_expressions ct trs =
     bindR (transformation_filters ''dataframe_columns_filter'' trs) (make_columns_filter_expressions ct)"

fun get_sql_query :: "json list \<Rightarrow> string option res" where
  "get_sql_query [] = Inr None"
| "get_sql_query (j # js) = bindR (as_dict j) (\<lambda>d. bindR (str_item d ''type'') (\<lambda>t.
     if t = ''sql'' then bindR (str_item d ''query'') (\<lambda>q. Inr (Some q)) else get_sql_query js))"

datatype file_filter = Glob string | Regexp string | FileSizeRangeMin int | FileSizeRangeMax int

definition make_file_metadata_filter :: "jdict \<Rightarrow> file_filter list res" where
  "make_file_metadata_filter filt =
     bindR (str_item filt ''type'') (\<lambda>t. bindR (dict_get filt ''value'') (\<lambda>v. case v of
         JStr s \<Rightarrow> Inr (if t = ''name_glob'' then [Glob s] else if t = ''name_regexp'' then [Regexp s] else [])
       | JInt n \<Rightarrow> Inr (if t = ''file_size_min'' then [FileSizeRangeMin n]
           else if t = ''file_size_max'' then [FileSizeRangeMax n] else [])
       | _ \<Rightarrow> Inl (TypeError ''value'')))"

definition get_file_metadata_filters :: "json list \<Rightarrow> file_filter list res" where
  "get_file_metadata_filters trs =
     bindR (transformation_filters ''file_metadata_filter'' trs) (\<lambda>fs.
     bindR (mapR make_file_metadata_filter fs) (\<lambda>xss. Inr (concat xss)))"

section \<open>Reading SQL back\<close>

text \<open>
  A lexer for the texts above: characters outside quotes, identifiers between \<open>q\<close>, string literals between single
  quotes; \<open>None\<close> when a quote is not closed.
\<close>

datatype seg = Plain char | Ident string | StrLit string

fun scan_quoted :: "char \<Rightarrow> string \<Rightarrow> (string \<times> string) option" where
  "scan_quoted q [] = None"
| "scan_quoted q (c # cs) = (if c = q then Some ([], cs) else map_option (\<lambda>(w, r). (c # w, r)) (scan_quoted q cs))"

lemma scan_quoted_shorter: "scan_quoted q s = Some (w, r) \<Longrightarrow> length r < length s"
  by (induction s arbitrary: w) (fastforce split: if_splits)+

function (sequential) sql_lex :: "char \<Rightarrow> string \<Rightarrow> seg list option" where
  "sql_lex q [] = Some []"
| "sql_lex q (c # cs) =
     (if c = squote then (case scan_quoted squote cs of
          None \<Rightarrow> None | Some (w, r) \<Rightarrow> map_option (Cons (StrLit w)) (sql_lex q r))
      else if c = q then (case scan_quoted q cs of
          None \<Rightarrow> None | Some (w, r) \<Rightarrow> map_option (Cons (Ident w)) (sql_lex q r))
      else map_option (Cons (Plain c)) (sql_lex q cs))"
  by pat_completeness auto

termination
  by (relation "measure (\<lambda>(_, s). length s)") (auto dest!: scan_quoted_shorter)

declare sql_lex.simps(2) [simp del]

fun idents :: "seg list \<Rightarrow> string list" where
  "idents [] = []"
| "idents (Ident w # ss) = w # idents ss"
| "idents (_ # ss) = idents ss"

fun literals :: "seg list \<Rightarrow> string list" where
  "literals [] = []"
| "literals (StrLit w # ss) = w # literals ss"
| "literals (_ # ss) = literals ss"

text \<open>What is left when the quoted texts are taken out; a mark stands for each.\<close>

fun skeleton :: "seg list \<Rightarrow> string" where
  "skeleton [] = []"
| "skeleton (Plain c # ss) = c # skeleton ss"
| "skeleton (_ # ss) = squote # skeleton ss"

lemma seg_append [simp]:
  "idents (xs @ ys) = idents xs @ idents ys" "literals (xs @ ys) = literals xs @ literals ys"
  "skeleton (xs @ ys) = skeleton xs @ skeleton ys"
  by (induction xs rule: idents.induct; simp; fail)+

lemma seg_plain [simp]: "idents (map Plain w) = []" "literals (map Plain w) = []" "skeleton (map Plain w) = w"
  by (induction w) auto

text \<open>A text that is read as some segments whatever follows it.\<close>

definition lexes :: "char \<Rightarrow> string \<Rightarrow> seg list \<Rightarrow> bool" where
  "lexes q w ss \<longleftrightarrow> (\<forall>rest. sql_lex q (w @ rest) = map_option (\<lambda>r. ss @ r) (sql_lex q rest))"

lemma lexesD: "lexes q w ss \<Longrightarrow> sql_lex q w = Some ss"
  unfolding lexes_def by (drule spec [of _ "[]"]) simp

lemma lexes_append: "lexes q v xs \<Longrightarrow> lexes q w ys \<Longrightarrow> lexes q (v @ w) (xs @ ys)"
  by (simp add: lexes_def option.map_comp o_def)

lemma lexes_nil: "lexes q [] []"
  by (simp add: lexes_def option.map_ident)

lemma join_nonempty: "ws \<noteq> [] \<Longrightarrow> list_all (\<lambda>w. w \<noteq> []) ws \<Longrightarrow> join sep ws \<noteq> []"
  by (cases "(sep, ws)" rule: join.cases) auto

lemma lexes_plain: "q \<notin> set w \<Longrightarrow> squote \<notin> set w \<Longrightarrow> lexes q w (map Plain w)"
proof (induction w)
  case (Cons c w)
  then have "c \<noteq> q" "c \<noteq> squote" by auto
  then have "lexes q [c] [Plain c]" by (simp add: lexes_def sql_lex.simps(2) [of _ c])
  with Cons lexes_append [of q "[c]" "[Plain c]" w "map Plain w"] show ?case by simp
qed (simp add: lexes_nil)

lemma scan_quoted_text: "q \<notin> set w \<Longrightarrow> scan_quoted q (w @ q # rest) = Some (w, rest)"
  by (induction w) auto

lemma lexes_field: "q \<noteq> squote \<Longrightarrow> q \<notin> set f \<Longrightarrow> lexes q (quote_field q f) [Ident f]"
  by (simp add: lexes_def quote_field_def sql_lex.simps(2) [of q q] scan_quoted_text)

lemma lexes_literal: "squote \<notin> set v \<Longrightarrow> lexes q (literal v) [StrLit v]"
  by (simp add: lexes_def literal_def sql_lex.simps(2) [of q squote] scan_quoted_text)

section \<open>The contract of a handler\<close>

definition option_list :: "'a option \<Rightarrow> 'a list" where
  "option_list v = (case v of None \<Rightarrow> [] | Some x \<Rightarrow> [x])"

text \<open>A filter whose texts have no quote in them.\<close>

definition quote_free :: "char \<Rightarrow> rows_filter \<Rightarrow> bool" where
  "quote_free q f \<longleftrightarrow> q \<notin> set (filter_field f) \<and> (case filter_value f of None \<Rightarrow> True | Some v \<Rightarrow> squote \<notin> set v)"

locale row_conditions =
  fixes q :: char and condition :: "jdict \<Rightarrow> string res" and shape :: "string \<Rightarrow> string"
  assumes quote_char_ok: "q \<notin> set ('' AND '')" "q \<noteq> squote"
    and condition_lexes: "quote_free q f \<Longrightarrow> \<exists>w ss. condition (rows_filter_dump f) = Inr w \<and> w \<noteq> [] \<and> lexes q w ss \<and>
      idents ss = [filter_field f] \<and> literals ss = option_list (filter_value f) \<and> skeleton ss = shape (filter_type f)"
begin

lemma conditions_lex:
  "list_all (quote_free q) fs \<Longrightarrow> \<exists>ws ss. mapR condition (map rows_filter_dump fs) = Inr ws \<and>
     (ws = [] \<longleftrightarrow> fs = []) \<and> list_all (\<lambda>w. w \<noteq> []) ws \<and> lexes q (join '' AND '' ws) ss \<and> idents ss = map filter_field fs \<and>
     literals ss = concat (map (\<lambda>f. option_list (filter_value f)) fs) \<and>
     skeleton ss = join '' AND '' (map (\<lambda>f. shape (filter_type f)) fs)"
proof (induction fs)
  case Nil
  show ?case by (auto intro: lexes_nil)
next
  case (Cons f fs)
  from Cons.IH Cons.prems obtain ws ss where ws: "mapR condition (map rows_filter_dump fs) = Inr ws" "ws = [] \<longleftrightarrow> fs = []"
    "list_all (\<lambda>w. w \<noteq> []) ws" "lexes q (join '' AND '' ws) ss" "idents ss = map filter_field fs"
    "literals ss = concat (map (\<lambda>f. option_list (filter_value f)) fs)"
    "skeleton ss = join '' AND '' (map (\<lambda>f. shape (filter_type f)) fs)" by auto
  from Cons.prems condition_lexes [of f] obtain w s where w: "condition (rows_filter_dump f) = Inr w" "w \<noteq> []"
    "lexes q w s" "idents s = [filter_field f]" "literals s = option_list (filter_value f)"
    "skeleton s = shape (filter_type f)" by auto
  show ?case
  proof (cases fs)
    case Nil
    with ws w show ?thesis by (intro exI [of _ "[w]"] exI [of _ s]) simp
  next
    case (Cons g gs)
    then obtain v vs where v: "ws = v # vs" using ws(2) by (cases ws) auto
    have "lexes q ('' AND '' @ join '' AND '' ws) (map Plain '' AND '' @ ss)"
      using quote_char_ok ws(4) by (intro lexes_append lexes_plain) simp_all
    then have "lexes q (join '' AND '' (w # ws)) (s @ map Plain '' AND '' @ ss)"
      using lexes_append [OF w(3)] v by simp
    with ws w Cons show ?thesis
      by (intro exI [of _ "w # ws"] exI [of _ "s @ map Plain '' AND '' @ ss"]) simp
  qed
qed

text \<open>The whole clause.\<close>

lemma where_clause_lexes:
  assumes "list_all (quote_free q) fs" and "fs \<noteq> []"
  shows "\<exists>w ss. where_clause condition (map rows_filter_dump fs) = Inr (Some w) \<and> sql_lex q w = Some ss \<and>
     idents ss = map filter_field fs \<and> literals ss = concat (map (\<lambda>f. option_list (filter_value f)) fs) \<and>
     skeleton ss = join '' AND '' (map (\<lambda>f. shape (filter_type f)) fs)"
proof -
  from conditions_lex [OF assms(1)] obtain ws ss where ws: "mapR condition (map rows_filter_dump fs) = Inr ws"
    "ws = [] \<longleftrightarrow> fs = []" "list_all (\<lambda>w. w \<noteq> []) ws" "lexes q (join '' AND '' ws) ss" "idents ss = map filter_field fs"
    "literals ss = concat (map (\<lambda>f. option_list (filter_value f)) fs)"
    "skeleton ss = join '' AND '' (map (\<lambda>f. shape (filter_type f)) fs)" by blast
  from ws(2,3) assms(2) have "join '' AND '' ws \<noteq> []" by (intro join_nonempty) auto
  with ws lexesD [OF ws(4)] show ?thesis by (auto simp: where_clause_def Let_def)
qed

lemma where_clause_none: "where_clause condition [] = Inr None"
  by (simp add: where_clause_def)

end

text \<open>The skeletons of the three kinds of condition.\<close>

definition plain_shape :: "(string \<times> string) list \<Rightarrow> string \<Rightarrow> string" where
  "plain_shape operators t = [squote] @ '' '' @ the (map_of operators t) @
     (if map_of null_filters t = None then '' '' @ [squote] else [])"

definition lower_shape :: "(string \<times> string) list \<Rightarrow> string \<Rightarrow> string" where
  "lower_shape operators t =
     (if t = ''ilike'' then ''LOWER('' @ [squote] @ '') LIKE LOWER('' @ [squote] @ '')''
      else if t = ''not_ilike'' then ''NOT LOWER('' @ [squote] @ '') LIKE LOWER('' @ [squote] @ '')''
      else plain_shape operators t)"

definition oracle_shape :: "(string \<times> string) list \<Rightarrow> string \<Rightarrow> string" where
  "oracle_shape operators t =
     (if t = ''regexp'' then ''REGEXP_LIKE('' @ [squote] @ '', '' @ [squote] @ '')'' else lower_shape operators t)"

section \<open>The handlers meet the contract\<close>

definition row_filter_types :: "string list" where
  "row_filter_types = map fst null_filters @ map fst value_filters"

text \<open>What the proofs need of a table of operators: every type has one, none has a quote, and the special ones are where they belong.\<close>

definition operator_ok :: "char \<Rightarrow> (string \<times> string) list \<Rightarrow> string \<Rightarrow> bool" where
  "operator_ok q operators t = (case map_of operators t of
      None \<Rightarrow> False
    | Some op \<Rightarrow> q \<notin> set op \<and> squote \<notin> set op \<and> (op = ''ILIKE'') = (t = ''ilike'') \<and>
        (op = ''NOT ILIKE'') = (t = ''not_ilike'') \<and> (op = ''REGEXP_LIKE'' \<longrightarrow> t = ''regexp''))"

lemma filter_type_listed: "filter_type f \<in> set row_filter_types"
  by (cases f) (simp_all add: row_filter_types_def null_filters_def value_filters_def)

lemma filter_type_null: "map_of null_filters (filter_type f) = None \<longleftrightarrow> filter_value f \<noteq> None"
  by (cases f) (simp_all add: null_filters_def)

lemma str_item_dump [simp]:
  "str_item (rows_filter_dump f) ''field'' = Inr (filter_field f)"
  "str_item (rows_filter_dump f) ''type'' = Inr (filter_type f)"
  by (simp_all add: str_item_def dict_get_def rows_filter_dump_def)

lemma filter_get_value_dump [simp]: "filter_get_value (rows_filter_dump f) = Inr (filter_value f)"
  by (simp add: filter_get_value_def rows_filter_dump_def split: option.splits)

lemma operator_found:
  assumes "list_all (operator_ok q operators) row_filter_types"
  obtains op where "filter_op operators (rows_filter_dump f) = Inr op" and "map_of operators (filter_type f) = Some op"
    and "q \<notin> set op" and "squote \<notin> set op" and "op = ''ILIKE'' \<longleftrightarrow> filter_type f = ''ilike''"
    and "op = ''NOT ILIKE'' \<longleftrightarrow> filter_type f = ''not_ilike''" and "op = ''REGEXP_LIKE'' \<longrightarrow> filter_type f = ''regexp''"
proof -
  have "operator_ok q operators (filter_type f)" using assms filter_type_listed [of f] by (auto simp: list_all_iff)
  then obtain op where op: "map_of operators (filter_type f) = Some op"
    by (cases "map_of operators (filter_type f)") (simp_all add: operator_ok_def)
  show thesis
    by (rule that [of op]) (use \<open>operator_ok q operators (filter_type f)\<close> op in \<open>simp_all add: operator_ok_def filter_op_def\<close>)
qed

text \<open>The two forms every condition has.\<close>

lemma condition_unary:
  assumes "q \<noteq> squote" and "q \<notin> set f" and "q \<notin> set op" and "squote \<notin> set op"
  shows "\<exists>ss. lexes q (quote_field q f @ op) ss \<and> idents ss = [f] \<and> literals ss = [] \<and> skeleton ss = [squote] @ op"
proof -
  have "lexes q (quote_field q f @ op) ([Ident f] @ map Plain op)"
    using assms by (intro lexes_append lexes_field lexes_plain)
  then show ?thesis by (intro exI conjI, assumption) simp_all
qed

lemma condition_binary:
  assumes "q \<noteq> squote" and "q \<notin> set f" and "squote \<notin> set v"
    and "q \<notin> set (a @ b @ c)" and "squote \<notin> set (a @ b @ c)"
  shows "\<exists>ss. lexes q (a @ quote_field q f @ b @ literal v @ c) ss \<and> idents ss = [f] \<and> literals ss = [v] \<and>
     skeleton ss = a @ [squote] @ b @ [squote] @ c"
proof -
  have "lexes q (a @ quote_field q f @ b @ literal v @ c)
      (map Plain a @ [Ident f] @ map Plain b @ [StrLit v] @ map Plain c)"
    using assms by (intro lexes_append lexes_field lexes_plain lexes_literal) auto
  then show ?thesis by (intro exI conjI, assumption) simp_all
qed

text \<open>The three kinds of condition.\<close>

lemma plain_condition_lexes:
  assumes "list_all (operator_ok q operators) row_filter_types" and "q \<noteq> squote" and "q \<noteq> CHR '' ''" and "quote_free q f"
  shows "\<exists>w ss. plain_condition operators (quote_field q) (rows_filter_dump f) = Inr w \<and> w \<noteq> [] \<and> lexes q w ss \<and>
      idents ss = [filter_field f] \<and> literals ss = option_list (filter_value f) \<and>
      skeleton ss = plain_shape operators (filter_type f)"
proof -
  obtain op where op: "filter_op operators (rows_filter_dump f) = Inr op" "map_of operators (filter_type f) = Some op"
    "q \<notin> set op" "squote \<notin> set op" "op = ''ILIKE'' \<longleftrightarrow> filter_type f = ''ilike''"
    "op = ''NOT ILIKE'' \<longleftrightarrow> filter_type f = ''not_ilike''" "op = ''REGEXP_LIKE'' \<longrightarrow> filter_type f = ''regexp''"
    by (rule operator_found [OF assms(1), of f])
  show ?thesis
  proof (cases "filter_value f")
    case None
    have "plain_condition operators (quote_field q) (rows_filter_dump f) = Inr (quote_field q (filter_field f) @ '' '' @ op)"
      using None op(1) by (simp add: plain_condition_def)
    moreover have "plain_shape operators (filter_type f) = [squote] @ '' '' @ op"
      using None op(2) filter_type_null [of f] by (simp add: plain_shape_def)
    moreover have "\<exists>ss. lexes q (quote_field q (filter_field f) @ '' '' @ op) ss \<and> idents ss = [filter_field f] \<and>
        literals ss = [] \<and> skeleton ss = [squote] @ '' '' @ op"
      using assms op(3,4) by (intro condition_unary) (auto simp: quote_free_def)
    moreover have "quote_field q (filter_field f) @ '' '' @ op \<noteq> []" by simp
    ultimately show ?thesis using None unfolding option_list_def by (simp only: option.case) blast
  next
    case (Some v)
    have "plain_condition operators (quote_field q) (rows_filter_dump f) =
        Inr ([] @ quote_field q (filter_field f) @ ('' '' @ op @ '' '') @ literal v @ [])"
      using Some op(1) by (simp add: plain_condition_def)
    moreover have "plain_shape operators (filter_type f) = [] @ [squote] @ ('' '' @ op @ '' '') @ [squote] @ []"
      using Some op(2) filter_type_null [of f] by (simp add: plain_shape_def)
    moreover have "\<exists>ss. lexes q ([] @ quote_field q (filter_field f) @ ('' '' @ op @ '' '') @ literal v @ []) ss \<and>
        idents ss = [filter_field f] \<and> literals ss = [v] \<and>
        skeleton ss = [] @ [squote] @ ('' '' @ op @ '' '') @ [squote] @ []"
      using assms op(3,4) Some by (intro condition_binary) (auto simp: quote_free_def)
    moreover have "[] @ quote_field q (filter_field f) @ ('' '' @ op @ '' '') @ literal v @ [] \<noteq> []" by simp
    ultimately show ?thesis using Some unfolding option_list_def by (simp only: option.case) blast
  qed
qed

lemma lower_condition_lexes:
  assumes "list_all (operator_ok q operators) row_filter_types" and "q \<noteq> squote"
    and "q \<notin> set (''NOT LOWER() LIKE LOWER()'')" and "quote_free q f"
  shows "\<exists>w ss. lower_condition operators (quote_field q) (rows_filter_dump f) = Inr w \<and> w \<noteq> [] \<and> lexes q w ss \<and>
      idents ss = [filter_field f] \<and> literals ss = option_list (filter_value f) \<and>
      skeleton ss = lower_shape operators (filter_type f)"
proof -
  obtain op where op: "filter_op operators (rows_filter_dump f) = Inr op" "map_of operators (filter_type f) = Some op"
    "q \<notin> set op" "squote \<notin> set op" "op = ''ILIKE'' \<longleftrightarrow> filter_type f = ''ilike''"
    "op = ''NOT ILIKE'' \<longleftrightarrow> filter_type f = ''not_ilike''" "op = ''REGEXP_LIKE'' \<longrightarrow> filter_type f = ''regexp''"
    by (rule operator_found [OF assms(1), of f])
  show ?thesis
  proof (cases "filter_value f \<noteq> None \<and> (op = ''ILIKE'' \<or> op = ''NOT ILIKE'')")
    case True
    then obtain v where v: "filter_value f = Some v" by auto
    let ?a = "if op = ''ILIKE'' then ''LOWER('' else ''NOT LOWER(''"
    have "lower_condition operators (quote_field q) (rows_filter_dump f) =
        Inr (?a @ quote_field q (filter_field f) @ '') LIKE LOWER('' @ literal v @ '')'')"
      using True op(1) v by (auto simp: lower_condition_def)
    moreover have "lower_shape operators (filter_type f) = ?a @ [squote] @ '') LIKE LOWER('' @ [squote] @ '')''"
      using True op by (auto simp: lower_shape_def)
    moreover have "\<exists>ss. lexes q (?a @ quote_field q (filter_field f) @ '') LIKE LOWER('' @ literal v @ '')'') ss \<and>
        idents ss = [filter_field f] \<and> literals ss = [v] \<and>
        skeleton ss = ?a @ [squote] @ '') LIKE LOWER('' @ [squote] @ '')''"
      using assms v by (intro condition_binary) (auto simp: quote_free_def)
    moreover have "?a @ quote_field q (filter_field f) @ '') LIKE LOWER('' @ literal v @ '')'' \<noteq> []" by simp
    ultimately show ?thesis using v unfolding option_list_def by (simp only: option.case) blast
  next
    case False
    then have "lower_condition operators (quote_field q) (rows_filter_dump f) =
        plain_condition operators (quote_field q) (rows_filter_dump f)"
      using op(1) by (auto simp: lower_condition_def plain_condition_def split: option.splits)
    moreover have "filter_value f \<noteq> None" if "filter_type f = ''ilike'' \<or> filter_type f = ''not_ilike''"
      using that by (cases f) auto
    then have "lower_shape operators (filter_type f) = plain_shape operators (filter_type f)"
      using False op(5,6) by (auto simp: lower_shape_def)
    ultimately show ?thesis using plain_condition_lexes [OF assms(1,2) _ assms(4)] assms(3) by auto
  qed
qed

lemma oracle_condition_lexes:
  assumes "list_all (operator_ok q operators) row_filter_types" and "q \<noteq> squote"
    and "q \<notin> set (''NOT LOWER() LIKE LOWER()'')" and "q \<notin> set (''REGEXP_LIKE(, )'')" and "quote_free q f"
    and "map_of operators ''regexp'' = Some ''REGEXP_LIKE''"
  shows "\<exists>w ss. oracle_condition operators (quote_field q) (rows_filter_dump f) = Inr w \<and> w \<noteq> [] \<and> lexes q w ss \<and>
      idents ss = [filter_field f] \<and> literals ss = option_list (filter_value f) \<and>
      skeleton ss = oracle_shape operators (filter_type f)"
proof (cases "filter_type f = ''regexp''")
  case True
  then obtain v where f: "f = RegexpFilter (filter_field f) v" and v: "filter_value f = Some v" by (cases f) auto
  have "oracle_condition operators (quote_field q) (rows_filter_dump f) =
      Inr (''REGEXP_LIKE('' @ quote_field q (filter_field f) @ '', '' @ literal v @ '')'')"
    using True assms(6) v by (simp add: oracle_condition_def filter_op_def)
  moreover have "\<exists>ss. lexes q (''REGEXP_LIKE('' @ quote_field q (filter_field f) @ '', '' @ literal v @ '')'') ss \<and>
      idents ss = [filter_field f] \<and> literals ss = [v] \<and> skeleton ss = ''REGEXP_LIKE('' @ [squote] @ '', '' @ [squote] @ '')''"
    using assms v by (intro condition_binary) (auto simp: quote_free_def)
  moreover have "oracle_shape operators (filter_type f) = ''REGEXP_LIKE('' @ [squote] @ '', '' @ [squote] @ '')''"
    using True by (simp add: oracle_shape_def)
  moreover have "''REGEXP_LIKE('' @ quote_field q (filter_field f) @ '', '' @ literal v @ '')'' \<noteq> []" by simp
  ultimately show ?thesis using v unfolding option_list_def by (simp only: option.case) blast
next
  case False
  obtain op where op: "filter_op operators (rows_filter_dump f) = Inr op" "map_of operators (filter_type f) = Some op"
    "q \<notin> set op" "squote \<notin> set op" "op = ''ILIKE'' \<longleftrightarrow> filter_type f = ''ilike''"
    "op = ''NOT ILIKE'' \<longleftrightarrow> filter_type f = ''not_ilike''" "op = ''REGEXP_LIKE'' \<longrightarrow> filter_type f = ''regexp''"
    by (rule operator_found [OF assms(1), of f])
  with False have "oracle_condition operators (quote_field q) (rows_filter_dump f) =
      lower_condition operators (quote_field q) (rows_filter_dump f)"
    by (auto simp: oracle_condition_def lower_condition_def split: option.splits)
  with False lower_condition_lexes [OF assms(1,2,3,5)] show ?thesis by (simp add: oracle_shape_def)
qed

lemmas table_eval = row_filter_types_def null_filters_def value_filters_def operator_ok_def operator_tables

interpretation clickhouse: row_conditions "CHR 0x22" "plain_condition ClickhouseHandler_operators dquoted"
  "plain_shape ClickhouseHandler_operators"
  by unfold_locales (simp, simp, rule plain_condition_lexes, simp_all add: table_eval)

interpretation postgres: row_conditions "CHR 0x22" "plain_condition PostgresHandler_operators dquoted"
  "plain_shape PostgresHandler_operators"
  by unfold_locales (simp, simp, rule plain_condition_lexes, simp_all add: table_eval)

interpretation hive: row_conditions "CHR 0x60" "lower_condition HiveHandler_operators backquoted"
  "lower_shape HiveHandler_operators"
  by unfold_locales (simp, simp, rule lower_condition_lexes, simp_all add: table_eval)

interpretation iceberg: row_conditions "CHR 0x60" "lower_condition IcebergHandler_operators backquoted"
  "lower_shape IcebergHandler_operators"
  by unfold_locales (simp, simp, rule lower_condition_lexes, simp_all add: table_eval)

interpretation mssql: row_conditions "CHR 0x22" "lower_condition MSSQLHandler_operators dquoted"
  "lower_shape MSSQLHandler_operators"
  by unfold_locales (simp, simp, rule lower_condition_lexes, simp_all add: table_eval)

interpretation mysql: row_conditions "CHR 0x60" "lower_condition MySQLHandler_operators backquoted"
  "lower_shape MySQLHandler_operators"
  by unfold_locales (simp, simp, rule lower_condition_lexes, simp_all add: table_eval)

interpretation oracle_db: row_conditions "CHR 0x22" "oracle_condition OracleHandler_operators dquoted"
  "oracle_shape OracleHandler_operators"
  by unfold_locales (simp, simp, rule oracle_condition_lexes, simp_all add: table_eval)

end
