(* ===== verification/Sync_Handlers.thy ===== *)
theory Sync_Handlers
  imports Sync_Filters Sync_Worker
begin

text \<open>
  The transfer objects and handlers of the worker: \<open>syncmaster/dto\<close> (the dataclasses as lists of fields with their
  defaults, their constructor and \<open>__post_init__\<close>) and what the handlers of \<open>syncmaster/worker/handlers\<close> hand to onETL:
  the options of readers and writers, the names of high-water marks, extensions, file names and moved files.  onETL
  itself (parsing of format options, globs, data frames) is a parameter.
\<close>

section \<open>Dataclasses\<close>

text \<open>A dataclass by its fields; \<open>None\<close> is a field without default.  An unknown or a missing keyword is a \<open>TypeError\<close>.\<close>

type_synonym dataclass = "(string \<times> json option) list"

definition construct :: "dataclass \<Rightarrow> jdict \<Rightarrow> jdict res" where
  "construct spec kwargs =
     (if list_ex (\<lambda>(k, _). k \<notin> fst ` set spec) kwargs then Inl (TypeError ''got an unexpected keyword argument'')
      else mapR (\<lambda>(n, d). case map_of kwargs n of
          Some v \<Rightarrow> Inr (n, v)
        | None \<Rightarrow> (case d of Some v \<Rightarrow> Inr (n, v) | None \<Rightarrow> Inl (TypeError ''missing required argument''))) spec)"

definition constructible :: "dataclass \<Rightarrow> string set \<Rightarrow> bool" where
  "constructible spec keys \<longleftrightarrow> keys \<subseteq> fst ` set spec \<and> (\<forall>n. (n, None) \<in> set spec \<longrightarrow> n \<in> keys)"

lemma construct_total:
  assumes "constructible spec (fst ` set kwargs)"
  shows "\<exists>fs. construct spec kwargs = Inr fs \<and> map fst fs = map fst spec \<and>
     (\<forall>n \<in> fst ` set spec. distinct (map fst spec) \<longrightarrow> map_of kwargs n \<noteq> None \<longrightarrow> map_of fs n = map_of kwargs n)"
proof -
  let ?f = "\<lambda>(n, d). (n, case map_of kwargs n of Some v \<Rightarrow> v | None \<Rightarrow> the d)"
  have "\<not> list_ex (\<lambda>(k, _). k \<notin> fst ` set spec) kwargs" using assms
    by (force simp: constructible_def list_ex_iff)
  moreover have "mapR (\<lambda>(n, d). case map_of kwargs n of
          Some v \<Rightarrow> Inr (n, v)
        | None \<Rightarrow> (case d of Some v \<Rightarrow> Inr (n, v) | None \<Rightarrow> Inl (TypeError ''missing required argument''))) spec
      = Inr (map ?f spec)"
  proof (rule mapR_Inr)
    fix p assume p: "p \<in> set spec"
    obtain n d where nd: "p = (n, d)" by (cases p)
    show "(\<lambda>(n, d). case map_of kwargs n of
          Some v \<Rightarrow> Inr (n, v)
        | None \<Rightarrow> (case d of Some v \<Rightarrow> Inr (n, v) | None \<Rightarrow> Inl (TypeError ''missing required argument''))) p
      = Inr (?f p)"
    proof (cases "map_of kwargs n")
      case None
      then have "d \<noteq> None" using assms p nd by (cases d) (auto simp: constructible_def map_of_eq_None_iff)
      with None nd show ?thesis by auto
    qed (simp add: nd)
  qed
  moreover have "map fst (map ?f spec) = map fst spec" by (simp add: case_prod_unfold)
  moreover have "map_of (map ?f spec) n = map_of kwargs n"
    if "n \<in> fst ` set spec" and "map_of kwargs n \<noteq> None" for n
    using that by (induction spec) (auto split: option.splits)
  ultimately show ?thesis by (simp add: construct_def)
qed

definition PostgresConnectionDTO :: dataclass where
  "PostgresConnectionDTO = [(''host'', None), (''port'', None), (''user'', None), (''password'', None),
     (''database_name'', None), (''additional_params'', Some (JObj []))]"

definition ClickhouseConnectionDTO :: dataclass where
  "ClickhouseConnectionDTO = [(''host'', None), (''port'', None), (''user'', None), (''password'', None),
     (''database_name'', Some JNull), (''additional_params'', Some (JObj []))]"

definition MSSQLConnectionDTO :: dataclass where
  "MSSQLConnectionDTO = [(''host'', None), (''port'', None), (''user'', None), (''password'', None),
     (''database_name'', None), (''additional_params'', Some (JObj []))]"

definition MySQLConnectionDTO :: dataclass where
  "MySQLConnectionDTO = [(''host'', None), (''port'', None), (''user'', None), (''password'', None),
     (''database_name'', Some JNull), (''additional_params'', Some (JObj []))]"

definition OracleConnectionDTO :: dataclass where
  "OracleConnectionDTO = [(''host'', None), (''port'', None), (''user'', None), (''password'', None),
     (''additional_params'', Some (JObj [])), (''sid'', Some JNull), (''service_name'', Some JNull)]"

definition HiveConnectionDTO :: dataclass where
  "HiveConnectionDTO = [(''user'', None), (''password'', None), (''cluster'', None)]"

definition HDFSConnectionDTO :: dataclass where
  "HDFSConnectionDTO = [(''user'', None), (''password'', None), (''cluster'', None)]"

definition S3ConnectionDTO :: dataclass where
  "S3ConnectionDTO = [(''host'', None), (''port'', None), (''access_key'', None), (''secret_key'', None),
     (''bucket'', None), (''bucket_style'', None), (''region'', None), (''additional_params'', Some (JObj [])),
     (''protocol'', Some (JStr ''https''))]"

definition SFTPConnectionDTO :: dataclass where
  "SFTPConnectionDTO = [(''host'', None), (''port'', None), (''user'', None), (''password'', None)]"

definition FTPConnectionDTO :: dataclass where
  "FTPConnectionDTO = [(''host'', None), (''port'', None), (''user'', None), (''password'', None)]"

definition FTPSConnectionDTO :: dataclass where
  "FTPSConnectionDTO = [(''host'', None), (''port'', None), (''user'', None), (''password'', None)]"

definition SambaConnectionDTO :: dataclass where
  "SambaConnectionDTO = [(''host'', None), (''share'', None), (''user'', None), (''password'', None),
     (''protocol'', Some (JStr ''SMB'')), (''auth_type'', Some (JStr ''NTLMv2'')), (''domain'', Some (JStr [])),
     (''port'', Some JNull)]"

definition WebDAVConnectionDTO :: dataclass where
  "WebDAVConnectionDTO = [(''host'', None), (''port'', None), (''user'', None), (''password'', None),
     (''protocol'', Some (JStr ''https''))]"

definition IcebergRESTCatalogS3DirectConnectionBaseDTO :: dataclass where
  "IcebergRESTCatalogS3DirectConnectionBaseDTO = [(''rest_catalog_url'', None), (''s3_warehouse_path'', None),
     (''s3_host'', None), (''s3_bucket'', None), (''s3_bucket_style'', None), (''s3_region'', None),
     (''s3_access_key'', None), (''s3_secret_key'', None), (''s3_port'', None), (''s3_protocol'', None),
     (''s3_additional_params'', Some (JObj []))]"

definition IcebergRESTCatalogS3DelegatedConnectionBaseDTO :: dataclass where
  "IcebergRESTCatalogS3DelegatedConnectionBaseDTO = [(''rest_catalog_url'', None), (''s3_warehouse_name'', Some JNull),
     (''s3_access_delegation'', Some (JStr ''vended-credentials''))]"

definition bearer_dto_fields :: dataclass where
  "bearer_dto_fields = [(''rest_catalog_token'', None), (''rest_catalog_auth_type'', Some (JStr ''bearer''))]"

definition oauth2_dto_fields :: dataclass where
  "oauth2_dto_fields = [(''rest_catalog_oauth2_client_id'', None), (''rest_catalog_oauth2_client_secret'', None),
     (''rest_catalog_oauth2_scopes'', None), (''rest_catalog_oauth2_resource'', Some JNull),
     (''rest_catalog_oauth2_audience'', Some JNull), (''rest_catalog_oauth2_token_endpoint'', Some JNull),
     (''rest_catalog_auth_type'', Some (JStr ''oauth2''))]"

text \<open>A constructed connection: the class and the values of its fields.\<close>

record connection_dto =
  cd_class :: string
  cd_type :: connection_type
  cd_fields :: jdict

definition dto :: "string \<Rightarrow> connection_type \<Rightarrow> dataclass \<Rightarrow> jdict \<Rightarrow> connection_dto res" where
  "dto name ct spec data =
     bindR (construct spec data) (\<lambda>fs. Inr \<lparr>cd_class = name, cd_type = ct, cd_fields = fs\<rparr>)"

definition has_key :: "string \<Rightarrow> jdict \<Rightarrow> bool" where
  "has_key k d \<longleftrightarrow> map_of d k \<noteq> None"

definition get_iceberg_rest_catalog_s3_direct_connection_dto :: "jdict \<Rightarrow> connection_dto res" where
  "get_iceberg_rest_catalog_s3_direct_connection_dto data =
     (if has_key ''rest_catalog_oauth2_client_id'' data
      then dto ''IcebergRESTCatalogOAuth2ClientCredentialsS3BasicDTO'' ICEBERG
        (IcebergRESTCatalogS3DirectConnectionBaseDTO @ oauth2_dto_fields) data
      else dto ''IcebergRESTCatalogBearerAuthS3BasicDTO'' ICEBERG
        (IcebergRESTCatalogS3DirectConnectionBaseDTO @ bearer_dto_fields) data)"

definition get_iceberg_rest_catalog_s3_delegated_connection_dto :: "jdict \<Rightarrow> connection_dto res" where
  "get_iceberg_rest_catalog_s3_delegated_connection_dto data =
     (if has_key ''rest_catalog_oauth2_client_id'' data
      then dto ''IcebergRESTCatalogOAuth2ClientCredentialsS3DelegatedDTO'' ICEBERG
        (IcebergRESTCatalogS3DelegatedConnectionBaseDTO @ oauth2_dto_fields) data
      else dto ''IcebergRESTCatalogBearerAuthS3DelegatedDTO'' ICEBERG
        (IcebergRESTCatalogS3DelegatedConnectionBaseDTO @ bearer_dto_fields) data)"

definition get_iceberg_connection_dto :: "jdict \<Rightarrow> connection_dto res" where
  "get_iceberg_connection_dto data =
     (if has_key ''s3_warehouse_path'' data then get_iceberg_rest_catalog_s3_direct_connection_dto data
      else get_iceberg_rest_catalog_s3_delegated_connection_dto data)"

fun make_connection_dto :: "connection_type \<Rightarrow> jdict \<Rightarrow> connection_dto res" where
  "make_connection_dto HIVE = dto ''HiveConnectionDTO'' HIVE HiveConnectionDTO"
| "make_connection_dto ICEBERG = get_iceberg_connection_dto"
| "make_connection_dto ORACLE = dto ''OracleConnectionDTO'' ORACLE OracleConnectionDTO"
| "make_connection_dto CLICKHOUSE = dto ''ClickhouseConnectionDTO'' CLICKHOUSE ClickhouseConnectionDTO"
| "make_connection_dto MSSQL = dto ''MSSQLConnectionDTO'' MSSQL MSSQLConnectionDTO"
| "make_connection_dto MYSQL = dto ''MySQLConnectionDTO'' MYSQL MySQLConnectionDTO"
| "make_connection_dto POSTGRES = dto ''PostgresConnectionDTO'' POSTGRES PostgresConnectionDTO"
| "make_connection_dto S3 = dto ''S3ConnectionDTO'' S3 S3ConnectionDTO"
| "make_connection_dto HDFS = dto ''HDFSConnectionDTO'' HDFS HDFSConnectionDTO"
| "make_connection_dto SFTP = dto ''SFTPConnectionDTO'' SFTP SFTPConnectionDTO"
| "make_connection_dto FTP = dto ''FTPConnectionDTO'' FTP FTPConnectionDTO"
| "make_connection_dto FTPS = dto ''FTPSConnectionDTO'' FTPS FTPSConnectionDTO"
| "make_connection_dto SAMBA = dto ''SambaConnectionDTO'' SAMBA SambaConnectionDTO"
| "make_connection_dto WEBDAV = dto ''WebDAVConnectionDTO'' WEBDAV WebDAVConnectionDTO"

section \<open>Transfers\<close>

definition strategy_from_dict :: "jdict \<Rightarrow> strategy res" where
  "strategy_from_dict data =
     (if map_of data ''type'' = Some (JStr ''full'')
      then bindR (construct [(''type'', None)] data) (\<lambda>_. Inr FullStrategy)
      else if map_of data ''type'' = Some (JStr ''incremental'')
      then bindR (construct [(''type'', None), (''increment_by'', None)] data) (\<lambda>fs.
        bindR (str_item fs ''increment_by'') (\<lambda>f. Inr (IncrementalStrategy f)))
      else Inl (ValueError ''Unknown strategy type''))"

definition ResourcesDTO :: dataclass where
  "ResourcesDTO = [(''max_parallel_tasks'', None), (''cpu_cores_per_task'', None), (''ram_bytes_per_task'', None)]"

text \<open>A file format: an object of an onETL class, or a value that was no dict and is kept.\<close>

datatype file_format = FormatObject string jdict | RawFormat json

type_synonym onetl_formats = "string \<Rightarrow> jdict \<Rightarrow> jdict option"

record transfer_dto =
  td_type :: connection_type
  td_id :: int
  td_name :: string
  td_group_name :: string
  td_strategy :: strategy
  td_resources :: jdict
  td_transformations :: "json list"
  td_options :: jdict
  td_fields :: jdict
  td_file_format :: "file_format option"

definition setdefault :: "jdict \<Rightarrow> string \<Rightarrow> json \<Rightarrow> jdict" where
  "setdefault d k v = (if has_key k d then d else dict_set d k v)"

definition dict_pop :: "jdict \<Rightarrow> string \<Rightarrow> jdict" where
  "dict_pop d k = filter (\<lambda>(k', _). k' \<noteq> k) d"

definition rewrite_option_name :: "string \<Rightarrow> string \<Rightarrow> jdict \<Rightarrow> jdict" where
  "rewrite_option_name from_name to_name d = (case map_of d from_name of
      None \<Rightarrow> d
    | Some v \<Rightarrow> dict_set (dict_pop d from_name) to_name v)"

definition format_parsers :: "string list" where
  "format_parsers = [''csv'', ''jsonline'', ''json'', ''excel'', ''orc'', ''parquet'', ''xml'']"

text \<open>The options as the onETL class of the type knows them.\<close>

definition onetl_options :: "string \<Rightarrow> jdict \<Rightarrow> jdict" where
  "onetl_options file_type d =
     (if file_type = ''xml'' then
        (let d' = rewrite_option_name ''row_tag'' ''rowTag'' (rewrite_option_name ''root_tag'' ''rootTag'' d)
         in if map_of d' ''compression'' = Some (JStr ''none'') then dict_pop d' ''compression'' else d')
      else if file_type = ''excel'' then
        rewrite_option_name ''start_cell'' ''dataAddress'' (rewrite_option_name ''include_header'' ''header'' d)
      else if file_type = ''csv'' then
        rewrite_option_name ''include_header'' ''header'' (rewrite_option_name ''line_sep'' ''lineSep'' d)
      else if file_type \<in> set [''json'', ''jsonline''] then rewrite_option_name ''line_sep'' ''lineSep'' d
      else d)"

definition get_file_format :: "onetl_formats \<Rightarrow> jdict \<Rightarrow> file_format res" where
  "get_file_format parse_obj d = (case map_of d ''type'' of
      Some (JStr t) \<Rightarrow>
        if t \<in> set format_parsers then (case parse_obj t (onetl_options t (dict_pop d ''type'')) of
            None \<Rightarrow> Inl (ValueError ''file format'')
          | Some fs \<Rightarrow> Inr (FormatObject t fs))
        else Inl (ValueError ''Unknown file type'')
    | _ \<Rightarrow> Inl (ValueError ''Unknown file type''))"

definition db_transfer_fields :: "connection_type \<Rightarrow> string \<Rightarrow> dataclass" where
  "db_transfer_fields ct catalog = [(''options'', Some (JObj [])), (''table_name'', None)] @
     (if ct = ICEBERG then [(''catalog_name'', Some (JStr catalog))] else [])"

definition file_transfer_fields :: dataclass where
  "file_transfer_fields = [(''options'', Some (JObj [])), (''directory_path'', None), (''file_format'', None),
     (''file_name_template'', Some JNull), (''df_schema'', Some JNull)]"

text \<open>\<open>DBTransferDTO.__post_init__\<close>, and of its Hive and Iceberg subclasses.\<close>

definition db_post_init :: "json \<Rightarrow> jdict res" where
  "db_post_init options = (case options of
      JNull \<Rightarrow> Inr (setdefault [] ''if_exists'' (JStr ''replace_entire_table''))
    | JObj d \<Rightarrow> Inr (setdefault d ''if_exists'' (JStr ''replace_entire_table''))
    | _ \<Rightarrow> Inl (AttributeError ''setdefault''))"

definition hive_iceberg_post_init :: "json \<Rightarrow> jdict res" where
  "hive_iceberg_post_init options =
     bindR (db_post_init options) (\<lambda>d. Inr (setdefault d ''if_exists'' (JStr ''replace_overlapping_partitions'')))"

definition file_post_init :: "onetl_formats \<Rightarrow> jdict \<Rightarrow> (jdict \<times> jdict \<times> file_format) res" where
  "file_post_init parse_obj fs =
     bindR (bindR (dict_get fs ''file_format'') (\<lambda>v. case v of
        JObj d \<Rightarrow> get_file_format parse_obj d | _ \<Rightarrow> Inr (RawFormat v))) (\<lambda>ff.
     bindR (bindR (dict_get fs ''df_schema'') (\<lambda>v. case v of
        JStr s \<Rightarrow> (case json_loads s of None \<Rightarrow> Inl (ValueError ''df_schema'') | Some j \<Rightarrow> Inr j)
      | _ \<Rightarrow> Inr v)) (\<lambda>schema.
     bindR (dict_get fs ''options'') (\<lambda>v. case v of
        JObj d \<Rightarrow> Inr (dict_set fs ''df_schema'' schema,
          setdefault d ''if_exists'' (JStr ''replace_overlapping_partitions''), ff)
      | _ \<Rightarrow> Inl (AttributeError ''setdefault''))))"

definition make_transfer_dto ::
  "onetl_formats \<Rightarrow> string \<Rightarrow> connection_type \<Rightarrow> int \<Rightarrow> string \<Rightarrow> string \<Rightarrow> strategy \<Rightarrow> jdict \<Rightarrow> json list \<Rightarrow> jdict \<Rightarrow> transfer_dto res" where
  "make_transfer_dto parse_obj catalog ct tid name group_name st rs trs ps =
     (if ct \<in> set DB_CONNECTION_TYPES then
        bindR (construct (db_transfer_fields ct catalog) ps) (\<lambda>fs.
        bindR (bindR (dict_get fs ''options'')
          (if ct \<in> set [HIVE, ICEBERG] then hive_iceberg_post_init else db_post_init)) (\<lambda>options.
        Inr \<lparr>td_type = ct, td_id = tid, td_name = name, td_group_name = group_name, td_strategy = st,
          td_resources = rs, td_transformations = trs, td_options = options, td_fields = fs, td_file_format = None\<rparr>))
      else
        bindR (construct file_transfer_fields ps) (\<lambda>fs.
        bindR (file_post_init parse_obj fs) (\<lambda>(fs', options, ff).
        Inr \<lparr>td_type = ct, td_id = tid, td_name = name, td_group_name = group_name, td_strategy = st,
          td_resources = rs, td_transformations = trs, td_options = options, td_fields = fs',
          td_file_format = Some ff\<rparr>)))"

record handler =
  h_type :: connection_type
  h_connection :: connection_dto
  h_transfer :: transfer_dto
  h_run :: run_dto

section \<open>What handlers hand to onETL\<close>

subsection \<open>High-water marks\<close>

text \<open>A mark read from the store: whether the object is true, and its value.\<close>

record hwm =
  hwm_bool :: bool
  hwm_value :: json

definition hwm_set :: "hwm option \<Rightarrow> bool" where
  "hwm_set h = (case h of None \<Rightarrow> False | Some m \<Rightarrow> hwm_bool m \<and> truthy (Some (hwm_value m)))"

text \<open>The name the reader of a database or the downloader of files asks for; S3 and HDFS read without one.\<close>

definition reader_hwm_name :: "handler \<Rightarrow> string option res" where
  "reader_hwm_name h = (case td_strategy (h_transfer h) of
      FullStrategy \<Rightarrow> Inr None
    | IncrementalStrategy by \<Rightarrow>
        if h_type h \<in> set DB_CONNECTION_TYPES then
          bindR (str_item (td_fields (h_transfer h)) ''table_name'') (\<lambda>t.
            Inr (Some (str_int (td_id (h_transfer h)) @ ''_'' @ connection_type_value (cd_type (h_connection h)) @ ''_'' @ t)))
        else if h_type h \<in> set [S3, HDFS] then Inr None
        else if by \<in> set [''file_modified_since'', ''file_name''] then
          bindR (str_item (td_fields (h_transfer h)) ''directory_path'') (\<lambda>t.
            Inr (Some (str_int (td_id (h_transfer h)) @ ''_'' @ connection_type_value (cd_type (h_connection h)) @ ''_'' @ t)))
        else Inr None)"

subsection \<open>Writing\<close>

fun is_incremental :: "strategy \<Rightarrow> bool" where
  "is_incremental FullStrategy = False"
| "is_incremental (IncrementalStrategy _) = True"

text \<open>\<open>DBHandler.write\<close>: later rounds of an incremental transfer append.\<close>

definition db_write_options :: "transfer_dto \<Rightarrow> hwm option \<Rightarrow> jdict" where
  "db_write_options td h =
     (if is_incremental (td_strategy td) \<and> hwm_set h
      then dict_set (td_options td) ''if_exists'' (JStr ''append'') else td_options td)"

definition ends_with :: "string \<Rightarrow> string \<Rightarrow> bool" where
  "ends_with suffix s \<longleftrightarrow> length suffix \<le> length s \<and> drop (length s - length suffix) s = suffix"

text \<open>\<open>_normalize_column_names\<close>: every column of the data frame is renamed, to upper case for Oracle and to lower case elsewhere.\<close>

definition upper_char :: "char \<Rightarrow> char" where
  "upper_char c = (let k = of_char c :: nat in if 97 \<le> k \<and> k \<le> 122 then char_of (k - 32) else c)"

definition normalize_column_names :: "connection_type \<Rightarrow> string list \<Rightarrow> string list" where
  "normalize_column_names ct columns = map (if ct = ORACLE then map upper_char else lower) columns"

text \<open>
  \<open>ClickhouseHandler._normalize_column_to_non_nullable\<close>: by what value nulls of the ordering column are replaced, for the
  Spark types it knows; a column that is not nullable is left alone.
\<close>

datatype spark_type =
    ByteType | ShortType | IntegerType | LongType | FloatType | DoubleType | BooleanType | DecimalType | StringType
  | DateType | TimestampType | TimestampNTZType | ArrayType | MapType | OtherType string

datatype sentinel = ZeroLit | DecimalZero | EmptyString | Epoch | EmptyArray | EmptyMap

definition normalize_column_to_non_nullable :: "bool \<Rightarrow> spark_type \<Rightarrow> sentinel option res" where
  "normalize_column_to_non_nullable nullable t =
     (if \<not> nullable then Inr None
      else if t \<in> set [ByteType, ShortType, IntegerType, LongType, FloatType, DoubleType, BooleanType] then Inr (Some ZeroLit)
      else if t = DecimalType then Inr (Some DecimalZero)
      else if t = StringType then Inr (Some EmptyString)
      else if t \<in> set [DateType, TimestampType, TimestampNTZType] then Inr (Some Epoch)
      else if t = ArrayType then Inr (Some EmptyArray)
      else if t = MapType then Inr (Some EmptyMap)
      else Inl (TypeError ''Unsupported Spark type for non-null''))"

text \<open>\<open>ClickhouseHandler.write\<close>: the first column that ends in \<open>id\<close>, else the first, orders the table; the default is evaluated first.\<close>

definition clickhouse_sort_column :: "string list \<Rightarrow> string res" where
  "clickhouse_sort_column columns = (case columns of
      [] \<Rightarrow> Inl (IndexError ''columns'')
    | c # _ \<Rightarrow> Inr (case List.find (\<lambda>col. ends_with ''id'' (lower col)) columns of Some x \<Rightarrow> x | None \<Rightarrow> c))"

definition clickhouse_write_options :: "transfer_dto \<Rightarrow> hwm option \<Rightarrow> string list \<Rightarrow> jdict res" where
  "clickhouse_write_options td h columns = bindR (clickhouse_sort_column columns) (\<lambda>col.
     Inr (db_write_options (td\<lparr>td_options := dict_set (td_options td) ''createTableOptions''
       (JStr (''ENGINE = MergeTree() ORDER BY '' @ quote_field CHR 0x22 col))\<rparr>) h))"

subsection \<open>Reading\<close>

text \<open>\<open>_get_reading_options\<close>; the first column of the source is what \<open>get_df_schema\<close> returns, where the connection has it.\<close>

definition get_reading_options :: "handler \<Rightarrow> hwm option \<Rightarrow> string option \<Rightarrow> jdict" where
  "get_reading_options h m first_column =
     (if h_type h \<in> set [HIVE, ICEBERG] then []
      else if map_of (td_resources (h_transfer h)) ''max_parallel_tasks'' = Some (JInt 1) then []
      else (let num = the (map_of (td_resources (h_transfer h)) ''max_parallel_tasks'');
                part = (\<lambda>col mode. [(''options'', JObj [(''partition_column'', JStr col), (''num_partitions'', num),
                  (''partitioning_mode'', JStr mode)])])
            in case td_strategy (h_transfer h) of
              IncrementalStrategy by \<Rightarrow> part (handler_quote_field (h_type h) by) (if hwm_set m then ''range'' else ''hash'')
            | FullStrategy \<Rightarrow> (case first_column of
                None \<Rightarrow> [] | Some c \<Rightarrow> part (handler_quote_field (h_type h) c) ''hash'')))"

subsection \<open>Files\<close>

definition compression_to_file_suffix :: "(string \<times> string) list" where
  "compression_to_file_suffix = [(''gzip'', ''gz''), (''snappy'', ''snappy''), (''zlib'', ''zlib''), (''lz4'', ''lz4''),
     (''bzip2'', ''bz2''), (''deflate'', ''deflate'')]"

definition file_format_to_file_suffix :: "(string \<times> string) list" where
  "file_format_to_file_suffix = [(''json'', ''json''), (''jsonline'', ''jsonl''), (''csv'', ''csv''), (''xml'', ''xml''),
     (''excel'', ''xlsx''), (''parquet'', ''parquet''), (''orc'', ''orc'')]"

definition COLUMN_FORMATS :: "string list" where
  "COLUMN_FORMATS = [''parquet'', ''orc'']"

definition lookup_suffix :: "(string \<times> string) list \<Rightarrow> string \<Rightarrow> string res" where
  "lookup_suffix table k = (case map_of table k of None \<Rightarrow> Inl (KeyError k) | Some s \<Rightarrow> Inr s)"

text \<open>By the lower-cased class name of the format and its \<open>compression\<close>, \<open>None\<close> where it has none.\<close>

definition get_file_extension :: "string \<Rightarrow> string option \<Rightarrow> string res" where
  "get_file_extension file_format compression =
     bindR (lookup_suffix file_format_to_file_suffix file_format) (\<lambda>extension_suffix.
     if compression \<in> set [None, Some [], Some ''none''] then Inr extension_suffix
     else bindR (lookup_suffix compression_to_file_suffix (the compression)) (\<lambda>compression_suffix.
       Inr (if extension_suffix = ''parquet'' \<and> compression_suffix = ''lz4'' then ''lz4hadoop.parquet''
            else if extension_suffix \<in> set COLUMN_FORMATS then compression_suffix @ ''.'' @ extension_suffix
            else extension_suffix @ ''.'' @ compression_suffix)))"

text \<open>
  \<open>LocalDFFileHandler.write\<close> on the files Spark left in the local directory: checksum files are removed, the others are
  renamed in the order the directory lists them, and all of them are uploaded.
\<close>

definition local_write :: "attributes \<Rightarrow> run_dto \<Rightarrow> string \<Rightarrow> string \<Rightarrow> string list \<Rightarrow> string list res" where
  "local_write ga rd template extension files =
     (case rename_files (\<lambda>i. get_file_name ga rd template i extension) 0 (filter (\<lambda>f. \<not> ends_with ''.crc'' f) files) of
        Inl e \<Rightarrow> Inl (fmt_exn e)
      | Inr renamed \<Rightarrow> Inr (map snd renamed))"

text \<open>
  \<open>RemoteDFFileHandler.write\<close> on the files Spark left in the temporary directory: they are renamed, those whose new
  name the glob \<open>*.extension\<close> matches are moved to the target directory, and the temporary directory is removed with
  whatever is left in it.  The result is what is moved and what is lost.
\<close>

definition remote_write ::
  "(string \<Rightarrow> string \<Rightarrow> bool) \<Rightarrow> attributes \<Rightarrow> run_dto \<Rightarrow> string \<Rightarrow> string \<Rightarrow> string list \<Rightarrow>
    (string list \<times> string list) res" where
  "remote_write glob ga rd template extension files =
     (case rename_files (\<lambda>i. get_file_name ga rd template i extension) 0 files of
        Inl e \<Rightarrow> Inl (fmt_exn e)
      | Inr renamed \<Rightarrow> (let new = map snd renamed; moved = glob (''*.'' @ extension)
          in Inr (filter moved new, filter (\<lambda>n. \<not> moved n) new)))"

end
