(* ===== verification/Sync_Connect.thy ===== *)
theory Sync_Connect
  imports Sync_Handlers
begin

text \<open>
  The methods \<open>connect\<close> of the worker's handlers (\<open>syncmaster/worker/handlers/db\<close> and \<open>file\<close>): which onETL classes are
  instantiated, with which fields of the connection.  A call is the name of the class with its keyword arguments, in the
  order of the code; the Spark session, an argument of most of them, is left out.  What onETL does with a call is up to
  the environment; that the arguments are there, and that the credentials are among them, is shown here.
\<close>

section \<open>Calls\<close>

text \<open>An argument is a value of the connection, or an object of a nested class.\<close>

datatype arg = Val json | Obj string "(string \<times> arg) list"

type_synonym onetl_call = "string \<times> (string \<times> arg) list"

definition dict_update :: "jdict \<Rightarrow> jdict \<Rightarrow> jdict" where
  "dict_update d e = foldl (\<lambda>d (k, v). dict_set d k v) d e"

text \<open>\<open>self.connection_dto.name\<close>.\<close>

definition attribute :: "jdict \<Rightarrow> string \<Rightarrow> json res" where
  "attribute fs n = (case map_of fs n of Some v \<Rightarrow> Inr v | None \<Rightarrow> Inl (AttributeError n))"

definition keyword_args :: "jdict \<Rightarrow> (string \<times> string) list \<Rightarrow> (string \<times> arg) list res" where
  "keyword_args fs = mapR (\<lambda>(k, n). bindR (attribute fs n) (\<lambda>v. Inr (k, Val v)))"

definition one_call :: "string \<Rightarrow> (string \<times> arg) list res \<Rightarrow> onetl_call list res" where
  "one_call cls as = bindR as (\<lambda>as'. Inr [(cls, as')])"

section \<open>Databases\<close>

definition postgres_connect :: "jdict \<Rightarrow> onetl_call list res" where
  "postgres_connect fs = one_call ''Postgres'' (keyword_args fs [(''host'', ''host''), (''user'', ''user''),
     (''password'', ''password''), (''port'', ''port''), (''database'', ''database_name''), (''extra'', ''additional_params'')])"

definition clickhouse_connect :: "jdict \<Rightarrow> onetl_call list res" where
  "clickhouse_connect fs = one_call ''Clickhouse'' (keyword_args fs [(''host'', ''host''), (''port'', ''port''), (''user'', ''user''),
     (''database'', ''database_name''), (''password'', ''password''), (''extra'', ''additional_params'')])"

definition mysql_connect :: "jdict \<Rightarrow> onetl_call list res" where
  "mysql_connect fs = one_call ''MySQL'' (keyword_args fs [(''host'', ''host''), (''port'', ''port''), (''user'', ''user''),
     (''password'', ''password''), (''database'', ''database_name''), (''extra'', ''additional_params'')])"

definition oracle_connect :: "jdict \<Rightarrow> onetl_call list res" where
  "oracle_connect fs = one_call ''Oracle'' (keyword_args fs [(''host'', ''host''), (''port'', ''port''), (''user'', ''user''),
     (''password'', ''password''), (''sid'', ''sid''), (''service_name'', ''service_name''), (''extra'', ''additional_params'')])"

text \<open>The certificate is trusted unless the parameters of the connection say otherwise.\<close>

definition mssql_connect :: "jdict \<Rightarrow> onetl_call list res" where
  "mssql_connect fs = one_call ''MSSQL''
     (bindR (keyword_args fs [(''host'', ''host''), (''port'', ''port''), (''user'', ''user''), (''password'', ''password''),
        (''database'', ''database_name'')]) (\<lambda>as.
      bindR (attribute fs ''additional_params'') (\<lambda>p. case p of
        JObj d \<Rightarrow> Inr (as @ [(''extra'', Val (JObj (dict_update [(''trustServerCertificate'', JStr ''true'')] d)))])
      | _ \<Rightarrow> Inl (TypeError ''not a mapping''))))"

definition hive_connect :: "jdict \<Rightarrow> onetl_call list res" where
  "hive_connect fs = one_call ''Hive'' (keyword_args fs [(''cluster'', ''cluster'')])"

definition iceberg_make_auth :: "connection_dto \<Rightarrow> arg res" where
  "iceberg_make_auth cd =
     (if cd_class cd \<in> set [''IcebergRESTCatalogOAuth2ClientCredentialsS3BasicDTO'',
          ''IcebergRESTCatalogOAuth2ClientCredentialsS3DelegatedDTO'']
      then bindR (keyword_args (cd_fields cd) [(''client_id'', ''rest_catalog_oauth2_client_id''),
          (''client_secret'', ''rest_catalog_oauth2_client_secret''), (''scopes'', ''rest_catalog_oauth2_scopes''),
          (''resource'', ''rest_catalog_oauth2_resource''), (''audience'', ''rest_catalog_oauth2_audience''),
          (''oauth2_token_endpoint'', ''rest_catalog_oauth2_token_endpoint'')])
        (\<lambda>as. Inr (Obj ''OAuth2ClientCredentials'' as))
      else if cd_class cd \<in> set [''IcebergRESTCatalogBearerAuthS3DelegatedDTO'', ''IcebergRESTCatalogBearerAuthS3BasicDTO'']
      then bindR (keyword_args (cd_fields cd) [(''access_token'', ''rest_catalog_token'')]) (\<lambda>as. Inr (Obj ''BearerAuth'' as))
      else Inr (Val JNull))"

text \<open>\<open>isinstance(self.connection_dto, IcebergRESTCatalogS3DirectConnectionBaseDTO)\<close>.\<close>

definition s3_direct :: "connection_dto \<Rightarrow> bool" where
  "s3_direct cd \<longleftrightarrow> cd_class cd \<in> set [''IcebergRESTCatalogS3DirectConnectionBaseDTO'',
     ''IcebergRESTCatalogBearerAuthS3BasicDTO'', ''IcebergRESTCatalogOAuth2ClientCredentialsS3BasicDTO'']"

definition path_style :: "json \<Rightarrow> arg" where
  "path_style v = Val (JBool (v = JStr ''path''))"

definition iceberg_warehouse :: "connection_dto \<Rightarrow> arg res" where
  "iceberg_warehouse cd =
     (if s3_direct cd then
        bindR (keyword_args (cd_fields cd) [(''path'', ''s3_warehouse_path''), (''host'', ''s3_host''), (''port'', ''s3_port''),
          (''protocol'', ''s3_protocol''), (''bucket'', ''s3_bucket'')]) (\<lambda>as.
        bindR (attribute (cd_fields cd) ''s3_bucket_style'') (\<lambda>style.
        bindR (keyword_args (cd_fields cd) [(''region'', ''s3_region''), (''access_key'', ''s3_access_key''),
          (''secret_key'', ''s3_secret_key'')]) (\<lambda>bs.
        Inr (Obj ''S3Warehouse'' (as @ [(''path_style_access'', path_style style)] @ bs)))))
      else
        bindR (keyword_args (cd_fields cd) [(''name'', ''s3_warehouse_name''), (''access_delegation'', ''s3_access_delegation'')])
          (\<lambda>as. Inr (Obj ''DelegatedWarehouse'' as)))"

definition iceberg_connect :: "connection_dto \<Rightarrow> jdict \<Rightarrow> onetl_call list res" where
  "iceberg_connect cd transfer_fields = one_call ''Iceberg''
     (bindR (keyword_args transfer_fields [(''catalog_name'', ''catalog_name'')]) (\<lambda>as.
      bindR (keyword_args (cd_fields cd) [(''url'', ''rest_catalog_url'')]) (\<lambda>url.
      bindR (iceberg_make_auth cd) (\<lambda>auth.
      bindR (iceberg_warehouse cd) (\<lambda>warehouse.
      Inr (as @ [(''catalog'', Obj ''RESTCatalog'' (url @ [(''auth'', auth)])), (''warehouse'', warehouse)]))))))"

section \<open>File storages\<close>

definition s3_connect :: "jdict \<Rightarrow> onetl_call list res" where
  "s3_connect fs =
     bindR (keyword_args fs [(''host'', ''host''), (''port'', ''port''), (''access_key'', ''access_key''),
       (''secret_key'', ''secret_key''), (''bucket'', ''bucket'')]) (\<lambda>as.
     bindR (attribute fs ''bucket_style'') (\<lambda>style.
     bindR (keyword_args fs [(''protocol'', ''protocol''), (''region'', ''region'')]) (\<lambda>bs.
     bindR (keyword_args fs [(''extra'', ''additional_params'')]) (\<lambda>ex.
     Inr [(''SparkS3'', as @ [(''path_style_access'', path_style style)] @ bs @ ex), (''S3'', as @ bs)]))))"

definition hdfs_connect :: "jdict \<Rightarrow> onetl_call list res" where
  "hdfs_connect fs =
     bindR (keyword_args fs [(''cluster'', ''cluster'')]) (\<lambda>as.
     bindR (keyword_args fs [(''user'', ''user''), (''password'', ''password'')]) (\<lambda>bs.
     Inr [(''SparkHDFS'', as), (''HDFS'', as @ bs)]))"

text \<open>The handlers that go through local files connect to the storage and to the local file system.\<close>

definition local_df_connect :: "string \<Rightarrow> (string \<times> arg) list res \<Rightarrow> onetl_call list res" where
  "local_df_connect cls as = bindR as (\<lambda>as'. Inr [(cls, as'), (''SparkLocalFS'', [])])"

definition sftp_connect :: "jdict \<Rightarrow> onetl_call list res" where
  "sftp_connect fs = local_df_connect ''SFTP''
     (bindR (keyword_args fs [(''host'', ''host''), (''port'', ''port''), (''user'', ''user''), (''password'', ''password'')]) (\<lambda>as.
      Inr (as @ [(''compress'', Val (JBool False))])))"

definition ftp_connect :: "jdict \<Rightarrow> onetl_call list res" where
  "ftp_connect fs = local_df_connect ''FTP''
     (keyword_args fs [(''host'', ''host''), (''port'', ''port''), (''user'', ''user''), (''password'', ''password'')])"

definition ftps_connect :: "jdict \<Rightarrow> onetl_call list res" where
  "ftps_connect fs = local_df_connect ''FTPS''
     (keyword_args fs [(''host'', ''host''), (''port'', ''port''), (''user'', ''user''), (''password'', ''password'')])"

definition samba_connect :: "jdict \<Rightarrow> onetl_call list res" where
  "samba_connect fs = local_df_connect ''Samba''
     (keyword_args fs [(''host'', ''host''), (''port'', ''port''), (''share'', ''share''), (''protocol'', ''protocol''),
       (''domain'', ''domain''), (''user'', ''user''), (''password'', ''password''), (''auth_type'', ''auth_type'')])"

definition webdav_connect :: "jdict \<Rightarrow> onetl_call list res" where
  "webdav_connect fs = local_df_connect ''WebDAV''
     (bindR (keyword_args fs [(''host'', ''host''), (''port'', ''port''), (''protocol'', ''protocol''), (''user'', ''user''),
        (''password'', ''password'')]) (\<lambda>as.
      Inr (as @ [(''ssl_verify'', Val (JBool False))])))"

definition connect :: "handler \<Rightarrow> onetl_call list res" where
  "connect h = (let cd = h_connection h; fs = cd_fields cd in case h_type h of
      HIVE \<Rightarrow> hive_connect fs
    | ICEBERG \<Rightarrow> iceberg_connect cd (td_fields (h_transfer h))
    | ORACLE \<Rightarrow> oracle_connect fs
    | CLICKHOUSE \<Rightarrow> clickhouse_connect fs
    | MSSQL \<Rightarrow> mssql_connect fs
    | MYSQL \<Rightarrow> mysql_connect fs
    | POSTGRES \<Rightarrow> postgres_connect fs
    | S3 \<Rightarrow> s3_connect fs
    | HDFS \<Rightarrow> hdfs_connect fs
    | SFTP \<Rightarrow> sftp_connect fs
    | FTP \<Rightarrow> ftp_connect fs
    | FTPS \<Rightarrow> ftps_connect fs
    | SAMBA \<Rightarrow> samba_connect fs
    | WEBDAV \<Rightarrow> webdav_connect fs)"

section \<open>A constructed connection can be connected\<close>

lemma map_of_dict_update: "map_of (dict_update d e) k = (case map_of (rev e) k of Some v \<Rightarrow> Some v | None \<Rightarrow> map_of d k)"
  by (induction e arbitrary: d) (auto simp: dict_update_def map_add_def split: option.splits)

lemma keys_dict_update: "fst ` set (dict_update d e) = fst ` set d \<union> fst ` set e"
  by (induction e arbitrary: d) (simp_all add: dict_update_def case_prod_beta)

text \<open>Where the credentials of each type go: the field of the connection and the name of the argument.\<close>

definition credential_arguments :: "connection_type \<Rightarrow> (string \<times> string) list" where
  "credential_arguments ct =
     (if ct = HIVE then []
      else if ct = S3 then [(''access_key'', ''access_key''), (''secret_key'', ''secret_key'')]
      else if ct = ICEBERG then [(''s3_access_key'', ''access_key''), (''s3_secret_key'', ''secret_key''),
        (''rest_catalog_token'', ''access_token''), (''rest_catalog_oauth2_client_id'', ''client_id''),
        (''rest_catalog_oauth2_client_secret'', ''client_secret'')]
      else [(''user'', ''user''), (''password'', ''password'')])"

fun leaves :: "string \<times> arg \<Rightarrow> (string \<times> json) list" where
  "leaves (k, Val v) = [(k, v)]"
| "leaves (k, Obj _ as) = concat (map leaves as)"

definition arguments :: "onetl_call list \<Rightarrow> (string \<times> json) list" where
  "arguments calls = concat (map (\<lambda>c. concat (map leaves (snd c))) calls)"

text \<open>The value a field of a constructed object has.\<close>

definition field_value :: "jdict \<Rightarrow> string \<times> json option \<Rightarrow> string \<times> json" where
  "field_value d f = (fst f, case map_of d (fst f) of Some v \<Rightarrow> v | None \<Rightarrow> the (snd f))"

lemma mapR_values: "mapR g xs = Inr ys \<Longrightarrow> (\<And>x y. g x = Inr y \<Longrightarrow> y = f x) \<Longrightarrow> ys = map f xs"
  by (induction xs arbitrary: ys) (auto simp: bindR_Inr)

lemma construct_Inr:
  assumes "construct spec d = Inr fs"
  shows "fs = map (field_value d) spec" "fst ` set d \<subseteq> fst ` set spec"
proof -
  from assms have k: "\<not> list_ex (\<lambda>(k, _). k \<notin> fst ` set spec) d" by (auto simp: construct_def split: if_splits)
  then show "fst ` set d \<subseteq> fst ` set spec" by (force simp: list_ex_iff)
  from k assms have "mapR (\<lambda>(n, df). case map_of d n of
          Some v \<Rightarrow> Inr (n, v)
        | None \<Rightarrow> (case df of Some v \<Rightarrow> Inr (n, v) | None \<Rightarrow> Inl (TypeError ''missing required argument''))) spec = Inr fs"
    by (simp only: construct_def if_False)
  then show "fs = map (field_value d) spec"
    by (rule mapR_values) (auto simp: field_value_def split: option.splits)
qed

lemma dto_Inr:
  assumes "dto n ct spec d = Inr cd"
  shows "cd = \<lparr>cd_class = n, cd_type = ct, cd_fields = map (field_value d) spec\<rparr>" "fst ` set d \<subseteq> fst ` set spec"
proof -
  from assms obtain fs where "construct spec d = Inr fs" "cd = \<lparr>cd_class = n, cd_type = ct, cd_fields = fs\<rparr>"
    by (auto simp: dto_def bindR_Inr)
  with construct_Inr show "cd = \<lparr>cd_class = n, cd_type = ct, cd_fields = map (field_value d) spec\<rparr>"
    "fst ` set d \<subseteq> fst ` set spec" by blast+
qed

text \<open>What the credentials of a type need of its calls.\<close>

definition hands_over :: "connection_type \<Rightarrow> jdict \<Rightarrow> onetl_call list \<Rightarrow> bool" where
  "hands_over ct d calls \<longleftrightarrow>
     list_all (\<lambda>(n, k). case map_of d n of None \<Rightarrow> True | Some v \<Rightarrow> (k, v) \<in> set (arguments calls)) (credential_arguments ct)"

lemmas connect_simps = connect_def Let_def one_call_def local_df_connect_def keyword_args_def attribute_def field_value_def
  arguments_def hands_over_def credential_arguments_def

lemmas connect_defs = postgres_connect_def clickhouse_connect_def mysql_connect_def oracle_connect_def mssql_connect_def
  hive_connect_def s3_connect_def hdfs_connect_def sftp_connect_def ftp_connect_def ftps_connect_def samba_connect_def
  webdav_connect_def path_style_def

lemmas dto_defs = PostgresConnectionDTO_def ClickhouseConnectionDTO_def MySQLConnectionDTO_def OracleConnectionDTO_def
  MSSQLConnectionDTO_def HiveConnectionDTO_def S3ConnectionDTO_def HDFSConnectionDTO_def SFTPConnectionDTO_def
  FTPConnectionDTO_def FTPSConnectionDTO_def SambaConnectionDTO_def WebDAVConnectionDTO_def

lemma connect_simple:
  assumes "make_connection_dto (h_type h) d = Inr (h_connection h)" and "h_type h \<notin> {ICEBERG, MSSQL}"
  shows "\<exists>calls. connect h = Inr calls \<and> hands_over (h_type h) d calls"
  using assms
  by (cases "h_type h"; simp)
    (drule dto_Inr(1), simp add: connect_simps connect_defs dto_defs split: option.split)+

text \<open>SQL Server merges its parameters into a dict, so they have to be one.\<close>

lemma connect_mssql:
  assumes "make_connection_dto MSSQL d = Inr (h_connection h)" and "h_type h = MSSQL"
    and "map_of d ''additional_params'' = Some (JObj p)"
  shows "\<exists>calls. connect h = Inr calls \<and> hands_over MSSQL d calls"
  using assms
  by simp (drule dto_Inr(1), simp add: connect_simps connect_defs dto_defs split: option.split)

lemmas iceberg_defs = iceberg_connect_def iceberg_make_auth_def iceberg_warehouse_def s3_direct_def path_style_def
  IcebergRESTCatalogS3DirectConnectionBaseDTO_def IcebergRESTCatalogS3DelegatedConnectionBaseDTO_def
  bearer_dto_fields_def oauth2_dto_fields_def

text \<open>The class of the object is chosen by the fields, so its credentials are those of the class.\<close>

lemma dto_no_field:
  assumes "dto n ct spec d = Inr cd" and "list_all (\<lambda>f. fst f \<noteq> k) spec"
  shows "map_of d k = None"
proof -
  have "k \<notin> fst ` set spec" using assms(2) by (auto simp: list_all_iff)
  then have "k \<notin> fst ` set d" using dto_Inr(2) [OF assms(1)] by (rule contra_subsetD [rotated])
  then show ?thesis by (simp add: map_of_eq_None_iff)
qed

lemma connect_iceberg:
  assumes "make_connection_dto ICEBERG d = Inr (h_connection h)" and "h_type h = ICEBERG"
    and "map_of (td_fields (h_transfer h)) ''catalog_name'' = Some c"
  shows "\<exists>calls. connect h = Inr calls \<and> hands_over ICEBERG d calls"
proof -
  from assms(1) consider
      "dto ''IcebergRESTCatalogOAuth2ClientCredentialsS3BasicDTO'' ICEBERG
        (IcebergRESTCatalogS3DirectConnectionBaseDTO @ oauth2_dto_fields) d = Inr (h_connection h)"
    | "dto ''IcebergRESTCatalogBearerAuthS3BasicDTO'' ICEBERG
        (IcebergRESTCatalogS3DirectConnectionBaseDTO @ bearer_dto_fields) d = Inr (h_connection h)"
    | "dto ''IcebergRESTCatalogOAuth2ClientCredentialsS3DelegatedDTO'' ICEBERG
        (IcebergRESTCatalogS3DelegatedConnectionBaseDTO @ oauth2_dto_fields) d = Inr (h_connection h)"
    | "dto ''IcebergRESTCatalogBearerAuthS3DelegatedDTO'' ICEBERG
        (IcebergRESTCatalogS3DelegatedConnectionBaseDTO @ bearer_dto_fields) d = Inr (h_connection h)"
    by (simp add: get_iceberg_connection_dto_def get_iceberg_rest_catalog_s3_direct_connection_dto_def
        get_iceberg_rest_catalog_s3_delegated_connection_dto_def split: if_split_asm)
  then show ?thesis
  proof cases
    case 1
    have "map_of d ''rest_catalog_token'' = None" by (rule dto_no_field [OF 1]) (simp add: iceberg_defs)
    with dto_Inr(1) [OF 1] assms(2,3) show ?thesis by (simp add: connect_simps iceberg_defs split: option.split)
  next
    case 2
    have "map_of d ''rest_catalog_oauth2_client_id'' = None" "map_of d ''rest_catalog_oauth2_client_secret'' = None"
      by (rule dto_no_field [OF 2], simp add: iceberg_defs)+
    with dto_Inr(1) [OF 2] assms(2,3) show ?thesis by (simp add: connect_simps iceberg_defs split: option.split)
  next
    case 3
    have "map_of d ''rest_catalog_token'' = None" "map_of d ''s3_access_key'' = None" "map_of d ''s3_secret_key'' = None"
      by (rule dto_no_field [OF 3], simp add: iceberg_defs)+
    with dto_Inr(1) [OF 3] assms(2,3) show ?thesis by (simp add: connect_simps iceberg_defs split: option.split)
  next
    case 4
    have "map_of d ''rest_catalog_oauth2_client_id'' = None" "map_of d ''rest_catalog_oauth2_client_secret'' = None"
      "map_of d ''s3_access_key'' = None" "map_of d ''s3_secret_key'' = None"
      by (rule dto_no_field [OF 4], simp add: iceberg_defs)+
    with dto_Inr(1) [OF 4] assms(2,3) show ?thesis by (simp add: connect_simps iceberg_defs split: option.split)
  qed
qed

text \<open>Every handler that was built can connect, and its calls carry the credentials of the connection.\<close>

lemma connect_total:
  assumes "make_connection_dto (h_type h) d = Inr (h_connection h)"
    and "h_type h = MSSQL \<Longrightarrow> \<exists>p. map_of d ''additional_params'' = Some (JObj p)"
    and "h_type h = ICEBERG \<Longrightarrow> map_of (td_fields (h_transfer h)) ''catalog_name'' \<noteq> None"
  shows "\<exists>calls. connect h = Inr calls \<and> hands_over (h_type h) d calls"
  using assms connect_simple connect_mssql connect_iceberg by (cases "h_type h \<in> {ICEBERG, MSSQL}") auto

end
