(* ===== verification/Sync_Controller.thy ===== *)
theory Sync_Controller
  imports Sync_Connect
begin

text \<open>
  \<open>TransferController\<close> of \<open>syncmaster/worker/controller.py\<close>, the Spark configuration of \<open>syncmaster/worker/spark.py\<close> and the
  packages of \<open>syncmaster/worker/ivy2.py\<close>.  Calls that leave the program (Spark, onETL, the store of high-water marks)
  are steps with an outcome given by the environment, and a run of the controller is the sequence of its steps with
  its result, so that the order of the calls and the clean-up on every path can be stated.
\<close>

section \<open>Handlers\<close>

definition connection_handler_proxy :: "(string \<times> connection_type) list" where
  "connection_handler_proxy =
     [(''hive'', HIVE), (''iceberg'', ICEBERG), (''oracle'', ORACLE), (''clickhouse'', CLICKHOUSE), (''mssql'', MSSQL),
      (''mysql'', MYSQL), (''postgres'', POSTGRES), (''s3'', S3), (''hdfs'', HDFS), (''sftp'', SFTP), (''ftp'', FTP),
      (''ftps'', FTPS), (''samba'', SAMBA), (''webdav'', WEBDAV)]"

text \<open>\<open>connection_data.update(connection_auth_data); connection_data.pop("type")\<close>.\<close>

definition merge_connection_data :: "jdict \<Rightarrow> jdict \<Rightarrow> jdict res" where
  "merge_connection_data data auth = (let d = dict_update data auth in
     if has_key ''type'' d then Inr (dict_pop d ''type'') else Inl (KeyError ''type''))"

record worker_env =
  we_parse_obj :: onetl_formats
  we_strftime :: "int \<Rightarrow> string"
  we_catalog_name :: "bool \<Rightarrow> string"

definition get_handler ::
  "worker_env \<Rightarrow> bool \<Rightarrow> jdict \<Rightarrow> jdict \<Rightarrow> run_dto \<Rightarrow> int \<Rightarrow> string \<Rightarrow> string \<Rightarrow> jdict \<Rightarrow> json \<Rightarrow> json \<Rightarrow> json list \<Rightarrow> handler res" where
  "get_handler env is_source connection_data connection_auth_data rd tid tname grname transfer_params strategy_ps rs trs =
     bindR (merge_connection_data connection_data connection_auth_data) (\<lambda>data.
     case (case map_of transfer_params ''type'' of Some (JStr t) \<Rightarrow> map_of connection_handler_proxy t | _ \<Rightarrow> None) of
       None \<Rightarrow> Inl ConnectionTypeNotRecognizedError
     | Some ct \<Rightarrow>
         bindR (make_connection_dto ct data) (\<lambda>cd.
         bindR (case strategy_ps of JObj d \<Rightarrow> strategy_from_dict d | _ \<Rightarrow> Inl (AttributeError ''get'')) (\<lambda>st.
         bindR (bindR (as_dict rs) (construct ResourcesDTO)) (\<lambda>rs'.
         bindR (make_transfer_dto (we_parse_obj env) (we_catalog_name env is_source) ct tid tname grname st rs' trs
             (dict_pop transfer_params ''type'')) (\<lambda>td.
         Inr \<lparr>h_type = ct, h_connection = cd, h_transfer = td, h_run = rd\<rparr>)))))"

definition params_dict :: "params \<Rightarrow> jdict" where
  "params_dict p = (''type'', JStr (connection_type_value (ptype p))) # pfields p"

text \<open>
  \<open>TransferController.__init__\<close>.  One connection used on both sides is one object, whose data the source handler
  has already changed when the target handler is made.
\<close>

definition transfer_controller :: "worker_env \<Rightarrow> worker_context \<Rightarrow> (handler \<times> handler) res" where
  "transfer_controller env ctx =
     (let r = wc_run ctx; t = wc_transfer ctx; src = wc_source_connection ctx; tgt = wc_target_connection ctx;
          rd = \<lparr>rd_id = pk r, rd_created_at = we_strftime env (created_at r)\<rparr>
      in case wc_group ctx of
           None \<Rightarrow> Inl (AttributeError ''name'')
         | Some g \<Rightarrow>
             bindR (get_handler env True (conn_data src) (wc_source_auth_data ctx) rd (pk t) (rname t) (gname g)
               (params_dict (source_params t)) (strategy_params t) (resources t) (transformations t)) (\<lambda>source.
             bindR (if pk src = pk tgt then merge_connection_data (conn_data src) (wc_source_auth_data ctx)
               else Inr (conn_data tgt)) (\<lambda>tdata.
             bindR (get_handler env False tdata (wc_target_auth_data ctx) rd (pk t) (rname t) (gname g)
               (params_dict (target_params t)) (strategy_params t) (resources t) (transformations t)) (\<lambda>target.
             Inr (source, target)))))"

section \<open>Requests to onETL\<close>

record read_request =
  rq_hwm_name :: "string option"
  rq_options :: jdict
  rq_where :: "string option"
  rq_columns :: "string list option"
  rq_file_filters :: "file_filter list"
  rq_sql_query :: "string option"

text \<open>\<open>DBHandler.read\<close>.\<close>

definition db_read :: "handler \<Rightarrow> hwm option \<Rightarrow> string option \<Rightarrow> read_request res" where
  "db_read h m first_column =
     (let ct = h_type h; trs = td_transformations (h_transfer h) in
      bindR (reader_hwm_name h) (\<lambda>n.
      bindR (get_rows_filter_expression ct trs) (\<lambda>w.
      bindR (get_columns_filter_expressions ct trs) (\<lambda>cols.
      bindR (get_sql_query trs) (\<lambda>q.
      Inr \<lparr>rq_hwm_name = n, rq_options = get_reading_options h m first_column, rq_where = w, rq_columns = cols,
        rq_file_filters = [], rq_sql_query = q\<rparr>)))))"

text \<open>\<open>LocalDFFileHandler.read\<close>: the files are downloaded first, then read without options.\<close>

definition local_df_read :: "handler \<Rightarrow> read_request res" where
  "local_df_read h =
     (let ct = h_type h; trs = td_transformations (h_transfer h) in
      bindR (reader_hwm_name h) (\<lambda>n.
      bindR (get_file_metadata_filters trs) (\<lambda>ffs.
      bindR (get_rows_filter_expression ct trs) (\<lambda>w.
      bindR (get_columns_filter_expressions ct trs) (\<lambda>cols.
      bindR (get_sql_query trs) (\<lambda>q.
      Inr \<lparr>rq_hwm_name = n, rq_options = [], rq_where = w, rq_columns = cols, rq_file_filters = ffs,
        rq_sql_query = q\<rparr>))))))"

text \<open>\<open>RemoteDFFileHandler.read\<close>, and \<open>S3Handler.read\<close>, which infers the schema of the formats that have none.\<close>

definition remote_df_read :: "jdict \<Rightarrow> handler \<Rightarrow> read_request res" where
  "remote_df_read options h =
     (let ct = h_type h; trs = td_transformations (h_transfer h) in
      bindR (get_rows_filter_expression ct trs) (\<lambda>w.
      bindR (get_columns_filter_expressions ct trs) (\<lambda>cols.
      bindR (get_sql_query trs) (\<lambda>q.
      Inr \<lparr>rq_hwm_name = None, rq_options = options, rq_where = w, rq_columns = cols, rq_file_filters = [],
        rq_sql_query = q\<rparr>))))"

definition s3_read :: "handler \<Rightarrow> read_request res" where
  "s3_read h =
     (let inferred = (case td_file_format (h_transfer h) of
          Some (FormatObject c _) \<Rightarrow> if c \<in> set [''excel'', ''xml''] then [(''inferSchema'', JBool True)] else []
        | _ \<Rightarrow> [])
      in remote_df_read (dict_update inferred (td_options (h_transfer h))) h)"

definition make_read_request :: "handler \<Rightarrow> hwm option \<Rightarrow> string option \<Rightarrow> read_request res" where
  "make_read_request h m first_column =
     (if h_type h \<in> set DB_CONNECTION_TYPES then db_read h m first_column
      else if h_type h = S3 then s3_read h
      else if h_type h = HDFS then remote_df_read (td_options (h_transfer h)) h
      else local_df_read h)"

definition make_write_options :: "handler \<Rightarrow> hwm option \<Rightarrow> string list \<Rightarrow> jdict res" where
  "make_write_options h m columns =
     (if h_type h = CLICKHOUSE then clickhouse_write_options (h_transfer h) m (normalize_column_names CLICKHOUSE columns)
      else if h_type h \<in> set DB_CONNECTION_TYPES then Inr (db_write_options (h_transfer h) m)
      else if h_type h \<in> set [S3, HDFS] then Inr []
      else Inr (td_options (h_transfer h)))"

section \<open>Performing a transfer\<close>

datatype step =
    CreateSparkSession
  | ConnectSource "onetl_call list"
  | ConnectTarget "onetl_call list"
  | OpenHWMStore
  | GetHWM string
  | SetHWM string
  | ReadSource read_request
  | WriteTarget jdict
  | StopSpark
  | CleanupTempDir

text \<open>What the calls of a run return: failures, stored marks, the first column of the source, the columns of the data frame.\<close>

record transfer_env =
  te_call :: "step \<Rightarrow> unit res"
  te_hwm :: "string \<Rightarrow> hwm option"
  te_hwm_store_enabled :: bool
  te_first_column :: "string option"
  te_columns :: "string list"

type_synonym 'a tr = "step list \<times> 'a res"

definition returnT :: "'a res \<Rightarrow> 'a tr" where
  "returnT r = ([], r)"

definition bindT :: "'a tr \<Rightarrow> ('a \<Rightarrow> 'b tr) \<Rightarrow> 'b tr" where
  "bindT m f = (case m of
      (t, Inl e) \<Rightarrow> (t, Inl e)
    | (t, Inr x) \<Rightarrow> (case f x of (u, r) \<Rightarrow> (t @ u, r)))"

definition call_step :: "transfer_env \<Rightarrow> step \<Rightarrow> unit tr" where
  "call_step env s = ([s], te_call env s)"

text \<open>A \<open>with\<close> block or a \<open>finally\<close> clause: the step is taken however the block ends.\<close>

definition finallyT :: "'a tr \<Rightarrow> step \<Rightarrow> 'a tr" where
  "finallyT m s = (case m of (t, r) \<Rightarrow> (t @ [s], r))"

definition get_transfer_hwm_name :: "handler \<Rightarrow> string res" where
  "get_transfer_hwm_name h =
     bindR (str_item (td_fields (h_transfer h))
       (if h_type h \<in> set FILE_CONNECTION_TYPES then ''directory_path'' else ''table_name'')) (\<lambda>suffix.
     Inr (join ''_'' [str_int (td_id (h_transfer h)), connection_type_value (cd_type (h_connection h)), suffix]))"

definition get_hwm :: "transfer_env \<Rightarrow> string \<Rightarrow> hwm option tr" where
  "get_hwm env n = bindT (call_step env (GetHWM n)) (\<lambda>_. returnT (Inr (te_hwm env n)))"

definition read_and_write :: "transfer_env \<Rightarrow> handler \<Rightarrow> handler \<Rightarrow> hwm option \<Rightarrow> unit tr" where
  "read_and_write env source target m =
     bindT (returnT (make_read_request source m (te_first_column env))) (\<lambda>rq.
     bindT (call_step env (ReadSource rq)) (\<lambda>_.
     bindT (returnT (make_write_options target m (te_columns env))) (\<lambda>opts.
     call_step env (WriteTarget opts))))"

definition perform_incremental_transfer :: "transfer_env \<Rightarrow> handler \<Rightarrow> handler \<Rightarrow> unit tr" where
  "perform_incremental_transfer env source target =
     bindT (call_step env OpenHWMStore) (\<lambda>_.
     bindT (returnT (get_transfer_hwm_name source)) (\<lambda>n.
     bindT (get_hwm env n) (\<lambda>m. read_and_write env source target m)))"

definition reset_transfer_hwm :: "transfer_env \<Rightarrow> handler \<Rightarrow> unit tr" where
  "reset_transfer_hwm env source =
     bindT (call_step env OpenHWMStore) (\<lambda>_.
     bindT (returnT (get_transfer_hwm_name source)) (\<lambda>n.
     bindT (get_hwm env n) (\<lambda>m. if hwm_set m then call_step env (SetHWM n) else returnT (Inr ()))))"

definition perform_transfer :: "transfer_env \<Rightarrow> handler \<Rightarrow> handler \<Rightarrow> unit tr" where
  "perform_transfer env source target =
     finallyT (bindT (call_step env CreateSparkSession) (\<lambda>_.
       finallyT
         (bindT (returnT (connect source)) (\<lambda>source_calls.
          bindT (call_step env (ConnectSource source_calls)) (\<lambda>_.
          bindT (returnT (connect target)) (\<lambda>target_calls.
          bindT (call_step env (ConnectTarget target_calls)) (\<lambda>_.
          if is_incremental (td_strategy (h_transfer source)) then perform_incremental_transfer env source target
          else
            bindT (if te_hwm_store_enabled env then reset_transfer_hwm env source else returnT (Inr ())) (\<lambda>_.
            read_and_write env source target None)))))) StopSpark)) CleanupTempDir"

text \<open>The controller as the worker task runs it.\<close>

definition run_controller :: "worker_env \<Rightarrow> transfer_env \<Rightarrow> worker_context \<Rightarrow> unit res" where
  "run_controller we te ctx =
     bindR (transfer_controller we ctx) (\<lambda>(source, target). snd (perform_transfer te source target))"

section \<open>Spark\<close>

text \<open>\<open>get_packages\<close>; the packages of each onETL class are a parameter.\<close>

definition get_packages :: "(string \<Rightarrow> string list) \<Rightarrow> string set \<Rightarrow> string list" where
  "get_packages packages connection_types =
     (let wanted = (\<lambda>names. connection_types \<inter> (set names \<union> {''all''}) \<noteq> {}) in
      (if wanted [''postgres''] then packages ''Postgres'' else []) @
      (if wanted [''oracle''] then packages ''Oracle'' else []) @
      (if wanted [''clickhouse'']
       then ''io.github.mtsongithub.doetl:spark-dialect-extension_2.12:0.0.4'' # packages ''Clickhouse'' else []) @
      (if wanted [''mssql''] then packages ''MSSQL'' else []) @
      (if wanted [''mysql''] then packages ''MySQL'' else []) @
      (if wanted [''s3''] then packages ''SparkS3'' else []) @
      (if wanted [''iceberg''] then packages ''Iceberg'' @ packages ''Iceberg.S3Warehouse'' else []) @
      (if wanted [''s3'', ''hdfs'', ''sftp'', ''ftp'', ''ftps'', ''samba'', ''webdav'']
       then packages ''XML'' @ packages ''Excel'' else []))"

text \<open>\<open>math.ceil(x / 1024 / 1024)\<close>: the divisions by powers of two are exact for the sizes the schema allows.\<close>

definition memory_mb :: "int \<Rightarrow> int" where
  "memory_mb ram = - ((- ram) div (1024 * 1024))"

definition starts_with :: "string \<Rightarrow> string \<Rightarrow> bool" where
  "starts_with p s \<longleftrightarrow> take (length p) s = p"

record spark_env =
  se_hostname :: string
  se_packages :: "string \<Rightarrow> string list"
  se_excluded :: "string list"

definition int_item :: "jdict \<Rightarrow> string \<Rightarrow> int res" where
  "int_item d k = bindR (dict_get d k) (\<lambda>v. case v of JInt i \<Rightarrow> Inr i | _ \<Rightarrow> Inl (TypeError k))"

definition get_spark_session_conf ::
  "spark_env \<Rightarrow> string option \<Rightarrow> connection_type \<Rightarrow> connection_type \<Rightarrow> jdict \<Rightarrow> jdict res" where
  "get_spark_session_conf env spark_master source target rs =
     (let maven_packages = get_packages (se_packages env) {connection_type_value source, connection_type_value target};
          excluded_packages = se_excluded env in
      bindR (int_item rs ''max_parallel_tasks'') (\<lambda>tasks.
      bindR (int_item rs ''cpu_cores_per_task'') (\<lambda>cores.
      bindR (int_item rs ''ram_bytes_per_task'') (\<lambda>ram.
      let mem = JStr (str_int (memory_mb ram) @ ''M'') in
      Inr ([(''spark.sql.pyspark.jvmStacktrace.enabled'', JStr ''true''),
            (''spark.hadoop.mapreduce.fileoutputcommitter.marksuccessfuljobs'', JStr ''false'')] @
           (if (case spark_master of Some m \<Rightarrow> starts_with ''local'' m | None \<Rightarrow> False)
            then [(''spark.master'', JStr (''local['' @ str_int tasks @ '']'')), (''spark.driver.memory'', mem)]
            else [(''spark.executor.memory'', mem), (''spark.executor.instances'', JInt tasks)]) @
           [(''spark.executor.cores'', JInt cores),
            (''spark.default.parallelism'', JInt (tasks * cores)),
            (''spark.dynamicAllocation.maxExecutors'', JInt tasks),
            (''spark.kubernetes.executor.limit.cores'', JInt cores),
            (''spark.kubernetes.driver.pod.name'', JStr (se_hostname env))] @
           (if maven_packages \<noteq> [] then [(''spark.jars.packages'', JStr (join '','' maven_packages))] else []) @
           (if excluded_packages \<noteq> [] then [(''spark.jars.excludes'', JStr (join '','' excluded_packages))] else []) @
           (if target = S3 then
              [(''spark.hadoop.fs.s3a.committer.magic.enabled'', JStr ''true''),
               (''spark.hadoop.fs.s3a.committer.name'', JStr ''magic''),
               (''spark.hadoop.mapreduce.outputcommitter.factory.scheme.s3a'',
                  JStr ''org.apache.hadoop.fs.s3a.commit.S3ACommitterFactory''),
               (''spark.sql.parquet.output.committer.class'',
                  JStr ''org.apache.spark.internal.io.cloud.BindingParquetOutputCommitter''),
               (''spark.sql.sources.commitProtocolClass'',
                  JStr ''org.apache.spark.internal.io.cloud.PathOutputCommitProtocol'')]
            else []))))))"

section \<open>Building handlers succeeds on stored transfers\<close>

lemma keys_dict_pop: "fst ` set (dict_pop d k) = fst ` set d - {k}"
  by (auto simp: dict_pop_def)

lemma has_key_iff: "has_key k d \<longleftrightarrow> k \<in> fst ` set d"
  by (auto simp: has_key_def map_of_eq_None_iff)

lemma merge_connection_data_keys:
  assumes "''type'' \<in> fst ` set auth"
  shows "\<exists>d. merge_connection_data data auth = Inr d \<and> fst ` set d = (fst ` set data \<union> fst ` set auth) - {''type''}"
  using assms by (simp add: merge_connection_data_def Let_def has_key_iff keys_dict_update keys_dict_pop)

lemma dto_total: "constructible spec (fst ` set d) \<Longrightarrow> \<exists>cd. dto n ct spec d = Inr cd \<and> cd_type cd = ct"
  using construct_total [of spec d] by (auto simp: dto_def)

lemma connection_data_keys:
  assumes "validate_connection_data lax mode ct input = Some d"
  shows "\<exists>sc. connection_data_schema ct input = Some sc \<and> fst ` set d = fs_name ` set sc"
proof -
  from assms obtain sc r where sc: "connection_data_schema ct input = Some sc" and r: "validate_model lax sc input = Some r"
    and d: "d = r \<or> ct = S3 \<and> d = validate_port r"
    by (auto simp: validate_connection_data_def split: option.splits if_splits)
  have k: "fst ` set r = fs_name ` set sc" using validate_model_keys [OF r] by (metis list.set_map)
  have "map_of r ''port'' \<noteq> None \<Longrightarrow> fst ` set (validate_port r) = fst ` set r"
    by (auto simp: validate_port_def map_of_eq_None_iff)
  moreover have "map_of r ''port'' = None \<Longrightarrow> validate_port r = r" by (simp add: validate_port_def)
  ultimately show ?thesis using sc d k by metis
qed

lemma discriminate_listed:
  assumes "discriminate as input = Some a"
  shows "a \<in> set as"
proof (cases "\<exists>x. as = [x]")
  case True
  with assms show ?thesis by (auto simp: discriminate_def)
next
  case False
  then have "discriminate as input = List.find (\<lambda>a. map_of input ''type'' = Some (JStr (auth_type_value a))) as"
    by (auto simp: discriminate_def split: list.splits)
  with assms obtain i where "i < length as" "a = as ! i" by (auto simp: find_Some_iff)
  then show ?thesis by simp
qed

lemma auth_keys:
  assumes "validate_auth lax mode ct input = Some (a, ad)"
  shows "a \<in> set (connection_auth_types ct) \<and> fst ` set ad = fs_name ` set (auth_schema mode a)"
proof -
  from assms have a: "discriminate (connection_auth_types ct) input = Some a"
    and ad: "validate_model lax (auth_schema mode a) input = Some ad"
    by (auto simp: validate_auth_def split: option.splits)
  have "a \<in> set (connection_auth_types ct)" using discriminate_listed [OF a] .
  then show ?thesis using validate_model_keys [OF ad] by (metis list.set_map)
qed

text \<open>The keyword arguments of the DTO of a connection: the fields of its data and its credentials, without \<open>type\<close>.\<close>

definition dto_keys :: "schema \<Rightarrow> auth_type \<Rightarrow> string list" where
  "dto_keys sc a = filter (\<lambda>k. k \<noteq> ''type'') (map fs_name sc @ map fs_name (auth_schema CreateMode a))"

definition accepts :: "dataclass \<Rightarrow> string list \<Rightarrow> bool" where
  "accepts spec keys \<longleftrightarrow> list_all (\<lambda>k. k \<in> set (map fst spec)) keys \<and> list_all (\<lambda>(n, d). d \<noteq> None \<or> n \<in> set keys) spec"

lemma dto_accepts:
  "accepts spec keys \<Longrightarrow> fst ` set d = set keys \<Longrightarrow> \<exists>cd. dto n ct spec d = Inr cd \<and> cd_type cd = ct"
  by (rule dto_total) (force simp: accepts_def constructible_def list_all_iff)

text \<open>Every schema supplies what the dataclass of its type takes.\<close>

lemma dto_checks:
  "accepts PostgresConnectionDTO (dto_keys PostgresConnectionDataSchema BasicAuth)"
  "accepts ClickhouseConnectionDTO (dto_keys ClickhouseConnectionDataSchema BasicAuth)"
  "accepts MSSQLConnectionDTO (dto_keys MSSQLConnectionDataSchema BasicAuth)"
  "accepts MySQLConnectionDTO (dto_keys MySQLConnectionDataSchema BasicAuth)"
  "accepts OracleConnectionDTO (dto_keys OracleConnectionDataSchema BasicAuth)"
  "accepts HiveConnectionDTO (dto_keys HiveConnectionDataSchema BasicAuth)"
  "accepts HDFSConnectionDTO (dto_keys HDFSConnectionDataSchema BasicAuth)"
  "accepts S3ConnectionDTO (dto_keys ReadS3ConnectionDataSchema S3Auth)"
  "accepts SFTPConnectionDTO (dto_keys SFTPConnectionDataSchema BasicAuth)"
  "accepts FTPConnectionDTO (dto_keys FTPConnectionDataSchema BasicAuth)"
  "accepts FTPSConnectionDTO (dto_keys FTPSConnectionDataSchema BasicAuth)"
  "accepts SambaConnectionDTO (dto_keys SambaConnectionDataSchema SambaAuth)"
  "accepts WebDAVConnectionDTO (dto_keys WebDAVConnectionDataSchema BasicAuth)"
  by code_simp+

lemma iceberg_checks:
  "accepts (IcebergRESTCatalogS3DirectConnectionBaseDTO @ bearer_dto_fields)
     (dto_keys IcebergRESTCatalogS3DirectConnectionDataSchema IcebergBearerS3Basic)"
  "accepts (IcebergRESTCatalogS3DirectConnectionBaseDTO @ oauth2_dto_fields)
     (dto_keys IcebergRESTCatalogS3DirectConnectionDataSchema IcebergOAuth2S3Basic)"
  "accepts (IcebergRESTCatalogS3DelegatedConnectionBaseDTO @ bearer_dto_fields)
     (dto_keys IcebergRESTCatalogS3DelegatedConnectionDataSchema IcebergBearer)"
  "accepts (IcebergRESTCatalogS3DelegatedConnectionBaseDTO @ oauth2_dto_fields)
     (dto_keys IcebergRESTCatalogS3DelegatedConnectionDataSchema IcebergOAuth2)"
  by code_simp+

lemma iceberg_keys:
  "''s3_warehouse_path'' \<in> set (dto_keys IcebergRESTCatalogS3DirectConnectionDataSchema IcebergOAuth2S3Basic)"
  "''s3_warehouse_path'' \<in> set (dto_keys IcebergRESTCatalogS3DirectConnectionDataSchema IcebergBearerS3Basic)"
  "''s3_warehouse_path'' \<notin> set (dto_keys IcebergRESTCatalogS3DelegatedConnectionDataSchema IcebergOAuth2)"
  "''s3_warehouse_path'' \<notin> set (dto_keys IcebergRESTCatalogS3DelegatedConnectionDataSchema IcebergBearer)"
  "''rest_catalog_oauth2_client_id'' \<in> set (dto_keys IcebergRESTCatalogS3DirectConnectionDataSchema IcebergOAuth2S3Basic)"
  "''rest_catalog_oauth2_client_id'' \<notin> set (dto_keys IcebergRESTCatalogS3DirectConnectionDataSchema IcebergBearerS3Basic)"
  "''rest_catalog_oauth2_client_id'' \<in> set (dto_keys IcebergRESTCatalogS3DelegatedConnectionDataSchema IcebergOAuth2)"
  "''rest_catalog_oauth2_client_id'' \<notin> set (dto_keys IcebergRESTCatalogS3DelegatedConnectionDataSchema IcebergBearer)"
  by code_simp+

lemma simple_dto_total:
  assumes "ct \<noteq> ICEBERG" and "a \<in> set (connection_auth_types ct)" and "connection_data_schema ct input = Some sc"
    and "fst ` set d = set (dto_keys sc a)"
  shows "\<exists>cd. make_connection_dto ct d = Inr cd \<and> cd_type cd = ct"
  using assms
  by (cases ct) (simp_all add: connection_auth_types_def connection_data_schema_def dto_checks [THEN dto_accepts])

lemma iceberg_dto_total:
  assumes "connection_data_schema ICEBERG input = Some sc" and "a \<in> set (connection_auth_types ICEBERG)"
    and "sc = IcebergRESTCatalogS3DirectConnectionDataSchema \<longleftrightarrow> a \<in> {IcebergBearerS3Basic, IcebergOAuth2S3Basic}"
    and "fst ` set d = set (dto_keys sc a)"
  shows "\<exists>cd. make_connection_dto ICEBERG d = Inr cd \<and> cd_type cd = ICEBERG"
proof -
  from assms(1) consider "sc = IcebergRESTCatalogS3DirectConnectionDataSchema" |
    "sc = IcebergRESTCatalogS3DelegatedConnectionDataSchema" "sc \<noteq> IcebergRESTCatalogS3DirectConnectionDataSchema"
    by (auto simp: connection_data_schema_def iceberg_data_schema_def split: if_splits)
  then show ?thesis
  proof cases
    case 1
    with assms(3) have "a = IcebergBearerS3Basic \<or> a = IcebergOAuth2S3Basic" by simp
    then show ?thesis
      using 1 assms(4) iceberg_checks(1,2) [THEN dto_accepts]
      by (auto simp: get_iceberg_connection_dto_def get_iceberg_rest_catalog_s3_direct_connection_dto_def
          has_key_iff iceberg_keys)
  next
    case 2
    with assms(2,3) have "a = IcebergBearer \<or> a = IcebergOAuth2" by (auto simp: connection_auth_types_def)
    then show ?thesis
      using 2 assms(4) iceberg_checks(3,4) [THEN dto_accepts]
      by (auto simp: get_iceberg_connection_dto_def get_iceberg_rest_catalog_s3_delegated_connection_dto_def
          has_key_iff iceberg_keys)
  qed
qed

end
