(* ===== verification/Sync_Worker_Properties.thy ===== *)
theory Sync_Worker_Properties
  imports Sync_Examples Sync_Controller
begin

text \<open>
  Properties of the worker: handlers can be built for every transfer the API accepts, what a run of the controller
  does in which order, the SQL of row filters, the names of files and which of them reach the target directory, and
  the resources Spark is given.
\<close>

section \<open>Handlers of accepted transfers\<close>













lemma proxy_type [simp]: "map_of connection_handler_proxy (connection_type_value ct) = Some ct"
  by (cases ct) (simp_all add: connection_handler_proxy_def)


















section \<open>Files\<close>

text \<open>A template without attribute look-up: no field has a dot in it.\<close>

definition plain_fields :: "piece list \<Rightarrow> bool" where
  "plain_fields ps \<longleftrightarrow> list_all (\<lambda>p. case p of Lit _ \<Rightarrow> True | Fld n \<Rightarrow> CHR ''.'' \<notin> set n) ps"

definition template_keys :: "string list" where
  "template_keys = [''index'', ''extension'', ''run_created_at'', ''run_id'']"

lemma format_field_known:
  assumes "\<not> isl (format_field ga kwargs n)" and "CHR ''.'' \<notin> set n"
  shows "n \<in> fst ` set kwargs"
proof -
  have "map_of kwargs n \<noteq> None"
    using assms by (auto simp: format_field_def Let_def split_on_none split: sum.splits option.splits)
  then show ?thesis by (auto simp: map_of_eq_None_iff)
qed

text \<open>What a name gets for each placeholder.\<close>

definition placeholder :: "run_dto \<Rightarrow> string \<Rightarrow> int \<Rightarrow> string \<Rightarrow> string" where
  "placeholder rd ext i n =
     (if n = ''index'' then str_int i else if n = ''extension'' then ext
      else if n = ''run_id'' then str_int (rd_id rd) else rd_created_at rd)"

lemma get_integer_key: "n \<in> set template_keys \<Longrightarrow> get_integer 0 n = Inr None"
  by (auto simp: template_keys_def char_digit_def)

lemma key_no_dot: "n \<in> set template_keys \<Longrightarrow> CHR ''.'' \<notin> set n"
  by (auto simp: template_keys_def)

lemma format_field_key:
  assumes "n \<in> set template_keys"
  shows "format_field ga [(''index'', PInt i), (''extension'', PStr ext), (''run_id'', PInt (rd_id rd)),
      (''run_created_at'', PStr (rd_created_at rd))] n = Inr (placeholder rd ext i n)"
  using assms get_integer_key [OF assms] split_on_none [OF key_no_dot [OF assms]]
  by (auto simp: format_field_def Let_def template_keys_def placeholder_def)

lemma validated_pieces:
  assumes "validate_file_name_template ga t = Inr v" and "pieces t = Some ps" and "plain_fields ps" and "Fld n \<in> set ps"
  shows "n \<in> set template_keys"
proof -
  let ?k = "[(''index'', PStr []), (''extension'', PStr []), (''run_created_at'', PStr []), (''run_id'', PStr [])]"
  from assms(1) obtain s where "str_format (format_field ga ?k) t = Inr s"
    by (auto simp: validate_file_name_template_def split: if_splits sum.splits fmt_error.splits)
  from str_format_pieces [OF this] assms(2,4) have "\<not> isl (format_field ga ?k n)" by auto
  moreover have "CHR ''.'' \<notin> set n" using assms(3,4) by (force simp: plain_fields_def list_all_iff)
  ultimately have "n \<in> fst ` set ?k" by (rule format_field_known)
  then show ?thesis by (simp add: template_keys_def)
qed

lemma get_file_name_pieces:
  assumes "validate_file_name_template ga t = Inr v" and "pieces t = Some ps" and "plain_fields ps"
  shows "get_file_name ga rd t i ext = Inr (concat (map (piece_text (placeholder rd ext i)) ps))"
  unfolding get_file_name_def
  by (rule str_format_of_pieces [OF assms(2)]) (rule format_field_key [OF validated_pieces [OF assms]])

lemma rename_files_total:
  "(\<And>i. name i = Inr (g i)) \<Longrightarrow> rename_files name k files = Inr (zip files (map (\<lambda>j. g (k + int j)) [0..<length files]))"
proof (induction files arbitrary: k)
  case (Cons f files)
  have "map (\<lambda>j. g (k + int j)) [0..<length (f # files)] = g k # map (\<lambda>j. g (k + 1 + int j)) [0..<length files]"
    by (simp add: map_upt_Suc add.assoc del: upt_Suc)
  with Cons show ?case by simp
qed simp

text \<open>
  The worker names its files without error and, when the template has a real \<open>{index}\<close> placeholder, gives different
  files different names.  The validator only looks for the characters \<open>{index}\<close>, which an escaped \<open>{{index}}\<close> contains too:
  then all files get one name, and each replaces the one before.
\<close>

lemma file_names_distinct:
  assumes "validate_file_name_template ga t = Inr v" and "pieces t = Some ps" and "plain_fields ps"
  shows "\<exists>new. rename_files (\<lambda>i. get_file_name ga rd t i ext) 0 files = Inr (zip files new) \<and> length new = length files \<and>
     (distinct new \<longleftrightarrow> Fld ''index'' \<in> set ps \<or> length files \<le> 1)"
proof -
  let ?g = "\<lambda>i. concat (map (piece_text (placeholder rd ext i)) ps)"
  let ?k = "\<lambda>p. piece_text (placeholder rd ext 0) p"
  let ?new = "map (\<lambda>j. ?g (int j)) [0..<length files]"
  have g: "?g i = concat (map (\<lambda>p. if p = Fld ''index'' then str_int i else ?k p) ps)" for i
  proof (rule arg_cong [where f = concat], rule map_cong [OF refl])
    fix p show "piece_text (placeholder rd ext i) p = (if p = Fld ''index'' then str_int i else ?k p)"
      by (cases p) (simp_all add: placeholder_def)
  qed
  have "inj ?g" if "Fld ''index'' \<in> set ps"
  proof (rule injI)
    fix i j assume "?g i = ?g j"
    from concat_substitution_inject [OF that this [unfolded g]] show "i = j" by simp
  qed
  then have d: "distinct ?new" if "Fld ''index'' \<in> set ps"
    using that by (simp add: distinct_map inj_on_def) (metis (no_types, lifting) of_nat_eq_iff)
  have same: "?g i = ?g j" if "Fld ''index'' \<notin> set ps" for i j
    unfolding g by (rule arg_cong [where f = concat], rule map_cong [OF refl]) (use that in auto)
  have "\<not> distinct ?new" if "Fld ''index'' \<notin> set ps" and l: "1 < length files"
  proof -
    have n: "?new ! j = ?g (int j)" if "j < length files" for j using that by simp
    have z: "0 < length files" using l by linarith
    then have "?new ! 0 = ?new ! 1" using n [of 0] n [OF l] same [OF that(1), of "int 0" "int 1"] by (simp only:)
    then show ?thesis using distinct_conv_nth [of ?new] l z by (metis length_map length_upt minus_nat.diff_0 zero_neq_one)
  qed
  moreover have "distinct ?new" if "length files \<le> 1" using that by (cases "length files") auto
  ultimately have "distinct ?new \<longleftrightarrow> Fld ''index'' \<in> set ps \<or> length files \<le> 1" using d by force
  moreover have "rename_files (\<lambda>i. get_file_name ga rd t i ext) 0 files = Inr (zip files ?new)"
    using rename_files_total [OF get_file_name_pieces [OF assms]] by simp
  ultimately show ?thesis by (intro exI [of _ ?new]) simp
qed

definition ex_rd :: run_dto where
  "ex_rd = \<lparr>rd_id = 7, rd_created_at = ''2025_01_01_00_00_00''\<rparr>"

definition escaped_template :: string where
  "escaped_template = ''{{index}}.{{extension}}-{run_id}''"

text \<open>The default template, and one with the escape.\<close>

lemma escaped_index_repeats:
  "(\<exists>new. rename_files (\<lambda>i. get_file_name (\<lambda>_ _. None) ex_rd default_file_name_template i ''csv'') 0 [''a'', ''b''] =
      Inr (zip [''a'', ''b''] new) \<and> distinct new) \<and>
   (\<exists>new. rename_files (\<lambda>i. get_file_name (\<lambda>_ _. None) ex_rd escaped_template i ''csv'') 0 [''a'', ''b''] =
      Inr (zip [''a'', ''b''] new) \<and> length new = 2 \<and> \<not> distinct new)"
proof -
  let ?D = "pieces default_file_name_template" and ?E = "pieces escaped_template"
  have v: "validate_file_name_template (\<lambda>_ _. None) default_file_name_template = Inr default_file_name_template"
    "validate_file_name_template (\<lambda>_ _. None) escaped_template = Inr escaped_template" by code_simp+
  have p: "?D \<noteq> None" "?E \<noteq> None" by code_simp+
  then obtain ds es where d: "?D = Some ds" and e: "?E = Some es" by blast
  have "plain_fields (the ?D) \<and> Fld ''index'' \<in> set (the ?D)" "plain_fields (the ?E) \<and> Fld ''index'' \<notin> set (the ?E)"
    by code_simp+
  with d e have f: "plain_fields ds" "Fld ''index'' \<in> set ds" "plain_fields es" "Fld ''index'' \<notin> set es" by simp_all
  show ?thesis
    using file_names_distinct [OF v(1) d f(1), of ex_rd "''csv''" "[''a'', ''b'']"] f(2)
      file_names_distinct [OF v(2) e f(3), of ex_rd "''csv''" "[''a'', ''b'']"] f(4) by auto
qed









section \<open>SQL of row filters\<close>






text \<open>A value with a quote is not escaped: it ends its literal, and the rest is read as SQL.\<close>

lemma row_filter_value_escapes:
  "\<exists>w ss. get_rows_filter_expression POSTGRES [transformation_dump (DataframeRowsFilter
       [EqualFilter ''a'' (''x'' @ [squote] @ '' OR '' @ [squote] @ ''1'' @ [squote] @ ''='' @ [squote] @ ''1'')])] = Inr (Some w) \<and>
     sql_lex (field_quote POSTGRES) w = Some ss \<and> literals ss = [''x'', ''1'', ''1'']"
proof -
  let ?w = "get_rows_filter_expression POSTGRES [transformation_dump (DataframeRowsFilter
       [EqualFilter ''a'' (''x'' @ [squote] @ '' OR '' @ [squote] @ ''1'' @ [squote] @ ''='' @ [squote] @ ''1'')])]"
  have "(case ?w of Inr (Some w) \<Rightarrow> (case sql_lex (field_quote POSTGRES) w of Some ss \<Rightarrow> literals ss = [''x'', ''1'', ''1''] | None \<Rightarrow> False)
     | _ \<Rightarrow> False)" by code_simp
  then show ?thesis by (auto split: sum.split_asm option.split_asm)
qed

section \<open>Performing a transfer\<close>

text \<open>The abstract run: steps in order until one fails; a created Spark session is stopped and the directory cleaned up in any case.\<close>

fun run_steps :: "transfer_env \<Rightarrow> step list \<Rightarrow> unit tr" where
  "run_steps env [] = ([], Inr ())"
| "run_steps env (s # ss) = (case te_call env s of
      Inl e \<Rightarrow> ([s], Inl e)
    | Inr _ \<Rightarrow> (case run_steps env ss of (t, r) \<Rightarrow> (s # t, r)))"

definition run_plan :: "transfer_env \<Rightarrow> step list \<Rightarrow> unit tr" where
  "run_plan env ss = (case te_call env CreateSparkSession of
      Inl e \<Rightarrow> ([CreateSparkSession, CleanupTempDir], Inl e)
    | Inr _ \<Rightarrow> (case run_steps env ss of (t, r) \<Rightarrow> (CreateSparkSession # t @ [StopSpark, CleanupTempDir], r)))"

definition transfer_plan ::
  "transfer_env \<Rightarrow> onetl_call list \<Rightarrow> onetl_call list \<Rightarrow> bool \<Rightarrow> string \<Rightarrow> read_request \<Rightarrow> jdict \<Rightarrow> step list" where
  "transfer_plan env sc tc incremental n rq opts = [ConnectSource sc, ConnectTarget tc] @
     (if incremental then [OpenHWMStore, GetHWM n]
      else if te_hwm_store_enabled env
      then [OpenHWMStore, GetHWM n] @ (if hwm_set (te_hwm env n) then [SetHWM n] else [])
      else []) @
     [ReadSource rq, WriteTarget opts]"

lemma call_step_run: "call_step env s = run_steps env [s]"
  by (simp add: call_step_def split: sum.splits)

lemma bindT_run_steps: "bindT (run_steps env xs) (\<lambda>_. run_steps env ys) = run_steps env (xs @ ys)"
proof (induction xs)
  case Nil
  then show ?case by (simp add: bindT_def split: prod.splits)
next
  case (Cons x xs)
  then show ?case by (auto simp: bindT_def split: sum.splits prod.splits)
qed

lemma bindT_returnT [simp]: "bindT (returnT (Inr x)) f = f x"
  by (simp add: bindT_def returnT_def split: prod.splits)

lemma bindT_run_value:
  "bindT (bindT (run_steps env xs) (\<lambda>_. returnT (Inr x))) f = bindT (run_steps env xs) (\<lambda>_. f x)"
  by (auto simp: bindT_def returnT_def split: sum.splits prod.splits)

lemma run_steps_nil: "returnT (Inr ()) = run_steps env []"
  by (simp add: returnT_def)

lemma read_and_write_run:
  assumes "make_read_request source m (te_first_column env) = Inr rq" and "make_write_options target m (te_columns env) = Inr opts"
  shows "read_and_write env source target m = run_steps env [ReadSource rq, WriteTarget opts]"
  by (simp only: read_and_write_def assms bindT_returnT call_step_run bindT_run_steps append.simps)

lemma reset_run:
  assumes "get_transfer_hwm_name source = Inr n"
  shows "reset_transfer_hwm env source =
    run_steps env ([OpenHWMStore, GetHWM n] @ (if hwm_set (te_hwm env n) then [SetHWM n] else []))"
  by (cases "hwm_set (te_hwm env n)")
    (simp_all only: reset_transfer_hwm_def get_hwm_def assms bindT_returnT call_step_run bindT_run_value
      run_steps_nil [of env] bindT_run_steps append.simps if_True if_False)

lemma reader_name_agrees:
  assumes "get_transfer_hwm_name h = Inr n" and "is_incremental (td_strategy (h_transfer h))"
    and "validate_strategy (h_type h) (td_strategy (h_transfer h))"
  shows "reader_hwm_name h = Inr (Some n)"
  using assms
  by (cases "h_type h"; cases "td_strategy (h_transfer h)")
    (auto simp: get_transfer_hwm_name_def reader_hwm_name_def bindR_Inr validate_strategy_def file_types_def
      DB_CONNECTION_TYPES_def FILE_CONNECTION_TYPES_def)

text \<open>
  C37. A run of the controller is the plan of its strategy, carried out step by step until the first failure, whose
  exception is the result; the temporary directory is cleaned up and a created Spark session stopped on every path, and
  nothing is written before the source has been read.  An incremental run asks the store for the mark under the name
  its reader uses, and appends when there is one.
\<close>

theorem perform_transfer_follows_plan:
  assumes "get_transfer_hwm_name source = Inr n"
    and "m = (if is_incremental (td_strategy (h_transfer source)) then te_hwm env n else None)"
    and "make_read_request source m (te_first_column env) = Inr rq" and "make_write_options target m (te_columns env) = Inr opts"
    and "validate_strategy (h_type source) (td_strategy (h_transfer source))"
    and "connect source = Inr sc" and "connect target = Inr tc"
  shows "perform_transfer env source target =
      run_plan env (transfer_plan env sc tc (is_incremental (td_strategy (h_transfer source))) n rq opts) \<and>
    (is_incremental (td_strategy (h_transfer source)) \<longrightarrow> rq_hwm_name rq = Some n) \<and>
    (h_type target \<in> set DB_CONNECTION_TYPES \<and> is_incremental (td_strategy (h_transfer target)) \<and> hwm_set m \<longrightarrow>
      map_of opts ''if_exists'' = Some (JStr ''append''))"
proof (intro conjI impI)
  let ?inc = "is_incremental (td_strategy (h_transfer source))"
  note rw = read_and_write_run [OF assms(3,4)]
  have body: "bindT (call_step env (ConnectSource sc)) (\<lambda>_. bindT (call_step env (ConnectTarget tc)) (\<lambda>_.
      if ?inc then perform_incremental_transfer env source target
      else bindT (if te_hwm_store_enabled env then reset_transfer_hwm env source else returnT (Inr ())) (\<lambda>_.
        read_and_write env source target None))) = run_steps env (transfer_plan env sc tc ?inc n rq opts)"
  proof (cases ?inc)
    case True
    with assms(2) rw have "read_and_write env source target (te_hwm env n) = run_steps env [ReadSource rq, WriteTarget opts]" by simp
    with True show ?thesis
      by (simp only: perform_incremental_transfer_def get_hwm_def assms(1) bindT_returnT call_step_run bindT_run_value
          bindT_run_steps append.simps if_True transfer_plan_def)
  next
    case False
    with assms(2) rw have "read_and_write env source target None = run_steps env [ReadSource rq, WriteTarget opts]" by simp
    with False show ?thesis
      by (cases "te_hwm_store_enabled env")
        (simp_all only: reset_run [OF assms(1)] run_steps_nil [of env] call_step_run bindT_run_steps append.simps append_assoc
          if_True if_False transfer_plan_def)
  qed
  show "perform_transfer env source target = run_plan env (transfer_plan env sc tc ?inc n rq opts)"
    unfolding perform_transfer_def assms(6,7) bindT_returnT body
    by (auto simp: finallyT_def bindT_def call_step_def run_plan_def split: sum.splits prod.splits)
next
  assume "is_incremental (td_strategy (h_transfer source))"
  moreover from this assms(5) have "h_type source \<noteq> S3" "h_type source \<noteq> HDFS"
    by (cases "td_strategy (h_transfer source)"; simp add: validate_strategy_def)+
  ultimately show "rq_hwm_name rq = Some n" using reader_name_agrees [OF assms(1) _ assms(5)] assms(3)
    by (auto simp: make_read_request_def db_read_def local_df_read_def Let_def bindR_Inr split: if_splits)
next
  assume "h_type target \<in> set DB_CONNECTION_TYPES \<and> is_incremental (td_strategy (h_transfer target)) \<and> hwm_set m"
  with assms(4) show "map_of opts ''if_exists'' = Some (JStr ''append'')"
    by (auto simp: make_write_options_def clickhouse_write_options_def db_write_options_def bindR_Inr split: if_splits)
qed

definition ex_te :: transfer_env where
  "ex_te = \<lparr>te_call = (\<lambda>_. Inr ()), te_hwm = (\<lambda>_. Some \<lparr>hwm_bool = True, hwm_value = JInt 5\<rparr>), te_hwm_store_enabled = True,
     te_first_column = Some ''id'', te_columns = [''id'']\<rparr>"

definition ex_handler :: handler where
  "ex_handler = \<lparr>h_type = POSTGRES, h_connection = \<lparr>cd_class = ''PostgresConnectionDTO'', cd_type = POSTGRES, cd_fields =
       [(''host'', JStr ''h''), (''port'', JInt 5432), (''user'', JStr ''u''), (''password'', JStr ''p''),
        (''database_name'', JStr ''d''), (''additional_params'', JObj [])]\<rparr>,
     h_transfer = \<lparr>td_type = POSTGRES, td_id = 3, td_name = ''t'', td_group_name = ''g'', td_strategy = IncrementalStrategy ''id'',
       td_resources = [(''max_parallel_tasks'', JInt 2)], td_transformations = [],
       td_options = [(''if_exists'', JStr ''replace_entire_table'')], td_fields = [(''table_name'', JStr ''s.t'')],
       td_file_format = None\<rparr>, h_run = ex_rd\<rparr>"

lemma perform_transfer_witness:
  "\<exists>rq cs. perform_transfer ex_te ex_handler ex_handler = run_plan ex_te (transfer_plan ex_te cs cs True ''3_postgres_s.t'' rq
     [(''if_exists'', JStr ''append'')]) \<and> rq_hwm_name rq = Some ''3_postgres_s.t''"
proof -
  let ?m = "te_hwm ex_te ''3_postgres_s.t''"
  have n: "get_transfer_hwm_name ex_handler = Inr ''3_postgres_s.t''" by code_simp
  have inc: "is_incremental (td_strategy (h_transfer ex_handler))" by code_simp
  have "\<not> isl (make_read_request ex_handler ?m (te_first_column ex_te))" by code_simp
  then obtain rq where rq: "make_read_request ex_handler ?m (te_first_column ex_te) = Inr rq"
    by (cases "make_read_request ex_handler ?m (te_first_column ex_te)") auto
  have o: "make_write_options ex_handler ?m (te_columns ex_te) = Inr [(''if_exists'', JStr ''append'')]" by code_simp
  have v: "validate_strategy (h_type ex_handler) (td_strategy (h_transfer ex_handler))" by code_simp
  have m: "?m = (if is_incremental (td_strategy (h_transfer ex_handler)) then te_hwm ex_te ''3_postgres_s.t'' else None)"
    using inc by simp
  have "\<not> isl (connect ex_handler)" by code_simp
  then obtain cs where c: "connect ex_handler = Inr cs" by (cases "connect ex_handler") auto
  from perform_transfer_follows_plan [OF n m rq o v c c] inc show ?thesis by auto
qed

text \<open>A mark whose value is zero counts as none, and the next incremental run replaces the table.\<close>

lemma zero_mark_replaces:
  "db_write_options (h_transfer ex_handler) (Some \<lparr>hwm_bool = True, hwm_value = JInt 0\<rparr>) = [(''if_exists'', JStr ''replace_entire_table'')]"
  by code_simp

text \<open>The default of Hive and Iceberg never takes effect: the base class has set the option before.\<close>

lemma hive_iceberg_default_dead: "hive_iceberg_post_init options = db_post_init options"
proof -
  have "has_key k (setdefault d k v)" for k v and d :: jdict by (simp add: setdefault_def has_key_def)
  then show ?thesis
    by (cases options) (simp_all add: hive_iceberg_post_init_def db_post_init_def setdefault_def [of "setdefault _ _ _"])
qed

section \<open>Spark resources\<close>







end
