(* ===== verification/Spec2Isabelle.thy ===== *)
theory Spec2Isabelle
  imports Sync_Access_Properties Sync_Execution_Properties Sync_Resource_Properties
    Sync_Request_Properties Sync_Group_Properties Sync_Worker_Properties
begin

text \<open>
  SyncMaster, a service that copies data between databases and file storages.

  \<^bold>\<open>The program.\<close>  Three kinds of processes share one PostgreSQL database and one Celery broker.  The API server
  (\<open>syncmaster/server\<close>) lets users keep groups, connections, queues and transfers, and start and stop runs; a start
  inserts a run row and sends a message to the queue of the transfer.  The scheduler (\<open>syncmaster/scheduler\<close>) fetches
  changed transfers, keeps one cron job per scheduled transfer, and a job that fires starts a run as the API does.  A
  worker (\<open>syncmaster/worker\<close>) takes a message, marks the run as started, builds a reading and a writing handler from
  the stored transfer, lets Spark and onETL move the data, and marks the run as finished or failed.  All three work on
  the tables through the repositories of \<open>syncmaster/db/repositories\<close>.

  \<^bold>\<open>How code becomes definitions.\<close>  A repository method or a handler is an action of the session monad of
  \<open>Sync_Prelude\<close>: a function from a session (committed database, working copy, messages sent) to an exception or a
  result, with the session it leaves.  \<open>commit\<close>, \<open>rollback\<close> and the unit of work of \<open>syncmaster/server/services/unit_of_work.py\<close>
  are actions too, so what survives an error is computed and not assumed.  ORM classes are records built by extension as
  the classes are by mixins; the database is a record of row lists with the sequences.  Exceptions are the datatype
  \<open>exn\<close>.  Python's integers are \<open>int\<close>.  Definitions keep the names of the code where HOL has no constant
  of that name, with the class in front where two classes have a method of the same name.

  \<^bold>\<open>The theories\<close>, bottom up (paths under \<open>src/syncmaster\<close>):
  \<^item> \<open>Sync_Prelude\<close>: session monad, its rules for invariants, row lists.  \<open>Sync_Text\<close>: Python string functions.
  \<open>Sync_Errors\<close>: \<open>exceptions\<close> and the responses of \<open>server/handler.py\<close>.
  \<^item> \<open>Sync_Model\<close>: \<open>db/models\<close>.  \<open>Sync_Store\<close>: insert, update and delete statements with the keys, unique constraints and
  cascading foreign keys of the schema; locale \<open>pk_table\<close>, interpreted for each table with a serial key.
  \<^item> \<open>Sync_Permissions\<close>: \<open>Permission\<close>, roles and the permission queries; the documented tables of permissions are the
  abstract specification, and the locales \<open>group_policy_impl\<close> and \<open>resource_policy_impl\<close> say that a query implements a
  table.  They are interpreted for groups, connections, transfers and queues.
  \<^item> \<open>Sync_Paging\<close>: \<open>db/utils.py\<close>, page schemas and search queries.  \<open>Sync_Json\<close>: printing and reading JSON.
  \<open>Sync_Schemas\<close>: \<open>schemas/v1/auth\<close> and \<open>schemas/v1/connections\<close>.  \<open>Sync_Credentials\<close>: encryption and storage of
  credentials; locale \<open>credential_store\<close>, interpreted for creation and update.
  \<^item> \<open>Sync_Groups\<close>, \<open>Sync_Repositories\<close>: \<open>db/repositories\<close>.  \<open>Sync_Queues\<close>, \<open>Sync_Connections\<close>, \<open>Sync_Transfers\<close>,
  \<open>Sync_Runs\<close>, \<open>Sync_Groups\<close>, \<open>Sync_Users\<close>: the handlers of \<open>server/api/v1\<close>, one definition each, with every guard in the
  order of the code.  \<open>Sync_Users\<close> also has the three authentication providers, with their contract as the locale
  \<open>auth_provider\<close>, and the superuser script.  \<open>Sync_Auth\<close> has \<open>server/api/v1/auth.py\<close> with the session cookie and the
  certificate cache of the Keycloak provider, and that it refines the stateless provider.  \<open>Sync_Api\<close> puts all other
  routes behind the user dependency.
  \<^item> \<open>Sync_Transfer_Schemas\<close>, \<open>Sync_Transformations\<close>, \<open>Sync_Format\<close>: \<open>schemas/v1/transfers\<close>, file formats and
  transformations, with all their validators; \<open>str.format\<close> for templates of file names.
  \<^item> \<open>Sync_Scheduler\<close>: \<open>scheduler\<close>.  \<open>Sync_Worker\<close>: the task of \<open>worker/transfer.py\<close>, split at its commits.
  \<open>Sync_Coherence\<close>: transfer parameters have the type of their connections.  \<open>Sync_System\<close> and \<open>Sync_Machine\<close>: the
  step relation of the whole system, its invariants by rule induction, and the measure by which workers come to rest.
  \<^item> \<open>Sync_Filters\<close>: the SQL of row, column and file filters in \<open>worker/handlers\<close>; locale \<open>row_conditions\<close>, interpreted for
  all seven databases.  \<open>Sync_Handlers\<close>: \<open>dto\<close>, and options, file names and moved files of \<open>worker/handlers\<close>.
  \<open>Sync_Connect\<close>: the calls to onETL of every \<open>connect\<close> method.  \<open>Sync_Controller\<close>: \<open>worker/controller.py\<close>, \<open>worker/spark.py\<close>, \<open>worker/ivy2.py\<close>.
  \<^item> \<open>Sync_Examples\<close>: a concrete database and concrete parameters for the witnesses.

  \<^bold>\<open>What is shown.\<close>
  \<^item> \<open>Sync_Access_Properties\<close>: the computed permissions are the documented tables applied to the effective role; a user
  without a role cannot tell a connection from a missing one; every successful write had the role it needs.
  \<^item> \<open>Sync_Execution_Properties\<close>: the outcomes of starting, stopping and executing a run; in every reachable state the
  constraints of the database hold, runs have the times their status asks for and at most one worker; a finished run is
  never changed; without new requests the workers stop after a bounded number of steps, with every run that was not
  stopped early finished or failed; dumps in runs have no secrets; a round of the scheduler makes the jobs what the table asks for; and
  three behaviours that surprise: the copy of a scheduled transfer is not fetched, a malformed schedule stops the
  scheduler, a run stopped before its start keeps the stop signal.
  \<^item> \<open>Sync_Resource_Properties\<close>: round trip of connections and credentials, secrets kept by updates and never shown,
  deletion and copies.  \<open>Sync_Request_Properties\<close>: updates of transfers, deletion of queues, slugs, pages, quoting of
  search queries; requests that read change nothing, and those that fail commit nothing but a failed run.
  \<^item> \<open>Sync_Group_Properties\<close>: change of owner, membership, lists of groups, users of requests, tokens, the life of a
  browser session.
  \<^item> \<open>Sync_Worker_Properties\<close>: handlers exist and connect for every accepted transfer and are given its credentials, a run of the controller follows the plan of its
  strategy and cleans up on every path, row filters without quotes keep the structure of the query, when file names
  differ and when files reach their directory, bounds of the resources of Spark.

  \<^bold>\<open>Parameters.\<close>  Code outside the repository is an argument: Fernet, JWT, Keycloak, the broker's availability, the clock,
  APScheduler's store and cron parser, PostgreSQL's text search and collation, what pydantic makes of values of another
  JSON type, the syntax of regular expressions and attributes of Python objects, onETL's formats, globs and data frames,
  Spark, and the store of high-water marks.  A property that relies on documented behaviour of one of them has it as a
  hypothesis, and its witness instantiates the parameter by a concrete function.

  \<^bold>\<open>Bounds and termination.\<close>  Every definition is total.  The JSON reader has fuel; the length of the text is enough for
  every printed value, which the round trip proves.  The template parser, the lexer of SQL and the tokenizer of search
  queries recurse on shorter texts, with termination proofs.  The loops of the code run over rows, pages or files and
  are recursion on lists; the scheduler's endless loop is modelled as rounds.  Characters have 8 bits, so case mapping
  is that of ASCII.  Sequences do not wrap, and gaps after rejected statements are not shown.  A message of the broker
  is delivered once, the execution of one transfer is assumed to end, and each session is one step of the machine: interleavings inside a transaction are not modelled.

  \<^bold>\<open>Not modelled.\<close>  Settings, logging, start-up of processes and of the application, middlewares, static files and OpenAPI
  texts have no logic over the program's state.  Migrations are DDL; the constraints they create are in \<open>Sync_Store\<close>.  The
  session builder of \<open>worker/spark.py\<close> passes its configuration on to Spark and is a step of the controller whose outcome is
  given, as are the calls to onETL.  The route \<open>/auth/logout\<close> with a provider other than Keycloak fails for want of a
  session before it reaches the provider, and is left out.  The scripts of \<open>mddocs\<close> convert the documentation.  The
  wording of error messages is kept where it carries data.
\<close>

end
